(* ===== verification/Prelude.thy ===== *)
theory Prelude
  imports Main "HOL-Library.State_Monad" "HOL-Library.AList" "HOL-Library.List_Lexorder"
    "HOL-Library.Char_ord" "HOL-Library.Sublist"
begin

text \<open>
  Shared vocabulary of the development.

  \<^item> Errors of the Go code (\<open>error\<close>, with the classification that
    \<open>k8s_errors.IsNotFound\<close> and \<open>IsAlreadyExists\<close> read from them) and the
    \<open>ctrl.Result\<close> a reconcile function returns.
  \<^item> Go maps as association lists with sorted iteration over their keys.
  \<^item> Weakest preconditions for the state monad: every handler of the controllers is a
    monadic program, and \<open>wp\<close> turns a statement about a run into a first-order goal.
\<close>

section \<open>Collections of facts\<close>

named_theorems wp_simps \<open>equations that compute weakest preconditions\<close>
named_theorems lens_simps \<open>read-over-write equations of the model's records\<close>

section \<open>Errors and results\<close>

datatype err_kind = NotFound | AlreadyExists | ACIDMismatch | FieldNotFound | OtherErr

record error =
  err_kind :: err_kind
  err_msg :: string

text \<open>
  \<open>fmt.Errorf\<close> with the verb \<open>%w\<close> keeps the wrapped error reachable for
  \<open>errors.As\<close>, so the classification of the cause is kept; a fresh error has none.
\<close>

definition wrap_err :: "string \<Rightarrow> error \<Rightarrow> error" where
  "wrap_err pre e = e\<lparr>err_msg := pre @ err_msg e\<rparr>"

definition new_err :: "string \<Rightarrow> error" where
  "new_err m = \<lparr>err_kind = OtherErr, err_msg = m\<rparr>"

definition IsNotFound :: "error \<Rightarrow> bool" where
  "IsNotFound e \<longleftrightarrow> err_kind e = NotFound"

definition IsAlreadyExists :: "error \<Rightarrow> bool" where
  "IsAlreadyExists e \<longleftrightarrow> err_kind e = AlreadyExists"

lemma IsNotFound_wrap [simp]: "IsNotFound (wrap_err p e) = IsNotFound e"
  by (simp add: wrap_err_def IsNotFound_def)

lemma IsNotFound_new [simp]: "\<not> IsNotFound (new_err m)"
  by (simp add: new_err_def IsNotFound_def)

text \<open>\<open>client.IgnoreNotFound\<close> on a non-nil error.\<close>

definition IgnoreNotFound :: "error \<Rightarrow> error option" where
  "IgnoreNotFound e = (if IsNotFound e then None else Some e)"

text \<open>\<open>ctrl.Result\<close>; durations are nanoseconds, as in Go.\<close>

record ctrl_result =
  Requeue :: bool
  RequeueAfter :: int

definition second :: int where "second = 1000000000"

definition Result0 :: ctrl_result where
  "Result0 = \<lparr>Requeue = False, RequeueAfter = 0\<rparr>"

definition requeueAfter :: "int \<Rightarrow> ctrl_result" where
  "requeueAfter d = \<lparr>Requeue = False, RequeueAfter = d\<rparr>"

lemma requeueAfter_neq_Result0 [simp]: "d \<noteq> 0 \<Longrightarrow> requeueAfter d \<noteq> Result0"
  by (simp add: requeueAfter_def Result0_def)

type_synonym outcome = "ctrl_result \<times> error option"

abbreviation ok :: outcome where "ok \<equiv> (Result0, None)"
abbreviation fail :: "error \<Rightarrow> outcome" where "fail e \<equiv> (Result0, Some e)"

section \<open>Go maps\<close>

text \<open>
  A Go map is an association list: \<open>map_of\<close> looks a key up, \<open>AList.update\<close> and
  \<open>AList.delete\<close> change it. Go iterates a map in no fixed order; the controllers
  iterate over \<open>slices.Sorted(maps.Keys(m))\<close>, which is \<open>sorted_keys\<close>.
\<close>

type_synonym 'v gomap = "(string \<times> 'v) list"

definition has_key :: "'v gomap \<Rightarrow> string \<Rightarrow> bool" where
  "has_key m k \<longleftrightarrow> map_of m k \<noteq> None"

definition sorted_keys :: "'v gomap \<Rightarrow> string list" where
  "sorted_keys m = sort (remdups (map fst m))"

text \<open>Reading an absent key gives the zero value of the element type, here the empty string.\<close>

definition str_at :: "string gomap \<Rightarrow> string \<Rightarrow> string" where
  "str_at m k = (case map_of m k of None \<Rightarrow> '''' | Some v \<Rightarrow> v)"

lemma set_sorted_keys [simp]: "set (sorted_keys m) = dom (map_of m)"
  by (simp add: sorted_keys_def dom_map_of_conv_image_fst)

lemma distinct_sorted_keys [simp]: "distinct (sorted_keys m)"
  by (simp add: sorted_keys_def)

lemma sorted_sorted_keys [simp]: "sorted (sorted_keys m)"
  by (simp add: sorted_keys_def)

lemma sorted_keys_Nil [simp]: "sorted_keys [] = []"
  by (simp add: sorted_keys_def)

lemma has_key_in_sorted_keys: "has_key m k \<longleftrightarrow> k \<in> set (sorted_keys m)"
  by (auto simp: has_key_def)

lemma map_of_AList_update [simp]: "map_of (AList.update k v m) = (map_of m)(k \<mapsto> v)"
  by (rule update_conv')

lemma map_of_AList_delete [simp]: "map_of (AList.delete k m) = (map_of m)(k := None)"
  by (rule delete_conv')

section \<open>Weakest preconditions for the state monad\<close>

abbreviation ret :: "'a \<Rightarrow> ('s, 'a) state" where "ret \<equiv> State_Monad.return"

definition modify :: "('s \<Rightarrow> 's) \<Rightarrow> ('s, unit) state" where
  "modify f = do { s \<leftarrow> State_Monad.get; State_Monad.set (f s) }"

definition gets :: "('s \<Rightarrow> 'a) \<Rightarrow> ('s, 'a) state" where
  "gets f = do { s \<leftarrow> State_Monad.get; ret (f s) }"

definition wp :: "('s, 'a) state \<Rightarrow> ('a \<Rightarrow> 's \<Rightarrow> bool) \<Rightarrow> 's \<Rightarrow> bool" where
  "wp m Q s = (case run_state m s of (a, s') \<Rightarrow> Q a s')"

lemma run_modify [simp]: "run_state (modify f) s = ((), f s)"
  by (simp add: modify_def)

lemma run_gets [simp]: "run_state (gets f) s = (f s, s)"
  by (simp add: gets_def)

lemma wp_ret [wp_simps]: "wp (ret a) Q s = Q a s"
  by (simp add: wp_def)

lemma wp_bind [wp_simps]: "wp (State_Monad.bind m f) Q s = wp m (\<lambda>a. wp (f a) Q) s"
  by (simp add: wp_def split: prod.splits)

lemma wp_modify [wp_simps]: "wp (modify f) Q s = Q () (f s)"
  by (simp add: wp_def)

lemma wp_gets [wp_simps]: "wp (gets f) Q s = Q (f s) s"
  by (simp add: wp_def)

lemma wp_if [wp_simps]:
  "wp (if b then m else n) Q s = (if b then wp m Q s else wp n Q s)"
  by simp

lemma wp_sum [wp_simps]:
  "wp (case x of Inl a \<Rightarrow> f a | Inr b \<Rightarrow> g b) Q s =
     (case x of Inl a \<Rightarrow> wp (f a) Q s | Inr b \<Rightarrow> wp (g b) Q s)"
  by (simp split: sum.split)

lemma wp_option [wp_simps]:
  "wp (case x of None \<Rightarrow> m | Some a \<Rightarrow> f a) Q s =
     (case x of None \<Rightarrow> wp m Q s | Some a \<Rightarrow> wp (f a) Q s)"
  by (simp split: option.split)

lemma wp_prod [wp_simps]:
  "wp (case x of (a, b) \<Rightarrow> f a b) Q s = (case x of (a, b) \<Rightarrow> wp (f a b) Q s)"
  by (simp split: prod.split)

lemma wp_list [wp_simps]:
  "wp (case x of [] \<Rightarrow> m | a # as \<Rightarrow> f a as) Q s =
     (case x of [] \<Rightarrow> wp m Q s | a # as \<Rightarrow> wp (f a as) Q s)"
  by (simp split: list.split)

lemma wp_let [wp_simps]: "wp (let x = a in f x) Q s = (let x = a in wp (f x) Q s)"
  by simp

lemma wp_mono: "wp m P s \<Longrightarrow> (\<And>a t. P a t \<Longrightarrow> Q a t) \<Longrightarrow> wp m Q s"
  by (simp add: wp_def split: prod.splits)

lemma wp_conj: "wp m (\<lambda>a t. P a t \<and> Q a t) s \<longleftrightarrow> wp m P s \<and> wp m Q s"
  by (simp add: wp_def split: prod.splits)

lemma wp_run: "run_state m s = (a, t) \<Longrightarrow> wp m Q s \<Longrightarrow> Q a t"
  by (simp add: wp_def)

lemma wp_runI: "(\<And>a t. run_state m s = (a, t) \<Longrightarrow> Q a t) \<Longrightarrow> wp m Q s"
  by (simp add: wp_def split: prod.splits)

lemma wp_weaken: "run_state m s = (a, t) \<Longrightarrow> wp m Q s \<Longrightarrow> (Q a t \<Longrightarrow> R) \<Longrightarrow> R"
  by (simp add: wp_def)

end
