(* ===== verification/GoStd.thy ===== *)
theory GoStd
  imports Prelude "HOL-Library.Word"
begin

text \<open>
  The parts of Go's standard library that the operator computes with: decimal rendering
  (\<open>strconv.Itoa\<close>, the verb \<open>%d\<close>), string tests (\<open>strings.HasPrefix\<close>,
  \<open>HasSuffix\<close>, \<open>TrimPrefix\<close>, \<open>Contains\<close>, \<open>Fields\<close>), \<open>base64.StdEncoding\<close>
  and the 64-bit arithmetic of \<open>time.Duration\<close>. Go strings are byte strings, here lists
  of characters.
\<close>

section \<open>Decimal rendering\<close>

definition digit :: "nat \<Rightarrow> char" where
  "digit n = ''0123456789'' ! n"

fun itoa_nat :: "nat \<Rightarrow> string" where
  "itoa_nat n = (if n < 10 then [digit n] else itoa_nat (n div 10) @ [digit (n mod 10)])"

declare itoa_nat.simps [simp del]

definition itoa :: "int \<Rightarrow> string" where
  "itoa i = (if i < 0 then CHR ''-'' # itoa_nat (nat (- i)) else itoa_nat (nat i))"

text \<open>The value a rendered numeral stands for; it makes the rendering injective.\<close>

definition digit_val :: "char \<Rightarrow> nat" where
  "digit_val c = (of_char c :: nat) - 48"

definition atoi_nat :: "string \<Rightarrow> nat" where
  "atoi_nat s = foldl (\<lambda>n c. 10 * n + digit_val c) 0 s"

lemma less_10_cases: "(n::nat) < 10 \<Longrightarrow>
    n = 0 \<or> n = 1 \<or> n = 2 \<or> n = 3 \<or> n = 4 \<or> n = 5 \<or> n = 6 \<or> n = 7 \<or> n = 8 \<or> n = 9"
  by arith

lemma digit_val_digit [simp]: "n < 10 \<Longrightarrow> digit_val (digit n) = n"
  by (drule less_10_cases) (auto simp: digit_def digit_val_def)

lemma digit_not_minus [simp]: "n < 10 \<Longrightarrow> digit n \<noteq> CHR ''-''"
  by (drule less_10_cases) (auto simp: digit_def)

lemma atoi_itoa_nat [simp]: "atoi_nat (itoa_nat n) = n"
proof (induction n rule: itoa_nat.induct)
  case (1 n)
  show ?case
  proof (cases "n < 10")
    case True
    then show ?thesis by (subst itoa_nat.simps) (simp add: atoi_nat_def)
  next
    case False
    with 1 have "foldl (\<lambda>n c. 10 * n + digit_val c) 0 (itoa_nat (n div 10)) = n div 10"
      by (simp add: atoi_nat_def)
    with False show ?thesis
      by (subst itoa_nat.simps) (simp add: atoi_nat_def)
  qed
qed

lemma itoa_nat_inject [simp]: "itoa_nat m = itoa_nat n \<longleftrightarrow> m = n"
  by (metis atoi_itoa_nat)

lemma itoa_nat_not_Nil [simp]: "itoa_nat n \<noteq> []"
  by (subst itoa_nat.simps) simp

lemma hd_itoa_nat: "hd (itoa_nat n) \<noteq> CHR ''-''"
proof (induction n rule: itoa_nat.induct)
  case (1 n)
  then show ?case by (cases "n < 10") (subst itoa_nat.simps; simp)+
qed

lemma itoa_inject [simp]: "itoa i = itoa j \<longleftrightarrow> i = j"
proof -
  have neg: "CHR ''-'' # xs \<noteq> itoa_nat n" for xs n
    using hd_itoa_nat [of n] by (metis list.sel(1))
  show ?thesis
    using neg neg [symmetric] by (auto simp: itoa_def)
qed

section \<open>String tests\<close>

definition HasPrefix :: "string \<Rightarrow> string \<Rightarrow> bool" where
  "HasPrefix s p \<longleftrightarrow> prefix p s"

definition HasSuffix :: "string \<Rightarrow> string \<Rightarrow> bool" where
  "HasSuffix s p \<longleftrightarrow> suffix p s"

definition TrimPrefix :: "string \<Rightarrow> string \<Rightarrow> string" where
  "TrimPrefix s p = (if HasPrefix s p then drop (length p) s else s)"

definition Contains :: "string \<Rightarrow> string \<Rightarrow> bool" where
  "Contains s sub \<longleftrightarrow> sublist sub s"

lemma TrimPrefix_append [simp]: "TrimPrefix (p @ s) p = s"
  by (simp add: TrimPrefix_def HasPrefix_def)

text \<open>\<open>strings.Fields\<close>: the maximal runs of non-space characters.\<close>

definition IsSpace :: "char \<Rightarrow> bool" where
  "IsSpace c \<longleftrightarrow> c \<in> set [CHR '' '', CHR 0x09, CHR 0x0A, CHR 0x0B, CHR 0x0C, CHR 0x0D]"

fun fields_acc :: "string \<Rightarrow> string \<Rightarrow> string list" where
  "fields_acc w [] = (if w = [] then [] else [w])"
| "fields_acc w (c # cs) =
     (if IsSpace c then (if w = [] then fields_acc [] cs else w # fields_acc [] cs)
      else fields_acc (w @ [c]) cs)"

definition Fields :: "string \<Rightarrow> string list" where
  "Fields s = fields_acc [] s"

definition spaceless :: "string \<Rightarrow> bool" where
  "spaceless w \<longleftrightarrow> list_all (\<lambda>c. \<not> IsSpace c) w"

lemma spaceless_simps [simp]: "spaceless []" "spaceless (w @ [c]) \<longleftrightarrow> spaceless w \<and> \<not> IsSpace c"
  by (simp_all add: spaceless_def)

lemma fields_acc_no_space:
  "spaceless w \<Longrightarrow> list_all (\<lambda>f. f \<noteq> [] \<and> spaceless f) (fields_acc w s)"
proof (induction w s rule: fields_acc.induct)
  case (1 w)
  then show ?case by simp
next
  case (2 w c cs)
  consider "IsSpace c" "w = []" | "IsSpace c" "w \<noteq> []" | "\<not> IsSpace c" by blast
  then show ?case
  proof cases
    case 1
    then show ?thesis using "2.IH"(1) by simp
  next
    case 2
    then show ?thesis using "2.IH"(2) "2.prems" by simp
  next
    case 3
    then show ?thesis using "2.IH"(3) "2.prems" by simp
  qed
qed

section \<open>base64.StdEncoding\<close>

definition b64_alphabet :: string where
  "b64_alphabet = ''ABCDEFGHIJKLMNOPQRSTUVWXYZabcdefghijklmnopqrstuvwxyz0123456789+/''"

definition b64_char :: "nat \<Rightarrow> char" where
  "b64_char n = b64_alphabet ! n"

type_synonym byte = "8 word"

text \<open>\<open>EncodeToString\<close>: three bytes become four characters; the rest is padded with \<open>=\<close>.\<close>

fun b64_encode :: "byte list \<Rightarrow> string" where
  "b64_encode [] = []"
| "b64_encode [a] =
     (let n = unat a * 16
      in [b64_char (n div 64), b64_char (n mod 64), CHR ''='', CHR ''=''])"
| "b64_encode [a, b] =
     (let n = (unat a * 256 + unat b) * 4
      in [b64_char (n div 4096), b64_char (n div 64 mod 64), b64_char (n mod 64), CHR ''=''])"
| "b64_encode (a # b # c # rest) =
     (let n = unat a * 65536 + unat b * 256 + unat c
      in b64_char (n div 262144) # b64_char (n div 4096 mod 64) # b64_char (n div 64 mod 64)
         # b64_char (n mod 64) # b64_encode rest)"

lemma length_b64_encode: "length (b64_encode bs) = 4 * ((length bs + 2) div 3)"
proof (induction bs rule: b64_encode.induct)
  case (4 a b c rest)
  have "(length (a # b # c # rest) + 2) div 3 = Suc ((length rest + 2) div 3)"
    by simp
  with 4 show ?case by (simp add: Let_def)
qed (simp_all add: Let_def)

lemma length_b64_alphabet: "length b64_alphabet = 64"
  by (simp add: b64_alphabet_def)

lemma distinct_b64_alphabet: "distinct b64_alphabet"
  by (simp add: b64_alphabet_def)

lemma b64_char_inject: "m < 64 \<Longrightarrow> n < 64 \<Longrightarrow> b64_char m = b64_char n \<longleftrightarrow> m = n"
  by (simp add: b64_char_def nth_eq_iff_index_eq distinct_b64_alphabet length_b64_alphabet)

lemma unat_byte_less: "unat (a :: byte) < 256"
  using unsigned_less [of a, where ?'a = nat] by simp

lemma radix64_compose:
  fixes n :: nat
  shows "n = 64 * q1 + r0 \<Longrightarrow> q1 = 64 * q2 + r1 \<Longrightarrow> q2 = 64 * q3 + r2 \<Longrightarrow>
    n = 262144 * q3 + 4096 * r2 + 64 * r1 + r0"
  by simp

lemma base64_digits:
  fixes n :: nat
  shows "n = 262144 * (n div 262144) + 4096 * (n div 4096 mod 64) + 64 * (n div 64 mod 64) + n mod 64"
proof -
  have q: "n div 262144 = n div 64 div 64 div 64" "n div 4096 = n div 64 div 64"
    by (simp_all add: div_mult2_eq [symmetric])
  show ?thesis
    unfolding q by (rule radix64_compose [OF mult_div_mod_eq [symmetric] mult_div_mod_eq [symmetric]
      mult_div_mod_eq [symmetric]])
qed

lemma base256_inject:
  fixes a b c :: nat
  assumes "b < 256" "c < 256" "b' < 256" "c' < 256"
    and eq: "a * 65536 + b * 256 + c = a' * 65536 + b' * 256 + c'"
  shows "a = a' \<and> b = b' \<and> c = c'"
proof -
  have c: "(256 * x + z) mod 256 = z" "(256 * x + z) div 256 = x" if "z < 256" for x z :: nat
    using that by simp_all
  have "256 * (256 * a + b) + c = 256 * (256 * a' + b') + c'" using eq by simp
  then have "256 * a + b = 256 * a' + b'" "c = c'"
    using c assms(2,4) by metis+
  moreover then have "a = a'" "b = b'"
    using c assms(1,3) by metis+
  ultimately show ?thesis by simp
qed

lemma b64_triple_inject:
  fixes n n' :: nat
  assumes "n div 262144 = n' div 262144" "n div 4096 mod 64 = n' div 4096 mod 64"
      "n div 64 mod 64 = n' div 64 mod 64" "n mod 64 = n' mod 64"
  shows "n = n'"
  using base64_digits [of n] base64_digits [of n'] assms by simp

lemma b64_chars_inject:
  assumes "n < 16777216" "n' < 16777216"
    and "b64_char (n div 262144) = b64_char (n' div 262144)"
      "b64_char (n div 4096 mod 64) = b64_char (n' div 4096 mod 64)"
      "b64_char (n div 64 mod 64) = b64_char (n' div 64 mod 64)" "b64_char (n mod 64) = b64_char (n' mod 64)"
  shows "n = n'"
proof (rule b64_triple_inject)
  have "n div 262144 < 64" "n' div 262144 < 64" using assms(1,2) by (simp_all add: less_mult_imp_div_less)
  then show "n div 262144 = n' div 262144" using assms(3) by (simp add: b64_char_inject)
qed (use assms(4-6) in \<open>simp_all add: b64_char_inject\<close>)

lemma b64_group_less: "unat (a :: byte) * 65536 + unat (b :: byte) * 256 + unat (c :: byte) < 16777216"
  using unat_byte_less [of a] unat_byte_less [of b] unat_byte_less [of c] by simp

lemma b64_group_inject:
  fixes a b c a' b' c' :: byte
  assumes "unat a * 65536 + unat b * 256 + unat c = unat a' * 65536 + unat b' * 256 + unat c'"
  shows "a = a' \<and> b = b' \<and> c = c'"
  using base256_inject [OF unat_byte_less unat_byte_less unat_byte_less unat_byte_less assms]
  by (simp add: word_unat_eq_iff)

text \<open>Inputs of the same length are told apart by their encoding.\<close>

lemma b64_encode_inject:
  "length as = length bs \<Longrightarrow> b64_encode as = b64_encode bs \<Longrightarrow> as = bs"
proof (induction as arbitrary: bs rule: b64_encode.induct)
  case 1
  then show ?case by simp
next
  case (2 a)
  then obtain b where bs: "bs = [b]" by (cases bs) auto
  have less: "unat a * 16 div 64 < 64" "unat b * 16 div 64 < 64"
    using unat_byte_less [of a] unat_byte_less [of b] by simp_all
  have "unat a * 16 div 64 = unat b * 16 div 64" "unat a * 16 mod 64 = unat b * 16 mod 64"
    using "2.prems" less by (simp_all add: bs Let_def b64_char_inject)
  then have "unat a * 16 = unat b * 16" by (metis div_mult_mod_eq)
  then show ?case by (simp add: bs word_unat_eq_iff)
next
  case (3 a a2)
  then obtain b b2 where bs: "bs = [b, b2]" by (cases bs; cases "tl bs") auto
  let ?m = "(unat a * 256 + unat a2) * 4" and ?n = "(unat b * 256 + unat b2) * 4"
  have less: "?m div 4096 < 64" "?n div 4096 < 64"
    using unat_byte_less [of a] unat_byte_less [of b] unat_byte_less [of a2] unat_byte_less [of b2] by simp_all
  have "b64_char (?m div 4096) = b64_char (?n div 4096)"
      "b64_char (?m div 64 mod 64) = b64_char (?n div 64 mod 64)" "b64_char (?m mod 64) = b64_char (?n mod 64)"
    using "3.prems"(2) unfolding bs b64_encode.simps Let_def list.inject by blast+
  then have d: "?m div 4096 = ?n div 4096" "?m div 64 mod 64 = ?n div 64 mod 64" "?m mod 64 = ?n mod 64"
    using less by (simp_all add: b64_char_inject)
  have div: "k div 64 div 64 = k div 4096" for k :: nat by (simp add: div_mult2_eq [symmetric])
  have "?m div 64 = ?n div 64" using d(1,2) div_mult_mod_eq [of "?m div 64" 64] div_mult_mod_eq [of "?n div 64" 64]
    unfolding div by metis
  then have eq: "?m = ?n" using d(3) by (metis div_mult_mod_eq)
  have "0 * 65536 + unat a * 256 + unat a2 = 0 * 65536 + unat b * 256 + unat b2"
    using eq by simp
  from base256_inject [OF unat_byte_less unat_byte_less unat_byte_less unat_byte_less this] show ?case
    by (simp add: bs word_unat_eq_iff)
next
  case (4 a b c rest)
  then obtain a' b' c' rest' where bs: "bs = a' # b' # c' # rest'" and l: "length rest = length rest'"
    by (cases bs; cases "tl bs"; cases "tl (tl bs)") auto
  let ?n = "unat a * 65536 + unat b * 256 + unat c" and ?n' = "unat a' * 65536 + unat b' * 256 + unat c'"
  have "b64_char (?n div 262144) = b64_char (?n' div 262144)"
      "b64_char (?n div 4096 mod 64) = b64_char (?n' div 4096 mod 64)"
      "b64_char (?n div 64 mod 64) = b64_char (?n' div 64 mod 64)" "b64_char (?n mod 64) = b64_char (?n' mod 64)"
    and r: "b64_encode rest = b64_encode rest'"
    using "4.prems"(2) unfolding bs b64_encode.simps Let_def list.inject by blast+
  then have "?n = ?n'" by (intro b64_chars_inject [OF b64_group_less b64_group_less])
  then show ?case using b64_group_inject "4.IH" [OF refl l r] unfolding bs by blast
qed

section \<open>Durations\<close>

text \<open>
  \<open>time.Duration\<close> is an \<open>int64\<close> count of nanoseconds, and multiplication wraps.
\<close>

definition int64 :: "int \<Rightarrow> int" where
  "int64 x = signed_take_bit 63 x"

definition days_duration :: "int \<Rightarrow> int" where
  \<comment> \<open>\<open>time.Duration(days) * 24 * time.Hour\<close>\<close>
  "days_duration days = int64 (int64 (int64 days * 24) * (3600 * second))"

lemma int64_id: "- (2 ^ 63) \<le> x \<Longrightarrow> x < 2 ^ 63 \<Longrightarrow> int64 x = x"
  by (simp add: int64_def signed_take_bit_int_eq_self)

text \<open>The largest day count whose duration is exact: 106751 days, about 292 years.\<close>

lemma days_duration_exact:
  assumes "0 \<le> days" "days \<le> 106751"
  shows "days_duration days = days * (86400 * second)"
  using assms by (simp add: days_duration_def int64_id second_def)

lemma days_duration_wraps: "days_duration 106752 < 0"
  by (simp add: days_duration_def int64_def second_def signed_take_bit_eq_take_bit_shift take_bit_eq_mod)

end
