(* ===== verification/GoTime.thy ===== *)
theory GoTime
  imports GoStd
begin

text \<open>
  The calendar arithmetic of Go's \<open>time\<close> package, as far as the operator uses it: an
  instant is the number of nanoseconds since the Unix epoch, \<open>FormatRFC3339\<close> renders
  an instant in UTC (\<open>now.Format(time.RFC3339)\<close>), \<open>ParseRFC3339\<close> is the strict
  parser behind \<open>time.Parse(time.RFC3339, s)\<close> and \<open>AddDays\<close> is
  \<open>t.AddDate(0, 0, days)\<close> in a zone without daylight saving. Go's general parser, tried
  when the strict one fails, also accepts a one-digit hour and a comma before the fraction;
  the operator only writes the strict form. The round trip at the end is what the rotation
  of the fernet keys relies on.
\<close>

type_synonym instant = int

definition zero_time :: instant where
  \<comment> \<open>\<open>time.Time{}\<close>, the first instant of the year 1\<close>
  "zero_time = - 62135596800 * second"

definition AddDays :: "instant \<Rightarrow> int \<Rightarrow> instant" where
  "AddDays t days = t + days * (86400 * second)"

section \<open>Days and dates\<close>

text \<open>
  Years are counted from the first of March, so the leap day ends a year; 719468 days lie
  between that origin and the Unix epoch, and 146097 days make 400 years.
\<close>

definition days_from_civil :: "int \<Rightarrow> int \<Rightarrow> int \<Rightarrow> int" where
  "days_from_civil y m d =
     (let y' = (if m \<le> 2 then y - 1 else y);
          era = y' div 400;
          yoe = y' mod 400;
          mp = (if m \<le> 2 then m + 9 else m - 3);
          doy = (153 * mp + 2) div 5 + d - 1
      in era * 146097 + (yoe * 365 + yoe div 4 - yoe div 100 + doy) - 719468)"

definition year_of_era :: "int \<Rightarrow> int \<times> int" where
  "year_of_era doe =
     (let c = min (doe div 36524) 3; r = doe - c * 36524;
          q = r div 1461; r2 = r mod 1461;
          a = min (r2 div 365) 3
      in (100 * c + 4 * q + a, r2 - 365 * a))"

definition civil_from_days :: "int \<Rightarrow> int \<times> int \<times> int" where
  "civil_from_days z =
     (let z' = z + 719468;
          era = z' div 146097;
          (yoe, doy) = year_of_era (z' mod 146097);
          mp = (5 * doy + 2) div 153;
          d = doy - (153 * mp + 2) div 5 + 1;
          m = (if mp < 10 then mp + 3 else mp - 9)
      in (era * 400 + yoe + (if m \<le> 2 then 1 else 0), m, d))"

definition is_leap :: "int \<Rightarrow> bool" where
  "is_leap y \<longleftrightarrow> y mod 4 = 0 \<and> (y mod 100 \<noteq> 0 \<or> y mod 400 = 0)"

definition daysIn :: "int \<Rightarrow> int \<Rightarrow> int" where
  "daysIn m y =
     (if m = 2 then (if is_leap y then 29 else 28)
      else if m \<in> {4, 6, 9, 11} then 30 else 31)"

lemma year_of_era_days:
  assumes "year_of_era doe = (yoe, doy)" "0 \<le> doe" "doe < 146097"
  shows "0 \<le> yoe" "yoe < 400" "0 \<le> doy" "doy < 366"
    "yoe * 365 + yoe div 4 - yoe div 100 + doy = doe"
    "doy = 365 \<longrightarrow> is_leap (yoe + 1)"
proof -
  define c where "c = min (doe div 36524) 3"
  define r where "r = doe - c * 36524"
  define q where "q = r div 1461"
  define a where "a = min (r mod 1461 div 365) 3"
  have yoe: "yoe = 100 * c + 4 * q + a" and doy: "doy = r mod 1461 - 365 * a"
    using assms(1) by (auto simp: year_of_era_def Let_def c_def r_def q_def a_def)
  have c: "0 \<le> c" "c \<le> 3" and r: "0 \<le> r" "r \<le> 36524" "r = 36524 \<longrightarrow> c = 3"
    using assms(2,3) unfolding c_def r_def by (auto simp: min_def)
  have q: "0 \<le> q" "q \<le> 24" using r unfolding q_def by auto
  have a: "0 \<le> a" "a \<le> 3" unfolding a_def by (auto simp: min_def)
  have rq: "r = 1461 * q + r mod 1461" unfolding q_def by simp
  have d: "0 \<le> doy" "doy \<le> 365" "doy = 365 \<longrightarrow> a = 3"
    unfolding doy a_def by (auto simp: min_def)
  show "0 \<le> yoe" "yoe < 400" using yoe c q a by auto
  show "0 \<le> doy" "doy < 366" using d by auto
  have "yoe div 4 = 25 * c + q" "yoe div 100 = c" using yoe c q a by auto
  then show "yoe * 365 + yoe div 4 - yoe div 100 + doy = doe"
    using yoe doy rq r_def by simp
  show "doy = 365 \<longrightarrow> is_leap (yoe + 1)"
  proof
    assume "doy = 365"
    with d have "a = 3" by simp
    then have y1: "yoe + 1 = 100 * c + 4 * (q + 1)" using yoe by simp
    have c3: "c = 3" if "q = 24"
    proof -
      have "r mod 1461 = 365 * 3 + 365" using doy \<open>a = 3\<close> \<open>doy = 365\<close> by simp
      with rq that r(2) have "r = 36524" by simp
      with r(3) show ?thesis by simp
    qed
    show "is_leap (yoe + 1)"
    proof (cases "q = 24")
      case True
      with y1 c3 show ?thesis by (simp add: is_leap_def)
    next
      case False
      have "(4 * (q + 1) + 100 * c) mod 100 = 4 * (q + 1) mod 100" by (rule mod_mult_self2)
      then have "(yoe + 1) mod 100 = 4 * (q + 1) mod 100"
        unfolding y1 by (simp only: add.commute)
      also have "\<dots> = 4 * (q + 1)" using q False by simp
      finally have "(yoe + 1) mod 100 \<noteq> 0" using q by simp
      with y1 show ?thesis by (simp add: is_leap_def)
    qed
  qed
qed

text \<open>The month table: which days of the March-based year a month covers.\<close>

definition month_of_doy :: "int \<Rightarrow> int \<times> int" where
  "month_of_doy doy =
     (let mp = (5 * doy + 2) div 153
      in (if mp < 10 then mp + 3 else mp - 9, doy - (153 * mp + 2) div 5 + 1))"

lemma month_of_doy:
  assumes "month_of_doy doy = (m, d)" "0 \<le> doy" "doy < 366"
  shows "1 \<le> m" "m \<le> 12" "1 \<le> d"
    "d \<le> (if m = 2 then (if doy = 365 then 29 else 28) else if m \<in> {4, 6, 9, 11} then 30 else 31)"
    "(153 * (if m \<le> 2 then m + 9 else m - 3) + 2) div 5 + d - 1 = doy"
proof -
  define mp where "mp = (5 * doy + 2) div 153"
  have mp: "0 \<le> mp" "mp \<le> 11"
    and b: "153 * mp \<le> 5 * doy + 2" "5 * doy + 2 < 153 * mp + 153"
    using assms(2,3) unfolding mp_def by auto
  have m: "m = (if mp < 10 then mp + 3 else mp - 9)" and d: "d = doy - (153 * mp + 2) div 5 + 1"
    using assms(1) by (auto simp: month_of_doy_def Let_def mp_def)
  show "1 \<le> m" and "m \<le> 12" using m mp by auto
  have mp_m: "(if m \<le> 2 then m + 9 else m - 3) = mp" using m mp by auto
  show "(153 * (if m \<le> 2 then m + 9 else m - 3) + 2) div 5 + d - 1 = doy"
    unfolding mp_m d by simp
  have "mp = 0 \<or> mp = 1 \<or> mp = 2 \<or> mp = 3 \<or> mp = 4 \<or> mp = 5 \<or> mp = 6 \<or> mp = 7
      \<or> mp = 8 \<or> mp = 9 \<or> mp = 10 \<or> mp = 11"
    using mp by arith
  then show "1 \<le> d"
    and "d \<le> (if m = 2 then (if doy = 365 then 29 else 28) else if m \<in> {4, 6, 9, 11} then 30 else 31)"
    using b d m assms(3) by (elim disjE; simp)+
qed

lemma civil_from_days_alt:
  "civil_from_days z =
     (let (yoe, doy) = year_of_era ((z + 719468) mod 146097);
          (m, d) = month_of_doy doy
      in ((z + 719468) div 146097 * 400 + yoe + (if m \<le> 2 then 1 else 0), m, d))"
  by (simp add: civil_from_days_def month_of_doy_def Let_def split: prod.split)

lemma is_leap_400 [simp]: "is_leap (era * 400 + y) = is_leap y"
proof -
  have "(era * 400 + y) mod 4 = y mod 4" "(era * 400 + y) mod 100 = y mod 100"
    "(era * 400 + y) mod 400 = y mod 400"
    using mod_mult_self3 [of "era * 100" 4 y] mod_mult_self3 [of "era * 4" 100 y]
      mod_mult_self3 [of era 400 y] by (simp_all add: mult.assoc)
  then show ?thesis by (simp add: is_leap_def)
qed

lemma civil_roundtrip:
  assumes "civil_from_days z = (y, m, d)"
  shows "days_from_civil y m d = z" "1 \<le> m" "m \<le> 12" "1 \<le> d" "d \<le> daysIn m y"
proof -
  define era where "era = (z + 719468) div 146097"
  define doe where "doe = (z + 719468) mod 146097"
  obtain yoe doy where yo: "year_of_era doe = (yoe, doy)" by fastforce
  obtain m' d' where mo: "month_of_doy doy = (m', d')" by fastforce
  have eqs: "m' = m" "d' = d" and y: "y = era * 400 + yoe + (if m \<le> 2 then 1 else 0)"
    using assms yo mo by (auto simp: civil_from_days_alt Let_def era_def doe_def)
  have doe: "0 \<le> doe" "doe < 146097" and z: "era * 146097 + doe - 719468 = z"
    unfolding doe_def era_def by simp_all
  note Y = year_of_era_days [OF yo doe]
  note M = month_of_doy [OF mo Y(3,4), unfolded eqs]
  show "1 \<le> m" "m \<le> 12" "1 \<le> d" using M by simp_all
  have y': "(if m \<le> 2 then y - 1 else y) = era * 400 + yoe" using y by simp
  have "(era * 400 + yoe) div 400 = era" "(era * 400 + yoe) mod 400 = yoe"
    using Y(1,2) by simp_all
  with y' show "days_from_civil y m d = z"
    using M(5) Y(5) z by (simp add: days_from_civil_def Let_def)
  have "is_leap y" if "m = 2" "doy = 365"
    using Y(6) that y is_leap_400 [of era "yoe + 1"] by (simp add: add.assoc)
  then show "d \<le> daysIn m y" using M(4) by (auto simp: daysIn_def split: if_splits)
qed

section \<open>RFC 3339\<close>

definition pad :: "nat \<Rightarrow> int \<Rightarrow> string" where
  "pad w n = (let s = itoa n in replicate (w - length s) (CHR ''0'') @ s)"

definition FormatRFC3339 :: "instant \<Rightarrow> string" where
  "FormatRFC3339 t =
     (let secs = t div second;
          (y, m, d) = civil_from_days (secs div 86400);
          sod = secs mod 86400
      in pad 4 y @ ''-'' @ pad 2 m @ ''-'' @ pad 2 d @ ''T'' @ pad 2 (sod div 3600) @ '':''
         @ pad 2 (sod div 60 mod 60) @ '':'' @ pad 2 (sod mod 60) @ ''Z'')"

definition is_digit :: "char \<Rightarrow> bool" where
  "is_digit c \<longleftrightarrow> c \<in> set ''0123456789''"

definition parseUint :: "string \<Rightarrow> int \<Rightarrow> int \<Rightarrow> int option" where
  "parseUint s lo hi =
     (let n = int (atoi_nat s)
      in if list_all is_digit s \<and> lo \<le> n \<and> n \<le> hi then Some n else None)"

text \<open>
  The fraction: a dot and at least one digit; digits after the ninth are dropped.
  The result is the nanoseconds and the rest of the input.
\<close>

definition parse_fraction :: "string \<Rightarrow> int \<times> string" where
  "parse_fraction s =
     (case s of
        c # c' # cs \<Rightarrow>
          if c = CHR ''.'' \<and> is_digit c'
          then let ds = takeWhile is_digit (c' # cs); ns = take 9 ds
               in (int (atoi_nat ns) * 10 ^ (9 - length ns), dropWhile is_digit (c' # cs))
          else (0, s)
      | _ \<Rightarrow> (0, s))"

text \<open>The zone: \<open>Z\<close>, or a sign, two digits, a colon and two digits; in seconds east of UTC.\<close>

definition parse_zone :: "string \<Rightarrow> int option" where
  "parse_zone s =
     (if s = ''Z'' then Some 0
      else if length s = 6 \<and> s ! 3 = CHR '':'' \<and> (s ! 0 = CHR ''-'' \<or> s ! 0 = CHR ''+'')
      then (case (parseUint (take 2 (drop 1 s)) 0 23, parseUint (drop 4 s) 0 59) of
              (Some hr, Some mm) \<Rightarrow>
                Some ((if s ! 0 = CHR ''-'' then - 1 else 1) * ((hr * 60 + mm) * 60))
            | _ \<Rightarrow> None)
      else None)"

definition ParseRFC3339 :: "string \<Rightarrow> instant option" where
  "ParseRFC3339 s =
     (if length s < 19 then None
      else case (parseUint (take 4 s) 0 9999, parseUint (take 2 (drop 5 s)) 1 12) of
        (Some year, Some month) \<Rightarrow>
          (case (parseUint (take 2 (drop 8 s)) 1 (daysIn month year),
                 parseUint (take 2 (drop 11 s)) 0 23,
                 parseUint (take 2 (drop 14 s)) 0 59, parseUint (take 2 (drop 17 s)) 0 59) of
             (Some day, Some hour, Some minute, Some sec) \<Rightarrow>
               if s ! 4 = CHR ''-'' \<and> s ! 7 = CHR ''-'' \<and> s ! 10 = CHR ''T''
                  \<and> s ! 13 = CHR '':'' \<and> s ! 16 = CHR '':''
               then (case parse_fraction (drop 19 s) of
                       (nsec, rest) \<Rightarrow>
                         (case parse_zone rest of
                            None \<Rightarrow> None
                          | Some off \<Rightarrow>
                              Some ((days_from_civil year month day * 86400 + hour * 3600
                                     + minute * 60 + sec - off) * second + nsec)))
               else None
           | _ \<Rightarrow> None)
      | _ \<Rightarrow> None)"

lemma is_digit_digit [simp]: "n < 10 \<Longrightarrow> is_digit (digit n)"
  by (drule less_10_cases) (auto simp: digit_def is_digit_def)

lemma digit_0: "digit 0 = CHR ''0''"
  by (simp add: digit_def)

lemma pad2:
  assumes "0 \<le> n" "n < 100"
  shows "pad 2 n = [digit (nat n div 10), digit (nat n mod 10)]"
proof (cases "nat n < 10")
  case True
  with assms show ?thesis
    by (simp add: pad_def itoa_def itoa_nat.simps [of "nat n"] digit_0 numeral_2_eq_2)
next
  case False
  moreover have "nat n div 10 < 10" using assms by (simp add: nat_less_iff div_less_iff_less_mult)
  ultimately show ?thesis
    using assms
    by (simp add: pad_def itoa_def itoa_nat.simps [of "nat n"] itoa_nat.simps [of "nat n div 10"])
qed

lemma parseUint_pad2:
  assumes "0 \<le> n" "n < 100" "lo \<le> n" "n \<le> hi"
  shows "parseUint [digit (nat n div 10), digit (nat n mod 10)] lo hi = Some n"
proof -
  have "nat n div 10 < 10" using assms by (simp add: nat_less_iff div_less_iff_less_mult)
  with assms show ?thesis by (simp add: parseUint_def atoi_nat_def Let_def)
qed

lemma pad2_parse:
  assumes "0 \<le> n" "n < 100" "lo \<le> n" "n \<le> hi"
  shows "\<exists>a b. pad 2 n = [a, b] \<and> parseUint [a, b] lo hi = Some n"
  using pad2 [OF assms(1,2)] parseUint_pad2 [OF assms] by blast

lemma pad4:
  assumes "0 \<le> n" "n < 10000"
  shows "pad 4 n = [digit (nat n div 1000), digit (nat n div 100 mod 10),
    digit (nat n div 10 mod 10), digit (nat n mod 10)]"
proof -
  have *: "itoa n = itoa_nat (nat n)" using assms by (simp add: itoa_def)
  have lt: "nat n < 10000" using assms by simp
  consider "nat n < 10" | "10 \<le> nat n" "nat n < 100" | "100 \<le> nat n" "nat n < 1000"
    | "1000 \<le> nat n" using lt by linarith
  then show ?thesis
  proof cases
    case 1
    then show ?thesis
      by (simp add: pad_def * itoa_nat.simps [of "nat n"] digit_0 numeral_2_eq_2 numeral_3_eq_3)
  next
    case 2
    then have "nat n div 10 < 10" "nat n div 10 mod 10 = nat n div 10" by auto
    with 2 show ?thesis
      by (simp add: pad_def * itoa_nat.simps [of "nat n"] itoa_nat.simps [of "nat n div 10"]
          digit_0 numeral_2_eq_2 numeral_3_eq_3)
  next
    case 3
    then have "\<not> nat n div 10 < 10" "nat n div 10 div 10 < 10" "nat n div 10 div 10 = nat n div 100"
      "nat n div 100 mod 10 = nat n div 100" "nat n div 1000 = 0"
      by (auto simp: div_mult2_eq [symmetric])
    with 3 show ?thesis
      by (simp add: pad_def * itoa_nat.simps [of "nat n"] itoa_nat.simps [of "nat n div 10"]
          itoa_nat.simps [of "nat n div 100"] digit_0 numeral_2_eq_2 numeral_3_eq_3)
  next
    case 4
    then have "\<not> nat n div 10 < 10" "\<not> nat n div 10 div 10 < 10" "nat n div 10 div 10 = nat n div 100"
      "nat n div 100 div 10 = nat n div 1000" "nat n div 1000 < 10"
      using lt by (auto simp: div_mult2_eq [symmetric])
    with 4 show ?thesis
      by (simp add: pad_def * itoa_nat.simps [of "nat n"] itoa_nat.simps [of "nat n div 10"]
          itoa_nat.simps [of "nat n div 100"] itoa_nat.simps [of "nat n div 1000"])
  qed
qed

lemma radix10_compose:
  fixes k :: nat
  shows "k = 10 * q1 + r0 \<Longrightarrow> q1 = 10 * q2 + r1 \<Longrightarrow> q2 = 10 * q3 + r2 \<Longrightarrow>
    1000 * q3 + 100 * r2 + 10 * r1 + r0 = k"
  by simp

lemma radix60_compose:
  fixes k :: int
  shows "k = 60 * q1 + r0 \<Longrightarrow> q1 = 60 * q2 + r1 \<Longrightarrow> q2 * 3600 + r1 * 60 + r0 = k"
  by simp

lemma parseUint_pad4:
  assumes "0 \<le> n" "n < 10000"
  shows "parseUint [digit (nat n div 1000), digit (nat n div 100 mod 10),
    digit (nat n div 10 mod 10), digit (nat n mod 10)] 0 9999 = Some n"
proof -
  have lt: "nat n div 1000 < 10" using assms by (simp add: nat_less_iff div_less_iff_less_mult)
  have "1000 * (k div 1000) + 100 * (k div 100 mod 10) + 10 * (k div 10 mod 10) + k mod 10 = k"
    for k :: nat
  proof -
    have q: "k div 1000 = k div 10 div 10 div 10" "k div 100 = k div 10 div 10"
      by (simp_all add: div_mult2_eq [symmetric])
    show ?thesis
      unfolding q by (rule radix10_compose [OF mult_div_mod_eq [symmetric]
        mult_div_mod_eq [symmetric] mult_div_mod_eq [symmetric]])
  qed
  from this [of "nat n"] lt assms show ?thesis
    by (simp add: parseUint_def atoi_nat_def Let_def algebra_simps)
qed

lemma daysIn_le_31: "daysIn m y \<le> 31"
  by (simp add: daysIn_def)

text \<open>
  Parsing a rendered instant gives it back, truncated to the second, for every instant of
  the years 0 to 9999.
\<close>

lemma ParseRFC3339_Format:
  assumes civil: "civil_from_days (t div second div 86400) = (y, m, d)"
    and y: "0 \<le> y" "y < 10000"
  shows "ParseRFC3339 (FormatRFC3339 t) = Some (t div second * second)"
proof -
  define secs where "secs = t div second"
  define sod where "sod = secs mod 86400"
  have sod: "0 \<le> sod" "sod < 86400" unfolding sod_def by simp_all
  have h: "0 \<le> sod div 3600" "sod div 3600 < 24" and mi: "0 \<le> sod div 60 mod 60" "sod div 60 mod 60 < 60"
    and se: "0 \<le> sod mod 60" "sod mod 60 < 60" using sod by auto
  note C = civil_roundtrip [OF civil]
  have md: "0 \<le> m" "m < 100" "0 \<le> d" "d < 100" using C daysIn_le_31 [of m y] by linarith+
  have fmt: "FormatRFC3339 t = pad 4 y @ ''-'' @ pad 2 m @ ''-'' @ pad 2 d @ ''T'' @ pad 2 (sod div 3600)
      @ '':'' @ pad 2 (sod div 60 mod 60) @ '':'' @ pad 2 (sod mod 60) @ ''Z''"
    using civil by (simp add: FormatRFC3339_def Let_def sod_def secs_def)
  have secs: "days_from_civil y m d * 86400 + sod div 3600 * 3600 + sod div 60 mod 60 * 60 + sod mod 60 = secs"
  proof -
    have "sod div 3600 * 3600 + sod div 60 mod 60 * 60 + sod mod 60 = sod"
    proof -
      have q: "sod div 3600 = sod div 60 div 60"
        using zdiv_zmult2_eq [of 60 sod 60] by simp
      show ?thesis
        unfolding q by (rule radix60_compose [OF mult_div_mod_eq [symmetric] mult_div_mod_eq [symmetric]])
    qed
    moreover have "secs div 86400 * 86400 + sod = secs" unfolding sod_def by simp
    ultimately show ?thesis using C(1) unfolding secs_def by simp
  qed
  obtain y1 y2 y3 y4 where Y: "pad 4 y = [y1, y2, y3, y4]" "parseUint [y1, y2, y3, y4] 0 9999 = Some y"
    using pad4 [OF y] parseUint_pad4 [OF y] by blast
  obtain m1 m2 where M: "pad 2 m = [m1, m2]" "parseUint [m1, m2] 1 12 = Some m"
    using pad2_parse [OF md(1,2) C(2,3)] by blast
  obtain d1 d2 where D: "pad 2 d = [d1, d2]" "parseUint [d1, d2] 1 (daysIn m y) = Some d"
    using pad2_parse [OF md(3,4) C(4,5)] by blast
  obtain h1 h2 where H: "pad 2 (sod div 3600) = [h1, h2]" "parseUint [h1, h2] 0 23 = Some (sod div 3600)"
    using pad2_parse [of "sod div 3600" 0 23] h by auto
  obtain i1 i2 where I: "pad 2 (sod div 60 mod 60) = [i1, i2]"
      "parseUint [i1, i2] 0 59 = Some (sod div 60 mod 60)"
    using pad2_parse [of "sod div 60 mod 60" 0 59] mi by auto
  obtain s1 s2 where S: "pad 2 (sod mod 60) = [s1, s2]" "parseUint [s1, s2] 0 59 = Some (sod mod 60)"
    using pad2_parse [of "sod mod 60" 0 59] se by auto
  have "FormatRFC3339 t = [y1, y2, y3, y4, CHR ''-'', m1, m2, CHR ''-'', d1, d2, CHR ''T'', h1, h2,
      CHR '':'', i1, i2, CHR '':'', s1, s2, CHR ''Z'']"
    by (simp add: fmt Y(1) M(1) D(1) H(1) I(1) S(1))
  then show ?thesis
    using secs
    by (simp add: ParseRFC3339_def Y(2) M(2) D(2) H(2) I(2) S(2) parse_fraction_def parse_zone_def
        flip: secs_def)
qed

end
