(* ===== verification/ApiTypes.thy ===== *)
theory ApiTypes
  imports GoTime
begin

text \<open>
  The custom resources of \<open>api/v1beta1\<close> and the Kubernetes objects the controllers read
  and write. A Go struct is a record whose fields carry the Go names behind a short prefix; an
  optional field (a pointer, or a map or slice whose nil value the code tells apart from the
  empty one) is an option. Fields that no modelled function reads are left out.
\<close>

section \<open>Conditions\<close>

text \<open>
  The condition types the operator uses. The six of \<open>api/v1beta1/conditions.go\<close> come last;
  the others belong to lib-common.
\<close>

datatype ctype =
    ReadyCondition
  | InputReadyCondition
  | TLSInputReadyCondition
  | DBReadyCondition
  | DBSyncReadyCondition
  | RabbitMqTransportURLReadyCondition
  | MemcachedReadyCondition
  | CreateServiceReadyCondition
  | BootstrapReadyCondition
  | ServiceConfigReadyCondition
  | DeploymentReadyCondition
  | NetworkAttachmentsReadyCondition
  | CronJobReadyCondition
  | TopologyReadyCondition
  | KeystoneServiceReadyCondition
  | OtherCondition string
  | KeystoneAPIReadyCondition
  | AdminServiceClientReadyCondition
  | KeystoneServiceOSServiceReadyCondition
  | KeystoneServiceOSEndpointsReadyCondition
  | KeystoneServiceOSUserReadyCondition
  | KeystoneApplicationCredentialReadyCondition

datatype cond_status = CTrue | CFalse | CUnknown

datatype severity = SeverityNone | SeverityInfo | SeverityWarning | SeverityError

datatype reason = InitReason | RequestedReason | ErrorReason | OtherReason string

text \<open>
  A message is a format with its arguments. The formats of \<open>conditions.go\<close> are known
  (\<open>Msg\<close>); a format of lib-common is named by its constant (\<open>LibMsg\<close>).
\<close>

datatype msg = Msg string "string list" | LibMsg string "string list"

record condition =
  c_type :: ctype
  c_status :: cond_status
  c_reason :: reason
  c_severity :: severity
  c_message :: msg

type_synonym conditions = "condition list"

definition FalseCondition :: "ctype \<Rightarrow> reason \<Rightarrow> severity \<Rightarrow> msg \<Rightarrow> condition option" where
  "FalseCondition t r sev m = Some \<lparr>c_type = t, c_status = CFalse, c_reason = r, c_severity = sev, c_message = m\<rparr>"

definition UnknownCondition :: "ctype \<Rightarrow> reason \<Rightarrow> msg \<Rightarrow> condition" where
  "UnknownCondition t r m = \<lparr>c_type = t, c_status = CUnknown, c_reason = r, c_severity = SeverityNone, c_message = m\<rparr>"

text \<open>What a reader of the status sees under a condition type: the first entry of that type.\<close>

definition cond_at :: "conditions \<Rightarrow> ctype \<Rightarrow> condition option" where
  "cond_at cs t = find (\<lambda>c. c_type c = t) cs"

definition status_at :: "conditions \<Rightarrow> ctype \<Rightarrow> cond_status option" where
  "status_at cs t = map_option c_status (cond_at cs t)"

section \<open>Messages of conditions.go\<close>

definition KeystoneAPIReadyInitMessage :: msg where
  "KeystoneAPIReadyInitMessage = Msg ''KeystoneAPI not started'' []"

definition KeystoneAPIReadyMessage :: msg where
  "KeystoneAPIReadyMessage = Msg ''KeystoneAPI ready'' []"

definition KeystoneAPIReadyNotFoundMessage :: msg where
  "KeystoneAPIReadyNotFoundMessage = Msg ''KeystoneAPI not found'' []"

definition KeystoneAPIReadyWaitingMessage :: msg where
  "KeystoneAPIReadyWaitingMessage = Msg ''KeystoneAPI not yet ready'' []"

definition KeystoneAPIReadyErrorMessage :: "string \<Rightarrow> msg" where
  "KeystoneAPIReadyErrorMessage e = Msg ''KeystoneAPI error occured %s'' [e]"

definition AdminServiceClientReadyInitMessage :: msg where
  "AdminServiceClientReadyInitMessage = Msg ''Admin client not started'' []"

definition AdminServiceClientReadyMessage :: msg where
  "AdminServiceClientReadyMessage = Msg ''Admin client ready'' []"

definition AdminServiceClientReadyWaitingMessage :: msg where
  "AdminServiceClientReadyWaitingMessage = Msg ''Admin client not yet ready'' []"

definition AdminServiceClientReadyErrorMessage :: "string \<Rightarrow> msg" where
  "AdminServiceClientReadyErrorMessage e = Msg ''Admin client error occured %s'' [e]"

definition KeystoneServiceOSServiceReadyInitMessage :: msg where
  "KeystoneServiceOSServiceReadyInitMessage = Msg ''Keystone Service registration not started'' []"

definition KeystoneServiceOSServiceReadyMessage :: "string \<Rightarrow> string \<Rightarrow> msg" where
  "KeystoneServiceOSServiceReadyMessage n i = Msg ''Keystone Service %s - %s ready'' [n, i]"

definition KeystoneServiceOSServiceReadyErrorMessage :: "string \<Rightarrow> msg" where
  "KeystoneServiceOSServiceReadyErrorMessage e = Msg ''Keystone Service error occured %s'' [e]"

definition KeystoneServiceOSEndpointsReadyInitMessage :: msg where
  "KeystoneServiceOSEndpointsReadyInitMessage = Msg ''Keystone Endpoints registration not started'' []"

definition KeystoneServiceOSEndpointsReadyMessage :: "string list \<Rightarrow> msg" where
  "KeystoneServiceOSEndpointsReadyMessage es = Msg ''Keystone Endpoints ready: %+v'' es"

definition KeystoneServiceOSEndpointsReadyErrorMessage :: "string \<Rightarrow> msg" where
  "KeystoneServiceOSEndpointsReadyErrorMessage e = Msg ''Keystone Endpoints error occured %s'' [e]"

definition KeystoneServiceOSUserReadyInitMessage :: msg where
  "KeystoneServiceOSUserReadyInitMessage = Msg ''Keystone Service user registration not started'' []"

definition KeystoneServiceOSUserReadyMessage :: "string \<Rightarrow> msg" where
  "KeystoneServiceOSUserReadyMessage u = Msg ''Keystone Service user %s ready'' [u]"

definition KeystoneServiceOSUserReadyWaitingMessage :: msg where
  "KeystoneServiceOSUserReadyWaitingMessage = Msg ''Keystone Service user not yet ready'' []"

definition KeystoneServiceOSUserReadyErrorMessage :: "string \<Rightarrow> msg" where
  "KeystoneServiceOSUserReadyErrorMessage e = Msg ''Keystone Service user error occured %s'' [e]"

definition KeystoneApplicationCredentialReadyInitMessage :: msg where
  "KeystoneApplicationCredentialReadyInitMessage = Msg ''ApplicationCredential not yet created'' []"

definition KeystoneApplicationCredentialReadyMessage :: msg where
  "KeystoneApplicationCredentialReadyMessage = Msg ''ApplicationCredential ready'' []"

definition KeystoneApplicationCredentialWaitingMessage :: "string \<Rightarrow> msg" where
  "KeystoneApplicationCredentialWaitingMessage n =
     Msg ''ApplicationCredential waiting for secret %s to be available'' [n]"

definition KeystoneApplicationCredentialReadyErrorMessage :: "string \<Rightarrow> msg" where
  "KeystoneApplicationCredentialReadyErrorMessage e = Msg ''ApplicationCredential error occurred: %s'' [e]"

section \<open>Object metadata and secrets\<close>

record objmeta =
  om_name :: string
  om_namespace :: string
  om_labels :: "string gomap option"
  om_annotations :: "string gomap"
  om_finalizers :: "string list"
  om_generation :: int
  om_deletionTimestamp :: "instant option"

definition deleting :: "objmeta \<Rightarrow> bool" where
  \<comment> \<open>\<open>!DeletionTimestamp.IsZero()\<close>\<close>
  "deleting m \<longleftrightarrow> om_deletionTimestamp m \<noteq> None"

definition new_meta :: "string \<Rightarrow> string \<Rightarrow> objmeta" where
  "new_meta n ns = \<lparr>om_name = n, om_namespace = ns, om_labels = None, om_annotations = [],
     om_finalizers = [], om_generation = 0, om_deletionTimestamp = None\<rparr>"

record secret =
  sec_meta :: objmeta
  sec_immutable :: bool
  sec_data :: "string gomap option"
  sec_owner :: "string option" \<comment> \<open>name of the controller owner reference\<close>

definition sec_name :: "secret \<Rightarrow> string" where
  "sec_name s = om_name (sec_meta s)"

definition sec_at :: "secret \<Rightarrow> string \<Rightarrow> string" where
  \<comment> \<open>\<open>string(secret.Data[k])\<close>; reading a nil map gives the zero value\<close>
  "sec_at s k = (case sec_data s of None \<Rightarrow> '''' | Some d \<Rightarrow> str_at d k)"

definition sec_set_finalizers :: "string list \<Rightarrow> secret \<Rightarrow> secret" where
  "sec_set_finalizers fs s = s\<lparr>sec_meta := (sec_meta s)\<lparr>om_finalizers := fs\<rparr>\<rparr>"

definition sec_set_label :: "string \<Rightarrow> string \<Rightarrow> secret \<Rightarrow> secret" where
  "sec_set_label k v s =
     s\<lparr>sec_meta := (sec_meta s)\<lparr>om_labels :=
        Some (AList.update k v (case om_labels (sec_meta s) of None \<Rightarrow> [] | Some l \<Rightarrow> l))\<rparr>\<rparr>"

section \<open>KeystoneAPI\<close>

record notifications_bus =
  nb_Cluster :: string
  nb_User :: string
  nb_Vhost :: string

text \<open>
  The override of a service: its endpoint URL, whether \<open>EmbeddedLabelsAnnotations\<close> is set, and a
  handle for the rest. An extra mount is the list of handles of its \<open>VolMounts\<close>.
\<close>

record override =
  ov_EndpointURL :: "string option"
  ov_Labelled :: bool
  ov_Spec :: nat

record KeystoneAPISpec =
  api_ContainerImage :: string
  api_DatabaseInstance :: string
  api_DatabaseAccount :: string
  api_MemcachedInstance :: string
  api_Region :: string
  api_AdminProject :: string
  api_AdminUser :: string
  api_Replicas :: "int option"
  api_Secret :: string
  api_TrustFlushArgs :: string
  api_TrustFlushSchedule :: string
  api_TrustFlushSuspend :: bool
  api_FernetRotationDays :: "int option"
  api_FernetMaxActiveKeys :: "int option"
  api_PasswordSelectors_Admin :: string
  api_NodeSelector :: "string gomap option"
  api_PreserveJobs :: bool
  api_CustomServiceConfig :: string
  api_DefaultConfigOverwrite :: "string gomap"
  api_ProcessNumber :: "int option"
  api_EnableSecureRBAC :: bool
  api_Resources :: nat
  api_ExtraMounts :: "nat list list"
  api_CustomConfigSecret :: "string option"
  api_NetworkAttachments :: "string list"
  api_Override_Service :: "override gomap"
  api_RabbitMqClusterName :: string
  api_TLS_CaBundleSecretName :: string
  api_TLS_Internal :: "string option" \<comment> \<open>\<open>TLS.API.Internal.SecretName\<close>\<close>
  api_TLS_Public :: "string option"
  api_APITimeout :: int
  api_TopologyRef :: "(string \<times> string) option" \<comment> \<open>name and namespace\<close>
  api_FederatedRealmConfig :: string
  api_ExternalKeystoneAPI :: bool
  api_NotificationsBus :: "notifications_bus option"

record KeystoneAPIStatus =
  apis_ReadyCount :: int
  apis_Hash :: "string gomap option"
  apis_APIEndpoints :: "string gomap option"
  apis_Conditions :: "conditions option"
  apis_DatabaseHostname :: string
  apis_NetworkAttachments :: "string list gomap option"
  apis_TransportURLSecret :: string
  apis_ObservedGeneration :: int
  apis_LastAppliedTopology :: "(string \<times> string) option"
  apis_Region :: string

record KeystoneAPI =
  api_meta :: objmeta
  api_spec :: KeystoneAPISpec
  api_status :: KeystoneAPIStatus

definition api_set_finalizers :: "string list \<Rightarrow> KeystoneAPI \<Rightarrow> KeystoneAPI" where
  "api_set_finalizers fs a = a\<lparr>api_meta := (api_meta a)\<lparr>om_finalizers := fs\<rparr>\<rparr>"

section \<open>KeystoneService\<close>

record KeystoneServiceSpec =
  svc_ServiceType :: string
  svc_ServiceName :: string
  svc_ServiceDescription :: string
  svc_Enabled :: bool
  svc_ServiceUser :: string
  svc_Secret :: string
  svc_PasswordSelector :: string

record KeystoneServiceStatus =
  svcs_ServiceID :: string
  svcs_Conditions :: "conditions option"

record KeystoneService =
  svc_meta :: objmeta
  svc_spec :: KeystoneServiceSpec
  svc_status :: KeystoneServiceStatus

definition svc_set_finalizers :: "string list \<Rightarrow> KeystoneService \<Rightarrow> KeystoneService" where
  "svc_set_finalizers fs i = i\<lparr>svc_meta := (svc_meta i)\<lparr>om_finalizers := fs\<rparr>\<rparr>"

definition svc_set_ServiceID :: "string \<Rightarrow> KeystoneService \<Rightarrow> KeystoneService" where
  "svc_set_ServiceID x i = i\<lparr>svc_status := (svc_status i)\<lparr>svcs_ServiceID := x\<rparr>\<rparr>"

section \<open>KeystoneEndpoint\<close>

record Endpoint =
  e_Interface :: string
  e_URL :: string
  e_ID :: string

record KeystoneEndpointSpec =
  ep_ServiceName :: string
  ep_Endpoints :: "string gomap"

record KeystoneEndpointStatus =
  eps_EndpointIDs :: "string gomap option"
  eps_ServiceID :: string
  eps_Conditions :: "conditions option"
  eps_Endpoints :: "Endpoint list"
  eps_ObservedGeneration :: int

record KeystoneEndpoint =
  ep_meta :: objmeta
  ep_spec :: KeystoneEndpointSpec
  ep_status :: KeystoneEndpointStatus

definition ep_set_finalizers :: "string list \<Rightarrow> KeystoneEndpoint \<Rightarrow> KeystoneEndpoint" where
  "ep_set_finalizers fs i = i\<lparr>ep_meta := (ep_meta i)\<lparr>om_finalizers := fs\<rparr>\<rparr>"

definition ep_map_status :: "(KeystoneEndpointStatus \<Rightarrow> KeystoneEndpointStatus) \<Rightarrow> KeystoneEndpoint \<Rightarrow> KeystoneEndpoint" where
  "ep_map_status f i = i\<lparr>ep_status := f (ep_status i)\<rparr>"

definition ep_ids :: "KeystoneEndpoint \<Rightarrow> string gomap" where
  "ep_ids i = (case eps_EndpointIDs (ep_status i) of None \<Rightarrow> [] | Some m \<Rightarrow> m)"

section \<open>KeystoneApplicationCredential\<close>

record ACRule =
  rule_Service :: string
  rule_Path :: string
  rule_Method :: string

record KeystoneApplicationCredentialSpec =
  ac_Secret :: string
  ac_PasswordSelector :: string
  ac_UserName :: string
  ac_ExpirationDays :: int
  ac_GracePeriodDays :: int
  ac_Roles :: "string list"
  ac_Unrestricted :: bool
  ac_AccessRules :: "ACRule list"

record KeystoneApplicationCredentialStatus =
  acs_ACID :: string
  acs_SecretName :: string
  acs_PreviousSecretName :: string
  acs_Conditions :: "conditions option"
  acs_CreatedAt :: "instant option"
  acs_ExpiresAt :: "instant option"
  acs_RotationEligibleAt :: "instant option"
  acs_LastRotated :: "instant option"
  acs_ObservedGeneration :: int
  acs_SecurityHash :: string

record KeystoneApplicationCredential =
  ac_meta :: objmeta
  ac_spec :: KeystoneApplicationCredentialSpec
  ac_status :: KeystoneApplicationCredentialStatus

definition ac_map_status ::
  "(KeystoneApplicationCredentialStatus \<Rightarrow> KeystoneApplicationCredentialStatus)
     \<Rightarrow> KeystoneApplicationCredential \<Rightarrow> KeystoneApplicationCredential" where
  "ac_map_status f i = i\<lparr>ac_status := f (ac_status i)\<rparr>"

definition ac_set_finalizers ::
  "string list \<Rightarrow> KeystoneApplicationCredential \<Rightarrow> KeystoneApplicationCredential" where
  "ac_set_finalizers fs i = i\<lparr>ac_meta := (ac_meta i)\<lparr>om_finalizers := fs\<rparr>\<rparr>"

section \<open>The conditions of each kind\<close>

text \<open>
  The methods of \<open>condition.Conditions\<close> do not tell a nil list from an empty one; writing
  makes it non-nil.
\<close>

definition conds_of :: "conditions option \<Rightarrow> conditions" where
  "conds_of c = (case c of None \<Rightarrow> [] | Some cs \<Rightarrow> cs)"

definition svc_conds :: "KeystoneService \<Rightarrow> conditions" where
  "svc_conds i = conds_of (svcs_Conditions (svc_status i))"

definition svc_upd_conds :: "(conditions \<Rightarrow> conditions) \<Rightarrow> KeystoneService \<Rightarrow> KeystoneService" where
  "svc_upd_conds f i = i\<lparr>svc_status := (svc_status i)\<lparr>svcs_Conditions := Some (f (svc_conds i))\<rparr>\<rparr>"

definition ep_conds :: "KeystoneEndpoint \<Rightarrow> conditions" where
  "ep_conds i = conds_of (eps_Conditions (ep_status i))"

definition ep_upd_conds :: "(conditions \<Rightarrow> conditions) \<Rightarrow> KeystoneEndpoint \<Rightarrow> KeystoneEndpoint" where
  "ep_upd_conds f i = i\<lparr>ep_status := (ep_status i)\<lparr>eps_Conditions := Some (f (ep_conds i))\<rparr>\<rparr>"

definition ac_conds :: "KeystoneApplicationCredential \<Rightarrow> conditions" where
  "ac_conds i = conds_of (acs_Conditions (ac_status i))"

definition ac_upd_conds ::
  "(conditions \<Rightarrow> conditions) \<Rightarrow> KeystoneApplicationCredential \<Rightarrow> KeystoneApplicationCredential" where
  "ac_upd_conds f i = i\<lparr>ac_status := (ac_status i)\<lparr>acs_Conditions := Some (f (ac_conds i))\<rparr>\<rparr>"

definition api_conds :: "KeystoneAPI \<Rightarrow> conditions" where
  "api_conds i = conds_of (apis_Conditions (api_status i))"

definition api_upd_conds :: "(conditions \<Rightarrow> conditions) \<Rightarrow> KeystoneAPI \<Rightarrow> KeystoneAPI" where
  "api_upd_conds f i = i\<lparr>api_status := (api_status i)\<lparr>apis_Conditions := Some (f (api_conds i))\<rparr>\<rparr>"

end
