(* ===== verification/Cluster.thy ===== *)
theory Cluster
  imports ApiTypes
begin

text \<open>
  The objects the KeystoneAPI controller creates in the cluster (volumes, pods, jobs, the
  deployment, services, configuration templates), the objects of other operators it reads
  (memcached, database, transport URL), and the calls it makes about them. What lib-common
  computes without effect is a field of \<open>cluster_env\<close> in \<open>External\<close>; values that are opaque to
  this code (security contexts, resources, affinities, topologies) are \<open>opaque\<close> handles.
\<close>

type_synonym opaque = nat

section \<open>Pods\<close>

datatype volume_source =
    SecretSource int string "(string \<times> string) list" \<comment> \<open>default mode, secret name, key to path\<close>
  | EmptyDirSource
  | LibSource opaque

record volume =
  vol_Name :: string
  vol_Source :: volume_source

record volume_mount =
  vm_Name :: string
  vm_MountPath :: string
  vm_SubPath :: string
  vm_ReadOnly :: bool

datatype env_var = EnvValue string string | EnvSecret string string string \<comment> \<open>name, secret, key\<close>

record probe =
  pr_TimeoutSeconds :: int
  pr_PeriodSeconds :: int
  pr_InitialDelaySeconds :: int
  pr_Path :: string
  pr_Port :: int
  pr_HTTPS :: bool

record container =
  ct_Name :: string
  ct_Command :: "string list"
  ct_Args :: "string list"
  ct_Image :: string
  ct_Security :: opaque
  ct_Env :: "env_var list"
  ct_VolumeMounts :: "volume_mount list"
  ct_Resources :: "opaque option"
  ct_ReadinessProbe :: "probe option"
  ct_LivenessProbe :: "probe option"

record pod =
  po_Labels :: "string gomap option"
  po_Annotations :: "string gomap option"
  po_RestartPolicy :: string
  po_ServiceAccountName :: string
  po_AutomountToken :: bool
  po_Security :: opaque
  po_Containers :: "container list"
  po_Volumes :: "volume list"
  po_NodeSelector :: "string gomap"
  po_Affinity :: "opaque option"

record job =
  jb_Name :: string
  jb_Namespace :: string
  jb_Labels :: "string gomap"
  jb_Pod :: pod

record cron_job =
  cj_Name :: string
  cj_Namespace :: string
  cj_Schedule :: string
  cj_Suspend :: bool
  cj_ConcurrencyPolicy :: string
  cj_Parallelism :: int
  cj_Completions :: int
  cj_Labels :: "string gomap"
  cj_Annotations :: "string gomap"
  cj_Pod :: pod

record deployment =
  dp_Name :: string
  dp_Namespace :: string
  dp_MatchLabels :: "string gomap"
  dp_Replicas :: "int option"
  dp_Pod :: pod

text \<open>What \<open>depl.GetDeployment()\<close> reports of the deployment in the cluster.\<close>

record deployed =
  dy_Name :: string
  dy_Namespace :: string
  dy_Generation :: int
  dy_ObservedGeneration :: int
  dy_ReadyReplicas :: int

section \<open>Services and configuration\<close>

record service_details =
  sd_Name :: string
  sd_Namespace :: string
  sd_Labels :: "string gomap"
  sd_Selector :: "string gomap"
  sd_PortName :: string
  sd_Port :: int

record k8s_service =
  ks_Details :: service_details
  ks_Override :: override
  ks_Annotations :: "string gomap"
  ks_Type :: string
  ks_Hostname :: string

datatype tval = TStr string | TBool bool | TInt "int option" | TMap "(string \<times> tval) list"

record config_template =
  tp_Name :: string
  tp_Namespace :: string
  tp_Type :: string
  tp_StringTemplate :: "string gomap"
  tp_CustomData :: "string gomap"
  tp_ConfigOptions :: "(string \<times> tval) list"
  tp_Labels :: "string gomap"
  tp_CommonTemplates :: "string list"

section \<open>Objects of other operators\<close>

record memcached =
  mc_meta :: objmeta
  mc_IsReady :: bool
  mc_ServerList :: string
  mc_ServerListWithInet :: string
  mc_TLSSupport :: bool
  mc_MTLSSecret :: string

record db_request =
  dr_Instance :: string
  dr_Name :: string
  dr_CRName :: string
  dr_Account :: string
  dr_Namespace :: string

record database =
  db_Request :: db_request
  db_Hostname :: string
  db_UserName :: string \<comment> \<open>\<open>GetAccount().Spec.UserName\<close>\<close>
  db_Password :: string \<comment> \<open>\<open>GetSecret().Data[DatabasePasswordSelector]\<close>\<close>

record transport_spec =
  ts_Cluster :: string
  ts_Username :: string
  ts_Vhost :: string

type_synonym topo_ref = "string \<times> string"

record policy_rule =
  pl_APIGroups :: "string list"
  pl_ResourceNames :: "string list"
  pl_Resources :: "string list"
  pl_Verbs :: "string list"

section \<open>Calls\<close>

datatype cluster_call =
    ReconcileRbac string "policy_rule list"
  | DoJob job string bool int string
  | CreateOrPatchService k8s_service
  | GetAPIEndpoint k8s_service "string option" "string option" string
  | VerifySecretFields string string "string list" int
  | ValidateCACertSecret string string
  | ValidateCertSecrets "string option" "string option" string
  | EnsureMariaDBAccount string string string
  | DBCreateOrPatchAll db_request
  | WaitForDBCreated db_request
  | GetDatabaseByNameAndAccount string string string
  | DBDeleteFinalizer database
  | DeleteUnusedMariaDBAccountFinalizers string string string
  | CreateOrUpdateTransportURL string string "string gomap" transport_spec
  | GetTransportURL string string
  | GetMemcachedByName string string
  | KUpdateMemcached memcached
  | ManageSecretConsumerFinalizer string string string
  | RemoveSecretConsumerFinalizer string string string
  | FinalizeSecretRotation string string string string bool
  | PruneSecretConsumerFinalizers string string "string list"
  | GetNADWithName string string
  | EnsureServiceTopology "topo_ref option" "topo_ref option" string "string gomap"
  | EnsureDeletedTopologyRef "topo_ref option" string
  | CreateOrPatchDeployment deployment
  | GetDeployment
  | VerifyNetworkStatus "string list" "string gomap" int
  | IsReadyForInput string string string
  | CreateOrPatchCronJob cron_job
  | EnsureConfigMaps config_template
  | EnsureConfigSecrets config_template
  | ListAPIsByField string string string \<comment> \<open>field, value, namespace\<close>

end
