(* ===== verification/External.thy ===== *)
theory External
  imports Cluster
begin

text \<open>
  The boundary of the model. Everything the controllers call that is not under src/ (the
  Kubernetes client, lib-common, gophercloud, controller-runtime, the clock and the random
  source) is one record \<open>env\<close> of functions, an argument of every definition that uses it.

  A call with an effect or with an answer from outside appends itself to a log, and its
  answer is a function of the log: an arbitrary environment, which may also change behind
  the controller's back, is an arbitrary such function. Theorems about what is called, and in
  which order, are theorems about the log. What documented behaviour a theorem relies on is
  a named predicate on \<open>env\<close>, at the end of this theory.
\<close>

section \<open>Data exchanged with OpenStack\<close>

type_synonym os_client = nat \<comment> \<open>an authenticated \<open>openstack.OpenStack\<close> handle\<close>

record auth_scope =
  sc_System :: bool
  sc_ProjectName :: string
  sc_DomainName :: string

record auth_opts =
  ao_AuthURL :: string
  ao_Username :: string
  ao_Password :: string
  ao_TenantName :: string
  ao_DomainName :: string
  ao_Region :: string
  ao_CACerts :: "string list"
  ao_Scope :: auth_scope

record os_endpoint =
  oe_Name :: string
  oe_ServiceID :: string
  oe_Availability :: string
  oe_URL :: string

record registered_endpoint =
  re_ID :: string
  re_Name :: string
  re_ServiceID :: string
  re_URL :: string

record os_service =
  os_Name :: string
  os_Type :: string
  os_Description :: string
  os_Enabled :: bool

record registered_service =
  rs_ID :: string
  rs_Enabled :: bool
  rs_description :: "string option" \<comment> \<open>\<open>Extra["description"]\<close>, when it is a string\<close>

record os_project =
  op_Name :: string
  op_Description :: string
  op_DomainID :: string

record os_user =
  ou_Name :: string
  ou_Password :: string
  ou_ProjectID :: string
  ou_DomainID :: string

record ac_create_opts =
  co_Name :: string
  co_Description :: string
  co_Unrestricted :: bool
  co_Roles :: "string list"
  co_AccessRules :: "ACRule list"
  co_ExpiresAt :: "instant option"

text \<open>A \<open>util.Template\<close> whose content is given as data, as \<open>EnsureSecrets\<close> takes it.\<close>

record data_template =
  tpl_Name :: string
  tpl_Namespace :: string
  tpl_CustomData :: "string gomap"
  tpl_Annotations :: "string gomap"

section \<open>The log of external calls\<close>

datatype kind = KindAPI | KindService | KindEndpoint | KindAppCred

datatype call =
    NewHelper kind
  \<comment> \<open>the clock, the random source and events\<close>
  | TimeNow
  | RandRead nat
  | RandString nat
  | EmitEvent string string string
  \<comment> \<open>the Kubernetes client: kind, namespace, name or the object written\<close>
  | KGet kind string string
  | KList kind string "string gomap"
  | KGetSecret string string
  | KListSecrets string "string gomap"
  | KUpdateAPI KeystoneAPI
  | KUpdateService KeystoneService
  | KUpdateSecret secret
  | KCreateSecret secret
  | KDeleteSecret secret
  | KPatchAPI KeystoneAPI
  | KPatchService KeystoneService
  | KPatchEndpoint KeystoneEndpoint
  | KPatchAppCred KeystoneApplicationCredential
  | KUpdateEndpoint KeystoneEndpoint
  | KDelete kind string string
  | CreateOrPatchKS KeystoneService "string gomap"
  | CreateOrPatchKE KeystoneEndpoint "string gomap"
  \<comment> \<open>calls about the objects of the cluster\<close>
  | Cluster cluster_call
  \<comment> \<open>lib-common helpers over the client\<close>
  | GetDataFromSecret string int string
  | EnsureSecrets data_template
  | ManageConsumerFinalizer "secret option" "secret option" string
  | RemoveConsumerFinalizer secret string
  | AreSecretHashesInSync string
  \<comment> \<open>OpenStack\<close>
  | NewOpenStack auth_opts
  | OSDeleteEndpoint os_client os_endpoint
  | OSGetEndpoints os_client string string
  | OSCreateEndpoint os_client os_endpoint
  | OSUpdateEndpoint os_client os_endpoint string
  | OSGetService os_client string string
  | OSCreateService os_client os_service
  | OSUpdateService os_client os_service string
  | OSDeleteService os_client string
  | OSDeleteUser os_client string string
  | OSCreateProject os_client os_project
  | OSCreateUser os_client os_user
  | OSCreateRole os_client string
  | OSAssignUserRole os_client string string string
  | GCTokenUser os_client
  | GCCreateAC os_client string ac_create_opts
  | GCDeleteAC os_client string string

type_synonym history = "call list"

section \<open>The environment\<close>

text \<open>
  The answer to a call is a function of the history that ends with the call itself. The
  first group of fields are pure functions of lib-common, controller-runtime and the Go
  standard library.
\<close>

text \<open>
  The part that concerns the objects of the cluster. \<open>LibString\<close> and \<open>LibValue\<close> stand for constants
  and constant expressions of the libraries, named by their text.
\<close>

record cluster_env =
  LibString :: "string \<Rightarrow> string"
  LibValue :: "string \<Rightarrow> opaque"
  WritableDirVolume :: "string \<Rightarrow> volume"
  WritableDirVolumeMount :: "string \<Rightarrow> string \<Rightarrow> volume_mount"
  CAVolume :: "string \<Rightarrow> volume"
  CAVolumeMounts :: "volume_mount list"
  MTLSVolume :: "memcached \<Rightarrow> volume"
  MTLSVolumeMounts :: "memcached \<Rightarrow> volume_mount list"
  TLSEnabled :: "string option \<Rightarrow> string option \<Rightarrow> string \<Rightarrow> bool" \<comment> \<open>internal, public, endpoint\<close>
  TLSToService :: "string option \<Rightarrow> error option"
  TLSVolume :: "string option \<Rightarrow> string \<Rightarrow> volume"
  TLSVolumeMounts :: "string option \<Rightarrow> string \<Rightarrow> string \<Rightarrow> string \<Rightarrow> volume_mount list"
  PropagateVol :: "nat \<Rightarrow> string list \<Rightarrow> (volume list \<times> volume_mount list) list"
  MergeEnvs :: "env_var list \<Rightarrow> string gomap \<Rightarrow> env_var list"
  ApplyTopology :: "opaque \<Rightarrow> pod \<Rightarrow> pod"
  filepathJoin :: "string \<Rightarrow> string \<Rightarrow> string"
  MergeStringMaps :: "string gomap \<Rightarrow> string gomap \<Rightarrow> string gomap"
  NewService :: "service_details \<Rightarrow> int \<Rightarrow> override \<Rightarrow> error + k8s_service"
  AddAnnotation :: "string gomap \<Rightarrow> k8s_service \<Rightarrow> k8s_service"
  GetLabels :: "objmeta \<Rightarrow> string \<Rightarrow> string gomap"
  DBClientConfig :: "database \<Rightarrow> bool \<Rightarrow> string"
  YamlMarshal :: "tval \<Rightarrow> error + string"
  JsonObject :: "string \<Rightarrow> error + string gomap" \<comment> \<open>\<open>json.Unmarshal\<close> into a map of raw messages\<close>
  JsonStrings :: "string list \<Rightarrow> error + string"
  EnvHash :: "string gomap \<Rightarrow> error + string" \<comment> \<open>\<open>ObjectHash\<close> of the merged variables\<close>
  SetHash :: "string gomap \<Rightarrow> string \<Rightarrow> string \<Rightarrow> string gomap \<times> bool"
  EnsureNetworksAnnotation :: "opaque list \<Rightarrow> error + string gomap"
  DeploymentIsReady :: "deployed \<Rightarrow> bool"
  rEnsureVars :: "history \<Rightarrow> string gomap \<Rightarrow> string gomap" \<comment> \<open>what \<open>EnsureSecrets\<close> makes of the map behind \<open>envVars\<close>\<close>
  rRbacConditions :: "history \<Rightarrow> condition list" \<comment> \<open>what \<open>ReconcileRbac\<close> sets through \<open>RbacConditionsSet\<close>\<close>
  rOutcome :: "history \<Rightarrow> outcome" \<comment> \<open>every call that answers a result and an error\<close>
  rJob :: "history \<Rightarrow> outcome \<times> bool \<times> string"
  rVerifySecret :: "history \<Rightarrow> string \<times> outcome"
  rHash :: "history \<Rightarrow> error + string" \<comment> \<open>the certificate checks and \<open>GetAPIEndpoint\<close>\<close>
  rSecretHash :: "history \<Rightarrow> string" \<comment> \<open>the hash \<open>GetSecret\<close> returns beside the secret\<close>
  rDatabase :: "history \<Rightarrow> error + database"
  rDBHandle :: "history \<Rightarrow> database"
  rTransportURL :: "history \<Rightarrow> error + string" \<comment> \<open>\<open>Status.SecretName\<close>\<close>
  rMemcached :: "history \<Rightarrow> error + memcached"
  rNAD :: "history \<Rightarrow> error + opaque option"
  rTopology :: "history \<Rightarrow> error + opaque option"
  rDeployed :: "history \<Rightarrow> deployed"
  rNetworkStatus :: "history \<Rightarrow> error + (bool \<times> string list gomap)"
  rReadyForInput :: "history \<Rightarrow> error + bool"
  rRotation :: "history \<Rightarrow> error + string"

record env =
  cl :: cluster_env
  condSet :: "condition option \<Rightarrow> conditions \<Rightarrow> conditions"
  condMarkTrue :: "ctype \<Rightarrow> msg \<Rightarrow> conditions \<Rightarrow> conditions"
  condMarkUnknown :: "ctype \<Rightarrow> reason \<Rightarrow> msg \<Rightarrow> conditions \<Rightarrow> conditions"
  condMirror :: "ctype \<Rightarrow> conditions \<Rightarrow> condition option"
  condInit :: "conditions \<Rightarrow> conditions \<Rightarrow> conditions"
  condRestoreTimes :: "conditions \<Rightarrow> conditions \<Rightarrow> conditions"
  condIsTrue :: "ctype \<Rightarrow> conditions \<Rightarrow> bool"
  AllSubConditionIsTrue :: "conditions \<Rightarrow> bool"
  AddFinalizer :: "string list \<Rightarrow> string \<Rightarrow> string list \<times> bool"
  RemoveFinalizer :: "string list \<Rightarrow> string \<Rightarrow> string list \<times> bool"
  GetFinalizer :: "kind \<Rightarrow> string"
  GetAvailability :: "string \<Rightarrow> error + string"
  ServiceNotFound :: string
  ErrNotFoundText :: string \<comment> \<open>text of \<open>util.ErrNotFound\<close>\<close>
  CABundleKey :: string
  AppSelector :: string
  urlScheme :: "string \<Rightarrow> error + string" \<comment> \<open>\<open>url.Parse\<close> and the scheme of its result\<close>
  WrapErrorForObject :: "string \<Rightarrow> objmeta \<Rightarrow> error option \<Rightarrow> error"
  SetControllerReference :: "objmeta \<Rightarrow> objmeta \<Rightarrow> error option"
  hashSecurity :: "string list \<Rightarrow> ACRule list \<Rightarrow> bool \<Rightarrow> error + string"
  hashStrings :: "string list \<Rightarrow> error + string"
  GroupLabel :: "string \<Rightarrow> string"
  rErr :: "history \<Rightarrow> error option" \<comment> \<open>every call that answers an error only\<close>
  rNow :: "history \<Rightarrow> instant"
  rRandRead :: "history \<Rightarrow> error + byte list"
  rRandString :: "history \<Rightarrow> string"
  rGetAPI :: "history \<Rightarrow> error + KeystoneAPI"
  rGetService :: "history \<Rightarrow> error + KeystoneService"
  rGetEndpoint :: "history \<Rightarrow> error + KeystoneEndpoint"
  rGetAppCred :: "history \<Rightarrow> error + KeystoneApplicationCredential"
  rListAPIs :: "history \<Rightarrow> error + KeystoneAPI list"
  rListEndpoints :: "history \<Rightarrow> error + KeystoneEndpoint list"
  rListAppCreds :: "history \<Rightarrow> error + KeystoneApplicationCredential list"
  rGetSecret :: "history \<Rightarrow> error + secret"
  rListSecrets :: "history \<Rightarrow> error + secret list"
  rDataFromSecret :: "history \<Rightarrow> string \<times> ctrl_result \<times> error option"
  rHashesInSync :: "history \<Rightarrow> error + bool"
  rNewOpenStack :: "history \<Rightarrow> error + os_client"
  rGetEndpoints :: "history \<Rightarrow> error + registered_endpoint list"
  rEndpointID :: "history \<Rightarrow> string \<times> error option" \<comment> \<open>\<open>CreateEndpoint\<close>, \<open>UpdateEndpoint\<close>\<close>
  rGetOSService :: "history \<Rightarrow> registered_service option \<times> error option"
  rCreateService :: "history \<Rightarrow> string \<times> error option"
  rObjectID :: "history \<Rightarrow> error + string" \<comment> \<open>\<open>CreateProject\<close>, \<open>CreateUser\<close>, \<open>CreateRole\<close>\<close>
  rTokenUser :: "history \<Rightarrow> error + string"
  rCreateAC :: "history \<Rightarrow> error + (string \<times> string \<times> instant)"
  rDeleteAC :: "history \<Rightarrow> (bool \<times> error) option" \<comment> \<open>the error, and whether it is a 404\<close>

section \<open>Running a call\<close>

record 'i st =
  inst :: 'i \<comment> \<open>the object being reconciled, mutated in memory\<close>
  log :: history

definition perform :: "call \<Rightarrow> (history \<Rightarrow> 'a) \<Rightarrow> ('i st, 'a) state" where
  "perform c r = State (\<lambda>s. (r (log s @ [c]), s\<lparr>log := log s @ [c]\<rparr>))"

lemma run_perform [simp]: "run_state (perform c r) s = (r (log s @ [c]), s\<lparr>log := log s @ [c]\<rparr>)"
  by (simp add: perform_def)

lemma wp_perform [wp_simps]: "wp (perform c r) Q s = Q (r (log s @ [c])) (s\<lparr>log := log s @ [c]\<rparr>)"
  by (simp add: wp_def)

definition upd_inst :: "('i \<Rightarrow> 'i) \<Rightarrow> ('i st, unit) state" where
  "upd_inst f = modify (\<lambda>s. s\<lparr>inst := f (inst s)\<rparr>)"

definition get_inst :: "('i st, 'i) state" where
  "get_inst = gets inst"

lemma run_upd_inst [simp]: "run_state (upd_inst f) s = ((), s\<lparr>inst := f (inst s)\<rparr>)"
  by (simp add: upd_inst_def)

lemma run_get_inst [simp]: "run_state get_inst s = (inst s, s)"
  by (simp add: get_inst_def)

lemma wp_upd_inst [wp_simps]: "wp (upd_inst f) Q s = Q () (s\<lparr>inst := f (inst s)\<rparr>)"
  by (simp add: wp_def)

lemma wp_get_inst [wp_simps]: "wp get_inst Q s = Q (inst s) s"
  by (simp add: wp_def)

section \<open>What the code relies on\<close>

text \<open>
  \<open>controllerutil.AddFinalizer\<close> and \<open>RemoveFinalizer\<close>: the list afterwards, and whether it
  changed.
\<close>

definition finalizer_laws :: "env \<Rightarrow> bool" where
  "finalizer_laws E \<longleftrightarrow>
     (\<forall>fs f. set (fst (AddFinalizer E fs f)) = insert f (set fs)
        \<and> (snd (AddFinalizer E fs f) \<longleftrightarrow> f \<notin> set fs)
        \<and> (f \<in> set fs \<longrightarrow> fst (AddFinalizer E fs f) = fs)) \<and>
     (\<forall>fs f. set (fst (RemoveFinalizer E fs f)) = set fs - {f}
        \<and> (snd (RemoveFinalizer E fs f) \<longleftrightarrow> f \<in> set fs)
        \<and> (f \<notin> set fs \<longrightarrow> fst (RemoveFinalizer E fs f) = fs))"

text \<open>
  The condition package: \<open>Set\<close> and the \<open>Mark\<close> functions change the entry of one type and no
  other; \<open>AllSubConditionIsTrue\<close> looks at every type but Ready; \<open>Mirror\<close> summarises the
  other conditions under a type, and is not true while a sub-condition is not.
\<close>

definition condition_laws :: "env \<Rightarrow> bool" where
  "condition_laws E \<longleftrightarrow>
     (\<forall>t m cs. status_at (condMarkTrue E t m cs) t = Some CTrue
        \<and> (\<forall>u. u \<noteq> t \<longrightarrow> cond_at (condMarkTrue E t m cs) u = cond_at cs u)) \<and>
     (\<forall>t r m cs. status_at (condMarkUnknown E t r m cs) t = Some CUnknown
        \<and> (\<forall>u. u \<noteq> t \<longrightarrow> cond_at (condMarkUnknown E t r m cs) u = cond_at cs u)) \<and>
     (\<forall>c cs. cond_at (condSet E (Some c) cs) (c_type c) = Some c
        \<and> (\<forall>u. u \<noteq> c_type c \<longrightarrow> cond_at (condSet E (Some c) cs) u = cond_at cs u)) \<and>
     (\<forall>cs. condSet E None cs = cs) \<and>
     (\<forall>cs. AllSubConditionIsTrue E cs \<longleftrightarrow>
        (\<forall>t c. t \<noteq> ReadyCondition \<longrightarrow> cond_at cs t = Some c \<longrightarrow> c_status c = CTrue)) \<and>
     (\<forall>t cs. condIsTrue E t cs \<longleftrightarrow> status_at cs t = Some CTrue) \<and>
     (\<forall>t cs. case condMirror E t cs of None \<Rightarrow> True
        | Some c \<Rightarrow> c_type c = t \<and> (\<not> AllSubConditionIsTrue E cs \<longrightarrow> c_status c \<noteq> CTrue)) \<and>
     (\<forall>cs saved t. cond_at (condRestoreTimes E cs saved) t = cond_at cs t)"

lemma condition_lawsD:
  assumes "condition_laws E"
  shows "status_at (condMarkTrue E t m cs) t = Some CTrue"
    and "u \<noteq> t \<Longrightarrow> cond_at (condMarkTrue E t m cs) u = cond_at cs u"
    and "status_at (condMarkUnknown E t r m cs) t = Some CUnknown"
    and "u \<noteq> t \<Longrightarrow> cond_at (condMarkUnknown E t r m cs) u = cond_at cs u"
    and "cond_at (condSet E (Some c) cs) (c_type c) = Some c"
    and "u \<noteq> c_type c \<Longrightarrow> cond_at (condSet E (Some c) cs) u = cond_at cs u"
    and "condSet E None cs = cs"
    and "AllSubConditionIsTrue E cs \<longleftrightarrow>
      (\<forall>t c. t \<noteq> ReadyCondition \<longrightarrow> cond_at cs t = Some c \<longrightarrow> c_status c = CTrue)"
    and "condIsTrue E t cs \<longleftrightarrow> status_at cs t = Some CTrue"
    and "condMirror E t cs = Some c' \<Longrightarrow> c_type c' = t"
    and "condMirror E t cs = Some c' \<Longrightarrow> \<not> AllSubConditionIsTrue E cs \<Longrightarrow> c_status c' \<noteq> CTrue"
    and "cond_at (condRestoreTimes E cs saved) t = cond_at cs t"
proof -
  note L = assms [unfolded condition_laws_def]
  note L1 = L [THEN conjunct1, rule_format]
  note L2 = L [THEN conjunct2, THEN conjunct1, rule_format]
  note L3 = L [THEN conjunct2, THEN conjunct2, THEN conjunct1, rule_format]
  note L4 = L [THEN conjunct2, THEN conjunct2, THEN conjunct2]
  note L5 = L4 [THEN conjunct2]
  note L6 = L5 [THEN conjunct2]
  note L7 = L6 [THEN conjunct2]
  show "status_at (condMarkTrue E t m cs) t = Some CTrue" using L1 by simp
  show "u \<noteq> t \<Longrightarrow> cond_at (condMarkTrue E t m cs) u = cond_at cs u" using L1 by simp
  show "status_at (condMarkUnknown E t r m cs) t = Some CUnknown" using L2 by simp
  show "u \<noteq> t \<Longrightarrow> cond_at (condMarkUnknown E t r m cs) u = cond_at cs u" using L2 by simp
  show "cond_at (condSet E (Some c) cs) (c_type c) = Some c" using L3 by simp
  show "u \<noteq> c_type c \<Longrightarrow> cond_at (condSet E (Some c) cs) u = cond_at cs u" using L3 by simp
  show "condSet E None cs = cs" using L4 [THEN conjunct1] by simp
  show "AllSubConditionIsTrue E cs \<longleftrightarrow>
      (\<forall>t c. t \<noteq> ReadyCondition \<longrightarrow> cond_at cs t = Some c \<longrightarrow> c_status c = CTrue)"
    by (rule L5 [THEN conjunct1, THEN spec])
  show "condIsTrue E t cs \<longleftrightarrow> status_at cs t = Some CTrue"
    by (rule L6 [THEN conjunct1, THEN spec, THEN spec])
  have "case condMirror E t cs of None \<Rightarrow> True
        | Some c \<Rightarrow> c_type c = t \<and> (\<not> AllSubConditionIsTrue E cs \<longrightarrow> c_status c \<noteq> CTrue)"
    by (rule L7 [THEN conjunct1, THEN spec, THEN spec])
  then show "condMirror E t cs = Some c' \<Longrightarrow> c_type c' = t"
    and "condMirror E t cs = Some c' \<Longrightarrow> \<not> AllSubConditionIsTrue E cs \<Longrightarrow> c_status c' \<noteq> CTrue"
    by simp_all
  show "cond_at (condRestoreTimes E cs saved) t = cond_at cs t"
    by (rule L7 [THEN conjunct2, THEN spec, THEN spec, THEN spec])
qed

lemma finalizer_lawsD:
  assumes "finalizer_laws E"
  shows "set (fst (AddFinalizer E fs f)) = insert f (set fs)"
    and "snd (AddFinalizer E fs f) \<longleftrightarrow> f \<notin> set fs"
    and "f \<in> set fs \<Longrightarrow> fst (AddFinalizer E fs f) = fs"
    and "set (fst (RemoveFinalizer E fs f)) = set fs - {f}"
    and "snd (RemoveFinalizer E fs f) \<longleftrightarrow> f \<in> set fs"
    and "f \<notin> set fs \<Longrightarrow> fst (RemoveFinalizer E fs f) = fs"
  using assms unfolding finalizer_laws_def by blast+

end
