(* ===== verification/ReadyDefer.thy ===== *)
theory ReadyDefer
  imports External
begin

text \<open>
  The function every reconciler defers: it recomputes the Ready condition from the other
  conditions and patches the object, so that what a reconcile changed is persisted on every
  exit. \<open>conditions_host\<close> is the interface of an object that carries conditions and
  \<open>reconciler\<close> adds the call that patches it; both are interpreted on the four custom
  resources. \<open>finalizer_host\<close> is the interface of an object that carries finalizers.
\<close>

definition ReadyMessage :: msg where "ReadyMessage = LibMsg ''ReadyMessage'' []"

definition ReadyInitMessage :: msg where "ReadyInitMessage = LibMsg ''ReadyInitMessage'' []"

definition ready_step :: "env \<Rightarrow> conditions \<Rightarrow> conditions" where
  "ready_step E cs =
     (if AllSubConditionIsTrue E cs then condMarkTrue E ReadyCondition ReadyMessage cs
      else let cs' = condMarkUnknown E ReadyCondition InitReason ReadyInitMessage cs
           in condSet E (condMirror E ReadyCondition cs') cs')"

text \<open>
  The deferred function: \<open>post\<close> is what it does to the conditions. An error of the patch
  replaces the error of the body; the result is kept.
\<close>

definition deferred ::
  "env \<Rightarrow> ((conditions \<Rightarrow> conditions) \<Rightarrow> 'i \<Rightarrow> 'i) \<Rightarrow> ('i \<Rightarrow> call) \<Rightarrow> (conditions \<Rightarrow> conditions)
     \<Rightarrow> outcome \<Rightarrow> ('i st, outcome) state" where
  "deferred E upd patch post out = do {
     upd_inst (upd post);
     i \<leftarrow> get_inst;
     e \<leftarrow> perform (patch i) (rErr E);
     ret (case e of None \<Rightarrow> out | Some err \<Rightarrow> (fst out, Some err))
   }"

lemma AllSub_cong:
  assumes "condition_laws E" "\<And>t. t \<noteq> ReadyCondition \<Longrightarrow> cond_at cs t = cond_at cs' t"
  shows "AllSubConditionIsTrue E cs = AllSubConditionIsTrue E cs'"
  using assms(2) by (auto simp: condition_lawsD(8) [OF assms(1)])

lemma ready_step_other:
  assumes "condition_laws E" "t \<noteq> ReadyCondition"
  shows "cond_at (ready_step E cs) t = cond_at cs t"
proof -
  note L = condition_lawsD [OF assms(1)]
  define cs' where "cs' = condMarkUnknown E ReadyCondition InitReason ReadyInitMessage cs"
  have "cond_at cs' t = cond_at cs t" unfolding cs'_def using assms(2) by (rule L(4))
  moreover have "cond_at (condSet E (condMirror E ReadyCondition cs') cs') t = cond_at cs' t"
  proof (cases "condMirror E ReadyCondition cs'")
    case None
    then show ?thesis by (simp add: L(7))
  next
    case (Some c)
    with L(10) [OF Some] assms(2) show ?thesis by (simp add: L(6))
  qed
  ultimately show ?thesis
    using assms(2) by (simp add: ready_step_def Let_def L(2) flip: cs'_def)
qed

lemma ready_step_AllSub:
  "condition_laws E \<Longrightarrow> AllSubConditionIsTrue E (ready_step E cs) = AllSubConditionIsTrue E cs"
  by (rule AllSub_cong) (simp_all add: ready_step_other)

lemma ready_step_ready:
  assumes "condition_laws E"
  shows "condIsTrue E ReadyCondition (ready_step E cs) \<longleftrightarrow> AllSubConditionIsTrue E cs"
proof (cases "AllSubConditionIsTrue E cs")
  case True
  then show ?thesis by (simp add: ready_step_def condition_lawsD [OF assms])
next
  case False
  note L = condition_lawsD [OF assms]
  define cs' where "cs' = condMarkUnknown E ReadyCondition InitReason ReadyInitMessage cs"
  have all: "\<not> AllSubConditionIsTrue E cs'"
    using False AllSub_cong [OF assms, of cs' cs] L(4) unfolding cs'_def by blast
  have unk: "status_at cs' ReadyCondition = Some CUnknown" unfolding cs'_def by (rule L(3))
  have "\<not> condIsTrue E ReadyCondition (condSet E (condMirror E ReadyCondition cs') cs')"
  proof (cases "condMirror E ReadyCondition cs'")
    case None
    with unk show ?thesis by (simp add: L(7) L(9))
  next
    case (Some c)
    with L(10) [OF Some] L(11) [OF Some all] L(5) [of c cs'] show ?thesis
      by (simp add: L(9) status_at_def)
  qed
  with False show ?thesis by (simp add: ready_step_def Let_def flip: cs'_def)
qed

section \<open>Objects with conditions\<close>

locale conditions_host =
  fixes conds :: "'i \<Rightarrow> conditions"
    and upd :: "(conditions \<Rightarrow> conditions) \<Rightarrow> 'i \<Rightarrow> 'i"
  assumes conds_upd: "conds (upd f i) = f (conds i)"
begin

lemma ready_iff:
  "condition_laws E \<Longrightarrow>
    condIsTrue E ReadyCondition (conds (upd (ready_step E) i)) \<longleftrightarrow> AllSubConditionIsTrue E (conds i)"
  by (simp add: conds_upd ready_step_ready)

lemma ready_iff_restored:
  assumes "condition_laws E"
  shows "condIsTrue E ReadyCondition (conds (upd (\<lambda>cs. condRestoreTimes E (ready_step E cs) saved) i))
    \<longleftrightarrow> AllSubConditionIsTrue E (conds i)"
  using ready_step_ready [OF assms, of "conds i"]
  by (simp add: conds_upd condition_lawsD(9,12) [OF assms] status_at_def)

lemma other_kept:
  "condition_laws E \<Longrightarrow> t \<noteq> ReadyCondition \<Longrightarrow> cond_at (conds (upd (ready_step E) i)) t = cond_at (conds i) t"
  by (simp add: conds_upd ready_step_other)

end

text \<open>Objects with conditions that are patched by one call.\<close>

locale reconciler = conditions_host conds upd
  for conds :: "'i \<Rightarrow> conditions" and upd :: "(conditions \<Rightarrow> conditions) \<Rightarrow> 'i \<Rightarrow> 'i" +
  fixes patch :: "'i \<Rightarrow> call"
  assumes patch_inj: "patch i = patch j \<Longrightarrow> i = j"
begin

lemma deferred_persists:
  assumes "run_state (deferred E upd patch (ready_step E) out) s = (r, t)" "condition_laws E"
  shows "log t = log s @ [patch (inst t)]"
    and "condIsTrue E ReadyCondition (conds (inst t)) \<longleftrightarrow> AllSubConditionIsTrue E (conds (inst t))"
    and "AllSubConditionIsTrue E (conds (inst t)) \<longleftrightarrow> AllSubConditionIsTrue E (conds (inst s))"
    and "snd r = None \<Longrightarrow> r = out"
  using assms
  by (auto simp: deferred_def ready_iff ready_step_AllSub ready_step_ready conds_upd split: option.splits)

text \<open>Whatever was patched last is the object in memory, so its Ready condition is the persisted one.\<close>

lemma deferred_last_patch:
  assumes "run_state (deferred E upd patch (ready_step E) out) s = (r, t)" "condition_laws E"
    and "last (log t) = patch j"
  shows "condIsTrue E ReadyCondition (conds j) \<longleftrightarrow> AllSubConditionIsTrue E (conds j)"
proof -
  have "patch (inst t) = patch j" using deferred_persists(1) [OF assms(1,2)] assms(3) by simp
  then have "inst t = j" by (rule patch_inj)
  then show ?thesis using deferred_persists(2) [OF assms(1,2)] by simp
qed

end

section \<open>Objects with finalizers\<close>

locale finalizer_host =
  fixes fins :: "'o \<Rightarrow> string list"
    and set_fins :: "string list \<Rightarrow> 'o \<Rightarrow> 'o"
  assumes fins_set: "fins (set_fins fs x) = fs"
    and set_fins_id: "set_fins (fins x) x = x"
    and set_set: "set_fins fs (set_fins gs x) = set_fins fs x"
begin

lemma fins_add:
  "finalizer_laws E \<Longrightarrow> set (fins (set_fins (fst (AddFinalizer E (fins x) f)) x)) = insert f (set (fins x))"
  by (simp add: fins_set finalizer_lawsD)

lemma fins_remove:
  "finalizer_laws E \<Longrightarrow> set (fins (set_fins (fst (RemoveFinalizer E (fins x) f)) x)) = set (fins x) - {f}"
  by (simp add: fins_set finalizer_lawsD)

text \<open>An object the operation reports as unchanged is unchanged, so skipping its update loses nothing.\<close>

lemma unchanged_add:
  "finalizer_laws E \<Longrightarrow> \<not> snd (AddFinalizer E (fins x) f) \<Longrightarrow> set_fins (fst (AddFinalizer E (fins x) f)) x = x"
  by (simp add: finalizer_lawsD set_fins_id)

lemma unchanged_remove:
  "finalizer_laws E \<Longrightarrow> \<not> snd (RemoveFinalizer E (fins x) f) \<Longrightarrow>
    set_fins (fst (RemoveFinalizer E (fins x) f)) x = x"
  by (simp add: finalizer_lawsD set_fins_id)

end

section \<open>The custom resources\<close>

definition api_fins :: "KeystoneAPI \<Rightarrow> string list" where
  "api_fins a = om_finalizers (api_meta a)"

definition svc_fins :: "KeystoneService \<Rightarrow> string list" where
  "svc_fins i = om_finalizers (svc_meta i)"

definition ep_fins :: "KeystoneEndpoint \<Rightarrow> string list" where
  "ep_fins i = om_finalizers (ep_meta i)"

definition ac_fins :: "KeystoneApplicationCredential \<Rightarrow> string list" where
  "ac_fins i = om_finalizers (ac_meta i)"

definition sec_fins :: "secret \<Rightarrow> string list" where
  "sec_fins s = om_finalizers (sec_meta s)"

lemmas fins_defs = api_fins_def svc_fins_def ep_fins_def ac_fins_def sec_fins_def
  api_set_finalizers_def svc_set_finalizers_def ep_set_finalizers_def ac_set_finalizers_def
  sec_set_finalizers_def

lemmas conds_defs = svc_conds_def svc_upd_conds_def ep_conds_def ep_upd_conds_def
  ac_conds_def ac_upd_conds_def api_conds_def api_upd_conds_def conds_of_def

interpretation api_rec: reconciler api_conds api_upd_conds KPatchAPI
  by unfold_locales (simp_all add: conds_defs)

interpretation svc_rec: reconciler svc_conds svc_upd_conds KPatchService
  by unfold_locales (simp_all add: conds_defs)

interpretation ep_rec: reconciler ep_conds ep_upd_conds KPatchEndpoint
  by unfold_locales (simp_all add: conds_defs)

interpretation ac_rec: reconciler ac_conds ac_upd_conds KPatchAppCred
  by unfold_locales (simp_all add: conds_defs)

interpretation api_fin: finalizer_host api_fins api_set_finalizers
  by unfold_locales (simp_all add: fins_defs)

interpretation svc_fin: finalizer_host svc_fins svc_set_finalizers
  by unfold_locales (simp_all add: fins_defs)

interpretation ep_fin: finalizer_host ep_fins ep_set_finalizers
  by unfold_locales (simp_all add: fins_defs)

interpretation ac_fin: finalizer_host ac_fins ac_set_finalizers
  by unfold_locales (simp_all add: fins_defs)

interpretation sec_fin: finalizer_host sec_fins sec_set_finalizers
  by unfold_locales (simp_all add: fins_defs)

declare api_rec.conds_upd [simp] svc_rec.conds_upd [simp] ep_rec.conds_upd [simp] ac_rec.conds_upd [simp]
declare api_fin.fins_set [simp] svc_fin.fins_set [simp] ep_fin.fins_set [simp]
  ac_fin.fins_set [simp] sec_fin.fins_set [simp]

lemma upd_conds_frames [simp]:
  "svc_spec (svc_upd_conds f i) = svc_spec i" "svc_meta (svc_upd_conds f i) = svc_meta i"
  "svcs_ServiceID (svc_status (svc_upd_conds f i)) = svcs_ServiceID (svc_status i)"
  "ep_spec (ep_upd_conds f j) = ep_spec j" "ep_meta (ep_upd_conds f j) = ep_meta j"
  "eps_EndpointIDs (ep_status (ep_upd_conds f j)) = eps_EndpointIDs (ep_status j)"
  "eps_Endpoints (ep_status (ep_upd_conds f j)) = eps_Endpoints (ep_status j)"
  "eps_ServiceID (ep_status (ep_upd_conds f j)) = eps_ServiceID (ep_status j)"
  "ac_spec (ac_upd_conds f a) = ac_spec a" "ac_meta (ac_upd_conds f a) = ac_meta a"
  "acs_ACID (ac_status (ac_upd_conds f a)) = acs_ACID (ac_status a)"
  "acs_SecretName (ac_status (ac_upd_conds f a)) = acs_SecretName (ac_status a)"
  "acs_PreviousSecretName (ac_status (ac_upd_conds f a)) = acs_PreviousSecretName (ac_status a)"
  by (simp_all add: conds_defs)

end
