(* ===== verification/Fernet.thy ===== *)
theory Fernet
  imports ReadyDefer
begin

text \<open>
  The fernet key repository of \<open>internal/keystone/fernet.go\<close> and of \<open>ensureFernetKeys\<close> in
  \<open>keystoneapi_controller.go\<close>: a secret with the keys \<open>FernetKeys0\<close> (staged),
  \<open>FernetKeys1\<close>, ... (secondary) up to the highest index (primary). The rotation moves the
  staged key behind the primary one, generates a new staged key, and closes the gap with two
  nested loops that have no bound; a second pair of loops adds missing keys.

  The inner loops end because the map is finite. The outer loops need not, so they are
  partial functions and not returning is \<open>None\<close>. The locale \<open>slots\<close> is the interface of a
  numbered key store; its client \<open>shifting\<close> proves once what the two inner loops do to the
  list of keys, and the secret's data is its interpretation.
\<close>

section \<open>Key generation\<close>

definition DefaultFernetMaxActiveKeys :: int where "DefaultFernetMaxActiveKeys = 5"
definition DefaultFernetRotationDays :: int where "DefaultFernetRotationDays = 1"

definition GenerateFernetKey :: "env \<Rightarrow> ('i st, error + string) state" where
  "GenerateFernetKey E = do {
     r \<leftarrow> perform (RandRead 32) (rRandRead E);
     case r of
       Inl err \<Rightarrow> ret (Inl (wrap_err ''failed to read random bytes for Fernet key generation: '' err))
     | Inr bytes \<Rightarrow> ret (Inr (b64_encode bytes))
   }"

section \<open>The loops over the key indices\<close>

definition fkey :: "int \<Rightarrow> string" where
  "fkey i = ''FernetKeys'' @ itoa i"

lemma fkey_inject [simp]: "fkey i = fkey j \<longleftrightarrow> i = j"
  by (simp add: fkey_def)

definition above :: "'v gomap \<Rightarrow> int \<Rightarrow> int set" where
  "above d i = {j. i < j \<and> has_key d (fkey j)}"

lemma finite_above [simp]: "finite (above d i)"
proof (rule finite_subset)
  show "above d i \<subseteq> fkey -` dom (map_of d)" by (auto simp: above_def has_key_def)
  show "finite (fkey -` dom (map_of d))"
    by (rule finite_vimageI) (simp_all add: finite_dom_map_of inj_on_def)
qed

lemma above_psubset:
  assumes "\<And>k. has_key d' (fkey k) \<Longrightarrow> i' < k \<Longrightarrow> has_key d (fkey k)"
    and "i \<le> i'" "has_key d (fkey j)" "i < j" "j \<le> i'"
  shows "above d' i' \<subset> above d i"
proof
  show "above d' i' \<subseteq> above d i" using assms(1,2) by (auto simp: above_def)
  have "j \<in> above d i" "j \<notin> above d' i'" using assms(3-5) by (simp_all add: above_def)
  then show "above d' i' \<noteq> above d i" by blast
qed

text \<open>
  The inner loop of the removal: \<open>i\<close> is the index of \<open>key\<close>. Each key moves one index down,
  starting with the one at \<open>i + 1\<close>, until the next index is absent.
\<close>

function shift_down :: "'v gomap \<Rightarrow> int \<Rightarrow> 'v gomap" where
  "shift_down d i =
     (let key = fkey i; nextKey = fkey (i + 1)
      in case map_of d nextKey of
           None \<Rightarrow> d
         | Some v \<Rightarrow> shift_down (AList.delete nextKey (AList.update key v d)) (i + 1))"
  by pat_completeness auto

termination
proof (relation "measure (\<lambda>(d, i). card (above d i))")
  fix d :: "'v gomap" and i :: int and v x xa
  assume x: "x = fkey i" "xa = fkey (i + 1)" "map_of d xa = Some v"
  have "above (AList.delete xa (AList.update x v d)) (i + 1) \<subset> above d i"
  proof (rule above_psubset [where j = "i + 1"])
    show "has_key d (fkey j)" if "has_key (AList.delete xa (AList.update x v d)) (fkey j)" "i + 1 < j" for j
      using that x by (simp add: has_key_def)
  qed (use x in \<open>simp_all add: has_key_def\<close>)
  then show "((AList.delete xa (AList.update x v d), i + 1), d, i) \<in> measure (\<lambda>(d, i). card (above d i))"
    by (simp add: psubset_card_mono)
qed simp

declare shift_down.simps [simp del]

text \<open>
  The inner loop of the addition: the value carried is stored at \<open>i\<close> and the value found
  there moves on, until an absent index takes it.
\<close>

function shift_up :: "'v gomap \<Rightarrow> int \<Rightarrow> 'v \<Rightarrow> 'v gomap" where
  "shift_up d i nextKeyValue =
     (let key = fkey i
      in case map_of d key of
           None \<Rightarrow> AList.update key nextKeyValue d
         | Some keyValue \<Rightarrow> shift_up (AList.update key nextKeyValue d) (i + 1) keyValue)"
  by pat_completeness auto

termination
proof (relation "measure (\<lambda>(d, i, v). card (above d (i - 1)))")
  fix d :: "'v gomap" and i :: int and w v x
  assume x: "x = fkey i" "map_of d x = Some v"
  have "above (AList.update x w d) (i + 1 - 1) \<subset> above d (i - 1)"
  proof (rule above_psubset [where j = i])
    show "has_key d (fkey j)" if "has_key (AList.update x w d) (fkey j)" "i + 1 - 1 < j" for j
      using that x by (simp add: has_key_def)
  qed (use x in \<open>simp_all add: has_key_def\<close>)
  then show "((AList.update x w d, i + 1, v), d, i, w) \<in> measure (\<lambda>(d, i, v). card (above d (i - 1)))"
    by (simp add: psubset_card_mono)
qed simp

declare shift_up.simps [simp del]

text \<open>
  The outer loops. The flag is \<open>changedKeys\<close>. A write to the nil map of a secret without
  data panics; \<open>add_missing\<close> is called with data only, see \<open>ensureFernetKeys_existing\<close>.
\<close>

partial_function (option) remove_extra :: "string \<Rightarrow> 'v gomap \<Rightarrow> bool \<Rightarrow> ('v gomap \<times> bool) option" where
  "remove_extra extraKey d changed =
     (if has_key d extraKey then remove_extra extraKey (shift_down d 1) True else Some (d, changed))"

partial_function (option) add_missing ::
  "env \<Rightarrow> string \<Rightarrow> string gomap \<Rightarrow> bool \<Rightarrow> 'i st \<Rightarrow> ((error + string gomap \<times> bool) \<times> 'i st) option" where
  "add_missing E lastKey d changed s =
     (if has_key d lastKey then Some (Inr (d, changed), s)
      else case run_state (GenerateFernetKey E) s of
             (Inl err, t) \<Rightarrow> Some (Inl err, t)
           | (Inr fernetKey, t) \<Rightarrow> add_missing E lastKey (shift_up d 1 fernetKey) True t)"

section \<open>Numbered stores of keys\<close>

text \<open>
  \<open>put\<close> and \<open>drop\<close> at one index leave the other indices alone, and neither changes what
  \<open>rest\<close> sees of the store.
\<close>

locale slots =
  fixes slot :: "'d \<Rightarrow> int \<Rightarrow> 'v option"
    and put :: "int \<Rightarrow> 'v \<Rightarrow> 'd \<Rightarrow> 'd"
    and drop_slot :: "int \<Rightarrow> 'd \<Rightarrow> 'd"
    and rest :: "'d \<Rightarrow> 'r"
  assumes slot_put: "slot (put i v d) j = (if j = i then Some v else slot d j)"
    and slot_drop: "slot (drop_slot i d) j = (if j = i then None else slot d j)"
    and rest_put: "rest (put i v d) = rest d"
    and rest_drop: "rest (drop_slot i d) = rest d"
begin

text \<open>The slots from \<open>i\<close> on hold the list, and the slot behind the list is empty.\<close>

primrec row :: "'d \<Rightarrow> int \<Rightarrow> 'v list \<Rightarrow> bool" where
  "row d i [] \<longleftrightarrow> slot d i = None"
| "row d i (v # vs) \<longleftrightarrow> slot d i = Some v \<and> row d (i + 1) vs"

lemma row_put_before: "j < i \<Longrightarrow> row (put j v d) i vs = row d i vs"
  by (induction vs arbitrary: i) (simp_all add: slot_put)

lemma row_drop_before: "j < i \<Longrightarrow> row (drop_slot j d) i vs = row d i vs"
  by (induction vs arbitrary: i) (simp_all add: slot_drop)

lemma row_iff:
  "row d i vs \<longleftrightarrow> (\<forall>n < length vs. slot d (i + int n) = Some (vs ! n)) \<and> slot d (i + int (length vs)) = None"
proof (induction vs arbitrary: i)
  case (Cons v vs)
  show ?case by (simp add: Cons.IH All_less_Suc2 algebra_simps)
qed simp

text \<open>The slots hold the list and nothing else.\<close>

definition holds :: "'d \<Rightarrow> 'v list \<Rightarrow> bool" where
  "holds d vs \<longleftrightarrow> (\<forall>i \<ge> 0. slot d i = (if i < int (length vs) then Some (vs ! nat i) else None))"

lemma holds_row: "holds d vs \<Longrightarrow> n \<le> length vs \<Longrightarrow> row d (int n) (drop n vs)"
  by (auto simp: holds_def row_iff simp flip: of_nat_add)

lemma holdsI:
  assumes "row d 0 vs" "\<And>i. int (length vs) < i \<Longrightarrow> slot d i = None"
  shows "holds d vs"
  unfolding holds_def
proof (intro allI impI)
  fix i :: int assume "0 \<le> i"
  then obtain n where n: "i = int n" by (metis nonneg_int_cases)
  consider "n < length vs" | "n = length vs" | "length vs < n" by linarith
  then show "slot d i = (if i < int (length vs) then Some (vs ! nat i) else None)"
    using assms by cases (simp_all add: n row_iff)
qed

lemma holds_put:
  "holds d vs \<Longrightarrow> n < length vs \<Longrightarrow> holds (put (int n) v d) (vs[n := v])"
  by (auto simp: holds_def slot_put nth_list_update)

lemma holds_put_end: "holds d vs \<Longrightarrow> holds (put (int (length vs)) v d) (vs @ [v])"
  by (auto simp: holds_def slot_put nth_append)

end

text \<open>
  A store with the two routines of the rotation, given by their recursion equations.
\<close>

locale shifting = slots slot put drop_slot rest
  for slot :: "'d \<Rightarrow> int \<Rightarrow> 'v option" and put :: "int \<Rightarrow> 'v \<Rightarrow> 'd \<Rightarrow> 'd"
    and drop_slot :: "int \<Rightarrow> 'd \<Rightarrow> 'd" and rest :: "'d \<Rightarrow> 'r" +
  fixes down :: "'d \<Rightarrow> int \<Rightarrow> 'd"
    and up :: "'d \<Rightarrow> int \<Rightarrow> 'v \<Rightarrow> 'd"
  assumes down_rec: "down d i =
      (case slot d (i + 1) of None \<Rightarrow> d | Some v \<Rightarrow> down (drop_slot (i + 1) (put i v d)) (i + 1))"
    and up_rec: "up d i v =
      (case slot d i of None \<Rightarrow> put i v d | Some w \<Rightarrow> up (put i v d) (i + 1) w)"
begin

lemma down_row: "row d (i + 1) vs \<Longrightarrow> vs \<noteq> [] \<Longrightarrow> row (down d i) i vs"
  and down_frame: "row d (i + 1) vs \<Longrightarrow> j < i \<or> i + int (length vs) < j \<Longrightarrow> slot (down d i) j = slot d j"
  and down_rest: "row d (i + 1) vs \<Longrightarrow> rest (down d i) = rest d"
proof (induction vs arbitrary: d i j)
  case Nil
  { case 1 then show ?case by simp }
  { case 2 then show ?case by (simp add: down_rec [of d]) }
  { case 3 then show ?case by (simp add: down_rec [of d]) }
next
  case (Cons v vs)
  have step: "row d (i + 1) (v # vs) \<Longrightarrow> down d i = down (drop_slot (i + 1) (put i v d)) (i + 1)"
    and row: "row d (i + 1) (v # vs) \<Longrightarrow> row (drop_slot (i + 1) (put i v d)) (i + 1 + 1) vs" for d i
    by (simp_all add: down_rec [of d] row_drop_before row_put_before)
  { case 1
    let ?d = "drop_slot (i + 1) (put i v d)"
    have here: "slot ?d i = Some v" by (simp add: slot_drop slot_put)
    have "slot (down ?d (i + 1)) i = Some v" using Cons.IH(2) [OF row [OF 1(1)], of i] here by simp
    moreover have "row (down ?d (i + 1)) (i + 1) vs"
    proof (cases vs)
      case Nil
      then have "down ?d (i + 1) = ?d" using row [OF 1(1)] by (simp add: down_rec [of ?d])
      then show ?thesis using Nil by (simp add: slot_drop)
    next
      case Cons
      with Cons.IH(1) [OF row [OF 1(1)]] show ?thesis by simp
    qed
    ultimately show ?case by (simp add: step [OF 1(1)]) }
  { case 2
    with Cons.IH(2) [OF row [OF 2(1)], of j] show ?case
      by (auto simp: step [OF 2(1)] slot_drop slot_put) }
  { case 3
    with Cons.IH(3) [OF row [OF 3(1)]] show ?case
      by (simp add: step [OF 3(1)] rest_drop rest_put) }
qed

lemma up_row: "row d i vs \<Longrightarrow> slot d (i + int (length vs) + 1) = None \<Longrightarrow> row (up d i v) i (v # vs)"
  and up_frame: "row d i vs \<Longrightarrow> j < i \<or> i + int (length vs) < j \<Longrightarrow> slot (up d i v) j = slot d j"
  and up_rest: "row d i vs \<Longrightarrow> rest (up d i v) = rest d"
proof (induction vs arbitrary: d i j v)
  case Nil
  { case 1 then show ?case by (simp add: up_rec [of d] slot_put) }
  { case 2 then show ?case by (auto simp: up_rec [of d] slot_put) }
  { case 3 then show ?case by (simp add: up_rec [of d] rest_put) }
next
  case (Cons w vs)
  have step: "row d i (w # vs) \<Longrightarrow> up d i v = up (put i v d) (i + 1) w"
    and row: "row d i (w # vs) \<Longrightarrow> row (put i v d) (i + 1) vs" for d i v
    by (simp_all add: up_rec [of d] row_put_before)
  { case 1
    have "slot (put i v d) (i + 1 + int (length vs) + 1) = None"
      using 1(2) by (simp add: slot_put algebra_simps)
    moreover have "slot (up (put i v d) (i + 1) w) i = Some v"
      using Cons.IH(2) [OF row [OF 1(1)], of i v w] by (simp add: slot_put)
    ultimately show ?case using Cons.IH(1) [OF row [OF 1(1)]] by (simp add: step [OF 1(1)]) }
  { case 2
    with Cons.IH(2) [OF row [OF 2(1)], of j] show ?case
      by (auto simp: step [OF 2(1)] slot_put) }
  { case 3
    with Cons.IH(3) [OF row [OF 3(1)]] show ?case by (simp add: step [OF 3(1)] rest_put) }
qed

lemma down_holds:
  assumes "holds d (v # w # x # vs)"
  shows "holds (down d 1) (v # x # vs)"
proof (rule holdsI)
  have row: "row d (1 + 1) (x # vs)" using holds_row [OF assms, of 2] by simp
  have "slot (down d 1) 0 = Some v"
    using down_frame [OF row, of 0] holds_row [OF assms, of 0] by simp
  then show "row (down d 1) 0 (v # x # vs)"
    using down_row [OF row] by simp
  show "slot (down d 1) i = None" if "int (length (v # x # vs)) < i" for i
    using down_frame [OF row, of i] that assms by (simp add: holds_def)
qed

lemma up_holds:
  assumes "holds d (v # vs)"
  shows "holds (up d 1 w) (v # w # vs)"
proof (rule holdsI)
  have row: "row d 1 vs" using holds_row [OF assms, of 1] by simp
  have "slot d (1 + int (length vs) + 1) = None" using assms by (simp add: holds_def)
  then have "row (up d 1 w) 1 (w # vs)" by (rule up_row [OF row])
  moreover have "slot (up d 1 w) 0 = Some v" using up_frame [OF row, of 0] holds_row [OF assms, of 0] by simp
  ultimately show "row (up d 1 w) 0 (v # w # vs)" by simp
  show "slot (up d 1 w) i = None" if "int (length (v # w # vs)) < i" for i
    using up_frame [OF row, of i] that assms by (simp add: holds_def)
qed

end

text \<open>The data of the secret is such a store; \<open>others\<close> is what it holds besides fernet keys.\<close>

definition others :: "'v gomap \<Rightarrow> string \<Rightarrow> 'v option" where
  "others d = (\<lambda>k. if HasPrefix k ''FernetKeys'' then None else map_of d k)"

lemma HasPrefix_fkey [simp]: "HasPrefix (fkey i) ''FernetKeys''"
  by (simp add: fkey_def HasPrefix_def)

lemma others_put [simp]: "others (AList.update (fkey i) v d) = others d"
  by (auto simp: others_def)

lemma others_drop [simp]: "others (AList.delete (fkey i) d) = others d"
  by (auto simp: others_def)

interpretation keys: shifting "\<lambda>d i. map_of d (fkey i)" "\<lambda>i. AList.update (fkey i)"
  "\<lambda>i. AList.delete (fkey i)" others shift_down shift_up
proof
  fix d :: "'v gomap" and i and v
  show "shift_down d i = (case map_of d (fkey (i + 1)) of None \<Rightarrow> d
    | Some v \<Rightarrow> shift_down (AList.delete (fkey (i + 1)) (AList.update (fkey i) v d)) (i + 1))"
    by (subst shift_down.simps) (simp add: Let_def)
  show "shift_up d i v = (case map_of d (fkey i) of None \<Rightarrow> AList.update (fkey i) v d
    | Some w \<Rightarrow> shift_up (AList.update (fkey i) v d) (i + 1) w)"
    by (subst shift_up.simps) (simp add: Let_def)
qed simp_all

section \<open>What the loops do to the list of keys\<close>

definition repo :: "'v gomap \<Rightarrow> 'v list \<Rightarrow> bool" where
  "repo d ks \<longleftrightarrow> (\<forall>i \<ge> 0. map_of d (fkey i) = (if i < int (length ks) then Some (ks ! nat i) else None))"

lemma repo_holds: "repo d ks = keys.holds d ks"
  by (simp add: repo_def keys.holds_def)

lemma repo_has_key: "repo d ks \<Longrightarrow> 0 \<le> i \<Longrightarrow> has_key d (fkey i) \<longleftrightarrow> i < int (length ks)"
  by (simp add: repo_def has_key_def)

lemma repo_at: "repo d ks \<Longrightarrow> n < length ks \<Longrightarrow> map_of d (fkey (int n)) = Some (ks ! n)"
  by (simp add: repo_def)

text \<open>Reading a repository: the keys \<open>FernetKeys0\<close>, ... of a list, in any map without others.\<close>

definition keys_from :: "int \<Rightarrow> 'v list \<Rightarrow> 'v gomap" where
  "keys_from i ks = zip (map (\<lambda>n. fkey (i + int n)) [0..<length ks]) ks"

lemma map_of_keys_from:
  "map_of (keys_from i ks) (fkey j) =
    (if i \<le> j \<and> j < i + int (length ks) then Some (ks ! nat (j - i)) else None)"
proof (cases "i \<le> j \<and> j < i + int (length ks)")
  case True
  define n where "n = nat (j - i)"
  have n: "j = i + int n" "n < length ks" using True by (simp_all add: n_def nat_less_iff)
  have "distinct (map (\<lambda>n. fkey (i + int n)) [0..<length ks])" by (simp add: distinct_map inj_on_def)
  then have "map_of (keys_from i ks) (map (\<lambda>n. fkey (i + int n)) [0..<length ks] ! n) = Some (ks ! n)"
    unfolding keys_from_def by (intro map_of_zip_nth) (simp_all add: n)
  then show ?thesis using True n by simp
next
  case False
  have "\<not> (\<exists>n < length ks. j = i + int n)" using False by linarith
  then have "fkey j \<notin> fst ` set (keys_from i ks)" by (auto simp: keys_from_def set_zip)
  then show ?thesis using False by (simp add: map_of_eq_None_iff [THEN iffD2])
qed

lemma repo_keys_from: "repo (keys_from 0 ks) ks"
  by (simp add: repo_def map_of_keys_from)

lemma repo_Cons_other: "\<not> HasPrefix k ''FernetKeys'' \<Longrightarrow> repo ((k, v) # d) ks = repo d ks"
proof -
  assume "\<not> HasPrefix k ''FernetKeys''"
  then have "fkey i \<noteq> k" for i using HasPrefix_fkey [of i] by metis
  then show ?thesis by (simp add: repo_def)
qed

lemma repo_shift_down: "repo d (k0 # k1 # k2 # ks) \<Longrightarrow> repo (shift_down d 1) (k0 # k2 # ks)"
  unfolding repo_holds by (rule keys.down_holds)

lemma others_shift_down: "repo d ks \<Longrightarrow> 2 \<le> length ks \<Longrightarrow> others (shift_down d 1) = others d"
  using keys.holds_row [of d ks 2] keys.down_rest [of d 1 "drop 2 ks"] by (simp add: repo_holds)

lemma repo_shift_up: "repo d (k0 # ks) \<Longrightarrow> repo (shift_up d 1 k) (k0 # k # ks)"
  unfolding repo_holds by (rule keys.up_holds)

lemma others_shift_up: "repo d (k0 # ks) \<Longrightarrow> others (shift_up d 1 k) = others d"
  using keys.holds_row [of d "k0 # ks" 1] keys.up_rest [of d 1 ks] by (simp add: repo_holds)

text \<open>What a removal pass leaves of the keys: it drops from index one on, the oldest first.\<close>

definition shrink :: "nat \<Rightarrow> 'v list \<Rightarrow> 'v list" where
  "shrink n ks = (if length ks \<le> n then ks else hd ks # drop (length ks - n + 1) ks)"

lemma remove_extra_spec:
  assumes "repo d ks" "2 \<le> n"
  shows "\<exists>d'. remove_extra (fkey (int n)) d ch = Some (d', ch \<or> n < length ks)
    \<and> repo d' (shrink n ks) \<and> others d' = others d"
  using assms(1)
proof (induction "length ks" arbitrary: d ks ch rule: less_induct)
  case less
  note step = remove_extra.simps [of "fkey (int n)" d ch]
  show ?case
  proof (cases "n < length ks")
    case False
    then show ?thesis using less.prems repo_has_key [OF less.prems, of "int n"]
      by (simp add: step shrink_def)
  next
    case True
    with assms(2) obtain k0 k1 k2 ks' where ks: "ks = k0 # k1 # k2 # ks'"
      by (cases ks; cases "tl ks"; cases "tl (tl ks)") auto
    have "repo (shift_down d 1) (k0 # k2 # ks')" using less.prems unfolding ks by (rule repo_shift_down)
    from less.hyps [OF _ this, of True] ks obtain d'
      where d': "remove_extra (fkey (int n)) (shift_down d 1) True = Some (d', True)"
        "repo d' (shrink n (k0 # k2 # ks'))" "others d' = others (shift_down d 1)"
      by auto
    have "shrink n (k0 # k2 # ks') = shrink n ks"
      using True assms(2) by (cases "length ks = Suc n") (simp_all add: shrink_def ks Suc_diff_le)
    moreover have "others (shift_down d 1) = others d"
      using others_shift_down [OF less.prems] by (simp add: ks)
    ultimately show ?thesis
      using d' True repo_has_key [OF less.prems, of "int n"] by (auto simp: step)
  qed
qed

lemma run_GenerateFernetKey:
  "run_state (GenerateFernetKey E) s =
    (case rRandRead E (log s @ [RandRead 32]) of
       Inl e \<Rightarrow> Inl (wrap_err ''failed to read random bytes for Fernet key generation: '' e)
     | Inr bs \<Rightarrow> Inr (b64_encode bs), s\<lparr>log := log s @ [RandRead 32]\<rparr>)"
  by (simp add: GenerateFernetKey_def split: sum.split)

definition add_post :: "nat \<Rightarrow> string list \<Rightarrow> (string \<Rightarrow> string option) \<Rightarrow> bool \<Rightarrow> 'i st
    \<Rightarrow> (error + string gomap \<times> bool) \<Rightarrow> 'i st \<Rightarrow> bool" where
  "add_post n ks oth ch s r t \<longleftrightarrow>
     (\<exists>m \<le> n - length ks. t = s\<lparr>log := log s @ replicate m (RandRead 32)\<rparr>) \<and>
     (case r of Inl _ \<Rightarrow> length ks < n
      | Inr (d', ch') \<Rightarrow> ch' = (ch \<or> length ks < n) \<and> others d' = oth \<and>
          (\<exists>gen. length gen = n - length ks \<and> repo d' (hd ks # gen @ tl ks)))"

lemma add_missing_spec:
  assumes "repo d ks" "ks \<noteq> []" "1 \<le> n"
  shows "\<exists>r t. add_missing E (fkey (int n - 1)) d ch s = Some (r, t) \<and> add_post n ks (others d) ch s r t"
  using assms(1,2)
proof (induction "n - length ks" arbitrary: d ks ch s)
  case 0
  then have "has_key d (fkey (int n - 1))"
    using assms(3) by (subst repo_has_key [OF 0(2)]) auto
  with 0 show ?case
    by (subst add_missing.simps) (auto simp: add_post_def)
next
  case (Suc m)
  from Suc.hyps(2) have lt: "length ks < n" by simp
  then have no: "\<not> has_key d (fkey (int n - 1))"
    using assms(3) by (subst repo_has_key [OF Suc.prems(1)]) auto
  obtain k0 ks' where ks: "ks = k0 # ks'" using Suc.prems(2) by (cases ks) auto
  obtain g s' where gen: "run_state (GenerateFernetKey E) s = (g, s')" by fastforce
  then have s': "s' = s\<lparr>log := log s @ [RandRead 32]\<rparr>" by (simp add: run_GenerateFernetKey)
  show ?case
  proof (cases g)
    case (Inl e)
    have "s' = s\<lparr>log := log s @ replicate 1 (RandRead 32)\<rparr>" by (simp add: s')
    moreover have "1 \<le> n - length ks" using lt by simp
    ultimately have "add_post n ks (others d) ch s (Inl e) s'"
      using lt unfolding add_post_def by (metis sum.case(1))
    with Inl show ?thesis by (subst add_missing.simps) (simp add: no gen)
  next
    case (Inr k)
    let ?d = "shift_up d 1 k"
    have repo: "repo ?d (k0 # k # ks')" using Suc.prems(1) unfolding ks by (rule repo_shift_up)
    have oth: "others ?d = others d" using Suc.prems(1) unfolding ks by (rule others_shift_up)
    have "m = n - length (k0 # k # ks')" using Suc.hyps(2) by (simp add: ks)
    from Suc.hyps(1) [OF this repo, of True s'] obtain r t
      where rt: "add_missing E (fkey (int n - 1)) ?d True s' = Some (r, t)"
        "add_post n (k0 # k # ks') (others d) True s' r t" by (auto simp: oth)
    obtain j where j: "j \<le> n - length (k0 # k # ks')" "t = s'\<lparr>log := log s' @ replicate j (RandRead 32)\<rparr>"
      using rt(2) unfolding add_post_def by blast
    have "t = s\<lparr>log := log s @ replicate (Suc j) (RandRead 32)\<rparr>" "Suc j \<le> n - length ks"
      using j lt by (simp_all add: s' ks)
    then have lg: "\<exists>m \<le> n - length ks. t = s\<lparr>log := log s @ replicate m (RandRead 32)\<rparr>" by blast
    have "add_post n ks (others d) ch s r t"
    proof (cases r)
      case (Inl e)
      then show ?thesis using lg lt by (simp add: add_post_def)
    next
      case r: (Inr p)
      obtain d' ch' where p: "p = (d', ch')" by fastforce
      from rt(2) obtain gen where g: "length gen = n - length (k0 # k # ks')" "repo d' (k0 # gen @ k # ks')"
        by (auto simp: add_post_def r p)
      have "length (gen @ [k]) = n - length ks" using g(1) Suc.hyps(2) lt by (simp add: ks)
      moreover have "repo d' (hd ks # (gen @ [k]) @ tl ks)" using g(2) by (simp add: ks)
      ultimately have "\<exists>gen. length gen = n - length ks \<and> repo d' (hd ks # gen @ tl ks)" by blast
      with rt(2) lg lt show ?thesis unfolding add_post_def r p by simp
    qed
    with rt(1) show ?thesis by (subst add_missing.simps) (simp add: no gen Inr)
  qed
qed

section \<open>ensureFernetKeys\<close>

datatype fernet_outcome = Done "error option" | Panic | Diverge

definition ServiceName :: string where "ServiceName = ''keystone''"

definition fernetAnnotation :: "env \<Rightarrow> string" where
  "fernetAnnotation E = GroupLabel E ServiceName @ ''/rotatedat''"

definition numberKeys :: "KeystoneAPI \<Rightarrow> int" where
  "numberKeys i = (case api_FernetMaxActiveKeys (api_spec i) of
     None \<Rightarrow> DefaultFernetMaxActiveKeys | Some n \<Rightarrow> n)"

definition rotationDays :: "KeystoneAPI \<Rightarrow> int" where
  "rotationDays i = (case api_FernetRotationDays (api_spec i) of
     None \<Rightarrow> DefaultFernetRotationDays | Some n \<Rightarrow> n)"

text \<open>The loop that generates the keys of a new repository, from index \<open>i\<close> on.\<close>

fun generate_keys :: "env \<Rightarrow> nat \<Rightarrow> int \<Rightarrow> string gomap \<Rightarrow> ('i st, error + string gomap) state" where
  "generate_keys E 0 i fernetKeys = ret (Inr fernetKeys)"
| "generate_keys E (Suc n) i fernetKeys = do {
     r \<leftarrow> GenerateFernetKey E;
     case r of
       Inl err \<Rightarrow> ret (Inl err)
     | Inr fernetKey \<Rightarrow> generate_keys E n (i + 1) (AList.update (fkey i) fernetKey fernetKeys)
   }"

definition create_fernet_secret :: "env \<Rightarrow> KeystoneAPI \<Rightarrow> instant \<Rightarrow> ('i st, fernet_outcome) state" where
  "create_fernet_secret E i now = do {
     r0 \<leftarrow> GenerateFernetKey E;
     case r0 of
       Inl err \<Rightarrow> ret (Done (Some err))
     | Inr credentialKeys0 \<Rightarrow> do {
         r1 \<leftarrow> GenerateFernetKey E;
         case r1 of
           Inl err \<Rightarrow> ret (Done (Some err))
         | Inr credentialKeys1 \<Rightarrow> do {
             ks \<leftarrow> generate_keys E (nat (numberKeys i)) 0
               [(''CredentialKeys0'', credentialKeys0), (''CredentialKeys1'', credentialKeys1)];
             case ks of
               Inl err \<Rightarrow> ret (Done (Some err))
             | Inr fernetKeys \<Rightarrow> do {
                 e \<leftarrow> perform (EnsureSecrets \<lparr>tpl_Name = ServiceName, tpl_Namespace = om_namespace (api_meta i),
                      tpl_CustomData = fernetKeys,
                      tpl_Annotations = [(fernetAnnotation E, FormatRFC3339 now)]\<rparr>) (rErr E);
                 ret (Done e)
               }
           }
       }
   }"

text \<open>The two passes over the keys, and the update of the secret when a key changed.\<close>

definition updated_secret :: "env \<Rightarrow> instant \<Rightarrow> secret \<Rightarrow> string gomap \<Rightarrow> secret" where
  "updated_secret E now sec d = sec\<lparr>sec_data := Some d, sec_meta := (sec_meta sec)\<lparr>om_annotations :=
     AList.update (fernetAnnotation E) (FormatRFC3339 now) (om_annotations (sec_meta sec))\<rparr>\<rparr>"

definition resize_and_update ::
  "env \<Rightarrow> KeystoneAPI \<Rightarrow> instant \<Rightarrow> secret \<Rightarrow> bool \<Rightarrow> string gomap option \<Rightarrow> ('i st, fernet_outcome) state" where
  "resize_and_update E i now sec changedKeys data =
     (case data of
        None \<Rightarrow> do { \<comment> \<open>a nil map: nothing to remove, and the first key added is written to it\<close>
          r \<leftarrow> GenerateFernetKey E;
          ret (case r of Inl err \<Rightarrow> Done (Some err) | Inr _ \<Rightarrow> Panic)
        }
      | Some d \<Rightarrow>
          (case remove_extra (fkey (numberKeys i)) d changedKeys of
             None \<Rightarrow> ret Diverge
           | Some (d1, changed1) \<Rightarrow> do {
               s \<leftarrow> State_Monad.get;
               case add_missing E (fkey (numberKeys i - 1)) d1 changed1 s of
                 None \<Rightarrow> ret Diverge
               | Some (r, t) \<Rightarrow> do {
                   State_Monad.set t;
                   case r of
                     Inl err \<Rightarrow> ret (Done (Some err))
                   | Inr (d2, changed2) \<Rightarrow>
                       if \<not> changed2 then ret (Done None)
                       else do {
                         e \<leftarrow> perform (KUpdateSecret (updated_secret E now sec d2)) (rErr E);
                         ret (Done e)
                       }
                 }
             }))"

text \<open>
  The rotation proper: the staged key is copied behind the primary one and a new one takes
  its place; reading an absent key gives a nil slice. A write to a nil map panics.
\<close>

definition staged_data :: "int \<Rightarrow> string \<Rightarrow> string gomap \<Rightarrow> string gomap" where
  "staged_data n fernetKey d = AList.update (fkey 0) fernetKey (AList.update (fkey n) (str_at d (fkey 0)) d)"

definition stage_new_key :: "env \<Rightarrow> int \<Rightarrow> string gomap \<Rightarrow> ('i st, error + string gomap) state" where
  "stage_new_key E n d = do {
     r \<leftarrow> GenerateFernetKey E;
     case r of
       Inl err \<Rightarrow> ret (Inl err)
     | Inr fernetKey \<Rightarrow> ret (Inr (staged_data n fernetKey d))
   }"

definition rotate_fernet_secret :: "env \<Rightarrow> KeystoneAPI \<Rightarrow> instant \<Rightarrow> secret \<Rightarrow> ('i st, fernet_outcome) state" where
  "rotate_fernet_secret E i now sec =
     (case ParseRFC3339 (str_at (om_annotations (sec_meta sec)) (fernetAnnotation E)) of
        None \<Rightarrow> resize_and_update E i now sec True (sec_data sec)
      | Some rotatedAt \<Rightarrow>
          if AddDays rotatedAt (rotationDays i) < now
          then (case sec_data sec of
                  None \<Rightarrow> ret Panic
                | Some d \<Rightarrow> do {
                    r \<leftarrow> stage_new_key E (numberKeys i) d;
                    case r of
                      Inl err \<Rightarrow> ret (Done (Some err))
                    | Inr d' \<Rightarrow> resize_and_update E i now sec False (Some d')
                  })
          else resize_and_update E i now sec False (sec_data sec))"

definition ensureFernetKeys :: "env \<Rightarrow> (KeystoneAPI st, fernet_outcome) state" where
  "ensureFernetKeys E = do {
     i \<leftarrow> get_inst;
     now \<leftarrow> perform TimeNow (rNow E);
     r \<leftarrow> perform (KGetSecret (om_namespace (api_meta i)) ServiceName) (rGetSecret E);
     case r of
       Inl err \<Rightarrow> if IsNotFound err then create_fernet_secret E i now else ret (Done (Some err))
     | Inr sec \<Rightarrow> rotate_fernet_secret E i now sec
   }"

section \<open>Runs on an existing repository\<close>

lemma resize_unchanged:
  assumes "repo d ks" "numberKeys i = int (length ks)" "2 \<le> length ks"
  shows "run_state (resize_and_update E i now sec False (Some d)) s = (Done None, s)"
proof -
  have "\<not> has_key d (fkey (numberKeys i))" "has_key d (fkey (numberKeys i - 1))"
    using assms(2,3) by (subst repo_has_key [OF assms(1)]; auto)+
  then show ?thesis
    by (simp add: resize_and_update_def remove_extra.simps [of _ d] add_missing.simps [of _ _ d])
qed

lemma shrink_simps:
  "n \<le> length ks \<Longrightarrow> 1 \<le> n \<Longrightarrow> length (shrink n ks) = n"
  "length ks \<le> n \<Longrightarrow> shrink n ks = ks"
  "ks \<noteq> [] \<Longrightarrow> shrink n ks \<noteq> []"
  by (auto simp: shrink_def)

lemma resize_shrink:
  assumes "repo d ks" "numberKeys i = int n" "2 \<le> n" "n \<le> length ks" "ch \<or> n < length ks"
  shows "\<exists>d'. run_state (resize_and_update E i now sec ch (Some d)) s =
      (let c = KUpdateSecret (updated_secret E now sec d')
       in (Done (rErr E (log s @ [c])), s\<lparr>log := log s @ [c]\<rparr>))
    \<and> repo d' (shrink n ks) \<and> others d' = others d"
proof -
  obtain d' where d': "remove_extra (fkey (int n)) d ch = Some (d', True)" "repo d' (shrink n ks)"
      "others d' = others d"
    using remove_extra_spec [OF assms(1,3), of ch] assms(5) by auto
  have "has_key d' (fkey (int n - 1))"
    using assms(3,4) by (subst repo_has_key [OF d'(2)]) (auto simp: shrink_simps)
  then have "add_missing E (fkey (int n - 1)) d' True s = Some (Inr (d', True), s)"
    by (simp add: add_missing.simps)
  with d' show ?thesis
    by (intro exI [of _ d']) (simp add: resize_and_update_def assms(2) Let_def)
qed

lemma resize_grow:
  assumes "repo d ks" "numberKeys i = int n" "2 \<le> n" "length ks < n" "ks \<noteq> []"
  shows "\<exists>m \<le> n - length ks.
     (let s' = s\<lparr>log := log s @ replicate m (RandRead 32)\<rparr> in
       (\<exists>e. run_state (resize_and_update E i now sec ch (Some d)) s = (Done (Some e), s')) \<or>
       (\<exists>d' gen. run_state (resize_and_update E i now sec ch (Some d)) s =
           (let c = KUpdateSecret (updated_secret E now sec d')
            in (Done (rErr E (log s' @ [c])), s'\<lparr>log := log s' @ [c]\<rparr>))
         \<and> length gen = n - length ks \<and> repo d' (hd ks # gen @ tl ks) \<and> others d' = others d))"
proof -
  obtain d' where d': "remove_extra (fkey (int n)) d ch = Some (d', ch)" "repo d' ks" "others d' = others d"
    using remove_extra_spec [OF assms(1,3), of ch] assms(4) by (auto simp: shrink_simps)
  obtain r t where rt: "add_missing E (fkey (int n - 1)) d' ch s = Some (r, t)"
      "add_post n ks (others d') ch s r t"
    using add_missing_spec [OF d'(2) assms(5), of n E ch s] assms(3) by auto
  then obtain m where m: "m \<le> n - length ks" "t = s\<lparr>log := log s @ replicate m (RandRead 32)\<rparr>"
    unfolding add_post_def by blast
  have run: "run_state (resize_and_update E i now sec ch (Some d)) s =
      run_state (case r of Inl err \<Rightarrow> ret (Done (Some err))
        | Inr (d2, changed2) \<Rightarrow> if \<not> changed2 then ret (Done None)
            else do { e \<leftarrow> perform (KUpdateSecret (updated_secret E now sec d2)) (rErr E); ret (Done e) }) t"
    using d'(1) rt(1) by (simp add: resize_and_update_def assms(2))
  show ?thesis
  proof (cases r)
    case (Inl e)
    with m run show ?thesis by (intro exI [of _ m]) (simp add: Let_def)
  next
    case (Inr p)
    obtain d2 ch2 where p: "p = (d2, ch2)" by fastforce
    from rt(2) assms(4) obtain gen where g: "ch2" "others d2 = others d'" "length gen = n - length ks"
        "repo d2 (hd ks # gen @ tl ks)"
      by (auto simp: add_post_def Inr p)
    with m run d'(3) show ?thesis
      unfolding Inr p Let_def by (intro exI [of _ m]) auto
  qed
qed

text \<open>The two calls every run starts with, when the secret exists.\<close>

definition fernet_start :: "KeystoneAPI \<Rightarrow> call list" where
  "fernet_start i = [TimeNow, KGetSecret (om_namespace (api_meta i)) ServiceName]"

definition fernet_now :: "env \<Rightarrow> KeystoneAPI st \<Rightarrow> instant" where
  "fernet_now E s = rNow E (log s @ [TimeNow])"

lemma run_ensureFernetKeys:
  assumes "rGetSecret E (log s @ fernet_start (inst s)) = Inr sec"
  shows "run_state (ensureFernetKeys E) s =
    run_state (rotate_fernet_secret E (inst s) (fernet_now E s) sec) (s\<lparr>log := log s @ fernet_start (inst s)\<rparr>)"
  using assms by (simp add: ensureFernetKeys_def fernet_start_def fernet_now_def)

text \<open>When the keys were last rotated, as the annotation of the secret says.\<close>

definition rotated_at :: "env \<Rightarrow> secret \<Rightarrow> instant option" where
  "rotated_at E sec = ParseRFC3339 (str_at (om_annotations (sec_meta sec)) (fernetAnnotation E))"

definition rotation_due :: "env \<Rightarrow> KeystoneAPI st \<Rightarrow> secret \<Rightarrow> bool" where
  "rotation_due E s sec \<longleftrightarrow> (case rotated_at E sec of None \<Rightarrow> False
     | Some t \<Rightarrow> AddDays t (rotationDays (inst s)) < fernet_now E s)"

lemma run_due:
  assumes "rGetSecret E (log s @ fernet_start (inst s)) = Inr sec" "rotation_due E s sec"
    and "sec_data sec = Some d"
    and "rRandRead E (log s @ fernet_start (inst s) @ [RandRead 32]) = Inr bs"
  shows "run_state (ensureFernetKeys E) s =
    run_state (resize_and_update E (inst s) (fernet_now E s) sec False
        (Some (staged_data (numberKeys (inst s)) (b64_encode bs) d)))
      (s\<lparr>log := log s @ fernet_start (inst s) @ [RandRead 32]\<rparr>)"
  using assms(2-4)
  by (simp add: run_ensureFernetKeys [OF assms(1)] rotate_fernet_secret_def rotation_due_def rotated_at_def
      stage_new_key_def run_GenerateFernetKey Let_def split: option.splits)

lemma run_not_due:
  assumes "rGetSecret E (log s @ fernet_start (inst s)) = Inr sec" "rotated_at E sec = Some t"
    and "\<not> rotation_due E s sec"
  shows "run_state (ensureFernetKeys E) s =
    run_state (resize_and_update E (inst s) (fernet_now E s) sec False (sec_data sec))
      (s\<lparr>log := log s @ fernet_start (inst s)\<rparr>)"
  using assms(2,3)
  by (simp add: run_ensureFernetKeys [OF assms(1)] rotate_fernet_secret_def rotation_due_def rotated_at_def)

lemma repo_staged_data:
  assumes "repo d ks" "ks \<noteq> []"
  shows "repo (staged_data (int (length ks)) k d) (k # tl ks @ [hd ks])"
    and "n < length ks \<Longrightarrow> 0 < n \<Longrightarrow> repo (staged_data (int n) k d) (k # tl (ks[n := hd ks]))"
proof -
  have at0: "str_at d (fkey 0) = hd ks"
    using repo_at [OF assms(1), of 0] assms(2) by (simp add: str_at_def hd_conv_nth)
  have put0: "repo d' ks' \<Longrightarrow> ks' \<noteq> [] \<Longrightarrow> repo (AList.update (fkey 0) k d') (k # tl ks')" for d' ks'
    using keys.holds_put [of d' ks' 0 k] by (cases ks') (simp_all add: repo_holds)
  have "repo (AList.update (fkey (int (length ks))) (hd ks) d) (ks @ [hd ks])"
    using assms(1) unfolding repo_holds by (rule keys.holds_put_end)
  from put0 [OF this] show "repo (staged_data (int (length ks)) k d) (k # tl ks @ [hd ks])"
    using assms(2) by (simp add: staged_data_def at0)
  assume n: "n < length ks" "0 < n"
  then have "repo (AList.update (fkey (int n)) (hd ks) d) (ks[n := hd ks])"
    using assms(1) unfolding repo_holds by (intro keys.holds_put)
  from put0 [OF this] show "repo (staged_data (int n) k d) (k # tl (ks[n := hd ks]))"
    using assms(2) by (simp add: staged_data_def at0)
qed

lemma others_staged_data [simp]: "others (staged_data n k d) = others d"
  by (simp add: staged_data_def)

section \<open>A gap below the extra key\<close>

text \<open>
  The removal pass stops at the first absent index, so a gap between index one and the extra
  key keeps the extra key in place and the outer loop runs forever.
\<close>

lemma shift_down_above_gap:
  "map_of d (fkey g) = None \<Longrightarrow> i < g \<Longrightarrow> g \<le> j \<Longrightarrow> map_of (shift_down d i) (fkey j) = map_of d (fkey j)"
proof (induction d i rule: shift_down.induct)
  case (1 d i)
  show ?case
  proof (cases "map_of d (fkey (i + 1))")
    case None
    then show ?thesis by (simp add: shift_down.simps [of d])
  next
    case (Some v)
    then have "i + 1 < g" using "1.prems" by (cases "g = i + 1") auto
    with "1.IH" [OF refl refl Some] "1.prems" Some show ?thesis
      by (simp add: shift_down.simps [of d])
  qed
qed

definition gap_below :: "int \<Rightarrow> 'v gomap \<Rightarrow> bool" where
  "gap_below n d \<longleftrightarrow> has_key d (fkey n) \<and> (\<exists>g. 1 < g \<and> g < n \<and> \<not> has_key d (fkey g))"

lemma gap_below_shift_down: "gap_below n d \<Longrightarrow> gap_below n (shift_down d 1)"
  unfolding gap_below_def has_key_def using shift_down_above_gap [of d _ 1] by fastforce

lemma remove_extra_returns_no_gap:
  assumes "remove_extra e d ch = Some y"
  shows "e = fkey n \<longrightarrow> \<not> gap_below n d"
proof (rule remove_extra.raw_induct [where P = "\<lambda>e d ch y. e = fkey n \<longrightarrow> \<not> gap_below n d", OF _ assms], intro impI notI)
  fix rec :: "string \<Rightarrow> 'a gomap \<Rightarrow> bool \<Rightarrow> ('a gomap \<times> bool) option" and e d ch y
  assume IH: "\<And>e d ch y. rec e d ch = Some y \<Longrightarrow> e = fkey n \<longrightarrow> \<not> gap_below n d"
    and body: "(if has_key d e then rec e (shift_down d 1) True else Some (d, ch)) = Some y"
    and e: "e = fkey n" and gap: "gap_below n d"
  have "rec e (shift_down d 1) True = Some y" using body e gap by (simp add: gap_below_def)
  from IH [OF this] gap_below_shift_down [OF gap] e show False by blast
qed

lemma remove_extra_diverges: "gap_below n d \<Longrightarrow> remove_extra (fkey n) d ch = None"
  using remove_extra_returns_no_gap [of "fkey n" d ch] by (metis not_Some_eq)

end
