(* ===== verification/Example.thy ===== *)
theory Example
  imports ReadyDefer
begin

text \<open>
  A concrete environment: conditions and finalizers kept the way lib-common and
  controller-runtime keep them, and constant answers. The theorems about runs are evaluated
  on it, with single answers replaced.
\<close>

definition set_cond :: "condition \<Rightarrow> conditions \<Rightarrow> conditions" where
  "set_cond c cs =
     (if list_ex (\<lambda>d. c_type d = c_type c) cs
      then map (\<lambda>d. if c_type d = c_type c then c else d) cs else cs @ [c])"

definition all_sub :: "conditions \<Rightarrow> bool" where
  "all_sub cs \<longleftrightarrow> list_all (\<lambda>d. c_type d = ReadyCondition \<or> status_at cs (c_type d) = Some CTrue) cs"

definition mirror_cond :: "ctype \<Rightarrow> conditions \<Rightarrow> condition option" where
  "mirror_cond t cs = Some \<lparr>c_type = t, c_status = (if all_sub cs then CTrue else CFalse),
     c_reason = RequestedReason, c_severity = SeverityInfo, c_message = LibMsg ''mirror'' []\<rparr>"

definition true_cond :: "ctype \<Rightarrow> msg \<Rightarrow> condition" where
  "true_cond t m = \<lparr>c_type = t, c_status = CTrue, c_reason = OtherReason ''Ready'',
     c_severity = SeverityNone, c_message = m\<rparr>"

definition no_err :: error where "no_err = new_err ''unavailable''"

definition not_found :: error where "not_found = \<lparr>err_kind = NotFound, err_msg = ''not found''\<rparr>"

definition ex_deployed :: deployed where
  "ex_deployed = \<lparr>dy_Name = ''keystone'', dy_Namespace = ''openstack'', dy_Generation = 1, dy_ObservedGeneration = 1,
     dy_ReadyReplicas = 1\<rparr>"

definition ex_database :: database where
  "ex_database = \<lparr>db_Request = \<lparr>dr_Instance = ''openstack'', dr_Name = ''keystone'', dr_CRName = ''keystone'',
     dr_Account = ''keystone'', dr_Namespace = ''openstack''\<rparr>, db_Hostname = ''db.svc'', db_UserName = ''keystone_ab12'',
     db_Password = ''12345678''\<rparr>"

definition ex_memcached :: memcached where
  "ex_memcached = \<lparr>mc_meta = new_meta ''memcached'' ''openstack'', mc_IsReady = True, mc_ServerList = ''m:11211'',
     mc_ServerListWithInet = ''inet:m:11211'', mc_TLSSupport = False, mc_MTLSSecret = ''''\<rparr>"

definition base_cluster :: cluster_env where
  "base_cluster = \<lparr>
     LibString = (\<lambda>n. n),
     LibValue = (\<lambda>n. 0),
     WritableDirVolume = (\<lambda>n. \<lparr>vol_Name = n, vol_Source = EmptyDirSource\<rparr>),
     WritableDirVolumeMount = (\<lambda>n p. \<lparr>vm_Name = n, vm_MountPath = p, vm_SubPath = '''', vm_ReadOnly = False\<rparr>),
     CAVolume = (\<lambda>n. \<lparr>vol_Name = ''combined-ca-bundle'', vol_Source = SecretSource 292 n []\<rparr>),
     CAVolumeMounts = [],
     MTLSVolume = (\<lambda>m. \<lparr>vol_Name = ''mtls'', vol_Source = SecretSource 292 (mc_MTLSSecret m) []\<rparr>),
     MTLSVolumeMounts = (\<lambda>m. []),
     TLSEnabled = (\<lambda>i p e. False),
     TLSToService = (\<lambda>n. None),
     TLSVolume = (\<lambda>n e. \<lparr>vol_Name = e, vol_Source = EmptyDirSource\<rparr>),
     TLSVolumeMounts = (\<lambda>n e c k. []),
     PropagateVol = (\<lambda>v svc. []),
     MergeEnvs = (\<lambda>vs m. vs @ map (\<lambda>(n, v). EnvValue n v) m),
     ApplyTopology = (\<lambda>t p. p),
     filepathJoin = (\<lambda>a b. a @ ''/'' @ b),
     MergeStringMaps = (\<lambda>a b. a @ b),
     NewService = (\<lambda>d t ov. Inr \<lparr>ks_Details = d, ks_Override = ov, ks_Annotations = [], ks_Type = ''ClusterIP'',
       ks_Hostname = ''''\<rparr>),
     AddAnnotation = (\<lambda>m s. s\<lparr>ks_Annotations := ks_Annotations s @ m\<rparr>),
     GetLabels = (\<lambda>m g. [(g, om_name m)]),
     DBClientConfig = (\<lambda>d tls. ''''),
     YamlMarshal = (\<lambda>v. Inr ''yaml''),
     JsonObject = (\<lambda>s. Inr []),
     JsonStrings = (\<lambda>xs. Inr (concat xs)),
     EnvHash = (\<lambda>m. Inr (concat (map snd m))),
     SetHash = (\<lambda>m k v. (AList.update k v m, str_at m k \<noteq> v)),
     EnsureNetworksAnnotation = (\<lambda>ns. Inr []),
     DeploymentIsReady = (\<lambda>d. True),
     rEnsureVars = (\<lambda>h m. m @ [(''files'', ''hash'')]),
     rRbacConditions = (\<lambda>h. []),
     rOutcome = (\<lambda>h. ok),
     rJob = (\<lambda>h. (ok, False, ''job-hash'')),
     rVerifySecret = (\<lambda>h. (''secret-hash'', ok)),
     rHash = (\<lambda>h. Inr ''hash''),
     rSecretHash = (\<lambda>h. ''hash''),
     rDatabase = (\<lambda>h. Inr ex_database),
     rDBHandle = (\<lambda>h. ex_database),
     rTransportURL = (\<lambda>h. Inr ''transport''),
     rMemcached = (\<lambda>h. Inr ex_memcached),
     rNAD = (\<lambda>h. Inr None),
     rTopology = (\<lambda>h. Inr None),
     rDeployed = (\<lambda>h. ex_deployed),
     rNetworkStatus = (\<lambda>h. Inr (True, [])),
     rReadyForInput = (\<lambda>h. Inr True),
     rRotation = (\<lambda>h. Inr ''transport'')\<rparr>"

lemma base_cluster_sel [simp]:
  "LibString base_cluster = ((\<lambda>n. n))"
  "LibValue base_cluster = ((\<lambda>n. 0))"
  "WritableDirVolume base_cluster = ((\<lambda>n. \<lparr>vol_Name = n, vol_Source = EmptyDirSource\<rparr>))"
  "WritableDirVolumeMount base_cluster = ((\<lambda>n p. \<lparr>vm_Name = n, vm_MountPath = p, vm_SubPath = '''', vm_ReadOnly = False\<rparr>))"
  "CAVolume base_cluster = ((\<lambda>n. \<lparr>vol_Name = ''combined-ca-bundle'', vol_Source = SecretSource 292 n []\<rparr>))"
  "CAVolumeMounts base_cluster = ([])"
  "MTLSVolume base_cluster = ((\<lambda>m. \<lparr>vol_Name = ''mtls'', vol_Source = SecretSource 292 (mc_MTLSSecret m) []\<rparr>))"
  "MTLSVolumeMounts base_cluster = ((\<lambda>m. []))"
  "TLSEnabled base_cluster = ((\<lambda>i p e. False))"
  "TLSToService base_cluster = ((\<lambda>n. None))"
  "TLSVolume base_cluster = ((\<lambda>n e. \<lparr>vol_Name = e, vol_Source = EmptyDirSource\<rparr>))"
  "TLSVolumeMounts base_cluster = ((\<lambda>n e c k. []))"
  "PropagateVol base_cluster = ((\<lambda>v svc. []))"
  "MergeEnvs base_cluster = ((\<lambda>vs m. vs @ map (\<lambda>(n, v). EnvValue n v) m))"
  "ApplyTopology base_cluster = ((\<lambda>t p. p))"
  "filepathJoin base_cluster = ((\<lambda>a b. a @ ''/'' @ b))"
  "MergeStringMaps base_cluster = ((\<lambda>a b. a @ b))"
  "NewService base_cluster = ((\<lambda>d t ov. Inr \<lparr>ks_Details = d, ks_Override = ov, ks_Annotations = [], ks_Type = ''ClusterIP'', ks_Hostname = ''''\<rparr>))"
  "AddAnnotation base_cluster = ((\<lambda>m s. s\<lparr>ks_Annotations := ks_Annotations s @ m\<rparr>))"
  "GetLabels base_cluster = ((\<lambda>m g. [(g, om_name m)]))"
  "DBClientConfig base_cluster = ((\<lambda>d tls. ''''))"
  "YamlMarshal base_cluster = ((\<lambda>v. Inr ''yaml''))"
  "JsonObject base_cluster = ((\<lambda>s. Inr []))"
  "JsonStrings base_cluster = ((\<lambda>xs. Inr (concat xs)))"
  "EnvHash base_cluster = ((\<lambda>m. Inr (concat (map snd m))))"
  "SetHash base_cluster = ((\<lambda>m k v. (AList.update k v m, str_at m k \<noteq> v)))"
  "EnsureNetworksAnnotation base_cluster = ((\<lambda>ns. Inr []))"
  "DeploymentIsReady base_cluster = ((\<lambda>d. True))"
  "rEnsureVars base_cluster = ((\<lambda>h m. m @ [(''files'', ''hash'')]))"
  "rRbacConditions base_cluster = ((\<lambda>h. []))"
  "rOutcome base_cluster = ((\<lambda>h. ok))"
  "rJob base_cluster = ((\<lambda>h. (ok, False, ''job-hash'')))"
  "rVerifySecret base_cluster = ((\<lambda>h. (''secret-hash'', ok)))"
  "rHash base_cluster = ((\<lambda>h. Inr ''hash''))"
  "rSecretHash base_cluster = ((\<lambda>h. ''hash''))"
  "rDatabase base_cluster = ((\<lambda>h. Inr ex_database))"
  "rDBHandle base_cluster = ((\<lambda>h. ex_database))"
  "rTransportURL base_cluster = ((\<lambda>h. Inr ''transport''))"
  "rMemcached base_cluster = ((\<lambda>h. Inr ex_memcached))"
  "rNAD base_cluster = ((\<lambda>h. Inr None))"
  "rTopology base_cluster = ((\<lambda>h. Inr None))"
  "rDeployed base_cluster = ((\<lambda>h. ex_deployed))"
  "rNetworkStatus base_cluster = ((\<lambda>h. Inr (True, [])))"
  "rReadyForInput base_cluster = ((\<lambda>h. Inr True))"
  "rRotation base_cluster = ((\<lambda>h. Inr ''transport''))"
  by (simp_all add: base_cluster_def)

definition base_env :: env where
  "base_env = \<lparr>
     cl = base_cluster,
     condSet = (\<lambda>c cs. case c of None \<Rightarrow> cs | Some c \<Rightarrow> set_cond c cs),
     condMarkTrue = (\<lambda>t m. set_cond (true_cond t m)),
     condMarkUnknown = (\<lambda>t r m. set_cond (UnknownCondition t r m)),
     condMirror = mirror_cond,
     condInit = (\<lambda>cs init. foldl (\<lambda>acc c. set_cond c acc) cs init),
     condRestoreTimes = (\<lambda>cs saved. cs),
     condIsTrue = (\<lambda>t cs. status_at cs t = Some CTrue),
     AllSubConditionIsTrue = all_sub,
     AddFinalizer = (\<lambda>fs f. if f \<in> set fs then (fs, False) else (fs @ [f], True)),
     RemoveFinalizer = (\<lambda>fs f. (removeAll f fs, f \<in> set fs)),
     GetFinalizer = (\<lambda>k. case k of KindAPI \<Rightarrow> ''openstack.org/keystoneapi''
       | KindService \<Rightarrow> ''openstack.org/keystoneservice''
       | KindEndpoint \<Rightarrow> ''openstack.org/keystoneendpoint''
       | KindAppCred \<Rightarrow> ''openstack.org/keystoneapplicationcredential''),
     GetAvailability = Inr,
     ServiceNotFound = ''service not found in keystone'',
     ErrNotFoundText = ''not found'',
     CABundleKey = ''tls-ca-bundle.pem'',
     AppSelector = ''service'',
     urlScheme = (\<lambda>u. Inr (if HasPrefix u ''https'' then ''https'' else ''http'')),
     WrapErrorForObject = (\<lambda>m x e. new_err m),
     SetControllerReference = (\<lambda>c x. None),
     hashSecurity = (\<lambda>r a u. Inr (concat r)),
     hashStrings = (\<lambda>xs. Inr (concat xs)),
     GroupLabel = (\<lambda>n. n @ ''.openstack.org''),
     rErr = (\<lambda>h. None),
     rNow = (\<lambda>h. 0),
     rRandRead = (\<lambda>h. Inr (replicate 32 0)),
     rRandString = (\<lambda>h. ''abcde''),
     rGetAPI = (\<lambda>h. Inl not_found),
     rGetService = (\<lambda>h. Inl not_found),
     rGetEndpoint = (\<lambda>h. Inl not_found),
     rGetAppCred = (\<lambda>h. Inl not_found),
     rListAPIs = (\<lambda>h. Inr []),
     rListEndpoints = (\<lambda>h. Inr []),
     rListAppCreds = (\<lambda>h. Inr []),
     rGetSecret = (\<lambda>h. Inl not_found),
     rListSecrets = (\<lambda>h. Inr []),
     rDataFromSecret = (\<lambda>h. (''secret'', Result0, None)),
     rHashesInSync = (\<lambda>h. Inr True),
     rNewOpenStack = (\<lambda>h. Inr 0),
     rGetEndpoints = (\<lambda>h. Inr []),
     rEndpointID = (\<lambda>h. (''id'', None)),
     rGetOSService = (\<lambda>h. (None, Some (new_err ''service not found in keystone''))),
     rCreateService = (\<lambda>h. (''svc-id'', None)),
     rObjectID = (\<lambda>h. Inr ''obj-id''),
     rTokenUser = (\<lambda>h. Inr ''user-id''),
     rCreateAC = (\<lambda>h. Inr (''0123456789'', ''ac-secret'', 0)),
     rDeleteAC = (\<lambda>h. None)\<rparr>"

lemma base_env_sel [simp]:
  "cl base_env = base_cluster"
  "condSet base_env = (\<lambda>c cs. case c of None \<Rightarrow> cs | Some c \<Rightarrow> set_cond c cs)"
  "condMarkTrue base_env = (\<lambda>t m. set_cond (true_cond t m))"
  "condMarkUnknown base_env = (\<lambda>t r m. set_cond (UnknownCondition t r m))"
  "condMirror base_env = mirror_cond"
  "condInit base_env = (\<lambda>cs init. foldl (\<lambda>acc c. set_cond c acc) cs init)"
  "condRestoreTimes base_env = (\<lambda>cs saved. cs)"
  "condIsTrue base_env = (\<lambda>t cs. status_at cs t = Some CTrue)"
  "AllSubConditionIsTrue base_env = all_sub"
  "AddFinalizer base_env = (\<lambda>fs f. if f \<in> set fs then (fs, False) else (fs @ [f], True))"
  "RemoveFinalizer base_env = (\<lambda>fs f. (removeAll f fs, f \<in> set fs))"
  "GetFinalizer base_env = (\<lambda>k. case k of KindAPI \<Rightarrow> ''openstack.org/keystoneapi'' | KindService \<Rightarrow> ''openstack.org/keystoneservice'' | KindEndpoint \<Rightarrow> ''openstack.org/keystoneendpoint'' | KindAppCred \<Rightarrow> ''openstack.org/keystoneapplicationcredential'')"
  "GetAvailability base_env = Inr"
  "ServiceNotFound base_env = ''service not found in keystone''"
  "ErrNotFoundText base_env = ''not found''"
  "CABundleKey base_env = ''tls-ca-bundle.pem''"
  "AppSelector base_env = ''service''"
  "urlScheme base_env = (\<lambda>u. Inr (if HasPrefix u ''https'' then ''https'' else ''http''))"
  "WrapErrorForObject base_env = (\<lambda>m x e. new_err m)"
  "SetControllerReference base_env = (\<lambda>c x. None)"
  "hashSecurity base_env = (\<lambda>r a u. Inr (concat r))"
  "hashStrings base_env = (\<lambda>xs. Inr (concat xs))"
  "GroupLabel base_env = (\<lambda>n. n @ ''.openstack.org'')"
  "rErr base_env = (\<lambda>h. None)"
  "rNow base_env = (\<lambda>h. 0)"
  "rRandRead base_env = (\<lambda>h. Inr (replicate 32 0))"
  "rRandString base_env = (\<lambda>h. ''abcde'')"
  "rGetAPI base_env = (\<lambda>h. Inl not_found)"
  "rGetService base_env = (\<lambda>h. Inl not_found)"
  "rGetEndpoint base_env = (\<lambda>h. Inl not_found)"
  "rGetAppCred base_env = (\<lambda>h. Inl not_found)"
  "rListAPIs base_env = (\<lambda>h. Inr [])"
  "rListEndpoints base_env = (\<lambda>h. Inr [])"
  "rListAppCreds base_env = (\<lambda>h. Inr [])"
  "rGetSecret base_env = (\<lambda>h. Inl not_found)"
  "rListSecrets base_env = (\<lambda>h. Inr [])"
  "rDataFromSecret base_env = (\<lambda>h. (''secret'', Result0, None))"
  "rHashesInSync base_env = (\<lambda>h. Inr True)"
  "rNewOpenStack base_env = (\<lambda>h. Inr 0)"
  "rGetEndpoints base_env = (\<lambda>h. Inr [])"
  "rEndpointID base_env = (\<lambda>h. (''id'', None))"
  "rGetOSService base_env = (\<lambda>h. (None, Some (new_err ''service not found in keystone'')))"
  "rCreateService base_env = (\<lambda>h. (''svc-id'', None))"
  "rObjectID base_env = (\<lambda>h. Inr ''obj-id'')"
  "rTokenUser base_env = (\<lambda>h. Inr ''user-id'')"
  "rCreateAC base_env = (\<lambda>h. Inr (''0123456789'', ''ac-secret'', 0))"
  "rDeleteAC base_env = (\<lambda>h. None)"
  by (simp_all add: base_env_def)

lemma cond_at_Nil [simp]: "cond_at [] t = None"
  by (simp add: cond_at_def)

lemma cond_at_Cons: "cond_at (d # cs) t = (if c_type d = t then Some d else cond_at cs t)"
  by (simp add: cond_at_def)

lemma cond_at_append: "cond_at (xs @ ys) t = (case cond_at xs t of None \<Rightarrow> cond_at ys t | Some c \<Rightarrow> Some c)"
  by (induction xs) (simp_all add: cond_at_Cons)

lemma cond_at_None: "cond_at cs t = None \<longleftrightarrow> \<not> list_ex (\<lambda>d. c_type d = t) cs"
  by (induction cs) (simp_all add: cond_at_Cons)

lemma cond_at_map:
  "cond_at (map (\<lambda>d. if c_type d = c_type c then c else d) cs) t =
    (if t = c_type c \<and> list_ex (\<lambda>d. c_type d = t) cs then Some c else cond_at cs t)"
  by (induction cs) (auto simp: cond_at_Cons)

lemma cond_at_set_cond [simp]: "cond_at (set_cond c cs) t = (if t = c_type c then Some c else cond_at cs t)"
proof (cases "list_ex (\<lambda>d. c_type d = c_type c) cs")
  case True
  then show ?thesis by (simp add: set_cond_def cond_at_map)
next
  case False
  then have "cond_at cs (c_type c) = None" by (simp add: cond_at_None)
  with False show ?thesis
    by (auto simp: set_cond_def cond_at_append cond_at_Cons split: option.splits)
qed

lemma all_sub_iff: "all_sub cs \<longleftrightarrow> (\<forall>t c. t \<noteq> ReadyCondition \<longrightarrow> cond_at cs t = Some c \<longrightarrow> c_status c = CTrue)"
proof
  assume L: "all_sub cs"
  show "\<forall>t c. t \<noteq> ReadyCondition \<longrightarrow> cond_at cs t = Some c \<longrightarrow> c_status c = CTrue"
  proof (intro allI impI)
    fix t c assume t: "t \<noteq> ReadyCondition" "cond_at cs t = Some c"
    then have "c \<in> set cs" "c_type c = t" by (auto simp: cond_at_def find_Some_iff)
    with L t show "c_status c = CTrue" by (auto simp: all_sub_def list_all_iff status_at_def)
  qed
next
  assume R: "\<forall>t c. t \<noteq> ReadyCondition \<longrightarrow> cond_at cs t = Some c \<longrightarrow> c_status c = CTrue"
  show "all_sub cs"
    unfolding all_sub_def list_all_iff
  proof
    fix d assume "d \<in> set cs"
    then have "cond_at cs (c_type d) \<noteq> None" by (auto simp: cond_at_None list_ex_iff)
    with R show "c_type d = ReadyCondition \<or> status_at cs (c_type d) = Some CTrue"
      by (auto simp: status_at_def)
  qed
qed

lemma base_condition_laws [simp]: "condition_laws base_env"
  unfolding condition_laws_def
  by (auto simp: base_env_def status_at_def true_cond_def UnknownCondition_def mirror_cond_def all_sub_iff)

lemma base_finalizer_laws [simp]: "finalizer_laws base_env"
  unfolding finalizer_laws_def by (auto simp: base_env_def)

text \<open>Both laws speak of the pure fields only, so replacing an answer keeps them.\<close>

lemma laws_replies [simp]:
  "condition_laws (E\<lparr>rErr := f0\<rparr>) = condition_laws E"
  "condition_laws (E\<lparr>rNow := f1\<rparr>) = condition_laws E"
  "condition_laws (E\<lparr>rRandRead := f2\<rparr>) = condition_laws E"
  "condition_laws (E\<lparr>rRandString := f3\<rparr>) = condition_laws E"
  "condition_laws (E\<lparr>rGetAPI := f4\<rparr>) = condition_laws E"
  "condition_laws (E\<lparr>rGetService := f5\<rparr>) = condition_laws E"
  "condition_laws (E\<lparr>rGetEndpoint := f6\<rparr>) = condition_laws E"
  "condition_laws (E\<lparr>rGetAppCred := f7\<rparr>) = condition_laws E"
  "condition_laws (E\<lparr>rListAPIs := f8\<rparr>) = condition_laws E"
  "condition_laws (E\<lparr>rListEndpoints := f9\<rparr>) = condition_laws E"
  "condition_laws (E\<lparr>rListAppCreds := f10\<rparr>) = condition_laws E"
  "condition_laws (E\<lparr>rGetSecret := f11\<rparr>) = condition_laws E"
  "condition_laws (E\<lparr>rListSecrets := f12\<rparr>) = condition_laws E"
  "condition_laws (E\<lparr>rDataFromSecret := f13\<rparr>) = condition_laws E"
  "condition_laws (E\<lparr>rNewOpenStack := f14\<rparr>) = condition_laws E"
  "condition_laws (E\<lparr>rGetEndpoints := f15\<rparr>) = condition_laws E"
  "condition_laws (E\<lparr>rEndpointID := f16\<rparr>) = condition_laws E"
  "condition_laws (E\<lparr>rGetOSService := f17\<rparr>) = condition_laws E"
  "condition_laws (E\<lparr>rCreateService := f18\<rparr>) = condition_laws E"
  "condition_laws (E\<lparr>rObjectID := f19\<rparr>) = condition_laws E"
  "condition_laws (E\<lparr>rTokenUser := f20\<rparr>) = condition_laws E"
  "condition_laws (E\<lparr>rCreateAC := f21\<rparr>) = condition_laws E"
  "condition_laws (E\<lparr>rDeleteAC := f22\<rparr>) = condition_laws E"
  "condition_laws (E\<lparr>rHashesInSync := f23\<rparr>) = condition_laws E"
  "condition_laws (E\<lparr>hashSecurity := f24\<rparr>) = condition_laws E"
  "condition_laws (E\<lparr>cl := f25\<rparr>) = condition_laws E"
  by (simp_all add: condition_laws_def cong: option.case_cong)

lemma finalizer_laws_replies [simp]:
  "finalizer_laws (E\<lparr>rErr := f0\<rparr>) = finalizer_laws E"
  "finalizer_laws (E\<lparr>rNow := f1\<rparr>) = finalizer_laws E"
  "finalizer_laws (E\<lparr>rRandRead := f2\<rparr>) = finalizer_laws E"
  "finalizer_laws (E\<lparr>rRandString := f3\<rparr>) = finalizer_laws E"
  "finalizer_laws (E\<lparr>rGetAPI := f4\<rparr>) = finalizer_laws E"
  "finalizer_laws (E\<lparr>rGetService := f5\<rparr>) = finalizer_laws E"
  "finalizer_laws (E\<lparr>rGetEndpoint := f6\<rparr>) = finalizer_laws E"
  "finalizer_laws (E\<lparr>rGetAppCred := f7\<rparr>) = finalizer_laws E"
  "finalizer_laws (E\<lparr>rListAPIs := f8\<rparr>) = finalizer_laws E"
  "finalizer_laws (E\<lparr>rListEndpoints := f9\<rparr>) = finalizer_laws E"
  "finalizer_laws (E\<lparr>rListAppCreds := f10\<rparr>) = finalizer_laws E"
  "finalizer_laws (E\<lparr>rGetSecret := f11\<rparr>) = finalizer_laws E"
  "finalizer_laws (E\<lparr>rListSecrets := f12\<rparr>) = finalizer_laws E"
  "finalizer_laws (E\<lparr>rDataFromSecret := f13\<rparr>) = finalizer_laws E"
  "finalizer_laws (E\<lparr>rNewOpenStack := f14\<rparr>) = finalizer_laws E"
  "finalizer_laws (E\<lparr>rGetEndpoints := f15\<rparr>) = finalizer_laws E"
  "finalizer_laws (E\<lparr>rEndpointID := f16\<rparr>) = finalizer_laws E"
  "finalizer_laws (E\<lparr>rGetOSService := f17\<rparr>) = finalizer_laws E"
  "finalizer_laws (E\<lparr>rCreateService := f18\<rparr>) = finalizer_laws E"
  "finalizer_laws (E\<lparr>rObjectID := f19\<rparr>) = finalizer_laws E"
  "finalizer_laws (E\<lparr>rTokenUser := f20\<rparr>) = finalizer_laws E"
  "finalizer_laws (E\<lparr>rCreateAC := f21\<rparr>) = finalizer_laws E"
  "finalizer_laws (E\<lparr>rDeleteAC := f22\<rparr>) = finalizer_laws E"
  "finalizer_laws (E\<lparr>rHashesInSync := f23\<rparr>) = finalizer_laws E"
  "finalizer_laws (E\<lparr>hashSecurity := f24\<rparr>) = finalizer_laws E"
  "finalizer_laws (E\<lparr>cl := f25\<rparr>) = finalizer_laws E"
  by (simp_all add: finalizer_laws_def)

section \<open>Objects\<close>

definition ex_meta :: objmeta where "ex_meta = new_meta ''obj'' ''openstack''"

definition ex_api :: KeystoneAPI where
  "ex_api = \<lparr>api_meta = new_meta ''keystone'' ''openstack'',
     api_spec = \<lparr>api_ContainerImage = ''img'', api_DatabaseInstance = ''db'', api_DatabaseAccount = ''keystone'',
       api_MemcachedInstance = ''memcached'', api_Region = ''regionOne'', api_AdminProject = ''admin'',
       api_AdminUser = ''admin'', api_Replicas = Some 1, api_Secret = ''osp-secret'', api_TrustFlushArgs = '''',
       api_TrustFlushSchedule = ''1 * * * *'', api_TrustFlushSuspend = False, api_FernetRotationDays = Some 1,
       api_FernetMaxActiveKeys = Some 5, api_PasswordSelectors_Admin = ''AdminPassword'',
       api_NodeSelector = None, api_PreserveJobs = False, api_CustomServiceConfig = '''',
       api_DefaultConfigOverwrite = [], api_ProcessNumber = Some 3, api_EnableSecureRBAC = True, api_Resources = 0,
       api_ExtraMounts = [], api_CustomConfigSecret = None,
       api_NetworkAttachments = [], api_Override_Service = [], api_RabbitMqClusterName = ''rabbitmq'',
       api_TLS_CaBundleSecretName = '''', api_TLS_Internal = None, api_TLS_Public = None, api_APITimeout = 60,
       api_TopologyRef = None, api_FederatedRealmConfig = '''', api_ExternalKeystoneAPI = False,
       api_NotificationsBus = None\<rparr>,
     api_status = \<lparr>apis_ReadyCount = 1, apis_Hash = None,
       apis_APIEndpoints = Some [(''internal'', ''http://keystone''), (''public'', ''http://keystone.public'')],
       apis_Conditions = Some [true_cond ReadyCondition ReadyMessage], apis_DatabaseHostname = ''db'', apis_NetworkAttachments = None,
       apis_TransportURLSecret = '''', apis_ObservedGeneration = 0, apis_LastAppliedTopology = None,
       apis_Region = ''''\<rparr>\<rparr>"

definition ex_svc :: KeystoneService where
  "ex_svc = \<lparr>svc_meta = new_meta ''placement'' ''openstack'',
     svc_spec = \<lparr>svc_ServiceType = ''placement'', svc_ServiceName = ''placement'',
       svc_ServiceDescription = ''Placement Service'', svc_Enabled = True, svc_ServiceUser = ''placement'',
       svc_Secret = ''osp-secret'', svc_PasswordSelector = ''PlacementPassword''\<rparr>,
     svc_status = \<lparr>svcs_ServiceID = '''', svcs_Conditions = None\<rparr>\<rparr>"

definition ex_ep :: KeystoneEndpoint where
  "ex_ep = \<lparr>ep_meta = new_meta ''placement'' ''openstack'',
     ep_spec = \<lparr>ep_ServiceName = ''placement'', ep_Endpoints = [(''internal'', ''http://a''), (''public'', ''http://b'')]\<rparr>,
     ep_status = \<lparr>eps_EndpointIDs = None, eps_ServiceID = '''', eps_Conditions = None, eps_Endpoints = [],
       eps_ObservedGeneration = 0\<rparr>\<rparr>"

definition ex_ac :: KeystoneApplicationCredential where
  "ex_ac = \<lparr>ac_meta = new_meta ''ac-barbican'' ''openstack'',
     ac_spec = \<lparr>ac_Secret = ''osp-secret'', ac_PasswordSelector = ''BarbicanPassword'', ac_UserName = ''barbican'',
       ac_ExpirationDays = 730, ac_GracePeriodDays = 364, ac_Roles = [''admin'', ''service''],
       ac_Unrestricted = False, ac_AccessRules = []\<rparr>,
     ac_status = \<lparr>acs_ACID = '''', acs_SecretName = '''', acs_PreviousSecretName = '''', acs_Conditions = None,
       acs_CreatedAt = None, acs_ExpiresAt = None, acs_RotationEligibleAt = None, acs_LastRotated = None,
       acs_ObservedGeneration = 0, acs_SecurityHash = ''''\<rparr>\<rparr>"

definition ex_secret :: "string \<Rightarrow> string gomap \<Rightarrow> secret" where
  "ex_secret n d = \<lparr>sec_meta = new_meta n ''openstack'', sec_immutable = False, sec_data = Some d, sec_owner = None\<rparr>"

definition start :: "'i \<Rightarrow> 'i st" where
  "start i = \<lparr>inst = i, log = []\<rparr>"

lemma start_sel [simp]: "inst (start i) = i" "log (start i) = []"
  by (simp_all add: start_def)

end
