(* ===== verification/FernetProps.thy ===== *)
theory FernetProps
  imports Fernet Example
begin

text \<open>
  What \<open>ensureFernetKeys\<close> does to the key repository: rotation, shrinking, growing, the quiet
  run, creation, and the two runs in which a rotation and a change of the number of keys
  meet. A repository is the list of its keys, staged key first and primary key last.
\<close>

section \<open>Key generation\<close>

text \<open>
  A generated key is 44 characters long, the base64 form of 32 random bytes, and two
  different draws give two different keys.
\<close>

lemma GenerateFernetKey_format:
  assumes "rRandRead E (log s @ [RandRead 32]) = Inr bs" "length bs = 32"
    and "rRandRead E (log s' @ [RandRead 32]) = Inr bs'" "length bs' = 32"
  shows "\<exists>k k'. fst (run_state (GenerateFernetKey E) s) = Inr k \<and> length k = 44
    \<and> fst (run_state (GenerateFernetKey E) s') = Inr k' \<and> (k = k' \<longleftrightarrow> bs = bs')"
  using assms b64_encode_inject [of bs bs']
  by (auto simp: run_GenerateFernetKey length_b64_encode)

lemma GenerateFernetKey_format_witness:
  "\<exists>k k'. fst (run_state (GenerateFernetKey base_env) (start ex_api)) = Inr k \<and> length k = 44
    \<and> fst (run_state (GenerateFernetKey base_env) (start ex_svc)) = Inr k' \<and>
      (k = k' \<longleftrightarrow> replicate 32 (0 :: byte) = replicate 32 0)"
  by (rule GenerateFernetKey_format) (simp_all add: base_env_def)

section \<open>Rotation\<close>

text \<open>
  C1: when a rotation is due on a repository of the configured size, the run makes four calls,
  ending in one update of the secret: the generated key is the new staged key, the staged key
  becomes the primary one, the oldest secondary key is gone, the rest of the secret is as it was.
\<close>

theorem fernet_rotation:
  assumes "rGetSecret E (log s @ fernet_start (inst s)) = Inr sec" "rotation_due E s sec"
    and "sec_data sec = Some d" "repo d ks" "numberKeys (inst s) = int (length ks)" "2 \<le> length ks"
    and "rRandRead E (log s @ fernet_start (inst s) @ [RandRead 32]) = Inr bs"
  shows "\<exists>d'. run_state (ensureFernetKeys E) s =
      (let h = log s @ fernet_start (inst s) @ [RandRead 32, KUpdateSecret (updated_secret E (fernet_now E s) sec d')]
       in (Done (rErr E h), s\<lparr>log := h\<rparr>))
    \<and> repo d' (b64_encode bs # drop 2 ks @ [hd ks]) \<and> others d' = others d"
proof -
  let ?k = "b64_encode bs"
  obtain k0 k1 ks' where ks: "ks = k0 # k1 # ks'" using assms(6) by (cases ks; cases "tl ks") auto
  have repo: "repo (staged_data (numberKeys (inst s)) ?k d) (?k # k1 # ks' @ [k0])"
    using repo_staged_data(1) [OF assms(4), of ?k] assms(5) by (simp add: ks)
  have shrink: "shrink (length ks) (?k # k1 # ks' @ [k0]) = ?k # drop 2 ks @ [hd ks]"
    by (simp add: shrink_def ks)
  from resize_shrink [OF repo assms(5,6), of False E "fernet_now E s" sec
      "s\<lparr>log := log s @ fernet_start (inst s) @ [RandRead 32]\<rparr>"]
  obtain d' where "run_state (ensureFernetKeys E) s =
      (let h = log s @ fernet_start (inst s) @ [RandRead 32, KUpdateSecret (updated_secret E (fernet_now E s) sec d')]
       in (Done (rErr E h), s\<lparr>log := h\<rparr>))"
    "repo d' (shrink (length ks) (?k # k1 # ks' @ [k0]))" "others d' = others d"
    by (auto simp: run_due [OF assms(1,2,3,7)] Let_def ks)
  then show ?thesis by (intro exI [of _ d']) (simp add: shrink)
qed

text \<open>An existing repository, last rotated at the epoch, and its environment at an instant.\<close>

definition day :: int where "day = 86400 * second"

definition epoch_text :: string where "epoch_text = ''1970-01-01T00:00:00Z''"

definition ex_fernet :: "string list \<Rightarrow> secret" where
  "ex_fernet ks = (let s = ex_secret ServiceName ((''CredentialKeys0'', ''c0'') # keys_from 0 ks)
     in s\<lparr>sec_meta := (sec_meta s)\<lparr>om_annotations := [(''keystone.openstack.org/rotatedat'', epoch_text)]\<rparr>\<rparr>)"

definition ex_keys_api :: "int \<Rightarrow> KeystoneAPI" where
  "ex_keys_api n = ex_api\<lparr>api_spec := (api_spec ex_api)\<lparr>api_FernetMaxActiveKeys := Some n\<rparr>\<rparr>"

definition fernet_env :: "instant \<Rightarrow> secret \<Rightarrow> env" where
  "fernet_env t sec = base_env\<lparr>rNow := (\<lambda>h. t), rGetSecret := (\<lambda>h. Inr sec)\<rparr>"

lemma ex_fernet_repo:
  "sec_data (ex_fernet ks) = Some ((''CredentialKeys0'', ''c0'') # keys_from 0 ks)"
  "repo ((''CredentialKeys0'', ''c0'') # keys_from 0 ks) ks"
  by (simp_all add: ex_fernet_def ex_secret_def Let_def repo_Cons_other repo_keys_from HasPrefix_def)

lemma parse_epoch: "ParseRFC3339 epoch_text = Some 0"
  by code_simp

lemma fernet_env_simps [simp]:
  "rGetSecret (fernet_env t sec) h = Inr sec" "rRandRead (fernet_env t sec) h = Inr (replicate 32 0)"
  "fernet_now (fernet_env t sec) s = t" "rErr (fernet_env t sec) h = None"
  by (simp_all add: fernet_env_def base_env_def fernet_now_def)

lemma ex_keys_api_simps [simp]: "numberKeys (ex_keys_api n) = n" "rotationDays (ex_keys_api n) = 1"
  by (simp_all add: ex_keys_api_def ex_api_def numberKeys_def rotationDays_def)

lemma fernetAnnotation_env: "fernetAnnotation (fernet_env t sec) = ''keystone.openstack.org/rotatedat''"
  by (simp add: fernetAnnotation_def fernet_env_def base_env_def ServiceName_def)

lemma ex_fernet_rotated_at [simp]: "rotated_at (fernet_env t sec) (ex_fernet ks) = Some 0"
  using parse_epoch
  by (simp add: rotated_at_def fernetAnnotation_env ex_fernet_def ex_secret_def Let_def str_at_def new_meta_def)

lemma ex_rotation_due [simp]:
  "rotation_due (fernet_env t sec) (start (ex_keys_api n)) (ex_fernet ks) \<longleftrightarrow> day < t"
  by (simp add: rotation_due_def AddDays_def day_def)

lemma fernet_rotation_witness:
  "\<exists>d'. fst (run_state (ensureFernetKeys (fernet_env (2 * day) (ex_fernet [''a'', ''b'', ''c'']))) (start (ex_keys_api 3)))
      = Done None \<and> repo d' [b64_encode (replicate 32 0), ''c'', ''a'']"
  using fernet_rotation [of "fernet_env (2 * day) (ex_fernet [''a'', ''b'', ''c''])" "start (ex_keys_api 3)",
      OF _ _ ex_fernet_repo]
  by (force simp: Let_def day_def second_def)

section \<open>Runs without a rotation\<close>

text \<open>
  A run on a repository of the configured size whose rotation is not due reads the clock
  and the secret and does nothing else: no key changes and the secret is not written.
\<close>

lemma fernet_idle:
  assumes "rGetSecret E (log s @ fernet_start (inst s)) = Inr sec"
    and "rotated_at E sec = Some t" "\<not> rotation_due E s sec"
    and "sec_data sec = Some d" "repo d ks" "numberKeys (inst s) = int (length ks)" "2 \<le> length ks"
  shows "run_state (ensureFernetKeys E) s = (Done None, s\<lparr>log := log s @ fernet_start (inst s)\<rparr>)"
  by (simp add: run_not_due [OF assms(1-3)] assms(4) resize_unchanged [OF assms(5-7)])

lemma fernet_idle_witness:
  "run_state (ensureFernetKeys (fernet_env day (ex_fernet [''a'', ''b'', ''c'']))) (start (ex_keys_api 3)) =
    (Done None, (start (ex_keys_api 3))\<lparr>log := fernet_start (ex_keys_api 3)\<rparr>)"
  using fernet_idle [of "fernet_env day (ex_fernet [''a'', ''b'', ''c''])" "start (ex_keys_api 3)",
      OF _ _ _ ex_fernet_repo] by simp

text \<open>
  Lowering the number of keys drops the oldest secondary keys and keeps the staged and
  the primary key, in one update of the secret.
\<close>

lemma fernet_shrink:
  assumes "rGetSecret E (log s @ fernet_start (inst s)) = Inr sec"
    and "rotated_at E sec = Some t" "\<not> rotation_due E s sec"
    and "sec_data sec = Some d" "repo d ks" "numberKeys (inst s) = int n" "2 \<le> n" "n < length ks"
  shows "\<exists>d' ks'. run_state (ensureFernetKeys E) s =
      (let h = log s @ fernet_start (inst s) @ [KUpdateSecret (updated_secret E (fernet_now E s) sec d')]
       in (Done (rErr E h), s\<lparr>log := h\<rparr>))
    \<and> repo d' ks' \<and> ks' = hd ks # drop (length ks - n + 1) ks \<and> length ks' = n \<and> last ks' = last ks
    \<and> others d' = others d"
proof -
  from resize_shrink [OF assms(5-7), of False E "fernet_now E s" sec "s\<lparr>log := log s @ fernet_start (inst s)\<rparr>"]
    assms(8)
  obtain d' where "run_state (ensureFernetKeys E) s =
      (let h = log s @ fernet_start (inst s) @ [KUpdateSecret (updated_secret E (fernet_now E s) sec d')]
       in (Done (rErr E h), s\<lparr>log := h\<rparr>))" "repo d' (shrink n ks)" "others d' = others d"
    by (auto simp: run_not_due [OF assms(1-3)] assms(4) Let_def)
  moreover have "shrink n ks = hd ks # drop (length ks - n + 1) ks" using assms(8) by (simp add: shrink_def)
  moreover have "length ks - n + 1 < length ks" using assms(7,8) by simp
  ultimately show ?thesis
    using assms(7,8) by (intro exI [of _ d'] exI [of _ "shrink n ks"]) (simp add: last_drop)
qed

lemma fernet_shrink_witness:
  "\<exists>d'. fst (run_state (ensureFernetKeys (fernet_env day (ex_fernet [''a'', ''b'', ''c'', ''d'', ''e''])))
      (start (ex_keys_api 3))) = Done None \<and> repo d' [''a'', ''d'', ''e'']"
  using fernet_shrink [of "fernet_env day (ex_fernet [''a'', ''b'', ''c'', ''d'', ''e''])" "start (ex_keys_api 3)",
      OF _ _ _ ex_fernet_repo, where n = 3]
  by (force simp: Let_def)



text \<open>
  C36: after a run at \<open>now\<close> that wrote a repository of the configured size, a run that finds the
  written secret before the rotation period is over is idle: the annotation the writer
  rendered is parsed back to the same second, for every year of four digits.
\<close>

theorem fernet_idle_after_update:
  assumes "rGetSecret E (log s @ fernet_start (inst s)) = Inr (updated_secret E now sec d)"
    and "repo d ks" "numberKeys (inst s) = int (length ks)" "2 \<le> length ks"
    and "civil_from_days (now div second div 86400) = (y, m, dy)" "0 \<le> y" "y < 10000"
    and "fernet_now E s \<le> AddDays (now div second * second) (rotationDays (inst s))"
  shows "run_state (ensureFernetKeys E) s = (Done None, s\<lparr>log := log s @ fernet_start (inst s)\<rparr>)"
proof -
  have at: "rotated_at E (updated_secret E now sec d) = Some (now div second * second)"
    by (simp add: rotated_at_def updated_secret_def str_at_def ParseRFC3339_Format [OF assms(5-7)])
  moreover have "\<not> rotation_due E s (updated_secret E now sec d)"
    using assms(8) at by (simp add: rotation_due_def)
  ultimately show ?thesis
    using resize_unchanged [OF assms(2-4)] by (simp add: run_not_due [OF assms(1)] updated_secret_def)
qed

lemma fernet_idle_after_update_witness:
  "fst (run_state (ensureFernetKeys (fernet_env (1700000000 * second + day)
      (updated_secret base_env (1700000000 * second) (ex_fernet []) (keys_from 0 [''a'', ''b'', ''c'']))))
      (start (ex_keys_api 3))) = Done None"
proof -
  have now: "1700000000 * second div second = 1700000000" by (simp add: second_def)
  have env: "updated_secret (fernet_env t sec) = updated_secret base_env" for t sec
    by (simp add: fun_eq_iff updated_secret_def fernetAnnotation_def fernet_env_def)
  have "civil_from_days (1700000000 div 86400) = (2023, 11, 14)" by code_simp
  then show ?thesis
    using fernet_idle_after_update [of "fernet_env (1700000000 * second + day)
        (updated_secret base_env (1700000000 * second) (ex_fernet []) (keys_from 0 [''a'', ''b'', ''c'']))"
        "start (ex_keys_api 3)", OF _ repo_keys_from, where now = "1700000000 * second" and sec = "ex_fernet []"]
    by (simp add: env now AddDays_def day_def)
qed

section \<open>A rotation while the number of keys changes\<close>

text \<open>
  C34: when a rotation is due in the run that first sees a raised number of keys, the staged key
  is copied behind a gap and the removal loop never ends: the reconcile does not return.
\<close>

theorem fernet_grow_and_rotate_diverges:
  assumes "rGetSecret E (log s @ fernet_start (inst s)) = Inr sec" "rotation_due E s sec"
    and "sec_data sec = Some d" "repo d ks" "numberKeys (inst s) = int n" "2 \<le> length ks" "length ks < n"
    and "rRandRead E (log s @ fernet_start (inst s) @ [RandRead 32]) = Inr bs"
  shows "fst (run_state (ensureFernetKeys E) s) = Diverge"
proof -
  let ?d = "staged_data (int n) (b64_encode bs) d"
  have "has_key ?d (fkey (int n))" "\<not> has_key ?d (fkey (int (length ks)))"
    using repo_has_key [OF assms(4), of "int (length ks)"] assms(6,7) by (auto simp: staged_data_def has_key_def)
  then have "gap_below (int n) ?d"
    unfolding gap_below_def using assms(6,7) by (intro conjI exI [of _ "int (length ks)"]) auto
  then show ?thesis
    by (simp add: run_due [OF assms(1-3,8)] resize_and_update_def assms(5) remove_extra_diverges)
qed

lemma fernet_grow_and_rotate_diverges_witness:
  "fst (run_state (ensureFernetKeys (fernet_env (2 * day) (ex_fernet [''a'', ''b'', ''c''])))
      (start (ex_keys_api 5))) = Diverge"
  by (rule fernet_grow_and_rotate_diverges [OF _ _ ex_fernet_repo, where n = 5])
    (auto simp: day_def second_def)

text \<open>
  C35: when a rotation is due in the run that first sees the number of keys lowered by one, the
  copy of the staged key overwrites the primary key: it is not in the repository any more,
  and the tokens encrypted with it become invalid at once.
\<close>

theorem fernet_shrink_and_rotate_loses_primary:
  assumes "rGetSecret E (log s @ fernet_start (inst s)) = Inr sec" "rotation_due E s sec"
    and "sec_data sec = Some d" "repo d ks" "numberKeys (inst s) = int n" "3 \<le> n" "length ks = n + 1"
    and "rRandRead E (log s @ fernet_start (inst s) @ [RandRead 32]) = Inr bs"
    and "distinct ks" "b64_encode bs \<notin> set ks"
  shows "\<exists>d' ks'. run_state (ensureFernetKeys E) s =
      (let h = log s @ fernet_start (inst s) @ [RandRead 32, KUpdateSecret (updated_secret E (fernet_now E s) sec d')]
       in (Done (rErr E h), s\<lparr>log := h\<rparr>))
    \<and> repo d' ks' \<and> last ks \<notin> set ks'"
proof -
  obtain k0 k1 us p where ks: "ks = k0 # k1 # us @ [p]"
    using assms(6,7) by (cases ks; cases "tl ks"; cases "tl (tl ks)" rule: rev_cases) auto
  have n: "n = Suc (Suc (length us))" using assms(7) by (simp add: ks)
  let ?k = "b64_encode bs"
  have repo: "repo (staged_data (int n) ?k d) (?k # k1 # us @ [k0])"
    using repo_staged_data(2) [OF assms(4), of n ?k] by (simp add: ks n list_update_append)
  have two: "2 \<le> n" and lt: "n < length (?k # k1 # us @ [k0]) \<or> n \<le> length (?k # k1 # us @ [k0])"
    by (simp_all add: n)
  from resize_shrink [OF repo assms(5) two, of False E "fernet_now E s" sec
      "s\<lparr>log := log s @ fernet_start (inst s) @ [RandRead 32]\<rparr>"] n
  obtain d' where "run_state (ensureFernetKeys E) s =
      (let h = log s @ fernet_start (inst s) @ [RandRead 32, KUpdateSecret (updated_secret E (fernet_now E s) sec d')]
       in (Done (rErr E h), s\<lparr>log := h\<rparr>))" "repo d' (shrink n (?k # k1 # us @ [k0]))"
    by (auto simp: run_due [OF assms(1-3,8)] assms(5) Let_def)
  moreover have "p \<notin> set (shrink n (?k # k1 # us @ [k0]))"
    using assms(9,10) by (auto simp: shrink_def ks n dest: in_set_dropD)
  ultimately show ?thesis by (intro exI [of _ d'] exI [of _ "shrink n (?k # k1 # us @ [k0])"]) (simp add: ks)
qed

lemma fernet_shrink_and_rotate_loses_primary_witness:
  "\<exists>d' ks'. fst (run_state (ensureFernetKeys (fernet_env (2 * day) (ex_fernet [''a'', ''b'', ''c'', ''d''])))
      (start (ex_keys_api 3))) = Done None \<and> repo d' ks' \<and> ''d'' \<notin> set ks'"
proof -
  have "\<forall>k \<in> set [''a'', ''b'', ''c'', ''d'']. length k \<noteq> length (b64_encode (replicate 32 0))"
    by (simp add: length_b64_encode)
  then have k: "b64_encode (replicate 32 0) \<notin> set [''a'', ''b'', ''c'', ''d'']" by metis
  have due: "rotation_due (fernet_env (2 * day) (ex_fernet ks)) (start (ex_keys_api 3)) (ex_fernet ks)" for ks
    by (simp add: day_def second_def)
  have "\<exists>d' ks'. run_state (ensureFernetKeys (fernet_env (2 * day) (ex_fernet [''a'', ''b'', ''c'', ''d''])))
      (start (ex_keys_api 3)) = (let h = log (start (ex_keys_api 3)) @ fernet_start (inst (start (ex_keys_api 3))) @
        [RandRead 32, KUpdateSecret (updated_secret (fernet_env (2 * day) (ex_fernet [''a'', ''b'', ''c'', ''d'']))
          (fernet_now (fernet_env (2 * day) (ex_fernet [''a'', ''b'', ''c'', ''d''])) (start (ex_keys_api 3)))
          (ex_fernet [''a'', ''b'', ''c'', ''d'']) d')]
      in (Done (rErr (fernet_env (2 * day) (ex_fernet [''a'', ''b'', ''c'', ''d''])) h), (start (ex_keys_api 3))\<lparr>log := h\<rparr>))
    \<and> repo d' ks' \<and> last [''a'', ''b'', ''c'', ''d''] \<notin> set ks'"
    by (rule fernet_shrink_and_rotate_loses_primary [OF _ due ex_fernet_repo, where n = 3, OF _ _ _ _ _ _ k]) simp_all
  then show ?thesis by (auto simp: Let_def)
qed

section \<open>Creation\<close>

definition random_ok :: "env \<Rightarrow> bool" where
  "random_ok E \<longleftrightarrow> (\<forall>h. \<exists>bs. rRandRead E h = Inr bs)"

lemma run_generate_keys:
  assumes "random_ok E"
  shows "\<exists>d' gs. run_state (generate_keys E n i d) s = (Inr d', s\<lparr>log := log s @ replicate n (RandRead 32)\<rparr>)
    \<and> length gs = n \<and> others d' = others d
    \<and> (\<forall>j. map_of d' (fkey j) = (if i \<le> j \<and> j < i + int n then Some (gs ! nat (j - i)) else map_of d (fkey j)))"
proof (induction n arbitrary: i d s)
  case 0
  show ?case by (auto intro: exI [of _ "[]"])
next
  case (Suc n)
  obtain bs where bs: "rRandRead E (log s @ [RandRead 32]) = Inr bs" using assms unfolding random_ok_def by blast
  let ?k = "b64_encode bs" and ?s = "s\<lparr>log := log s @ [RandRead 32]\<rparr>"
  obtain d' gs where IH: "run_state (generate_keys E n (i + 1) (AList.update (fkey i) ?k d)) ?s =
      (Inr d', ?s\<lparr>log := log ?s @ replicate n (RandRead 32)\<rparr>)" "length gs = n" "others d' = others d"
    and at: "\<forall>j. map_of d' (fkey j) = (if i + 1 \<le> j \<and> j < i + 1 + int n then Some (gs ! nat (j - (i + 1)))
      else map_of (AList.update (fkey i) ?k d) (fkey j))"
    using Suc.IH [of "i + 1" "AList.update (fkey i) ?k d" ?s] by auto
  have "map_of d' (fkey j) = (if i \<le> j \<and> j < i + int (Suc n) then Some ((?k # gs) ! nat (j - i))
      else map_of d (fkey j))" for j
  proof (cases "i < j")
    case True
    then have "nat (j - i) = Suc (nat (j - (i + 1)))" by simp
    with True show ?thesis by (simp add: at)
  next
    case False
    then show ?thesis by (auto simp: at)
  qed
  with IH bs show ?case
    by (intro exI [of _ d'] exI [of _ "?k # gs"]) (simp add: run_GenerateFernetKey)
qed

text \<open>
  Without a secret, the run generates two credential keys and the configured number of
  fernet keys and asks for one secret that holds exactly them, annotated with the current time.
\<close>

lemma fernet_creation:
  assumes "rGetSecret E (log s @ fernet_start (inst s)) = Inl e" "IsNotFound e"
    and "random_ok E" "numberKeys (inst s) = int n"
  shows "\<exists>d ks. run_state (ensureFernetKeys E) s =
      (let h = log s @ fernet_start (inst s) @ replicate (n + 2) (RandRead 32) @
         [EnsureSecrets \<lparr>tpl_Name = ServiceName, tpl_Namespace = om_namespace (api_meta (inst s)),
           tpl_CustomData = d,
           tpl_Annotations = [(fernetAnnotation E, FormatRFC3339 (fernet_now E s))]\<rparr>]
       in (Done (rErr E h), s\<lparr>log := h\<rparr>))
    \<and> repo d ks \<and> length ks = n \<and> has_key d ''CredentialKeys0'' \<and> has_key d ''CredentialKeys1''"
proof -
  let ?h = "log s @ fernet_start (inst s)"
  obtain b0 where b0: "rRandRead E (?h @ [RandRead 32]) = Inr b0" using assms(3) unfolding random_ok_def by blast
  obtain b1 where b1: "rRandRead E (?h @ [RandRead 32, RandRead 32]) = Inr b1"
    using assms(3) unfolding random_ok_def by blast
  let ?d = "[(''CredentialKeys0'', b64_encode b0), (''CredentialKeys1'', b64_encode b1)]"
  let ?s = "s\<lparr>log := ?h @ [RandRead 32, RandRead 32]\<rparr>"
  obtain d ks where gen: "run_state (generate_keys E n 0 ?d) ?s =
      (Inr d, ?s\<lparr>log := log ?s @ replicate n (RandRead 32)\<rparr>)" "length ks = n" "others d = others ?d"
    and at: "\<forall>j. map_of d (fkey j) = (if 0 \<le> j \<and> j < 0 + int n then Some (ks ! nat (j - 0)) else map_of ?d (fkey j))"
    using run_generate_keys [OF assms(3), of n 0 ?d ?s] by blast
  have "map_of ?d (fkey j) = None" for j by (simp add: fkey_def)
  then have "repo d ks" using at gen(2) by (simp add: repo_def)
  moreover have "others d ''CredentialKeys0'' \<noteq> None" "others d ''CredentialKeys1'' \<noteq> None"
    unfolding gen(3) by (simp_all add: others_def HasPrefix_def)
  then have "has_key d ''CredentialKeys0''" "has_key d ''CredentialKeys1''"
    by (simp_all add: others_def has_key_def HasPrefix_def)
  moreover have "run_state (ensureFernetKeys E) s =
      run_state (create_fernet_secret E (inst s) (fernet_now E s)) (s\<lparr>log := ?h\<rparr>)"
    using assms(1,2) by (simp add: ensureFernetKeys_def fernet_start_def fernet_now_def)
  moreover have "replicate (n + 2) c = c # c # replicate n c" for c :: call by simp
  ultimately show ?thesis
    using gen(1,2) b0 b1
    by (intro exI [of _ d] exI [of _ ks]) (simp add: create_fernet_secret_def run_GenerateFernetKey assms(4) Let_def)
qed

lemma done_in_log:
  assumes "\<exists>d ks. r = (let h = f d in (Done (g h), t\<lparr>log := h\<rparr>)) \<and> Q d ks" "\<And>h. g h = None"
  shows "\<exists>d ks. fst r = Done None \<and> Q d ks"
  using assms by (auto simp: Let_def)

lemma fernet_creation_witness:
  "\<exists>d ks. fst (run_state (ensureFernetKeys base_env) (start (ex_keys_api 3))) = Done None
    \<and> repo d (ks :: string list) \<and> length ks = 3 \<and> has_key d ''CredentialKeys0''"
proof -
  have env: "random_ok base_env" "IsNotFound not_found" "rErr base_env h = None" for h
    by (simp_all add: random_ok_def base_env_def not_found_def IsNotFound_def)
  have "rGetSecret base_env (log (start (ex_keys_api 3)) @ fernet_start (inst (start (ex_keys_api 3)))) = Inl not_found"
    "numberKeys (inst (start (ex_keys_api 3))) = int 3"
    by (simp_all add: base_env_def)
  from done_in_log [OF fernet_creation [OF this(1) env(2,1) this(2)] env(3)] show ?thesis by blast
qed

section \<open>Successive rotations\<close>

text \<open>The data after rotations that generate the given keys, each a staging and a removal pass.\<close>

fun rotations :: "int \<Rightarrow> string list \<Rightarrow> string gomap \<Rightarrow> string gomap option" where
  "rotations n [] d = Some d"
| "rotations n (k # ks) d = Option.bind (remove_extra (fkey n) (staged_data n k d) False) (\<lambda>(d', _). rotations n ks d')"

lemma rotations_step:
  assumes "repo d ks" "2 \<le> length ks"
  shows "\<exists>d'. remove_extra (fkey (int (length ks))) (staged_data (int (length ks)) k d) False = Some (d', True)
    \<and> repo d' (k # drop 2 ks @ [hd ks])"
proof -
  have "repo (staged_data (int (length ks)) k d) (k # tl ks @ [hd ks])"
    using assms by (intro repo_staged_data(1)) auto
  from remove_extra_spec [OF this assms(2), of False]
  have "\<exists>d'. remove_extra (fkey (int (length ks))) (staged_data (int (length ks)) k d) False = Some (d', True)
      \<and> repo d' (shrink (length ks) (k # tl ks @ [hd ks]))" using assms(2) by auto
  moreover have "shrink (length ks) (k # tl ks @ [hd ks]) = k # drop 2 ks @ [hd ks]"
    using assms(2) by (cases ks; cases "tl ks") (auto simp: shrink_def)
  ultimately show ?thesis by simp
qed

lemma rotations_spec:
  assumes "repo d ks" "n = length ks" "2 \<le> n"
  shows "\<exists>d' ks'. rotations (int n) gs d = Some d' \<and> repo d' ks' \<and> length ks' = n
    \<and> (\<forall>i < n. Suc (length gs) \<le> i \<longrightarrow> ks' ! (i - length gs) = ks ! i)"
  using assms
proof (induction gs arbitrary: d ks)
  case Nil
  then show ?case by auto
next
  case (Cons g gs)
  let ?ks = "g # drop 2 ks @ [hd ks]"
  obtain d1 where d1: "remove_extra (fkey (int n)) (staged_data (int n) g d) False = Some (d1, True)" "repo d1 ?ks"
    using rotations_step [OF Cons.prems(1)] Cons.prems(2,3) by auto
  have len: "n = length ?ks" using Cons.prems(2,3) by simp
  from Cons.IH [OF d1(2) len Cons.prems(3)] obtain d' ks' where
    IH: "rotations (int n) gs d1 = Some d'" "repo d' ks'" "length ks' = n"
      "\<forall>i < n. Suc (length gs) \<le> i \<longrightarrow> ks' ! (i - length gs) = ?ks ! i" by blast
  have "ks' ! (i - length (g # gs)) = ks ! i" if i: "i < n" "Suc (length (g # gs)) \<le> i" for i
  proof -
    obtain j where j: "i = Suc (Suc j)" "Suc (length gs) \<le> Suc j" using i(2) by (cases i; cases "i - 1") auto
    have "ks' ! (Suc j - length gs) = ?ks ! Suc j" using IH(4) i(1) j by simp
    moreover have "j < length ks - 2" using i(1) j Cons.prems(2) by linarith
    ultimately have "ks' ! (Suc j - length gs) = ks ! i" using j Cons.prems(2) by (simp add: nth_append)
    then show ?thesis by (simp add: j)
  qed
  with IH d1(1) show ?case by auto
qed

text \<open>
  C33: with \<open>n\<close> active keys, a primary key stays in the repository through the next \<open>n - 2\<close>
  rotations, so what was encrypted with it can be decrypted until then; every rotation returns.
\<close>

theorem fernet_primary_survives:
  assumes "repo d ks" "length ks = n" "2 \<le> n" "length gs \<le> n - 2"
  shows "\<exists>d' ks'. rotations (int n) gs d = Some d' \<and> repo d' ks' \<and> length ks' = n \<and> last ks \<in> set ks'"
proof -
  obtain d' ks' where spec: "rotations (int n) gs d = Some d'" "repo d' ks'" "length ks' = n"
      "\<forall>i < n. Suc (length gs) \<le> i \<longrightarrow> ks' ! (i - length gs) = ks ! i"
    using rotations_spec [OF assms(1) assms(2) [symmetric] assms(3)] by blast
  have "n - 1 < n" "Suc (length gs) \<le> n - 1" using assms(3,4) by simp_all
  then have "ks' ! (n - 1 - length gs) = ks ! (n - 1)" using spec(4) by blast
  moreover have "last ks = ks ! (n - 1)" using assms(2,3) last_conv_nth [of ks] by (cases ks) auto
  moreover have "n - 1 - length gs < length ks'" using spec(3) assms(3) by simp
  ultimately show ?thesis using spec(1-3) by (metis nth_mem)
qed

lemma fernet_primary_survives_witness:
  "\<exists>d' ks'. rotations (int 4) [''x'', ''y''] (keys_from 0 [''a'', ''b'', ''c'', ''d'']) = Some d'
    \<and> repo d' ks' \<and> length ks' = 4 \<and> last [''a'', ''b'', ''c'', ''d''] \<in> set ks'"
  by (rule fernet_primary_survives [OF repo_keys_from]) simp_all

section \<open>A secret without data\<close>

text \<open>
  A secret with no data makes the run panic: a due rotation writes to the nil map, and
  otherwise the first added key does.
\<close>

lemma fernet_nil_data_panics:
  assumes "rGetSecret E (log s @ fernet_start (inst s)) = Inr sec" "sec_data sec = None" "random_ok E"
  shows "fst (run_state (ensureFernetKeys E) s) = Panic"
proof -
  have "fst (run_state (resize_and_update E i now sec ch None) t) = Panic" for i now ch and t :: "KeystoneAPI st"
  proof -
    obtain bs where "rRandRead E (log t @ [RandRead 32]) = Inr bs" using assms(3) unfolding random_ok_def by blast
    then show ?thesis by (simp add: resize_and_update_def run_GenerateFernetKey)
  qed
  then show ?thesis
    by (simp add: run_ensureFernetKeys [OF assms(1)] rotate_fernet_secret_def assms(2) split: option.split)
qed

lemma fernet_nil_data_panics_witness:
  "fst (run_state (ensureFernetKeys (fernet_env day ((ex_fernet [])\<lparr>sec_data := None\<rparr>))) (start (ex_keys_api 3))) = Panic"
  by (rule fernet_nil_data_panics [where sec = "(ex_fernet [])\<lparr>sec_data := None\<rparr>"]) (simp_all add: random_ok_def)

end
