(* ===== verification/LogRules.thy ===== *)
theory LogRules
  imports Example
begin

text \<open>
  Reasoning about which external calls a handler makes, and in which order. \<open>hoare P m Q\<close>
  is a Hoare triple: from a state with \<open>P\<close>, every run of \<open>m\<close> ends with its answer and
  state in \<open>Q\<close>. \<open>inv J m\<close> is the triple of an invariant; its rules follow the constructors
  of the handlers, so that what a handler does to an invariant of the log is proved by
  \<open>intro inv_intros\<close> and one obligation for each call and each change of the object.
\<close>

named_theorems inv_intros \<open>structural rules for invariants of a handler\<close>

definition hoare :: "('i st \<Rightarrow> bool) \<Rightarrow> ('i st, 'a) state \<Rightarrow> ('a \<Rightarrow> 'i st \<Rightarrow> bool) \<Rightarrow> bool" where
  "hoare P m Q \<longleftrightarrow> (\<forall>s. P s \<longrightarrow> wp m Q s)"

abbreviation inv :: "('i st \<Rightarrow> bool) \<Rightarrow> ('i st, 'a) state \<Rightarrow> bool" where
  "inv J m \<equiv> hoare J m (\<lambda>_. J)"

abbreviation keeps :: "(history \<Rightarrow> bool) \<Rightarrow> ('i st, 'a) state \<Rightarrow> bool" where
  "keeps I m \<equiv> inv (\<lambda>s. I (log s)) m"

lemma hoareI: "(\<And>s. P s \<Longrightarrow> wp m Q s) \<Longrightarrow> hoare P m Q"
  by (simp add: hoare_def)

lemma hoareD: "hoare P m Q \<Longrightarrow> run_state m s = (a, t) \<Longrightarrow> P s \<Longrightarrow> Q a t"
  unfolding hoare_def by (blast intro: wp_run)

lemma hoare_wp: "hoare P m Q \<Longrightarrow> P s \<Longrightarrow> wp m Q s"
  by (simp add: hoare_def)

lemma hoare_ret: "(\<And>s. P s \<Longrightarrow> Q a s) \<Longrightarrow> hoare P (ret a) Q"
  by (simp add: hoare_def wp_simps)

lemma hoare_bind: "hoare P m R \<Longrightarrow> (\<And>a. hoare (R a) (f a) Q) \<Longrightarrow> hoare P (State_Monad.bind m f) Q"
  unfolding hoare_def wp_bind by (blast intro: wp_mono)

lemma hoare_perform:
  "(\<And>s. P s \<Longrightarrow> Q (r (log s @ [c])) (s\<lparr>log := log s @ [c]\<rparr>)) \<Longrightarrow> hoare P (perform c r) Q"
  by (simp add: hoare_def wp_simps)

lemma hoare_get_inst: "hoare P get_inst (\<lambda>a s. P s \<and> a = inst s)"
  by (simp add: hoare_def wp_simps)

lemma hoare_weaken:
  "hoare P m Q \<Longrightarrow> (\<And>s. P' s \<Longrightarrow> P s) \<Longrightarrow> (\<And>a s. Q a s \<Longrightarrow> Q' a s) \<Longrightarrow> hoare P' m Q'"
  unfolding hoare_def by (blast intro: wp_mono)

lemma hoare_conj: "hoare P m Q \<Longrightarrow> hoare P' m Q' \<Longrightarrow> hoare (\<lambda>s. P s \<and> P' s) m (\<lambda>a s. Q a s \<and> Q' a s)"
  by (simp add: hoare_def wp_conj)

text \<open>Bind after reading the object: its value is fixed, and what is known of it is a fact.\<close>

lemma hoare_get_inst_bind:
  assumes "\<And>i. K i \<Longrightarrow> hoare (\<lambda>s. P s \<and> inst s = i) (f i) Q" "\<And>s. P s \<Longrightarrow> K (inst s)"
  shows "hoare P (State_Monad.bind get_inst f) Q"
  using assms by (simp add: hoare_def wp_simps)

lemma hoare_option:
  "(x = None \<Longrightarrow> hoare P m Q) \<Longrightarrow> (\<And>a. x = Some a \<Longrightarrow> hoare P (f a) Q) \<Longrightarrow>
    hoare P (case x of None \<Rightarrow> m | Some a \<Rightarrow> f a) Q"
  by (simp split: option.split)

lemma hoare_sum:
  "(\<And>a. x = Inl a \<Longrightarrow> hoare P (f a) Q) \<Longrightarrow> (\<And>b. x = Inr b \<Longrightarrow> hoare P (g b) Q) \<Longrightarrow>
    hoare P (case x of Inl a \<Rightarrow> f a | Inr b \<Rightarrow> g b) Q"
  by (simp split: sum.split)

lemma hoare_if: "(b \<Longrightarrow> hoare P m Q) \<Longrightarrow> (\<not> b \<Longrightarrow> hoare P n Q) \<Longrightarrow> hoare P (if b then m else n) Q"
  by simp

text \<open>An invariant stronger than the postcondition is enough.\<close>

lemma hoare_inv: "inv J m \<Longrightarrow> (\<And>s. P s \<Longrightarrow> J s) \<Longrightarrow> (\<And>s. J s \<Longrightarrow> Q s) \<Longrightarrow> hoare P m (\<lambda>_. Q)"
  by (rule hoare_weaken)

lemma inv_ret [inv_intros]: "inv J (ret a)"
  by (rule hoare_ret)

lemma inv_bind [inv_intros]: "inv J m \<Longrightarrow> (\<And>a. inv J (f a)) \<Longrightarrow> inv J (State_Monad.bind m f)"
  by (rule hoare_bind)

lemma inv_perform [inv_intros]: "(\<And>s. J s \<Longrightarrow> J (s\<lparr>log := log s @ [c]\<rparr>)) \<Longrightarrow> inv J (perform c r)"
  by (rule hoare_perform)

lemma inv_upd_inst [inv_intros]: "(\<And>s. J s \<Longrightarrow> J (s\<lparr>inst := f (inst s)\<rparr>)) \<Longrightarrow> inv J (upd_inst f)"
  by (simp add: hoare_def wp_simps)

lemma inv_get_inst [inv_intros]: "inv J get_inst"
  by (simp add: hoare_def wp_simps)

lemma inv_if [inv_intros]: "(b \<Longrightarrow> inv J m) \<Longrightarrow> (\<not> b \<Longrightarrow> inv J n) \<Longrightarrow> inv J (if b then m else n)"
  by simp

lemma inv_option [inv_intros]:
  "inv J m \<Longrightarrow> (\<And>a. inv J (f a)) \<Longrightarrow> inv J (case x of None \<Rightarrow> m | Some a \<Rightarrow> f a)"
  by (simp split: option.split)

lemma inv_sum [inv_intros]:
  "(\<And>a. inv J (f a)) \<Longrightarrow> (\<And>b. inv J (g b)) \<Longrightarrow> inv J (case x of Inl a \<Rightarrow> f a | Inr b \<Rightarrow> g b)"
  by (simp split: sum.split)

lemma inv_prod [inv_intros]: "(\<And>a b. inv J (f a b)) \<Longrightarrow> inv J (case x of (a, b) \<Rightarrow> f a b)"
  by (simp split: prod.split)

lemma inv_list [inv_intros]:
  "inv J m \<Longrightarrow> (\<And>a as. inv J (f a as)) \<Longrightarrow> inv J (case x of [] \<Rightarrow> m | a # as \<Rightarrow> f a as)"
  by (simp split: list.split)

lemma inv_let [inv_intros]: "(\<And>a. inv J (f a)) \<Longrightarrow> inv J (let a = x in f a)"
  by simp

text \<open>Every handler only appends to the log.\<close>

definition appends :: "('i st, 'a) state \<Rightarrow> bool" where
  "appends m \<longleftrightarrow> (\<forall>h. keeps (prefix h) m)"

lemma appendsD: "appends m \<Longrightarrow> run_state m s = (a, t) \<Longrightarrow> \<exists>l. log t = log s @ l"
  unfolding appends_def by (auto dest!: spec [of _ "log s"] hoareD simp: prefix_def)

text \<open>
  A guarded log: before every call of a class \<open>C\<close>, the guard holds of what was logged.
\<close>

definition guarded :: "(call \<Rightarrow> bool) \<Rightarrow> (history \<Rightarrow> bool) \<Rightarrow> history \<Rightarrow> bool" where
  "guarded C G l \<longleftrightarrow> (\<forall>pre c post. l = pre @ c # post \<longrightarrow> C c \<longrightarrow> G pre)"

lemma guarded_Nil [simp]: "guarded C G []"
  by (simp add: guarded_def)

lemma guarded_snoc [simp]: "guarded C G (l @ [c]) \<longleftrightarrow> guarded C G l \<and> (C c \<longrightarrow> G l)"
proof
  assume L: "guarded C G (l @ [c])"
  show "guarded C G l \<and> (C c \<longrightarrow> G l)"
    using L unfolding guarded_def by (metis append.assoc append_Cons append_Nil2 append_is_Nil_conv)
next
  assume R: "guarded C G l \<and> (C c \<longrightarrow> G l)"
  show "guarded C G (l @ [c])"
    unfolding guarded_def
  proof (intro allI impI)
    fix pre d post assume eq: "l @ [c] = pre @ d # post" and d: "C d"
    show "G pre"
    proof (cases post rule: rev_cases)
      case Nil
      then show ?thesis using eq d R by simp
    next
      case (snoc p x)
      then show ?thesis using eq d R unfolding guarded_def by (metis append.assoc append_Cons append1_eq_conv)
    qed
  qed
qed

lemma guardedD: "guarded C G l \<Longrightarrow> l = pre @ c # post \<Longrightarrow> C c \<Longrightarrow> G pre"
  by (simp add: guarded_def)

text \<open>A handler that makes no call of a class keeps every invariant that only restricts that class.\<close>

definition never :: "(call \<Rightarrow> bool) \<Rightarrow> history \<Rightarrow> bool" where
  "never C l \<longleftrightarrow> list_all (\<lambda>c. \<not> C c) l"

lemma never_simps [simp]: "never C []" "never C (l @ l') \<longleftrightarrow> never C l \<and> never C l'"
    "never C (c # l) \<longleftrightarrow> \<not> C c \<and> never C l"
  by (simp_all add: never_def)

lemma inv_deferred [inv_intros]:
  assumes "\<And>s i. J s \<Longrightarrow> J (s\<lparr>log := log s @ [patch i]\<rparr>)" "\<And>s. J s \<Longrightarrow> J (s\<lparr>inst := upd post (inst s)\<rparr>)"
  shows "inv J (deferred E upd patch post out)"
  unfolding deferred_def by (intro inv_intros assms)

end
