(* ===== verification/ApiHelpers.thy ===== *)
theory ApiHelpers
  imports LogRules "HOL-Library.Multiset"
begin

text \<open>
  The functions of \<open>api/v1beta1\<close> that the controllers and the other operators call:
  looking up the \<open>KeystoneAPI\<close>, building authenticated clients, listing endpoint URLs, naming
  application credentials and moving consumer finalizers between their secrets.

  A Go function that returns \<open>(client, Result, error)\<close> returns \<open>Inr\<close> of the client, or
  \<open>Inl\<close> of the result and the error when the client is nil.
\<close>

section \<open>KeystoneAPI\<close>

definition GetEndpoint :: "KeystoneAPI \<Rightarrow> string \<Rightarrow> error + string" where
  "GetEndpoint i t =
     (case map_of (case apis_APIEndpoints (api_status i) of None \<Rightarrow> [] | Some m \<Rightarrow> m) t of
        Some url \<Rightarrow> Inr url
      | None \<Rightarrow> Inl (new_err (t @ '' endpoint not found'')))"

definition IsReady :: "env \<Rightarrow> KeystoneAPI \<Rightarrow> bool" where
  "IsReady E i = condIsTrue E ReadyCondition (api_conds i)"

definition RbacResourceName :: "KeystoneAPI \<Rightarrow> string" where
  "RbacResourceName i = ''keystone-'' @ om_name (api_meta i)"

definition GetRegion :: "KeystoneAPI \<Rightarrow> string" where
  "GetRegion i = apis_Region (api_status i)"

definition GetKeystoneAPI :: "env \<Rightarrow> string \<Rightarrow> string gomap \<Rightarrow> ('i st, error + KeystoneAPI) state" where
  "GetKeystoneAPI E namespace labelSelector = do {
     r \<leftarrow> perform (KList KindAPI namespace labelSelector) (rListAPIs E);
     ret (case r of
       Inl err \<Rightarrow> Inl err
     | Inr [] \<Rightarrow> Inl \<lparr>err_kind = NotFound, err_msg = ''No KeystoneAPI object found in namespace '' @ namespace\<rparr>
     | Inr [a] \<Rightarrow> Inr a
     | Inr _ \<Rightarrow> Inl (new_err (''more then one KeystoneAPI object found in namespace '' @ namespace)))
   }"

definition GetKeystoneAPIByName :: "env \<Rightarrow> string \<Rightarrow> string \<Rightarrow> ('i st, error + KeystoneAPI) state" where
  "GetKeystoneAPIByName E name namespace = perform (KGet KindAPI namespace name) (rGetAPI E)"

text \<open>The predicate on update events: whether the endpoints of the status changed.\<close>

definition KeystoneAPIStatusChangedPredicate :: "KeystoneAPI option \<Rightarrow> KeystoneAPI option \<Rightarrow> bool" where
  "KeystoneAPIStatusChangedPredicate old new =
     (case (old, new) of
        (Some a, Some b) \<Rightarrow>
          map_option map_of (apis_APIEndpoints (api_status a)) \<noteq> map_option map_of (apis_APIEndpoints (api_status b))
      | _ \<Rightarrow> False)"

section \<open>Service clients\<close>

type_synonym client_result = "outcome + os_client"

definition password_not_found :: "string \<Rightarrow> error" where
  "password_not_found user = new_err (''password for user '' @ user @ '' not found'')"

definition GetScopedClient ::
  "env \<Rightarrow> KeystoneAPI \<Rightarrow> string \<Rightarrow> string \<Rightarrow> string \<Rightarrow> string \<Rightarrow> string \<Rightarrow> string \<Rightarrow> auth_scope
     \<Rightarrow> ('i st, client_result) state" where
  "GetScopedClient E i username password tenantName domainName region0 endpointType scope =
     (let region = (if region0 = '''' then api_Region (api_spec i) else region0)
      in case GetEndpoint i endpointType of
           Inl err \<Rightarrow> ret (Inl (fail err))
         | Inr authURL \<Rightarrow>
             (case urlScheme E authURL of
                Inl err \<Rightarrow> ret (Inl (fail err))
              | Inr scheme \<Rightarrow> do {
                  tls \<leftarrow>
                    (if scheme = ''https'' \<and> api_TLS_CaBundleSecretName (api_spec i) \<noteq> '''' then do {
                       (caCert, ctrlResult, err) \<leftarrow> perform (GetDataFromSecret
                          (api_TLS_CaBundleSecretName (api_spec i)) (10 * second) (CABundleKey E)) (rDataFromSecret E);
                       ret (case err of
                         Some e \<Rightarrow> Inl (ctrlResult, Some e)
                       | None \<Rightarrow>
                           if ctrlResult \<noteq> Result0
                           then Inl (ctrlResult, Some (new_err
                             (''CABundleSecret '' @ api_TLS_CaBundleSecretName (api_spec i) @ '' not found'')))
                           else Inr [caCert])
                     } else ret (Inr []));
                  case tls of
                    Inl r \<Rightarrow> ret (Inl r)
                  | Inr caCerts \<Rightarrow> do {
                      os \<leftarrow> perform (NewOpenStack \<lparr>ao_AuthURL = authURL, ao_Username = username,
                        ao_Password = password, ao_TenantName = tenantName, ao_DomainName = domainName,
                        ao_Region = region, ao_CACerts = caCerts, ao_Scope = scope\<rparr>) (rNewOpenStack E);
                      ret (case os of Inl err \<Rightarrow> Inl (fail err) | Inr c \<Rightarrow> Inr c)
                    }
                }))"

definition GetAdminServiceClient :: "env \<Rightarrow> KeystoneAPI \<Rightarrow> ('i st, client_result) state" where
  "GetAdminServiceClient E i = do {
     (authPassword, ctrlResult, err) \<leftarrow> perform (GetDataFromSecret (api_Secret (api_spec i)) (10 * second)
        (api_PasswordSelectors_Admin (api_spec i))) (rDataFromSecret E);
     case err of
       Some e \<Rightarrow> ret (Inl (fail e))
     | None \<Rightarrow>
         if ctrlResult \<noteq> Result0
         then ret (Inl (ctrlResult, Some (password_not_found (api_PasswordSelectors_Admin (api_spec i)))))
         else GetScopedClient E i (api_AdminUser (api_spec i)) authPassword (api_AdminProject (api_spec i))
           ''Default'' (api_Region (api_spec i)) ''internal''
           \<lparr>sc_System = True, sc_ProjectName = '''', sc_DomainName = ''''\<rparr>
   }"

text \<open>The password, or the result and error of a caller that cannot go on.\<close>

definition getPasswordFromOSPSecret :: "env \<Rightarrow> string \<Rightarrow> string \<Rightarrow> ('i st, outcome + string) state" where
  "getPasswordFromOSPSecret E ospSecretName passwordSelector = do {
     (data, res, err) \<leftarrow> perform (GetDataFromSecret ospSecretName (10 * second) passwordSelector) (rDataFromSecret E);
     ret (case err of
       Some e \<Rightarrow> Inl (fail e)
     | None \<Rightarrow> if res \<noteq> Result0 then Inl (res, None) else Inr data)
   }"

definition GetUserServiceClient ::
  "env \<Rightarrow> KeystoneAPI \<Rightarrow> string \<Rightarrow> string \<Rightarrow> string \<Rightarrow> ('i st, client_result) state" where
  "GetUserServiceClient E i userName secretName passwordSelector = do {
     r \<leftarrow> getPasswordFromOSPSecret E secretName passwordSelector;
     case r of
       Inl (res, Some e) \<Rightarrow>
         ret (Inl (fail (wrap_err (''failed to get password from osp-secret for user '' @ userName @ '': '') e)))
     | Inl (res, None) \<Rightarrow> ret (Inl (res, None))
     | Inr password \<Rightarrow>
         GetScopedClient E i userName password ''service'' ''Default'' (api_Region (api_spec i)) ''internal''
           \<lparr>sc_System = False, sc_ProjectName = ''service'', sc_DomainName = ''Default''\<rparr>
   }"

text \<open>The deprecated variant reads the CA bundle before the password, and whenever the scheme is https.\<close>

definition GetScopedAdminServiceClient :: "env \<Rightarrow> KeystoneAPI \<Rightarrow> auth_scope \<Rightarrow> ('i st, client_result) state" where
  "GetScopedAdminServiceClient E i scope =
     (case GetEndpoint i ''internal'' of
        Inl err \<Rightarrow> ret (Inl (fail err))
      | Inr authURL \<Rightarrow>
          (case urlScheme E authURL of
             Inl err \<Rightarrow> ret (Inl (fail err))
           | Inr scheme \<Rightarrow> do {
               tls \<leftarrow>
                 (if scheme = ''https'' then do {
                    (caCert, ctrlResult, err) \<leftarrow> perform (GetDataFromSecret
                       (api_TLS_CaBundleSecretName (api_spec i)) (10 * second) (CABundleKey E)) (rDataFromSecret E);
                    ret (case err of
                      Some e \<Rightarrow> Inl (fail e)
                    | None \<Rightarrow>
                        if ctrlResult \<noteq> Result0
                        then Inl (fail (new_err
                          (''the CABundleSecret '' @ api_TLS_CaBundleSecretName (api_spec i) @ '' not found'')))
                        else Inr [caCert])
                  } else ret (Inr []));
               case tls of
                 Inl r \<Rightarrow> ret (Inl r)
               | Inr caCerts \<Rightarrow> do {
                   (authPassword, ctrlResult, err) \<leftarrow> perform (GetDataFromSecret (api_Secret (api_spec i))
                     (10 * second) (api_PasswordSelectors_Admin (api_spec i))) (rDataFromSecret E);
                   case err of
                     Some e \<Rightarrow> ret (Inl (fail e))
                   | None \<Rightarrow>
                       if ctrlResult \<noteq> Result0
                       then ret (Inl (ctrlResult, Some (password_not_found (api_PasswordSelectors_Admin (api_spec i)))))
                       else do {
                         os \<leftarrow> perform (NewOpenStack \<lparr>ao_AuthURL = authURL, ao_Username = api_AdminUser (api_spec i),
                           ao_Password = authPassword, ao_TenantName = api_AdminProject (api_spec i),
                           ao_DomainName = ''Default'', ao_Region = api_Region (api_spec i),
                           ao_CACerts = caCerts, ao_Scope = scope\<rparr>) (rNewOpenStack E);
                         ret (case os of Inl err \<Rightarrow> Inl (fail err) | Inr c \<Rightarrow> Inr c)
                       }
                 }
             }))"

section \<open>Endpoint URLs\<close>

definition GetKeystoneEndpointWithName :: "env \<Rightarrow> string \<Rightarrow> string \<Rightarrow> ('i st, error + KeystoneEndpoint) state" where
  "GetKeystoneEndpointWithName E name namespace = perform (KGet KindEndpoint namespace name) (rGetEndpoint E)"

definition GetKeystoneServiceWithName :: "env \<Rightarrow> string \<Rightarrow> string \<Rightarrow> ('i st, error + KeystoneService) state" where
  "GetKeystoneServiceWithName E name namespace = perform (KGet KindService namespace name) (rGetService E)"

definition GetKeystoneEndpointList :: "env \<Rightarrow> string \<Rightarrow> ('i st, error + KeystoneEndpoint list) state" where
  "GetKeystoneEndpointList E namespace = do {
     r \<leftarrow> perform (KList KindEndpoint namespace []) (rListEndpoints E);
     ret (case r of
       Inl err \<Rightarrow> Inl (wrap_err (''error listing endpoints for namespace '' @ namespace @ '': '') err)
     | Inr ke \<Rightarrow> Inr ke)
   }"

definition getEndpointForVisibility :: "Endpoint list \<Rightarrow> string \<Rightarrow> Endpoint option" where
  "getEndpointForVisibility endpts visibility = find (\<lambda>e. e_Interface e = visibility) endpts"

definition filterVisibility :: "KeystoneEndpoint list \<Rightarrow> string option \<Rightarrow> string list" where
  "filterVisibility keystoneEndpoints visibility =
     sort (case visibility of
       Some v \<Rightarrow> concat (map (\<lambda>ke.
         (case getEndpointForVisibility (eps_Endpoints (ep_status ke)) v of Some e \<Rightarrow> [e_URL e] | None \<Rightarrow> []))
         keystoneEndpoints)
     | None \<Rightarrow> concat (map (\<lambda>ke. map e_URL (eps_Endpoints (ep_status ke))) keystoneEndpoints))"

definition label_of :: "KeystoneEndpoint \<Rightarrow> string \<Rightarrow> string option" where
  "label_of ke k = (case om_labels (ep_meta ke) of None \<Rightarrow> None | Some m \<Rightarrow> map_of m k)"

definition filterServices :: "env \<Rightarrow> KeystoneEndpoint list \<Rightarrow> string list \<Rightarrow> KeystoneEndpoint list" where
  "filterServices E allKeystoneEndpoints servicesToKeep =
     filter (\<lambda>ke. case label_of ke (AppSelector E) of Some svc \<Rightarrow> svc \<in> set servicesToKeep | None \<Rightarrow> False)
       allKeystoneEndpoints"

definition GetKeystoneEndpointUrls :: "env \<Rightarrow> string \<Rightarrow> string option \<Rightarrow> ('i st, error + string list) state" where
  "GetKeystoneEndpointUrls E namespace visibility = do {
     r \<leftarrow> GetKeystoneEndpointList E namespace;
     ret (case r of Inl err \<Rightarrow> Inl err | Inr ke \<Rightarrow> Inr (filterVisibility ke visibility))
   }"

definition GetKeystoneEndpointUrlsForServices ::
  "env \<Rightarrow> string \<Rightarrow> string option \<Rightarrow> string list \<Rightarrow> ('i st, error + string list) state" where
  "GetKeystoneEndpointUrlsForServices E namespace visibility servicesToKeep = do {
     r \<leftarrow> GetKeystoneEndpointList E namespace;
     ret (case r of
       Inl err \<Rightarrow> Inl err
     | Inr ke \<Rightarrow> Inr (filterVisibility
         (if servicesToKeep \<noteq> [] then filterServices E ke servicesToKeep else ke) visibility))
   }"

definition GetHashforKeystoneEndpointUrlsForServices ::
  "env \<Rightarrow> string \<Rightarrow> string option \<Rightarrow> string list \<Rightarrow> ('i st, error + string) state" where
  "GetHashforKeystoneEndpointUrlsForServices E namespace visibility servicesToKeep = do {
     r \<leftarrow> GetKeystoneEndpointUrlsForServices E namespace visibility servicesToKeep;
     ret (case r of
       Inl err \<Rightarrow> Inl err
     | Inr endpointUrls \<Rightarrow> if endpointUrls \<noteq> [] then hashStrings E endpointUrls else Inr '''')
   }"

section \<open>Application credentials\<close>

definition GetACCRName :: "string \<Rightarrow> string" where
  "GetACCRName serviceName = ''ac-'' @ serviceName"

definition GetServiceNameFromACCR :: "string \<Rightarrow> string" where
  "GetServiceNameFromACCR acName = TrimPrefix acName ''ac-''"

definition ACIDSecretKey :: string where "ACIDSecretKey = ''AC_ID''"
definition ACSecretSecretKey :: string where "ACSecretSecretKey = ''AC_SECRET''"
definition EDPMServiceAnnotation :: string where
  "EDPMServiceAnnotation = ''keystone.openstack.org/edpm-service''"

definition IsEDPMService :: "KeystoneApplicationCredential \<Rightarrow> bool" where
  "IsEDPMService ac \<longleftrightarrow> str_at (om_annotations (ac_meta ac)) EDPMServiceAnnotation \<noteq> ''false''"

text \<open>The object named, when the name is not empty; a missing old secret is no error.\<close>

definition ManageACSecretFinalizer ::
  "env \<Rightarrow> string \<Rightarrow> string \<Rightarrow> string \<Rightarrow> string \<Rightarrow> ('i st, error option) state" where
  "ManageACSecretFinalizer E namespace newSecretName oldSecretName consumerFinalizer =
     (if newSecretName = oldSecretName then ret None
      else do {
        n \<leftarrow> (if newSecretName \<noteq> '''' then do {
                r \<leftarrow> perform (KGetSecret namespace newSecretName) (rGetSecret E);
                ret (case r of
                  Inl err \<Rightarrow> Inl (wrap_err (''failed to get new AC secret '' @ newSecretName @ '': '') err)
                | Inr s \<Rightarrow> Inr (Some s))
              } else ret (Inr None));
        case n of
          Inl err \<Rightarrow> ret (Some err)
        | Inr newObj \<Rightarrow> do {
            old \<leftarrow> (if oldSecretName \<noteq> '''' then do {
                r \<leftarrow> perform (KGetSecret namespace oldSecretName) (rGetSecret E);
                ret (case r of
                  Inl err \<Rightarrow>
                    if IsNotFound err then Inr None
                    else Inl (wrap_err (''failed to get old AC secret '' @ oldSecretName @ '': '') err)
                | Inr s \<Rightarrow> Inr (Some s))
              } else ret (Inr None));
            case old of
              Inl err \<Rightarrow> ret (Some err)
            | Inr oldObj \<Rightarrow> perform (ManageConsumerFinalizer newObj oldObj consumerFinalizer) (rErr E)
          }
      })"

definition RemoveACSecretConsumerFinalizer :: "env \<Rightarrow> string \<Rightarrow> string \<Rightarrow> string \<Rightarrow> ('i st, error option) state" where
  "RemoveACSecretConsumerFinalizer E namespace secretName consumerFinalizer =
     (if secretName = '''' then ret None
      else do {
        r \<leftarrow> perform (KGetSecret namespace secretName) (rGetSecret E);
        case r of
          Inl err \<Rightarrow> ret (if IsNotFound err then None else Some err)
        | Inr s \<Rightarrow> perform (RemoveConsumerFinalizer s consumerFinalizer) (rErr E)
      })"

section \<open>Finalizers on the KeystoneAPI\<close>

text \<open>
  The finalizer an object puts on the KeystoneAPI,
  \<open>fmt.Sprintf("%s-%s", helper.GetFinalizer(), instance.Name)\<close>, and the two idioms of the
  controllers: change the list and update the KeystoneAPI, only when the list changed.
\<close>

definition api_finalizer :: "env \<Rightarrow> kind \<Rightarrow> objmeta \<Rightarrow> string" where
  "api_finalizer E k m = GetFinalizer E k @ ''-'' @ om_name m"

definition drop_api_finalizer :: "env \<Rightarrow> string \<Rightarrow> KeystoneAPI \<Rightarrow> ('i st, error option) state" where
  "drop_api_finalizer E f api =
     (let (fs, changed) = RemoveFinalizer E (api_fins api) f
      in if changed then perform (KUpdateAPI (api_set_finalizers fs api)) (rErr E) else ret None)"

definition add_api_finalizer :: "env \<Rightarrow> string \<Rightarrow> KeystoneAPI \<Rightarrow> ('i st, error option) state" where
  "add_api_finalizer E f api =
     (let (fs, changed) = AddFinalizer E (api_fins api) f
      in if changed then perform (KUpdateAPI (api_set_finalizers fs api)) (rErr E) else ret None)"

lemma run_drop_api_finalizer:
  assumes "finalizer_laws E"
  shows "run_state (drop_api_finalizer E f api) s =
    (if f \<in> set (api_fins api)
     then let h = log s @ [KUpdateAPI (api_set_finalizers (fst (RemoveFinalizer E (api_fins api) f)) api)]
          in (rErr E h, s\<lparr>log := h\<rparr>)
     else (None, s))"
  using finalizer_lawsD(5) [OF assms, of "api_fins api" f]
  by (cases "RemoveFinalizer E (api_fins api) f") (auto simp: drop_api_finalizer_def Let_def)

lemma run_add_api_finalizer:
  assumes "finalizer_laws E"
  shows "run_state (add_api_finalizer E f api) s =
    (if f \<notin> set (api_fins api)
     then let h = log s @ [KUpdateAPI (api_set_finalizers (fst (AddFinalizer E (api_fins api) f)) api)]
          in (rErr E h, s\<lparr>log := h\<rparr>)
     else (None, s))"
  using finalizer_lawsD(2) [OF assms, of "api_fins api" f]
  by (cases "AddFinalizer E (api_fins api) f") (auto simp: add_api_finalizer_def Let_def)

text \<open>
  The log shows that the KeystoneAPI carries a finalizer: it was read with it, or an update that
  carries it succeeded.
\<close>

definition listed :: "env \<Rightarrow> KeystoneAPI \<Rightarrow> history \<Rightarrow> bool" where
  "listed E api h \<longleftrightarrow> (\<exists>h0 ns sel post. h = h0 @ [KList KindAPI ns sel] @ post
     \<and> rListAPIs E (h0 @ [KList KindAPI ns sel]) = Inr [api])"

definition held :: "env \<Rightarrow> string \<Rightarrow> history \<Rightarrow> bool" where
  "held E f h \<longleftrightarrow> (\<exists>api. f \<in> set (api_fins api) \<and>
     (listed E api h \<or> (\<exists>h0 post. h = h0 @ [KUpdateAPI api] @ post \<and> rErr E (h0 @ [KUpdateAPI api]) = None)))"

lemma listed_snoc [simp]: "listed E api h \<Longrightarrow> listed E api (h @ [c])"
  unfolding listed_def by (metis append.assoc)

lemma held_snoc [simp]: "held E f h \<Longrightarrow> held E f (h @ [c])"
  unfolding held_def by (metis append.assoc listed_snoc)

lemma held_listed: "listed E api h \<Longrightarrow> f \<in> set (api_fins api) \<Longrightarrow> held E f h"
  by (auto simp: held_def)

lemma held_updated:
  "f \<in> set (api_fins api) \<Longrightarrow> rErr E (h @ [KUpdateAPI api]) = None \<Longrightarrow> held E f (h @ [KUpdateAPI api])"
  unfolding held_def by (metis append.assoc append_Nil2)

lemma hoare_GetKeystoneAPI:
  assumes "\<And>h. I h \<Longrightarrow> I (h @ [KList KindAPI ns sel])"
  shows "hoare (\<lambda>s. I (log s) \<and> J (inst s)) (GetKeystoneAPI E ns sel)
    (\<lambda>r s. I (log s) \<and> J (inst s) \<and> (\<forall>api. r = Inr api \<longrightarrow> listed E api (log s)))"
  using assms
  by (force simp: hoare_def GetKeystoneAPI_def wp_simps listed_def split: sum.splits list.splits)

lemma hoare_add_api_finalizer:
  assumes "finalizer_laws E" "\<And>a h. I h \<Longrightarrow> I (h @ [KUpdateAPI a])"
  shows "hoare (\<lambda>s. I (log s) \<and> J (inst s) \<and> listed E api (log s)) (add_api_finalizer E f api)
    (\<lambda>r s. I (log s) \<and> J (inst s) \<and> (r = None \<longrightarrow> held E f (log s)))"
  unfolding hoare_def wp_def run_add_api_finalizer [OF assms(1)]
  using api_fin.fins_add [OF assms(1), of api f] assms(2)
  by (auto simp: Let_def held_listed intro!: held_updated)

lemma inv_drop_api_finalizer [inv_intros]:
  "(\<And>s a. J s \<Longrightarrow> J (s\<lparr>log := log s @ [KUpdateAPI a]\<rparr>)) \<Longrightarrow> inv J (drop_api_finalizer E f api)"
  unfolding drop_api_finalizer_def by (intro inv_intros)

lemma inv_GetScopedClient [inv_intros]:
  assumes "\<And>s a b c. J s \<Longrightarrow> J (s\<lparr>log := log s @ [GetDataFromSecret a b c]\<rparr>)"
    "\<And>s ao. J s \<Longrightarrow> J (s\<lparr>log := log s @ [NewOpenStack ao]\<rparr>)"
  shows "inv J (GetScopedClient E api u p t d r et sc)"
  unfolding GetScopedClient_def by (intro inv_intros assms)

lemma inv_GetAdminServiceClient [inv_intros]:
  assumes "\<And>s a b c. J s \<Longrightarrow> J (s\<lparr>log := log s @ [GetDataFromSecret a b c]\<rparr>)"
    "\<And>s ao. J s \<Longrightarrow> J (s\<lparr>log := log s @ [NewOpenStack ao]\<rparr>)"
  shows "inv J (GetAdminServiceClient E api)"
  unfolding GetAdminServiceClient_def by (intro inv_intros assms)

lemma inv_GetUserServiceClient [inv_intros]:
  assumes "\<And>s a b c. J s \<Longrightarrow> J (s\<lparr>log := log s @ [GetDataFromSecret a b c]\<rparr>)"
    "\<And>s ao. J s \<Longrightarrow> J (s\<lparr>log := log s @ [NewOpenStack ao]\<rparr>)"
  shows "inv J (GetUserServiceClient E api u sn sel)"
  unfolding GetUserServiceClient_def getPasswordFromOSPSecret_def by (intro inv_intros assms)

lemma inv_GetKeystoneAPI [inv_intros]:
  "(\<And>s. J s \<Longrightarrow> J (s\<lparr>log := log s @ [KList KindAPI ns sel]\<rparr>)) \<Longrightarrow> inv J (GetKeystoneAPI E ns sel)"
  unfolding GetKeystoneAPI_def by (intro inv_intros)


section \<open>Properties\<close>

text \<open>
  An application credential is named after its service without loss: stripping the prefix
  gives the service name back, so two services never share a name.
\<close>

lemma GetServiceNameFromACCR_GetACCRName:
  "GetServiceNameFromACCR (GetACCRName s) = s"
  unfolding GetServiceNameFromACCR_def GetACCRName_def by (rule TrimPrefix_append)

lemma mset_concat_map: "mset (concat (map f xs)) = (\<Sum>x \<in># mset xs. mset (f x))"
  by (induction xs) simp_all

lemma filterVisibility_perm:
  assumes "mset kes = mset kes'"
  shows "filterVisibility kes v = filterVisibility kes' v"
proof -
  have "sort (concat (map f kes)) = sort (concat (map f kes'))" for f :: "KeystoneEndpoint \<Rightarrow> string list"
    by (rule properties_for_sort) (simp_all add: mset_concat_map assms)
  then show ?thesis by (simp add: filterVisibility_def split: option.split)
qed

text \<open>
  C39: the hash of the endpoint URLs, which service operators compare to restart their pods,
  does not depend on the order in which the API server lists the endpoints.
\<close>

theorem endpoint_hash_stable:
  assumes "rListEndpoints E (log s @ [KList KindEndpoint ns []]) = Inr kes"
    and "rListEndpoints E' (log s' @ [KList KindEndpoint ns []]) = Inr kes'"
    and "mset kes = mset kes'" "hashStrings E = hashStrings E'" "AppSelector E = AppSelector E'"
  shows "fst (run_state (GetHashforKeystoneEndpointUrlsForServices E ns v svcs) s) =
    fst (run_state (GetHashforKeystoneEndpointUrlsForServices E' ns v svcs) s')"
proof -
  have "mset (filterServices E kes svcs) = mset (filterServices E' kes' svcs)"
    using assms(3,5) by (simp add: filterServices_def)
  then have "filterVisibility (if svcs \<noteq> [] then filterServices E kes svcs else kes) v =
      filterVisibility (if svcs \<noteq> [] then filterServices E' kes' svcs else kes') v"
    using assms(3) by (intro filterVisibility_perm) simp
  then show ?thesis
    using assms(1,2,4)
    by (simp add: GetHashforKeystoneEndpointUrlsForServices_def GetKeystoneEndpointUrlsForServices_def
        GetKeystoneEndpointList_def)
qed

definition ex_ep_url :: "string \<Rightarrow> KeystoneEndpoint" where
  "ex_ep_url u = ep_map_status (\<lambda>s. s\<lparr>eps_Endpoints := [\<lparr>e_Interface = ''public'', e_URL = u, e_ID = ''1''\<rparr>]\<rparr>) ex_ep"

lemma endpoint_hash_stable_witness:
  "fst (run_state (GetHashforKeystoneEndpointUrlsForServices
      (base_env\<lparr>rListEndpoints := \<lambda>h. Inr [ex_ep_url ''a'', ex_ep_url ''b'']\<rparr>) ''ns'' None []) (start ())) =
    fst (run_state (GetHashforKeystoneEndpointUrlsForServices
      (base_env\<lparr>rListEndpoints := \<lambda>h. Inr [ex_ep_url ''b'', ex_ep_url ''a'']\<rparr>) ''ns'' None []) (start ()))"
  by (rule endpoint_hash_stable [where kes = "[ex_ep_url ''a'', ex_ep_url ''b'']"
      and kes' = "[ex_ep_url ''b'', ex_ep_url ''a'']"]) simp_all

text \<open>The URLs of one visibility are exactly those of the endpoints with that interface first in their status.\<close>

lemma set_filterVisibility:
  "set (filterVisibility kes (Some v)) =
    {e_URL e |ke e. ke \<in> set kes \<and> getEndpointForVisibility (eps_Endpoints (ep_status ke)) v = Some e}"
  by (force simp: filterVisibility_def split: option.splits)

text \<open>
  A nil client comes with an error, or with a result that is not empty and no error: then the
  caller waits. The admin client never makes its caller wait.
\<close>

lemma run_GetScopedClient_nil:
  "fst (run_state (GetScopedClient E i u p t d r et sc) s) = Inl (res, err) \<Longrightarrow> err \<noteq> None"
  by (auto simp: GetScopedClient_def Let_def split: sum.splits option.splits prod.splits if_splits)

text \<open>
  A nil admin client always comes with an error, also while the password secret is missing,
  which the result alone would report as a wait.
\<close>

lemma GetAdminServiceClient_nil_is_error:
  assumes "fst (run_state (GetAdminServiceClient E i) s) = Inl (res, err)"
  shows "err \<noteq> None"
  using assms
  by (auto simp: GetAdminServiceClient_def dest: run_GetScopedClient_nil split: option.splits prod.splits if_splits)

lemma GetAdminServiceClient_nil_is_error_witness:
  "\<exists>res err. fst (run_state (GetAdminServiceClient
      (base_env\<lparr>rDataFromSecret := \<lambda>h. ('''', requeueAfter (10 * second), None)\<rparr>) ex_api) (start ())) = Inl (res, err)
    \<and> err \<noteq> None"
proof -
  have "fst (run_state (GetAdminServiceClient
      (base_env\<lparr>rDataFromSecret := \<lambda>h. ('''', requeueAfter (10 * second), None)\<rparr>) ex_api) (start ())) =
    Inl (requeueAfter (10 * second), Some (password_not_found (api_PasswordSelectors_Admin (api_spec ex_api))))"
    by (simp add: GetAdminServiceClient_def second_def)
  then show ?thesis using GetAdminServiceClient_nil_is_error by blast
qed

text \<open>
  Moving a consumer finalizer is refused while the new secret does not exist; the old one
  keeps its finalizer, since nothing but a read is performed.
\<close>

lemma ManageACSecretFinalizer_new_first:
  assumes "new \<noteq> old" "new \<noteq> ''''" "rGetSecret E (log s @ [KGetSecret ns new]) = Inl e"
  shows "run_state (ManageACSecretFinalizer E ns new old f) s =
    (Some (wrap_err (''failed to get new AC secret '' @ new @ '': '') e), s\<lparr>log := log s @ [KGetSecret ns new]\<rparr>)"
  using assms by (simp add: ManageACSecretFinalizer_def)

lemma ManageACSecretFinalizer_new_first_witness:
  "snd (run_state (ManageACSecretFinalizer base_env ''ns'' ''new'' ''old'' ''f'') (start ())) =
    (start ())\<lparr>log := [KGetSecret ''ns'' ''new'']\<rparr>"
  using ManageACSecretFinalizer_new_first [of "''new''" "''old''" base_env "start ()" "''ns''" not_found "''f''"]
  by (simp add: base_env_def)

end
