(* ===== verification/AppCredCtl.thy ===== *)
theory AppCredCtl
  imports ApiHelpers
begin

text \<open>
  The KeystoneApplicationCredential controller,
  \<open>internal/controller/keystoneapplicationcredential_controller.go\<close>, and the security hash of
  \<open>internal/keystone/funcs.go\<close>: it creates an application credential in Keystone and an
  immutable secret that holds it, rotates both before they expire, and revokes a rotated
  credential once nothing uses its secret any more.

  Event texts render instants in UTC. The log lines are left out.
\<close>

section \<open>Names\<close>

definition acSecretFinalizer :: string where "acSecretFinalizer = ''openstack.org/ac-secret-protection''"

definition ac_finalizer :: string where
  \<comment> \<open>the constant \<open>finalizer\<close>\<close>
  "ac_finalizer = ''openstack.org/applicationcredential''"

definition errACIDMismatch :: error where
  "errACIDMismatch = \<lparr>err_kind = ACIDMismatch, err_msg = ''AC secret already exists with a different ACID''\<rparr>"

definition ac_labels :: "string \<Rightarrow> string gomap" where
  "ac_labels serviceName =
     [(''application-credentials'', ''true''), (''application-credential-service'', serviceName)]"

definition acSecretName :: "string \<Rightarrow> string \<Rightarrow> string" where
  "acSecretName serviceName acID =
     ''ac-'' @ serviceName @ ''-'' @ (if length acID > 5 then take 5 acID else acID) @ ''-secret''"

definition hasConsumerFinalizer :: "secret \<Rightarrow> bool" where
  "hasConsumerFinalizer s \<longleftrightarrow>
     list_ex (\<lambda>f. HasPrefix f ''openstack.org/'' \<and> HasSuffix f ''-ac-consumer'') (sec_fins s)"

definition ac_false ::
  "env \<Rightarrow> ctype \<Rightarrow> reason \<Rightarrow> severity \<Rightarrow> msg \<Rightarrow> (KeystoneApplicationCredential st, unit) state" where
  "ac_false E t r sev m = upd_inst (ac_upd_conds (condSet E (FalseCondition t r sev m)))"

definition ac_true :: "env \<Rightarrow> ctype \<Rightarrow> msg \<Rightarrow> (KeystoneApplicationCredential st, unit) state" where
  "ac_true E t m = upd_inst (ac_upd_conds (condMarkTrue E t m))"

definition ac_error :: "env \<Rightarrow> string \<Rightarrow> (KeystoneApplicationCredential st, unit) state" where
  "ac_error E m = ac_false E KeystoneApplicationCredentialReadyCondition ErrorReason SeverityWarning
     (KeystoneApplicationCredentialReadyErrorMessage m)"

section \<open>When to rotate\<close>

definition ComputeSecurityHash :: "env \<Rightarrow> KeystoneApplicationCredentialSpec \<Rightarrow> error + string" where
  "ComputeSecurityHash E spec = hashSecurity E (ac_Roles spec) (ac_AccessRules spec) (ac_Unrestricted spec)"

definition needsRotation ::
  "env \<Rightarrow> KeystoneApplicationCredential \<Rightarrow> ('i st, error + (bool \<times> string)) state" where
  "needsRotation E ac =
     (if acs_ACID (ac_status ac) = ''''
      then ret (Inr (True, ''ApplicationCredential does not exist, creating''))
      else case ComputeSecurityHash E (ac_spec ac) of
        Inl err \<Rightarrow> ret (Inl (wrap_err ''failed to compute security hash: '' err))
      | Inr currentSecurityHash \<Rightarrow>
          if acs_SecurityHash (ac_status ac) \<noteq> '''' \<and> currentSecurityHash \<noteq> acs_SecurityHash (ac_status ac)
          then ret (Inr (True, ''Security fields changed, rotating''))
          else (case acs_ExpiresAt (ac_status ac) of
            None \<Rightarrow> ret (Inr (False, ''''))
          | Some expiry \<Rightarrow>
              if expiry = zero_time then ret (Inr (False, ''''))
              else do {
                let rotateAt = expiry + days_duration (- ac_GracePeriodDays (ac_spec ac));
                now \<leftarrow> perform TimeNow (rNow E);
                ret (if now > rotateAt
                     then Inr (True, ''ApplicationCredential is within grace period, rotating'')
                     else Inr (False, ''''))
              }))"

section \<open>Keystone\<close>

definition getUserIDFromToken :: "env \<Rightarrow> os_client \<Rightarrow> string \<Rightarrow> ('i st, error + string) state" where
  "getUserIDFromToken E identClient username = do {
     r \<leftarrow> perform (GCTokenUser identClient) (rTokenUser E);
     ret (case r of
       Inl err \<Rightarrow> Inl (wrap_err (''failed to extract user '' @ username @ '' from token: '') err)
     | Inr uid \<Rightarrow>
         if uid = ''''
         then Inl \<lparr>err_kind = FieldNotFound, err_msg = ErrNotFoundText E @ '': user ID for user '' @ username\<rparr>
         else Inr uid)
   }"

text \<open>A 404 is no error: the credential is already gone.\<close>

definition revokeKeystoneAC :: "env \<Rightarrow> os_client \<Rightarrow> string \<Rightarrow> string \<Rightarrow> ('i st, error option) state" where
  "revokeKeystoneAC E identClient userID acID = do {
     r \<leftarrow> perform (GCDeleteAC identClient userID acID) (rDeleteAC E);
     ret (case r of
       Some (False, err) \<Rightarrow> Some (wrap_err (''failed to revoke application credential '' @ acID @ '' in Keystone: '') err)
     | _ \<Rightarrow> None)
   }"

definition createACWithName ::
  "env \<Rightarrow> os_client \<Rightarrow> string \<Rightarrow> KeystoneApplicationCredential \<Rightarrow> string
     \<Rightarrow> ('i st, error + (string \<times> string \<times> instant)) state" where
  "createACWithName E identClient userID ac newACName = do {
     expires \<leftarrow>
       (if ac_ExpirationDays (ac_spec ac) > 0 then do {
          now \<leftarrow> perform TimeNow (rNow E);
          ret (Some (now + days_duration (ac_ExpirationDays (ac_spec ac))))
        } else ret None);
     r \<leftarrow> perform (GCCreateAC identClient userID \<lparr>
        co_Name = newACName,
        co_Description = ''Created by keystone-operator for AC CR '' @ om_namespace (ac_meta ac) @ ''/''
          @ om_name (ac_meta ac) @ '' (user: '' @ ac_UserName (ac_spec ac) @ '')'',
        co_Unrestricted = ac_Unrestricted (ac_spec ac),
        co_Roles = ac_Roles (ac_spec ac),
        co_AccessRules = ac_AccessRules (ac_spec ac),
        co_ExpiresAt = expires\<rparr>) (rCreateAC E);
     ret (case r of
       Inl err \<Rightarrow> Inl (wrap_err (''failed to create ApplicationCredential for user '' @ ac_UserName (ac_spec ac) @ '': '') err)
     | Inr created \<Rightarrow> Inr created)
   }"

section \<open>Secrets\<close>

definition new_ac_secret :: "KeystoneApplicationCredential \<Rightarrow> string \<Rightarrow> string \<Rightarrow> secret" where
  "new_ac_secret ac newID newSecret =
     (let serviceName = GetServiceNameFromACCR (om_name (ac_meta ac))
      in \<lparr>sec_meta = (new_meta (acSecretName serviceName newID) (om_namespace (ac_meta ac)))\<lparr>
            om_labels := Some (ac_labels serviceName), om_finalizers := [acSecretFinalizer]\<rparr>,
          sec_immutable = True,
          sec_data = Some [(ACIDSecretKey, newID), (ACSecretSecretKey, newSecret)],
          sec_owner = Some (om_name (ac_meta ac))\<rparr>)"

text \<open>
  The name of the secret is short, so two credentials may want the same one: a secret that
  exists is taken over only when it holds the new credential.
\<close>

definition createImmutableACSecret ::
  "env \<Rightarrow> KeystoneApplicationCredential \<Rightarrow> string \<Rightarrow> string \<Rightarrow> ('i st, error + string) state" where
  "createImmutableACSecret E ac newID newSecret =
     (let s = new_ac_secret ac newID newSecret; secretName = sec_name s
      in case SetControllerReference E (ac_meta ac) (sec_meta s) of
        Some err \<Rightarrow> ret (Inl (wrap_err (''failed to set controller reference on AC secret '' @ secretName @ '': '') err))
      | None \<Rightarrow> do {
          err \<leftarrow> perform (KCreateSecret s) (rErr E);
          case err of
            None \<Rightarrow> ret (Inr secretName)
          | Some err \<Rightarrow>
              if IsAlreadyExists err then do {
                r \<leftarrow> perform (KGetSecret (om_namespace (ac_meta ac)) secretName) (rGetSecret E);
                ret (case r of
                  Inl getErr \<Rightarrow> Inl (wrap_err (''AC secret '' @ secretName
                    @ '' already exists but failed to fetch for validation: '') getErr)
                | Inr existing \<Rightarrow>
                    let existingACID = sec_at existing ACIDSecretKey
                    in if existingACID \<noteq> newID
                       then Inl (errACIDMismatch\<lparr>err_msg := err_msg errACIDMismatch @ '': secret='' @ secretName
                         @ '' existingACID='' @ existingACID @ '' expectedACID='' @ newID\<rparr>)
                       else Inr secretName)
              }
              else ret (Inl (wrap_err (''failed to create immutable AC secret '' @ secretName @ '': '') err))
        })"

definition ensureServiceLabel :: "env \<Rightarrow> string \<Rightarrow> string \<Rightarrow> string \<Rightarrow> ('i st, error option) state" where
  "ensureServiceLabel E secretName namespace serviceName = do {
     r \<leftarrow> perform (KGetSecret namespace secretName) (rGetSecret E);
     case r of
       Inl err \<Rightarrow> ret (IgnoreNotFound err)
     | Inr s \<Rightarrow>
         if (case om_labels (sec_meta s) of None \<Rightarrow> False
             | Some l \<Rightarrow> str_at l ''application-credential-service'' = serviceName)
         then ret None
         else perform (KUpdateSecret (sec_set_label ''application-credential-service'' serviceName s)) (rErr E)
   }"

text \<open>The migration of the secrets the status refers to; its errors are only logged.\<close>

primrec ensure_labels :: "env \<Rightarrow> string \<Rightarrow> string \<Rightarrow> string list \<Rightarrow> ('i st, unit) state" where
  "ensure_labels E namespace serviceName [] = ret ()"
| "ensure_labels E namespace serviceName (sn # rest) = do {
     (if sn \<noteq> '''' then do { ensureServiceLabel E sn namespace serviceName; ret () } else ret ());
     ensure_labels E namespace serviceName rest
   }"

definition status_secrets :: "KeystoneApplicationCredential \<Rightarrow> string list" where
  "status_secrets i = [acs_SecretName (ac_status i), acs_PreviousSecretName (ac_status i)]"

text \<open>
  Whether credentials may be revoked as far as the data plane is concerned; both callers treat a
  failed check like nodes that are out of sync.
\<close>

definition edpm_in_sync :: "env \<Rightarrow> KeystoneApplicationCredential \<Rightarrow> ('i st, bool) state" where
  "edpm_in_sync E i =
     (if IsEDPMService i then do {
        r \<leftarrow> perform (AreSecretHashesInSync (om_namespace (ac_meta i))) (rHashesInSync E);
        ret (case r of Inl err \<Rightarrow> False | Inr inSync \<Rightarrow> inSync)
      } else ret True)"
section \<open>Clean-up of rotated secrets\<close>

text \<open>A secret that is current, previous or still consumed is skipped.\<close>

definition ac_in_use :: "KeystoneApplicationCredential \<Rightarrow> secret \<Rightarrow> bool" where
  "ac_in_use i s \<longleftrightarrow> sec_name s = acs_SecretName (ac_status i)
     \<or> sec_name s = acs_PreviousSecretName (ac_status i) \<or> hasConsumerFinalizer s"

text \<open>Revoke, drop the protection finalizer, delete: one secret that is not in use.\<close>

definition retire_secret ::
  "env \<Rightarrow> os_client option \<Rightarrow> string \<Rightarrow> secret \<Rightarrow> ('i st, error option) state" where
  "retire_secret E identClient userID s = do {
     err \<leftarrow> (case identClient of
       Some c \<Rightarrow> if sec_at s ACIDSecretKey \<noteq> '''' then revokeKeystoneAC E c userID (sec_at s ACIDSecretKey) else ret None
     | None \<Rightarrow> ret None);
     case err of
       Some e \<Rightarrow> ret (Some e)
     | None \<Rightarrow> do {
         let (fs, changed) = RemoveFinalizer E (sec_fins s) acSecretFinalizer;
         let s' = sec_set_finalizers fs s;
         err \<leftarrow> (if changed then perform (KUpdateSecret s') (rErr E) else ret None);
         case err of
           Some e \<Rightarrow> ret (Some (wrap_err (''failed to remove protection finalizer from '' @ sec_name s @ '': '') e))
         | None \<Rightarrow> do {
             err \<leftarrow> perform (KDeleteSecret s') (rErr E);
             ret (case err of
               None \<Rightarrow> None
             | Some e \<Rightarrow> if IsNotFound e then None
                 else Some (wrap_err (''failed to delete AC secret '' @ sec_name s @ '': '') e))
           }
       }
   }"

primrec retire_unused ::
  "env \<Rightarrow> os_client option \<Rightarrow> string \<Rightarrow> KeystoneApplicationCredential \<Rightarrow> secret list \<Rightarrow> ('i st, error option) state" where
  "retire_unused E identClient userID i [] = ret None"
| "retire_unused E identClient userID i (s # rest) =
     (if ac_in_use i s then retire_unused E identClient userID i rest
      else do {
        err \<leftarrow> retire_secret E identClient userID s;
        case err of
          Some e \<Rightarrow> ret (Some e)
        | None \<Rightarrow> retire_unused E identClient userID i rest
      })"

definition cleanupUnusedRotatedSecrets ::
  "env \<Rightarrow> os_client option \<Rightarrow> string \<Rightarrow> (KeystoneApplicationCredential st, error option) state" where
  "cleanupUnusedRotatedSecrets E identClient userID = do {
     i \<leftarrow> get_inst;
     inSync \<leftarrow> edpm_in_sync E i;
     if \<not> inSync then ret None
     else do {
       r \<leftarrow> perform (KListSecrets (om_namespace (ac_meta i))
          (ac_labels (GetServiceNameFromACCR (om_name (ac_meta i))))) (rListSecrets E);
       case r of
         Inl err \<Rightarrow> ret (Some err)
       | Inr secrets \<Rightarrow> retire_unused E identClient userID i secrets
     }
   }"

section \<open>Deletion\<close>

text \<open>A client for revocation and the user it acts for, when both can be had.\<close>

definition revocation_client ::
  "env \<Rightarrow> KeystoneAPI option \<Rightarrow> KeystoneApplicationCredential \<Rightarrow> ('i st, (os_client \<times> string) option) state" where
  "revocation_client E keystoneAPI i =
     (case keystoneAPI of
        None \<Rightarrow> ret None
      | Some api \<Rightarrow> do {
          client \<leftarrow> GetUserServiceClient E api (ac_UserName (ac_spec i)) (ac_Secret (ac_spec i))
             (ac_PasswordSelector (ac_spec i));
          case client of
            Inl _ \<Rightarrow> ret None
          | Inr os \<Rightarrow> do {
              u \<leftarrow> getUserIDFromToken E os (ac_UserName (ac_spec i));
              ret (case u of Inl err \<Rightarrow> None | Inr uid \<Rightarrow> Some (os, uid))
            }
        })"

text \<open>The update that drops the protection finalizer, when the secret has it.\<close>

definition unprotect_secret :: "env \<Rightarrow> secret \<Rightarrow> ('i st, error option) state" where
  "unprotect_secret E s =
     (let (fs, changed) = RemoveFinalizer E (sec_fins s) acSecretFinalizer
      in if changed then perform (KUpdateSecret (sec_set_finalizers fs s)) (rErr E) else ret None)"

text \<open>Each credential is revoked once; a failed revocation does not stop the pass.\<close>

primrec strip_secrets ::
  "env \<Rightarrow> (os_client \<times> string) option \<Rightarrow> string list \<Rightarrow> secret list \<Rightarrow> ('i st, error option) state" where
  "strip_secrets E ident seen [] = ret None"
| "strip_secrets E ident seen (s # rest) = do {
     let acID = sec_at s ACIDSecretKey;
     seen' \<leftarrow> (case ident of
       Some (c, userID) \<Rightarrow>
         if acID \<noteq> '''' \<and> acID \<notin> set seen
         then do { revokeKeystoneAC E c userID acID; ret (acID # seen) } else ret seen
     | None \<Rightarrow> ret seen);
     err \<leftarrow> unprotect_secret E s;
     case err of
       Some e \<Rightarrow> ret (Some e)
     | None \<Rightarrow> strip_secrets E ident seen' rest
   }"

primrec strip_fallback ::
  "env \<Rightarrow> string \<Rightarrow> string list \<Rightarrow> string list \<Rightarrow> ('i st, error option) state" where
  "strip_fallback E namespace processed [] = ret None"
| "strip_fallback E namespace processed (sn # rest) =
     (if sn = '''' \<or> sn \<in> set processed then strip_fallback E namespace processed rest
      else do {
        r \<leftarrow> perform (KGetSecret namespace sn) (rGetSecret E);
        case r of
          Inl err \<Rightarrow> if IsNotFound err then strip_fallback E namespace processed rest else ret (Some err)
        | Inr s \<Rightarrow> do {
            err \<leftarrow> unprotect_secret E s;
            case err of
              Some e \<Rightarrow> ret (Some e)
            | None \<Rightarrow> strip_fallback E namespace processed rest
          }
      })"

definition ac_drop_finalizer :: "env \<Rightarrow> (KeystoneApplicationCredential st, unit) state" where
  "ac_drop_finalizer E = upd_inst (\<lambda>i. ac_set_finalizers (fst (RemoveFinalizer E (ac_fins i) ac_finalizer)) i)"

text \<open>One pass over the listing, then the secrets of the status the listing missed, then the finalizer.\<close>

definition ac_release ::
  "env \<Rightarrow> KeystoneAPI option \<Rightarrow> KeystoneApplicationCredential \<Rightarrow> secret list
     \<Rightarrow> (KeystoneApplicationCredential st, outcome) state" where
  "ac_release E keystoneAPI i secrets = do {
     ident \<leftarrow> revocation_client E keystoneAPI i;
     err \<leftarrow> strip_secrets E ident [] secrets;
     case err of
       Some e \<Rightarrow> ret (fail e)
     | None \<Rightarrow> do {
         err \<leftarrow> strip_fallback E (om_namespace (ac_meta i)) (map sec_name secrets) (status_secrets i);
         case err of
           Some e \<Rightarrow> ret (fail e)
         | None \<Rightarrow> do { ac_drop_finalizer E; ret ok }
       }
   }"

definition ac_reconcileDelete ::
  "env \<Rightarrow> KeystoneAPI option \<Rightarrow> (KeystoneApplicationCredential st, outcome) state" where
  "ac_reconcileDelete E keystoneAPI = do {
     i \<leftarrow> get_inst;
     let namespace = om_namespace (ac_meta i);
     let serviceName = GetServiceNameFromACCR (om_name (ac_meta i));
     inSync \<leftarrow> edpm_in_sync E i;
     if \<not> inSync then ret (requeueAfter (60 * second), None)
     else do {
       ensure_labels E namespace serviceName (status_secrets i);
       r \<leftarrow> perform (KListSecrets namespace (ac_labels serviceName)) (rListSecrets E);
       case r of
         Inl err \<Rightarrow> ret (fail err)
       | Inr secrets \<Rightarrow> ac_release E keystoneAPI i secrets
     }
   }"
section \<open>The normal path\<close>

definition rotation_event :: "KeystoneApplicationCredential \<Rightarrow> instant \<Rightarrow> instant \<Rightarrow> string \<Rightarrow> string" where
  "rotation_event i expiresAt rotationEligibleAt previousExpiresAt =
     ''Rotated credentials for user '' @ ac_UserName (ac_spec i) @ ''. New expiration: '' @ FormatRFC3339 expiresAt
     @ '', next rotation eligible: '' @ FormatRFC3339 rotationEligibleAt @ '' (grace period: ''
     @ itoa (ac_GracePeriodDays (ac_spec i)) @ '' days). Previous credential expires: '' @ previousExpiresAt"

definition eligible_at :: "KeystoneApplicationCredential \<Rightarrow> instant \<Rightarrow> instant" where
  \<comment> \<open>\<open>expiresAt.Add(-graceDuration)\<close>\<close>
  "eligible_at i expiresAt = expiresAt + int64 (- days_duration (ac_GracePeriodDays (ac_spec i)))"

text \<open>The status after a new credential was created and stored.\<close>

definition record_rotation ::
  "env \<Rightarrow> bool \<Rightarrow> string \<Rightarrow> string \<Rightarrow> instant \<Rightarrow> (KeystoneApplicationCredential st, outcome) state" where
  "record_rotation E isRotation newID secretName expiresAt = do {
     i \<leftarrow> get_inst;
     let previousExpiresAt = (case acs_ExpiresAt (ac_status i) of
       Some t \<Rightarrow> if isRotation then FormatRFC3339 t else '''' | None \<Rightarrow> '''');
     upd_inst (ac_map_status (\<lambda>st. st\<lparr>
       acs_PreviousSecretName := (if isRotation \<and> acs_SecretName st \<noteq> '''' then acs_SecretName st
         else acs_PreviousSecretName st),
       acs_ACID := newID, acs_SecretName := secretName\<rparr>));
     now \<leftarrow> perform TimeNow (rNow E);
     let rotationEligibleAt = eligible_at i expiresAt;
     upd_inst (ac_map_status (\<lambda>st. st\<lparr>acs_CreatedAt := Some now, acs_ExpiresAt := Some expiresAt,
       acs_RotationEligibleAt := Some rotationEligibleAt\<rparr>));
     case ComputeSecurityHash E (ac_spec i) of
       Inl err \<Rightarrow> ret (fail (wrap_err ''failed to compute security hash: '' err))
     | Inr securityHash \<Rightarrow> do {
         upd_inst (ac_map_status (\<lambda>st. st\<lparr>acs_SecurityHash := securityHash\<rparr>));
         ac_true E KeystoneApplicationCredentialReadyCondition KeystoneApplicationCredentialReadyMessage;
         (if isRotation then do {
            now \<leftarrow> perform TimeNow (rNow E);
            upd_inst (ac_map_status (\<lambda>st. st\<lparr>acs_LastRotated := Some now\<rparr>));
            perform (EmitEvent ''Normal'' ''ApplicationCredentialRotated''
              (rotation_event i expiresAt rotationEligibleAt previousExpiresAt)) (\<lambda>_. ())
          } else ret ());
         ret (requeueAfter (10 * second), None)
       }
   }"

text \<open>A new credential that cannot be stored is revoked again, so that it is not orphaned.\<close>

definition store_credential ::
  "env \<Rightarrow> os_client \<Rightarrow> string \<Rightarrow> bool \<Rightarrow> string \<Rightarrow> string \<Rightarrow> instant
     \<Rightarrow> (KeystoneApplicationCredential st, outcome) state" where
  "store_credential E os userID isRotation newID newSecret expiresAt = do {
     i \<leftarrow> get_inst;
     r \<leftarrow> createImmutableACSecret E i newID newSecret;
     case r of
       Inl err \<Rightarrow> do {
         revokeKeystoneAC E os userID newID;
         ac_error E (''Failed to create AC secret: '' @ err_msg err);
         ret (fail err)
       }
     | Inr secretName \<Rightarrow> record_rotation E isRotation newID secretName expiresAt
   }"

definition ac_rotate :: "env \<Rightarrow> KeystoneAPI \<Rightarrow> (KeystoneApplicationCredential st, outcome) state" where
  "ac_rotate E keystoneAPI = do {
     i \<leftarrow> get_inst;
     let isRotation = acs_ACID (ac_status i) \<noteq> '''';
     client \<leftarrow> GetUserServiceClient E keystoneAPI (ac_UserName (ac_spec i)) (ac_Secret (ac_spec i))
       (ac_PasswordSelector (ac_spec i));
     case client of
       Inl (userRes, Some userErr) \<Rightarrow> do { ac_error E (err_msg userErr); ret (userRes, Some userErr) }
     | Inl (userRes, None) \<Rightarrow> do {
         ac_false E KeystoneApplicationCredentialReadyCondition RequestedReason SeverityInfo
           (KeystoneApplicationCredentialWaitingMessage (ac_Secret (ac_spec i)));
         ret (userRes, None)
       }
     | Inr os \<Rightarrow> do {
         u \<leftarrow> getUserIDFromToken E os (ac_UserName (ac_spec i));
         case u of
           Inl err \<Rightarrow> do { ac_error E (''Failed to get user ID from token: '' @ err_msg err); ret (fail err) }
         | Inr userID \<Rightarrow> do {
             suffix \<leftarrow> perform (RandString 5) (rRandString E);
             r \<leftarrow> createACWithName E os userID i (om_name (ac_meta i) @ ''-'' @ suffix);
             case r of
               Inl err \<Rightarrow> do { ac_error E (''Failed to create ApplicationCredential: '' @ err_msg err); ret (fail err) }
             | Inr (newID, newSecret, expiresAt) \<Rightarrow>
                 store_credential E os userID isRotation newID newSecret expiresAt
           }
       }
   }"

text \<open>The credential is valid: clean-up is best effort and never fails the run.\<close>

definition ac_maintain :: "env \<Rightarrow> KeystoneAPI \<Rightarrow> (KeystoneApplicationCredential st, outcome) state" where
  "ac_maintain E keystoneAPI = do {
     i \<leftarrow> get_inst;
     ensure_labels E (om_namespace (ac_meta i)) (GetServiceNameFromACCR (om_name (ac_meta i))) (status_secrets i);
     upd_inst (ac_map_status (\<lambda>st. case acs_ExpiresAt st of None \<Rightarrow> st
       | Some t \<Rightarrow> st\<lparr>acs_RotationEligibleAt := Some (eligible_at i t)\<rparr>));
     client \<leftarrow> GetUserServiceClient E keystoneAPI (ac_UserName (ac_spec i)) (ac_Secret (ac_spec i))
       (ac_PasswordSelector (ac_spec i));
     (case client of
        Inl _ \<Rightarrow> ret ()
      | Inr os \<Rightarrow> do {
          u \<leftarrow> getUserIDFromToken E os (ac_UserName (ac_spec i));
          (case u of
             Inl err \<Rightarrow> ret ()
           | Inr userID \<Rightarrow> do { cleanupUnusedRotatedSecrets E (Some os) userID; ret () })
        });
     ac_true E KeystoneApplicationCredentialReadyCondition KeystoneApplicationCredentialReadyMessage;
     ret ok
   }"

text \<open>A current secret that has been deleted is a reason to rotate as well.\<close>

definition ac_reconcileNormal :: "env \<Rightarrow> KeystoneAPI \<Rightarrow> (KeystoneApplicationCredential st, outcome) state" where
  "ac_reconcileNormal E keystoneAPI = do {
     i \<leftarrow> get_inst;
     d \<leftarrow> needsRotation E i;
     case d of
       Inl err \<Rightarrow> ret (fail err)
     | Inr (doRotate, msg) \<Rightarrow> do {
         missing \<leftarrow>
           (if acs_SecretName (ac_status i) \<noteq> '''' then do {
              r \<leftarrow> perform (KGetSecret (om_namespace (ac_meta i)) (acs_SecretName (ac_status i))) (rGetSecret E);
              ret (case r of Inl err \<Rightarrow> if IsNotFound err then Inr True else Inl err | Inr s \<Rightarrow> Inr False)
            } else ret (Inr False));
         case missing of
           Inl err \<Rightarrow> ret (fail err)
         | Inr gone \<Rightarrow> if doRotate \<or> gone then ac_rotate E keystoneAPI else ac_maintain E keystoneAPI
       }
   }"

section \<open>Reconcile\<close>

definition ac_init_conditions :: conditions where
  "ac_init_conditions =
     [UnknownCondition KeystoneAPIReadyCondition InitReason KeystoneAPIReadyInitMessage,
      UnknownCondition KeystoneApplicationCredentialReadyCondition InitReason
        KeystoneApplicationCredentialReadyInitMessage,
      UnknownCondition ReadyCondition InitReason ReadyInitMessage]"

definition ac_body :: "env \<Rightarrow> (KeystoneApplicationCredential st, outcome) state" where
  "ac_body E = do {
     i0 \<leftarrow> get_inst;
     let isNewInstance = (acs_Conditions (ac_status i0) = None);
     upd_inst (ac_upd_conds (\<lambda>cs. condInit E cs ac_init_conditions));
     upd_inst (ac_map_status (\<lambda>st. st\<lparr>acs_ObservedGeneration := om_generation (ac_meta i0)\<rparr>));
     let (fs, added) = AddFinalizer E (ac_fins i0) ac_finalizer;
     if \<not> deleting (ac_meta i0) \<and> (added \<or> isNewInstance)
     then do { upd_inst (ac_set_finalizers fs); ret ok }
     else do {
       r \<leftarrow> GetKeystoneAPI E (om_namespace (ac_meta i0)) [];
       case r of
         Inl err \<Rightarrow>
           if IsNotFound err then
             if deleting (ac_meta i0) then ac_reconcileDelete E None
             else do {
               ac_false E KeystoneAPIReadyCondition ErrorReason SeverityWarning KeystoneAPIReadyNotFoundMessage;
               ret (requeueAfter (5 * second), None)
             }
           else do {
             ac_false E KeystoneAPIReadyCondition ErrorReason SeverityWarning
               (KeystoneAPIReadyErrorMessage (err_msg err));
             ret (fail err)
           }
       | Inr keystoneAPI \<Rightarrow>
           if deleting (ac_meta i0) then ac_reconcileDelete E (Some keystoneAPI)
           else if \<not> IsReady E keystoneAPI
           then do {
             ac_false E KeystoneAPIReadyCondition RequestedReason SeverityInfo KeystoneAPIReadyWaitingMessage;
             ret (requeueAfter (5 * second), None)
           }
           else do {
             ac_true E KeystoneAPIReadyCondition KeystoneAPIReadyMessage;
             ac_reconcileNormal E keystoneAPI
           }
     }
   }"

text \<open>While the object is being deleted, the deferred function leaves the conditions alone.\<close>

definition ac_deferred ::
  "env \<Rightarrow> conditions \<Rightarrow> outcome \<Rightarrow> (KeystoneApplicationCredential st, outcome) state" where
  "ac_deferred E saved out = do {
     i \<leftarrow> get_inst;
     deferred E ac_upd_conds KPatchAppCred
       (if deleting (ac_meta i) then id else (\<lambda>cs. condRestoreTimes E (ready_step E cs) saved)) out
   }"

definition ac_Reconcile :: "env \<Rightarrow> string \<Rightarrow> string \<Rightarrow> (KeystoneApplicationCredential st, outcome) state" where
  "ac_Reconcile E namespace name = do {
     r \<leftarrow> perform (KGet KindAppCred namespace name) (rGetAppCred E);
     case r of
       Inl err \<Rightarrow> ret (Result0, IgnoreNotFound err)
     | Inr i \<Rightarrow> do {
         upd_inst (\<lambda>_. i);
         err \<leftarrow> perform (NewHelper KindAppCred) (rErr E);
         case err of
           Some e \<Rightarrow> ret (fail e)
         | None \<Rightarrow> do {
             out \<leftarrow> ac_body E;
             ac_deferred E (ac_conds i) out
           }
       }
   }"

text \<open>A change of a data plane node set reconciles every application credential of its namespace.\<close>

definition nodesetToACMapFunc :: "env \<Rightarrow> string \<Rightarrow> ('i st, (string \<times> string) list) state" where
  "nodesetToACMapFunc E namespace = do {
     r \<leftarrow> perform (KList KindAppCred namespace []) (rListAppCreds E);
     ret (case r of
       Inl err \<Rightarrow> []
     | Inr acs \<Rightarrow> map (\<lambda>ac. (om_namespace (ac_meta ac), om_name (ac_meta ac))) acs)
   }"

end
