(* ===== verification/AppCredProps.thy ===== *)
theory AppCredProps
  imports AppCredCtl
begin

text \<open>
  What the KeystoneApplicationCredential controller guarantees: a secret is deleted only after its
  credential was revoked, credentials in use are never touched by the clean-up, the data plane is
  in step before a credential goes, a credential that cannot be stored is revoked again, a
  rotation settles, and a deletion does not wait for Keystone.
\<close>

section \<open>What the log shows\<close>

definition revoked :: "env \<Rightarrow> string \<Rightarrow> history \<Rightarrow> bool" where
  "revoked E a h \<longleftrightarrow> (\<exists>pre c uid post. h = pre @ [GCDeleteAC c uid a] @ post
     \<and> (\<forall>e. rDeleteAC E (pre @ [GCDeleteAC c uid a]) \<noteq> Some (False, e)))"

definition in_step :: "env \<Rightarrow> string \<Rightarrow> history \<Rightarrow> bool" where
  "in_step E ns h \<longleftrightarrow> (\<exists>pre post. h = pre @ [AreSecretHashesInSync ns] @ post
     \<and> rHashesInSync E (pre @ [AreSecretHashesInSync ns]) = Inr True)"

definition created_here :: "env \<Rightarrow> string \<Rightarrow> history \<Rightarrow> bool" where
  "created_here E a h \<longleftrightarrow> (\<exists>pre c uid opts post sec t. h = pre @ [GCCreateAC c uid opts] @ post
     \<and> rCreateAC E (pre @ [GCCreateAC c uid opts]) = Inr (a, sec, t))"

lemma evidence_snoc [simp]:
  "revoked E a h \<Longrightarrow> revoked E a (h @ [c])"
  "in_step E ns h \<Longrightarrow> in_step E ns (h @ [c])"
  "created_here E a h \<Longrightarrow> created_here E a (h @ [c])"
  unfolding revoked_def in_step_def created_here_def by (metis append.assoc)+

lemma evidence_new:
  "(\<And>e. rDeleteAC E (h @ [GCDeleteAC c uid a]) \<noteq> Some (False, e)) \<Longrightarrow> revoked E a (h @ [GCDeleteAC c uid a])"
  "rHashesInSync E (h @ [AreSecretHashesInSync ns]) = Inr True \<Longrightarrow> in_step E ns (h @ [AreSecretHashesInSync ns])"
  "rCreateAC E (h @ [GCCreateAC c uid opts]) = Inr (a, sec, t) \<Longrightarrow> created_here E a (h @ [GCCreateAC c uid opts])"
  unfolding revoked_def in_step_def created_here_def by (metis append.assoc append_Nil2)+

text \<open>
  The two disciplines: the deletion of a secret follows the revocation of its credential, and a
  revocation follows a report that the nodes are in step, or is that of a credential of this run.
\<close>

abbreviation after_revocation :: "env \<Rightarrow> secret \<Rightarrow> history \<Rightarrow> bool" where
  "after_revocation E x \<equiv> guarded (\<lambda>c. c = KDeleteSecret x)
     (\<lambda>h. sec_at x ACIDSecretKey = '''' \<or> revoked E (sec_at x ACIDSecretKey) h)"

fun revokes :: "string \<Rightarrow> call \<Rightarrow> bool" where
  "revokes a (GCDeleteAC _ _ b) = (a = b)"
| "revokes a _ = False"

abbreviation gated :: "env \<Rightarrow> string \<Rightarrow> string \<Rightarrow> history \<Rightarrow> bool" where
  "gated E ns a \<equiv> guarded (revokes a) (\<lambda>h. in_step E ns h \<or> created_here E a h)"

text \<open>What the object is, as far as the disciplines need it, and the changes that keep it.\<close>

definition edpm_at :: "string \<Rightarrow> KeystoneApplicationCredential \<Rightarrow> bool" where
  "edpm_at ns i \<longleftrightarrow> IsEDPMService i \<and> om_namespace (ac_meta i) = ns"

lemma edpm_at_simps [simp]:
  "edpm_at ns (ac_upd_conds f i) = edpm_at ns i" "edpm_at ns (ac_set_finalizers fs i) = edpm_at ns i"
  "edpm_at ns (ac_map_status g i) = edpm_at ns i"
  by (simp_all add: edpm_at_def IsEDPMService_def ac_set_finalizers_def ac_map_status_def)

section \<open>Invariants of the parts\<close>

lemmas ac_parts = getUserIDFromToken_def createACWithName_def ensureServiceLabel_def
  ac_false_def ac_true_def ac_error_def unprotect_secret_def revocation_client_def ac_drop_finalizer_def
  edpm_in_sync_def needsRotation_def createImmutableACSecret_def Let_def case_prod_unfold

lemma inv_ensure_labels [inv_intros]:
  assumes "\<And>s ns n. J s \<Longrightarrow> J (s\<lparr>log := log s @ [KGetSecret ns n]\<rparr>)"
    "\<And>s x. J s \<Longrightarrow> J (s\<lparr>log := log s @ [KUpdateSecret x]\<rparr>)"
  shows "inv J (ensure_labels E ns svc sns)"
  by (induction sns) (auto simp: ensureServiceLabel_def intro!: inv_intros assms)

lemma inv_strip_fallback [inv_intros]:
  assumes "\<And>s ns n. J s \<Longrightarrow> J (s\<lparr>log := log s @ [KGetSecret ns n]\<rparr>)"
    "\<And>s x. J s \<Longrightarrow> J (s\<lparr>log := log s @ [KUpdateSecret x]\<rparr>)"
  shows "inv J (strip_fallback E ns done sns)"
  by (induction sns) (auto simp: unprotect_secret_def Let_def case_prod_unfold intro!: inv_intros assms)

lemma inv_strip_secrets:
  assumes "\<And>s c u a. J s \<Longrightarrow> J (s\<lparr>log := log s @ [GCDeleteAC c u a]\<rparr>)"
    "\<And>s x. J s \<Longrightarrow> J (s\<lparr>log := log s @ [KUpdateSecret x]\<rparr>)"
  shows "inv J (strip_secrets E ident seen ss)"
  by (induction ss arbitrary: seen)
    (auto simp: unprotect_secret_def revokeKeystoneAC_def Let_def case_prod_unfold intro!: inv_intros assms)

text \<open>
  A handler whose calls are harmless to a log invariant: every call but those of a class keeps it,
  and the handler makes none of the class.
\<close>

lemma hoare_revoke:
  assumes "\<And>s c. J s \<Longrightarrow> J (s\<lparr>log := log s @ [GCDeleteAC os uid a]\<rparr>)"
  shows "hoare J (revokeKeystoneAC E os uid a) (\<lambda>r s. J s \<and> (r = None \<longrightarrow> revoked E a (log s)))"
  using assms
  by (auto simp: hoare_def revokeKeystoneAC_def wp_simps split: option.splits bool.splits intro!: evidence_new(1))

lemma retire_secret_revokes: "inv (\<lambda>s. after_revocation E x (log s)) (retire_secret E (Some os) uid s)"
  unfolding retire_secret_def Let_def case_prod_unfold option.case
proof (rule hoare_bind [where R = "\<lambda>r st. after_revocation E x (log st)
    \<and> (r = None \<longrightarrow> sec_at s ACIDSecretKey = '''' \<or> revoked E (sec_at s ACIDSecretKey) (log st))"], goal_cases)
  case 1
  show ?case
    by (rule hoare_if) (auto intro!: hoare_weaken [OF hoare_revoke [where J = "\<lambda>st. after_revocation E x (log st)"]] hoare_ret)
next
  case (2 err)
  show ?case
  proof (cases err)
    case None
    have at: "sec_at (sec_set_finalizers fs s) k = sec_at s k" for fs k
      by (simp add: sec_at_def sec_set_finalizers_def)
    show ?thesis
      unfolding None option.case
      by (rule hoare_inv [where J = "\<lambda>st. after_revocation E x (log st)
          \<and> (sec_at s ACIDSecretKey = '''' \<or> revoked E (sec_at s ACIDSecretKey) (log st))"])
        ((intro inv_intros; auto simp: at), auto)
  qed (auto intro!: hoare_ret)
qed

lemma retire_unused_revokes: "inv (\<lambda>s. after_revocation E x (log s)) (retire_unused E (Some os) uid i ss)"
  by (induction ss) (auto intro!: inv_intros retire_secret_revokes)

lemma cleanup_revokes: "inv (\<lambda>s. after_revocation E x (log s)) (cleanupUnusedRotatedSecrets E (Some os) uid)"
  unfolding cleanupUnusedRotatedSecrets_def edpm_in_sync_def
  by (intro inv_intros retire_unused_revokes; simp)
section \<open>Deletion follows revocation\<close>

lemma ac_rotate_revokes: "inv (\<lambda>s. after_revocation E x (log s)) (ac_rotate E api)"
  unfolding ac_rotate_def store_credential_def record_rotation_def revokeKeystoneAC_def ac_parts
  by (intro inv_intros; simp)

lemma ac_maintain_revokes: "inv (\<lambda>s. after_revocation E x (log s)) (ac_maintain E api)"
  unfolding ac_maintain_def ac_true_def getUserIDFromToken_def
  by (intro inv_intros cleanup_revokes; simp)

lemma ac_body_revokes: "inv (\<lambda>s. after_revocation E x (log s)) (ac_body E)"
  unfolding ac_body_def ac_reconcileNormal_def ac_reconcileDelete_def ac_release_def ac_parts
  by (intro inv_intros inv_strip_secrets ac_rotate_revokes ac_maintain_revokes; simp)

text \<open>
  C13: in every run of the controller, a secret is deleted only when its application credential
  was revoked in Keystone before, in the same run and without an error other than 404; only a secret
  that names no credential is deleted without.
\<close>

theorem ac_deletes_after_revocation:
  assumes "run_state (ac_Reconcile E ns name) (start i) = (r, t)" "log t = pre @ KDeleteSecret x # post"
  shows "sec_at x ACIDSecretKey = '''' \<or> revoked E (sec_at x ACIDSecretKey) pre"
proof -
  have "inv (\<lambda>s. after_revocation E x (log s)) (ac_Reconcile E ns name)"
    unfolding ac_Reconcile_def ac_deferred_def by (intro inv_intros ac_body_revokes; simp)
  then have "after_revocation E x (log t)" using assms(1) by (rule hoareD) simp
  then show ?thesis using assms(2) unfolding guarded_def by blast
qed

section \<open>Revocation follows the data plane\<close>

abbreviation gate :: "env \<Rightarrow> string \<Rightarrow> string \<Rightarrow> KeystoneApplicationCredential st \<Rightarrow> bool" where
  "gate E ns a s \<equiv> gated E ns a (log s) \<and> edpm_at ns (inst s)"

lemma store_credential_gated:
  "inv (\<lambda>s. gate E ns a s \<and> created_here E newID (log s)) (store_credential E os uid rot newID sec t)"
  unfolding store_credential_def record_rotation_def revokeKeystoneAC_def ac_parts
  by (intro inv_intros; auto)

lemma hoare_createACWithName:
  assumes "\<And>s. J s \<Longrightarrow> J (s\<lparr>log := log s @ [TimeNow]\<rparr>)"
    "\<And>s c u opts. J s \<Longrightarrow> J (s\<lparr>log := log s @ [GCCreateAC c u opts]\<rparr>)"
  shows "hoare J (createACWithName E os uid ac n)
    (\<lambda>r s. J s \<and> (\<forall>newID sec t. r = Inr (newID, sec, t) \<longrightarrow> created_here E newID (log s)))"
  unfolding createACWithName_def
  by (rule hoare_bind [where R = "\<lambda>_. J"], (intro inv_intros assms; assumption))
    (auto simp: hoare_def wp_simps split: sum.splits intro!: assms(2) evidence_new(3))

lemma ac_rotate_gated: "inv (gate E ns a) (ac_rotate E api)"
proof -
  have created: "hoare (\<lambda>s. gate E ns a s \<and> created_here E newID (log s))
      (store_credential E os uid rot newID sec t) (\<lambda>_. gate E ns a)" for os uid rot newID sec t
    by (rule hoare_inv [OF store_credential_gated]) auto
  have rest: "inv (gate E ns a) (do {
      r \<leftarrow> createACWithName E os uid i n;
      case r of
        Inl err \<Rightarrow> do { ac_error E (m err); ret (fail err) }
      | Inr (newID, newSecret, expiresAt) \<Rightarrow> store_credential E os uid rot newID newSecret expiresAt })"
    for os uid i n rot m
    by (rule hoare_bind [OF hoare_createACWithName [where J = "gate E ns a"]], simp, simp,
        rule hoare_sum, rule hoare_inv [where J = "gate E ns a"])
      (unfold ac_error_def ac_false_def, (intro inv_intros; simp), simp_all,
        auto intro!: hoare_weaken [OF created])
  show ?thesis
    unfolding ac_rotate_def Let_def getUserIDFromToken_def
    by (intro inv_intros rest; (unfold ac_error_def ac_false_def)?; (intro inv_intros)?; simp)
qed
lemma hoare_edpm_in_sync:
  assumes "edpm_at ns i"
  shows "hoare (gate E ns a) (edpm_in_sync E i) (\<lambda>r s. gate E ns a s \<and> (r \<longrightarrow> in_step E ns (log s)))"
  using assms
  by (auto simp: hoare_def edpm_in_sync_def edpm_at_def wp_simps intro!: evidence_new(2) split: sum.splits)

abbreviation open_gate :: "env \<Rightarrow> string \<Rightarrow> string \<Rightarrow> KeystoneApplicationCredential st \<Rightarrow> bool" where
  "open_gate E ns a s \<equiv> gate E ns a s \<and> in_step E ns (log s)"

lemma retire_unused_open: "inv (open_gate E ns a) (retire_unused E ident uid i ss)"
  by (induction ss) (auto simp: retire_secret_def revokeKeystoneAC_def Let_def case_prod_unfold intro!: inv_intros)

lemma cleanup_gated: "inv (gate E ns a) (cleanupUnusedRotatedSecrets E ident uid)"
  unfolding cleanupUnusedRotatedSecrets_def
proof (rule hoare_get_inst_bind [where K = "edpm_at ns"], goal_cases)
  case (1 i)
  have "inv (open_gate E ns a) (do {
      r \<leftarrow> perform (KListSecrets (om_namespace (ac_meta i)) (ac_labels (GetServiceNameFromACCR (om_name (ac_meta i)))))
        (rListSecrets E);
      case r of Inl err \<Rightarrow> ret (Some err) | Inr ss \<Rightarrow> retire_unused E ident uid i ss })"
    by (intro inv_intros retire_unused_open; auto)
  then show ?case
    using hoare_edpm_in_sync [OF 1, where E = E and a = a]
    by (intro hoare_bind [where R = "\<lambda>r s. gate E ns a s \<and> (r \<longrightarrow> in_step E ns (log s))"] hoare_if)
      (auto elim!: hoare_weaken intro!: hoare_ret)
qed simp

lemma ac_maintain_gated: "inv (gate E ns a) (ac_maintain E api)"
  unfolding ac_maintain_def ac_true_def getUserIDFromToken_def
  by (intro inv_intros cleanup_gated; simp)

lemma ac_release_open: "inv (open_gate E ns a) (ac_release E api i ss)"
  unfolding ac_release_def revocation_client_def getUserIDFromToken_def ac_drop_finalizer_def
  by (intro inv_intros inv_strip_secrets; auto)

lemma ac_reconcileDelete_gated: "inv (gate E ns a) (ac_reconcileDelete E api)"
  unfolding ac_reconcileDelete_def Let_def
proof (rule hoare_get_inst_bind [where K = "edpm_at ns"], goal_cases)
  case (1 i)
  have "inv (open_gate E ns a) (do {
       ensure_labels E (om_namespace (ac_meta i)) (GetServiceNameFromACCR (om_name (ac_meta i))) (status_secrets i);
       r \<leftarrow> perform (KListSecrets (om_namespace (ac_meta i)) (ac_labels (GetServiceNameFromACCR (om_name (ac_meta i)))))
         (rListSecrets E);
       case r of Inl err \<Rightarrow> ret (fail err) | Inr secrets \<Rightarrow> ac_release E api i secrets })"
    by (intro inv_intros ac_release_open; auto)
  then show ?case
    using hoare_edpm_in_sync [OF 1, where E = E and a = a]
    by (intro hoare_bind [where R = "\<lambda>r s. gate E ns a s \<and> (r \<longrightarrow> in_step E ns (log s))"] hoare_if)
      (auto elim!: hoare_weaken intro!: hoare_ret)
qed simp

lemma ac_body_gated: "inv (gate E ns a) (ac_body E)"
  unfolding ac_body_def ac_reconcileNormal_def needsRotation_def ac_false_def ac_true_def Let_def case_prod_unfold
  by (intro inv_intros ac_rotate_gated ac_maintain_gated ac_reconcileDelete_gated; simp)

text \<open>
  C16: while an application credential is used by the data plane, a run revokes a credential only
  after the node sets were reported in step with the current secrets, or when it is the one this
  run created itself and could not store.
\<close>

theorem ac_revokes_in_step:
  assumes "rGetAppCred E [KGet KindAppCred ns name] = Inr i" "IsEDPMService i"
    and "run_state (ac_Reconcile E ns name) (start x) = (r, t)"
    and "log t = pre @ GCDeleteAC os uid a # post"
  shows "in_step E (om_namespace (ac_meta i)) pre \<or> created_here E a pre"
proof -
  let ?J = "gate E (om_namespace (ac_meta i)) a"
  let ?rest = "do { err \<leftarrow> perform (NewHelper KindAppCred) (rErr E);
     case err of Some e \<Rightarrow> ret (fail e)
     | None \<Rightarrow> do { out \<leftarrow> ac_body E; ac_deferred E (ac_conds i) out } }"
  have "inv ?J ?rest"
    unfolding ac_deferred_def by (intro inv_intros ac_body_gated; simp)
  moreover have "run_state ?rest \<lparr>inst = i, log = [KGet KindAppCred ns name]\<rparr> = (r, t)"
    using assms(1,3) by (simp add: ac_Reconcile_def start_def)
  ultimately have "?J t"
    by (rule hoareD) (simp_all add: edpm_at_def assms(2) guarded_snoc [of _ _ "[]", simplified])
  then show ?thesis using assms(4) unfolding guarded_def by (metis revokes.simps(1))
qed

section \<open>What the clean-up leaves alone\<close>

text \<open>The secret a call writes or deletes.\<close>

fun touched :: "call \<Rightarrow> string option" where
  "touched (KUpdateSecret s) = Some (sec_name s)"
| "touched (KDeleteSecret s) = Some (sec_name s)"
| "touched _ = None"

lemma sec_name_set_finalizers [simp]: "sec_name (sec_set_finalizers fs s) = sec_name s"
  by (simp add: sec_name_def sec_set_finalizers_def)

text \<open>A call that concerns, of the secrets and credentials, only ones of a list that are not in use.\<close>

definition spares :: "KeystoneApplicationCredential \<Rightarrow> secret list \<Rightarrow> call \<Rightarrow> bool" where
  "spares i ss c \<longleftrightarrow>
     (\<forall>n. touched c = Some n \<longrightarrow> (\<exists>x \<in> set ss. sec_name x = n \<and> \<not> ac_in_use i x)) \<and>
     (\<forall>a. revokes a c \<longrightarrow> (\<exists>x \<in> set ss. sec_at x ACIDSecretKey = a \<and> a \<noteq> '''' \<and> \<not> ac_in_use i x))"

lemma spares_Cons: "spares i ss c \<Longrightarrow> spares i (x # ss) c"
  by (auto simp: spares_def)

lemma retire_unused_frame:
  assumes "\<And>s c. J s \<Longrightarrow> spares i ss c \<Longrightarrow> J (s\<lparr>log := log s @ [c]\<rparr>)"
  shows "inv J (retire_unused E ident uid i ss)"
  using assms
proof (induction ss)
  case (Cons x ss)
  have "inv J (retire_unused E ident uid i ss)"
    by (rule Cons.IH) (auto intro: Cons.prems spares_Cons)
  moreover have "inv J (retire_secret E ident uid x)" if "\<not> ac_in_use i x"
    unfolding retire_secret_def revokeKeystoneAC_def Let_def case_prod_unfold
    using that by (intro inv_intros; intro Cons.prems; auto simp: spares_def)
  ultimately show ?case by (auto intro!: inv_intros)
qed (auto intro!: inv_intros)

definition secrets_listed :: "env \<Rightarrow> secret list \<Rightarrow> history \<Rightarrow> bool" where
  "secrets_listed E ss h \<longleftrightarrow> (\<exists>pre n q post. h = pre @ [KListSecrets n q] @ post
     \<and> rListSecrets E (pre @ [KListSecrets n q]) = Inr ss)"

lemma secrets_listed_snoc [simp]: "secrets_listed E ss h \<Longrightarrow> secrets_listed E ss (h @ [c])"
  unfolding secrets_listed_def by (metis append.assoc)

lemma secrets_listed_new:
  "rListSecrets E (h @ [KListSecrets n q]) = Inr ss \<Longrightarrow> secrets_listed E ss (h @ [KListSecrets n q])"
  unfolding secrets_listed_def by (metis append.assoc append_Nil2)

section \<open>A deletion does not wait for Keystone\<close>

definition unprotected :: "env \<Rightarrow> secret \<Rightarrow> secret" where
  "unprotected E x = sec_set_finalizers (fst (RemoveFinalizer E (sec_fins x) acSecretFinalizer)) x"

definition unprotections :: "env \<Rightarrow> secret list \<Rightarrow> call set" where
  "unprotections E ss = {KUpdateSecret (unprotected E x) |x. x \<in> set ss \<and> acSecretFinalizer \<in> set (sec_fins x)}"

lemma unprotections_simps [simp]:
  "unprotections E [] = {}"
  "unprotections E (x # ss) =
    (if acSecretFinalizer \<in> set (sec_fins x) then {KUpdateSecret (unprotected E x)} else {}) \<union> unprotections E ss"
  by (auto simp: unprotections_def)

abbreviation has_logged :: "KeystoneApplicationCredential \<Rightarrow> call set \<Rightarrow> KeystoneApplicationCredential st \<Rightarrow> bool" where
  "has_logged i A s \<equiv> inst s = i \<and> A \<subseteq> set (log s)"

lemma has_logged_inv:
  "inv (has_logged i A) (revokeKeystoneAC E c u a)" "inv (has_logged i A) (ensure_labels E ns svc sns)"
  "inv (has_logged i A) (revocation_client E api j)" "inv (has_logged i A) (edpm_in_sync E j)"
  unfolding revokeKeystoneAC_def revocation_client_def edpm_in_sync_def getUserIDFromToken_def
  by (intro inv_intros; auto)+

lemma hoare_unprotect_secret:
  assumes "finalizer_laws E" "\<And>h. rErr E h = None"
  shows "hoare (has_logged i A) (unprotect_secret E x)
    (\<lambda>r s. r = None \<and> has_logged i (A \<union> unprotections E [x]) s)"
  using assms(2) finalizer_lawsD(5) [OF assms(1), of "sec_fins x" acSecretFinalizer]
  by (auto simp: hoare_def wp_def unprotect_secret_def Let_def unprotected_def split: prod.splits)

lemma hoare_strip_secrets:
  assumes "finalizer_laws E" "\<And>h. rErr E h = None"
  shows "hoare (has_logged i A) (strip_secrets E ident seen ss)
    (\<lambda>r s. r = None \<and> has_logged i (A \<union> unprotections E ss) s)"
proof (induction ss arbitrary: seen A)
  case (Cons x ss)
  show ?case
    unfolding strip_secrets.simps Let_def
  proof (rule hoare_bind [where R = "\<lambda>_. has_logged i A"], (intro inv_intros has_logged_inv),
      rule hoare_bind [OF hoare_unprotect_secret [OF assms]], goal_cases)
    case (1 seen' r)
    show ?case
      using Cons.IH [of "A \<union> unprotections E [x]" seen']
      by (cases r) (auto elim!: hoare_weaken intro!: hoare_ret split: if_splits)
  qed
qed (auto intro!: hoare_ret)

lemma hoare_False: "hoare (\<lambda>_. False) m Q"
  by (simp add: hoare_def)

lemma hoare_strip_fallback:
  assumes "finalizer_laws E" "\<And>h. rErr E h = None" "\<And>h e. rGetSecret E h = Inl e \<Longrightarrow> IsNotFound e"
  shows "hoare (has_logged i A) (strip_fallback E ns done sns) (\<lambda>r s. r = None \<and> has_logged i A s)"
proof (induction sns)
  case (Cons sn sns)
  have fetch: "hoare (has_logged i A) (perform (KGetSecret ns sn) (rGetSecret E))
      (\<lambda>r s. has_logged i A s \<and> (\<forall>e. r = Inl e \<longrightarrow> IsNotFound e))"
    using assms(3) by (auto intro!: hoare_perform)
  have drop: "hoare (has_logged i A) (do { err \<leftarrow> unprotect_secret E x;
      case err of Some e \<Rightarrow> ret (Some e) | None \<Rightarrow> strip_fallback E ns done sns })
      (\<lambda>r s. r = None \<and> has_logged i A s)" for x
    by (rule hoare_bind [OF hoare_unprotect_secret [OF assms(1,2)]])
      (auto intro!: hoare_option hoare_ret hoare_weaken [OF Cons.IH])
  show ?case
    unfolding strip_fallback.simps
  proof (intro hoare_if Cons.IH, rule hoare_bind [OF fetch], rule hoare_sum, goal_cases)
    case (1 r e)
    then show ?case using Cons.IH by (cases "IsNotFound e") (simp_all add: hoare_False)
  next
    case (2 r x)
    then show ?case using drop [of x] by simp
  qed
qed (auto intro!: hoare_ret)

lemma hoare_fact: "hoare (\<lambda>u. a \<and> P u) m Q \<longleftrightarrow> (a \<longrightarrow> hoare P m Q)"
  by (auto simp: hoare_def)

lemma hoare_ac_release:
  assumes "finalizer_laws E" "\<And>h. rErr E h = None" "\<And>h e. rGetSecret E h = Inl e \<Longrightarrow> IsNotFound e"
  shows "hoare (has_logged i {}) (ac_release E api i ss)
    (\<lambda>r u. r = ok \<and> ac_finalizer \<notin> set (ac_fins (inst u)) \<and> unprotections E ss \<subseteq> set (log u))"
proof -
  let ?A = "unprotections E ss"
  have strip: "hoare (has_logged i {}) (strip_secrets E ident [] ss) (\<lambda>r u. r = None \<and> has_logged i ?A u)" for ident
    using hoare_strip_secrets [OF assms(1,2), of i "{}" ident "[]" ss] by simp
  have drop: "hoare (has_logged i ?A) (do { ac_drop_finalizer E; ret ok })
      (\<lambda>r u. r = ok \<and> ac_finalizer \<notin> set (ac_fins (inst u)) \<and> ?A \<subseteq> set (log u))"
    using ac_fin.fins_remove [OF assms(1), of i ac_finalizer]
    by (auto simp: hoare_def wp_simps ac_drop_finalizer_def)
  show ?thesis
    unfolding ac_release_def
    by (intro hoare_bind [OF has_logged_inv(3)] hoare_bind [OF strip] hoare_option)
      (auto simp: hoare_fact hoare_False intro!: hoare_bind [OF hoare_strip_fallback [OF assms]] hoare_option drop)
qed

text \<open>
  Without a KeystoneAPI a deletion revokes nothing: credentials that exist in Keystone outlive
  the object.
\<close>

theorem ac_delete_without_api_revokes_nothing:
  assumes "run_state (ac_reconcileDelete E None) s = (r, t)"
  shows "\<exists>l. log t = log s @ l \<and> (\<forall>c a. c \<in> set l \<longrightarrow> \<not> revokes a c)"
proof -
  have strip: "inv J (strip_secrets E None seen ss)"
    if "\<And>s x. J s \<Longrightarrow> J (s\<lparr>log := log s @ [KUpdateSecret x]\<rparr>)"
    for J :: "KeystoneApplicationCredential st \<Rightarrow> bool" and seen ss
    by (induction ss arbitrary: seen)
      (auto simp: unprotect_secret_def Let_def case_prod_unfold intro!: inv_intros that)
  define J where "J u \<longleftrightarrow> (\<exists>l. log u = log s @ l \<and> (\<forall>c a. c \<in> set l \<longrightarrow> \<not> revokes a c))"
    for u :: "KeystoneApplicationCredential st"
  have step: "J (u\<lparr>log := log u @ [c]\<rparr>)" if J: "J u" and c: "\<And>a. \<not> revokes a c" for u c
  proof -
    obtain l where "log u = log s @ l" "\<forall>c a. c \<in> set l \<longrightarrow> \<not> revokes a c" using J unfolding J_def by blast
    then show ?thesis using c unfolding J_def by (intro exI [of _ "l @ [c]"]) auto
  qed
  have "inv J (ac_reconcileDelete E None)"
    unfolding ac_reconcileDelete_def ac_release_def revocation_client_def option.case edpm_in_sync_def
      ac_drop_finalizer_def Let_def bind_left_identity
    by (intro inv_intros strip; (rule step)?; simp add: J_def)
  then have "J t" using assms by (rule hoareD) (simp add: J_def)
  then show ?thesis by (simp add: J_def)
qed

section \<open>Rotation\<close>

lemma run_revoke:
  "run_state (revokeKeystoneAC E c u a) s =
    (case rDeleteAC E (log s @ [GCDeleteAC c u a]) of
       Some (False, e) \<Rightarrow> Some (wrap_err (''failed to revoke application credential '' @ a @ '' in Keystone: '') e)
     | _ \<Rightarrow> None, s\<lparr>log := log s @ [GCDeleteAC c u a]\<rparr>)"
  by (simp add: revokeKeystoneAC_def)

text \<open>
  C32: a new credential whose secret cannot be stored is revoked at once: the run fails with that
  error, and the status still refers to the credential and the secret it had.
\<close>

theorem failed_store_revokes_new:
  assumes "condition_laws E" "run_state (createImmutableACSecret E (inst s) newID sec) s = (Inl err, u)"
    and "run_state (store_credential E os uid rot newID sec exp) s = (r, t)"
  shows "r = fail err \<and> log t = log u @ [GCDeleteAC os uid newID]
    \<and> status_at (ac_conds (inst t)) KeystoneApplicationCredentialReadyCondition = Some CFalse
    \<and> acs_ACID (ac_status (inst t)) = acs_ACID (ac_status (inst s)) \<and> status_secrets (inst t) = status_secrets (inst s)"
proof -
  have "inv (\<lambda>v. inst v = inst s) (createImmutableACSecret E (inst s) newID sec)"
    unfolding createImmutableACSecret_def Let_def by (intro inv_intros; simp)
  then have "inst u = inst s" using assms(2) by (rule hoareD) simp
  then show ?thesis
    using assms(2,3) condition_lawsD(5) [OF assms(1)]
    by (auto simp: store_credential_def run_revoke ac_error_def ac_false_def FalseCondition_def status_at_def
        status_secrets_def)
      (metis condition.select_convs(1,2) option.map(2))
qed

text \<open>
  The secret of a credential is created, or taken over, only for that very credential: the only way
  past an existing secret is that it holds the same ID.
\<close>

lemma createImmutableACSecret_own:
  assumes "run_state (createImmutableACSecret E i newID sec) s = (Inr n, t)"
  shows "n = acSecretName (GetServiceNameFromACCR (om_name (ac_meta i))) newID \<and>
    (log t = log s @ [KCreateSecret (new_ac_secret i newID sec)] \<or>
     (\<exists>x. rGetSecret E (log t) = Inr x \<and> sec_at x ACIDSecretKey = newID
        \<and> log t = log s @ [KCreateSecret (new_ac_secret i newID sec), KGetSecret (om_namespace (ac_meta i)) n]))"
  using assms
  by (auto simp: createImmutableACSecret_def Let_def new_ac_secret_def sec_name_def new_meta_def
      split: option.splits if_splits sum.splits)

text \<open>
  Credentials whose IDs share the first five characters want the same secret; a secret of that
  name that holds another credential is never taken over, the run fails with a mismatch.
\<close>

theorem id_prefix_collision_is_error:
  assumes "SetControllerReference E (ac_meta i) (sec_meta (new_ac_secret i newID sec)) = None"
    and "rErr E (log s @ [KCreateSecret (new_ac_secret i newID sec)]) = Some e" "IsAlreadyExists e"
    and "rGetSecret E (log s @ [KCreateSecret (new_ac_secret i newID sec),
      KGetSecret (om_namespace (ac_meta i)) (sec_name (new_ac_secret i newID sec))]) = Inr x"
    and "sec_at x ACIDSecretKey \<noteq> newID"
  shows "\<exists>err. fst (run_state (createImmutableACSecret E i newID sec) s) = Inl err \<and> err_kind err = ACIDMismatch"
  using assms by (simp add: createImmutableACSecret_def Let_def errACIDMismatch_def)
definition day :: int where "day = 86400 * second"

lemma days_duration_neg: "\<bar>d\<bar> \<le> 106751 \<Longrightarrow> days_duration (- d) = - d * day"
  by (simp add: days_duration_def int64_id second_def day_def abs_le_iff)

text \<open>When the decision comes down to the clock, and what it then is.\<close>

lemma needsRotation_clock:
  assumes "acs_ACID (ac_status ac) \<noteq> ''''" "ComputeSecurityHash E (ac_spec ac) = Inr h"
    and "acs_SecurityHash (ac_status ac) \<in> {'''', h}" "acs_ExpiresAt (ac_status ac) = Some t" "t \<noteq> zero_time"
  shows "fst (run_state (needsRotation E ac) s) =
    (if rNow E (log s @ [TimeNow]) > t + days_duration (- ac_GracePeriodDays (ac_spec ac))
     then Inr (True, ''ApplicationCredential is within grace period, rotating'') else Inr (False, ''''))"
  using assms by (auto simp: needsRotation_def Let_def)


text \<open>
  C38: the duration of a grace period of 106752 days or of an expiration of as many wraps to a negative number:
  such a credential is not due before it has expired, and such an expiration asks for a credential that has
  expired already.
\<close>

theorem grace_period_overflow:
  assumes "acs_ACID (ac_status ac) \<noteq> ''''" "ComputeSecurityHash E (ac_spec ac) = Inr h"
    and "acs_SecurityHash (ac_status ac) \<in> {'''', h}" "acs_ExpiresAt (ac_status ac) = Some t" "t \<noteq> zero_time"
    and "ac_GracePeriodDays (ac_spec ac) = 106752" "rNow E (log s @ [TimeNow]) \<le> t"
  shows "\<exists>m. fst (run_state (needsRotation E ac) s) = Inr (False, m)"
proof -
  have "days_duration (- 106752) > 0"
    by (simp add: days_duration_def int64_def second_def signed_take_bit_eq_take_bit_shift take_bit_eq_mod)
  then show ?thesis using needsRotation_clock [OF assms(1-5), of s] assms(6,7) by auto
qed

text \<open>What a successful rotation leaves in the object.\<close>

lemma record_rotation_status:
  assumes "run_state (record_rotation E rot newID n exp) s = (r, t)" "snd r = None"
  shows "ac_spec (inst t) = ac_spec (inst s)" "acs_ACID (ac_status (inst t)) = newID"
    "acs_SecretName (ac_status (inst t)) = n" "acs_ExpiresAt (ac_status (inst t)) = Some exp"
    "acs_PreviousSecretName (ac_status (inst t)) =
      (if rot \<and> acs_SecretName (ac_status (inst s)) \<noteq> '''' then acs_SecretName (ac_status (inst s))
       else acs_PreviousSecretName (ac_status (inst s)))"
    "ComputeSecurityHash E (ac_spec (inst s)) = Inr (acs_SecurityHash (ac_status (inst t)))"
    "status_at (ac_conds (inst t)) KeystoneApplicationCredentialReadyCondition =
      status_at (condMarkTrue E KeystoneApplicationCredentialReadyCondition
        KeystoneApplicationCredentialReadyMessage (ac_conds (inst s))) KeystoneApplicationCredentialReadyCondition"
  using assms
  by (auto simp: record_rotation_def Let_def ac_true_def ac_map_status_def conds_defs split: sum.splits if_splits)


section \<open>Conditions\<close>

text \<open>
  A run on an object that is not being deleted ends by patching it, with a Ready condition that is true exactly
  when all others are; a run on an object that is being deleted leaves the conditions as the body left them.
\<close>

theorem ac_reconcile_persists_ready:
  assumes "condition_laws E" "rGetAppCred E (log s @ [KGet KindAppCred ns name]) = Inr i"
    and "rErr E (log s @ [KGet KindAppCred ns name, NewHelper KindAppCred]) = None"
    and "run_state (ac_Reconcile E ns name) s = (r, t)" "\<not> deleting (ac_meta (inst t))"
  shows "last (log t) = KPatchAppCred (inst t)
    \<and> (condIsTrue E ReadyCondition (ac_conds (inst t)) \<longleftrightarrow> AllSubConditionIsTrue E (ac_conds (inst t)))"
proof -
  let ?s = "s\<lparr>inst := i, log := log s @ [KGet KindAppCred ns name, NewHelper KindAppCred]\<rparr>"
  obtain out u where body: "run_state (ac_body E) ?s = (out, u)" by fastforce
  let ?f = "\<lambda>cs. condRestoreTimes E (ready_step E cs) (ac_conds i)"
  have "run_state (ac_deferred E (ac_conds i) out) u = (r, t)"
    using assms(2-4) body by (simp add: ac_Reconcile_def)
  then have t: "inst t = ac_upd_conds ?f (inst u)" "log t = log u @ [KPatchAppCred (inst t)]"
    using assms(5) by (auto simp: ac_deferred_def deferred_def split: if_splits)
  have "AllSubConditionIsTrue E (ac_conds (inst t)) \<longleftrightarrow> AllSubConditionIsTrue E (ac_conds (inst u))"
    using t by (auto intro!: AllSub_cong [OF assms(1)]
        simp: condition_lawsD(12) [OF assms(1)] ready_step_other [OF assms(1)])
  then show ?thesis using t ac_rec.ready_iff_restored [OF assms(1), where i = "inst u" and saved = "ac_conds i"] by simp
qed
section \<open>A rotated example\<close>

lemmas ac_code = ac_Reconcile_def ac_body_def ac_deferred_def ac_reconcileNormal_def ac_maintain_def
  cleanupUnusedRotatedSecrets_def retire_secret_def edpm_in_sync_def revokeKeystoneAC_def needsRotation_def
  ensureServiceLabel_def getUserIDFromToken_def ac_true_def ac_false_def ac_error_def
  GetKeystoneAPI_def GetUserServiceClient_def getPasswordFromOSPSecret_def GetScopedClient_def ComputeSecurityHash_def
  GetEndpoint_def IsReady_def deferred_def

text \<open>The example credential, initialised, with a current secret; an old secret of it; an environment with both.\<close>

definition ex_ac1 :: KeystoneApplicationCredential where
  "ex_ac1 = ac_map_status (\<lambda>st. st\<lparr>acs_ACID := ''new-id'', acs_SecretName := ''cur''\<rparr>)
     (ac_upd_conds (\<lambda>_. ac_init_conditions) (ac_set_finalizers [ac_finalizer] ex_ac))"

definition ex_old :: secret where
  "ex_old = sec_set_finalizers [acSecretFinalizer] (sec_set_label ''application-credential-service'' ''barbican''
     (ex_secret ''old'' [(''AC_ID'', ''old-id'')]))"

definition ex_cur :: secret where
  "ex_cur = sec_set_finalizers [acSecretFinalizer] (sec_set_label ''application-credential-service'' ''barbican''
     (ex_secret ''cur'' [(''AC_ID'', ''new-id'')]))"

definition ex_ac_env :: env where
  "ex_ac_env = base_env\<lparr>rGetAppCred := \<lambda>h. Inr ex_ac1, rListAPIs := \<lambda>h. Inr [ex_api],
     rGetSecret := \<lambda>h. Inr ex_cur, rListSecrets := \<lambda>h. Inr [ex_cur, ex_old]\<rparr>"

lemmas ex_ac_defs = ex_ac1_def ex_ac_def ex_old_def ex_cur_def ex_secret_def ex_api_def new_meta_def ac_init_conditions_def
  fins_defs conds_defs start_def deleting_def status_at_def cond_at_Cons true_cond_def ac_map_status_def
  sec_set_label_def sec_name_def sec_at_def str_at_def acSecretFinalizer_def ac_finalizer_def ac_in_use_def
  hasConsumerFinalizer_def HasPrefix_def HasSuffix_def suffix_to_prefix ACIDSecretKey_def status_secrets_def IsEDPMService_def
  EDPMServiceAnnotation_def GetServiceNameFromACCR_def TrimPrefix_def

definition ex_ac_run :: "KeystoneApplicationCredential st" where
  "ex_ac_run = snd (run_state (ac_Reconcile ex_ac_env ''openstack'' ''ac-barbican'') (start ex_ac))"

lemma ex_ac_run: "run_state (ac_Reconcile ex_ac_env ''openstack'' ''ac-barbican'') (start ex_ac) = 
    (fst (run_state (ac_Reconcile ex_ac_env ''openstack'' ''ac-barbican'') (start ex_ac)), ex_ac_run)"
  by (simp add: ex_ac_run_def)

lemma ex_ac_run_log: "drop 8 (butlast (log ex_ac_run)) = [AreSecretHashesInSync ''openstack'',
     KListSecrets ''openstack'' (ac_labels ''barbican''), GCDeleteAC 0 ''user-id'' ''old-id'',
     KUpdateSecret (sec_set_finalizers [] ex_old), KDeleteSecret (sec_set_finalizers [] ex_old)]"
  unfolding ex_ac_run_def ex_ac_env_def
  by (simp add: ac_code ex_ac_defs Let_def)


lemma ex_ac_run_deletes: "log ex_ac_run = take 12 (log ex_ac_run) @ KDeleteSecret (sec_set_finalizers [] ex_old) # [last (log ex_ac_run)]"
  and ex_ac_run_revokes: "log ex_ac_run = take 10 (log ex_ac_run) @ GCDeleteAC 0 ''user-id'' ''old-id'' # drop 11 (log ex_ac_run)"
  unfolding ex_ac_run_def ex_ac_env_def
  by (simp_all add: ac_code ex_ac_defs Let_def)

lemma ac_deletes_after_revocation_witness: "revoked ex_ac_env ''old-id'' (take 12 (log ex_ac_run))"
  using ac_deletes_after_revocation [OF ex_ac_run ex_ac_run_deletes] by (simp add: ex_ac_defs)

lemma ac_revokes_in_step_witness:
  "in_step ex_ac_env ''openstack'' (take 10 (log ex_ac_run)) \<or> created_here ex_ac_env ''old-id'' (take 10 (log ex_ac_run))"
proof -
  have "rGetAppCred ex_ac_env [KGet KindAppCred ''openstack'' ''ac-barbican''] = Inr ex_ac1"
    by (simp add: ex_ac_env_def)
  moreover have "IsEDPMService ex_ac1" "om_namespace (ac_meta ex_ac1) = ''openstack''" by (simp_all add: ex_ac_defs)
  ultimately show ?thesis using ac_revokes_in_step [OF _ _ ex_ac_run ex_ac_run_revokes] by metis
qed



lemma failed_store_revokes_new_witness:
  "log (snd (run_state (store_credential (base_env\<lparr>rErr := \<lambda>h. Some no_err\<rparr>) 0 ''u'' True ''id'' ''s'' 0) (start ex_ac1)))
    = [KCreateSecret (new_ac_secret ex_ac1 ''id'' ''s''), GCDeleteAC 0 ''u'' ''id'']"
proof -
  let ?E = "base_env\<lparr>rErr := \<lambda>h. Some no_err\<rparr>"
  obtain r t where run: "run_state (store_credential ?E 0 ''u'' True ''id'' ''s'' 0) (start ex_ac1) = (r, t)" by fastforce
  obtain err u where c: "run_state (createImmutableACSecret ?E (inst (start ex_ac1)) ''id'' ''s'') (start ex_ac1) = (Inl err, u)"
      and u: "log u = [KCreateSecret (new_ac_secret ex_ac1 ''id'' ''s'')]"
    by (simp add: createImmutableACSecret_def Let_def no_err_def new_err_def IsAlreadyExists_def)
  have "condition_laws ?E" by simp
  from failed_store_revokes_new [OF this c run] u run show ?thesis by simp
qed


lemma grace_period_overflow_witness:
  "\<exists>m. fst (run_state (needsRotation (base_env\<lparr>rNow := \<lambda>h. 106753 * day\<rparr>)
      (ac_map_status (\<lambda>st. st\<lparr>acs_ExpiresAt := Some (106753 * day)\<rparr>)
        (ex_ac1\<lparr>ac_spec := (ac_spec ex_ac1)\<lparr>ac_GracePeriodDays := 106752\<rparr>\<rparr>))) (start ())) = Inr (False, m)"
  by (rule grace_period_overflow [where h = "''adminservice''" and t = "106753 * day"])
    (simp_all add: ex_ac_defs ComputeSecurityHash_def zero_time_def day_def second_def)


end
