(* ===== verification/Workloads.thy ===== *)
theory Workloads
  imports Fernet ApiHelpers
begin

text \<open>
  The objects \<open>internal/keystone\<close> builds for the KeystoneAPI controller: the volumes and mounts, the
  database sync and bootstrap jobs, the trust flush cron job, the deployment, the cloudrc file and the
  federation volumes. All are pure functions; \<open>None\<close> is the panic of a nil dereference.
\<close>

section \<open>const.go\<close>

definition DatabaseName :: string where "DatabaseName = ''keystone''"
definition DatabaseCRName :: string where "DatabaseCRName = ''keystone''"
definition DatabaseUsernamePrefix :: string where "DatabaseUsernamePrefix = ''keystone''"
definition KeystonePublicPort :: int where "KeystonePublicPort = 5000"
definition KeystoneInternalPort :: int where "KeystoneInternalPort = 5000"
definition DBSyncCommand :: string where "DBSyncCommand = ''keystone-manage db_sync''"
definition BootstrapCommand :: string where "BootstrapCommand = ''keystone-manage bootstrap''"
definition FederationConfigKey :: string where "FederationConfigKey = ''federation-config.json''"
definition FederationMultiRealmSecret :: string where
  "FederationMultiRealmSecret = ''keystone-multirealm-federation-secret''"
definition FederationDefaultMountPath :: string where "FederationDefaultMountPath = ''/var/lib/httpd/metadata''"
definition VarLogKeystoneVolumeName :: string where "VarLogKeystoneVolumeName = ''var-log-keystone''"
definition TransportConsumerFinalizer :: string where
  "TransportConsumerFinalizer = ''openstack.org/keystone-transport-consumer''"

definition KeystonePropagation :: "string list" where "KeystonePropagation = [''Keystone'']"
definition DBSyncPropagation :: "env \<Rightarrow> string list" where "DBSyncPropagation E = [LibString (cl E) ''storage.DBSync'']"
definition BootstrapPropagation :: "string list" where "BootstrapPropagation = [''KeystoneBootstrap'']"
definition KeystoneCronJobPropagation :: "string list" where "KeystoneCronJobPropagation = [''KeystoneCron'']"

section \<open>Volumes\<close>

text \<open>\<open>KeystoneExtraMounts.Propagate\<close>\<close>

definition Propagate :: "env \<Rightarrow> nat list \<Rightarrow> string list \<Rightarrow> (volume list \<times> volume_mount list) list" where
  "Propagate E c svc = concat (map (\<lambda>gv. PropagateVol (cl E) gv svc) c)"

definition configAccessMode :: int where "configAccessMode = 288" \<comment> \<open>0440\<close>

definition fernet_items :: "int \<Rightarrow> (string \<times> string) list" where
  "fernet_items n = map (\<lambda>i. (fkey i, itoa i)) [0..n - 1]"

definition credential_items :: "(string \<times> string) list" where
  "credential_items = [(''CredentialKeys0'', ''0''), (''CredentialKeys1'', ''1'')]"

definition tmp_volume :: "env \<Rightarrow> volume" where
  "tmp_volume E = WritableDirVolume (cl E) (LibString (cl E) ''volume.TmpVolumeName'')"

definition tmp_mount :: "env \<Rightarrow> volume_mount" where
  "tmp_mount E = WritableDirVolumeMount (cl E) (LibString (cl E) ''volume.TmpVolumeName'')
     (LibString (cl E) ''volume.TmpMountPath'')"

definition getVolumes :: "env \<Rightarrow> KeystoneAPI \<Rightarrow> nat list list \<Rightarrow> string list \<Rightarrow> volume list option" where
  "getVolumes E instance extraVol svc =
     (case api_FernetMaxActiveKeys (api_spec instance) of
        None \<Rightarrow> None
      | Some n \<Rightarrow> Some (
          [\<lparr>vol_Name = ''config-data'', vol_Source =
              SecretSource configAccessMode (om_name (api_meta instance) @ ''-config-data'') []\<rparr>,
           \<lparr>vol_Name = ''fernet-keys'', vol_Source =
              SecretSource configAccessMode ServiceName (fernet_items n)\<rparr>,
           \<lparr>vol_Name = ''credential-keys'', vol_Source =
              SecretSource configAccessMode ServiceName credential_items\<rparr>,
           tmp_volume E]
          @ concat (map (\<lambda>exv. concat (map fst (Propagate E exv svc))) extraVol)))"

definition ro_mount :: "string \<Rightarrow> string \<Rightarrow> string \<Rightarrow> volume_mount" where
  "ro_mount n p sub = \<lparr>vm_Name = n, vm_MountPath = p, vm_SubPath = sub, vm_ReadOnly = True\<rparr>"

definition getVolumeMounts :: "env \<Rightarrow> nat list list \<Rightarrow> string list \<Rightarrow> volume_mount list" where
  "getVolumeMounts E extraVol svc =
     [ro_mount ''config-data'' ''/etc/keystone/keystone.conf'' ''keystone.conf'',
      ro_mount ''config-data'' ''/etc/keystone/keystone.conf.d/custom.conf'' ''custom.conf'',
      ro_mount ''config-data'' ''/etc/httpd/conf/httpd.conf'' ''httpd.conf'',
      ro_mount ''config-data'' ''/etc/httpd/conf.d/ssl.conf'' ''ssl.conf'',
      ro_mount ''config-data'' ''/etc/my.cnf'' ''my.cnf'',
      ro_mount ''fernet-keys'' ''/etc/keystone/fernet-keys'' '''',
      ro_mount ''credential-keys'' ''/etc/keystone/credential-keys'' '''',
      WritableDirVolumeMount (cl E) (LibString (cl E) ''volume.RunHttpdVolumeName'')
        (LibString (cl E) ''volume.RunHttpdMountPath''),
      tmp_mount E,
      WritableDirVolumeMount (cl E) VarLogKeystoneVolumeName ''/var/log/keystone'',
      WritableDirVolumeMount (cl E) (LibString (cl E) ''volume.VarLogHttpdVolumeName'')
        (LibString (cl E) ''volume.VarLogHttpdMountPath'')]
     @ concat (map (\<lambda>exv. concat (map snd (Propagate E exv svc))) extraVol)"

definition getBootstrapVolumeMounts :: "env \<Rightarrow> volume_mount list" where
  "getBootstrapVolumeMounts E =
     [ro_mount ''config-data'' ''/etc/keystone/keystone.conf'' ''keystone.conf'',
      ro_mount ''config-data'' ''/etc/keystone/keystone.conf.d/custom.conf'' ''custom.conf'',
      ro_mount ''config-data'' ''/etc/my.cnf'' ''my.cnf'',
      ro_mount ''fernet-keys'' ''/etc/keystone/fernet-keys'' '''',
      ro_mount ''credential-keys'' ''/etc/keystone/credential-keys'' '''',
      tmp_mount E]"

definition getCronJobVolumeMounts :: "env \<Rightarrow> volume_mount list" where
  "getCronJobVolumeMounts E =
     [ro_mount ''config-data'' ''/etc/keystone/keystone.conf'' ''keystone.conf'',
      ro_mount ''config-data'' ''/etc/my.cnf'' ''my.cnf'',
      ro_mount ''fernet-keys'' ''/etc/keystone/fernet-keys'' '''',
      tmp_mount E]"

definition getDBSyncVolumeMounts :: "env \<Rightarrow> volume_mount list" where
  "getDBSyncVolumeMounts E =
     [ro_mount ''config-data'' ''/etc/keystone/keystone.conf'' ''keystone.conf'',
      ro_mount ''config-data'' ''/etc/my.cnf'' ''my.cnf'',
      tmp_mount E]"

text \<open>The CA bundle and the memcached client certificate, added to volumes and mounts when configured.\<close>

definition add_ca :: "env \<Rightarrow> KeystoneAPI \<Rightarrow> volume list \<times> volume_mount list \<Rightarrow> volume list \<times> volume_mount list" where
  "add_ca E instance vm =
     (let ca = api_TLS_CaBundleSecretName (api_spec instance)
      in if ca \<noteq> '''' then (fst vm @ [CAVolume (cl E) ca], snd vm @ CAVolumeMounts (cl E)) else vm)"

definition add_mtls :: "env \<Rightarrow> memcached \<Rightarrow> volume list \<times> volume_mount list \<Rightarrow> volume list \<times> volume_mount list" where
  "add_mtls E mc vm =
     (if mc_MTLSSecret mc \<noteq> '''' then (fst vm @ [MTLSVolume (cl E) mc], snd vm @ MTLSVolumeMounts (cl E) mc) else vm)"

section \<open>Jobs\<close>

definition pod_security :: "env \<Rightarrow> opaque" where
  "pod_security E = LibValue (cl E) ''pod.RestrictivePodSecurityContext(users.KeystoneUID, users.KeystoneGID)''"

definition container_security :: "env \<Rightarrow> opaque" where
  "container_security E = LibValue (cl E) ''pod.RestrictiveSecurityContext(users.KeystoneUID, users.KeystoneGID)''"

definition node_selector :: "KeystoneAPI \<Rightarrow> string gomap" where
  "node_selector instance = (case api_NodeSelector (api_spec instance) of None \<Rightarrow> [] | Some s \<Rightarrow> s)"

text \<open>The one container of a job; jobs have no probes and no resources.\<close>

definition job_container ::
  "env \<Rightarrow> KeystoneAPI \<Rightarrow> string \<Rightarrow> string list \<Rightarrow> string list \<Rightarrow> env_var list \<Rightarrow> volume_mount list \<Rightarrow> container" where
  "job_container E instance n command args envs mounts = \<lparr>ct_Name = n, ct_Command = command, ct_Args = args,
     ct_Image = api_ContainerImage (api_spec instance), ct_Security = container_security E, ct_Env = envs,
     ct_VolumeMounts = mounts, ct_Resources = None, ct_ReadinessProbe = None, ct_LivenessProbe = None\<rparr>"

definition DbSyncJob :: "env \<Rightarrow> KeystoneAPI \<Rightarrow> string gomap \<Rightarrow> string gomap \<Rightarrow> job option" where
  "DbSyncJob E instance labels annotations =
     (case getVolumes E instance [] (DBSyncPropagation E) of
        None \<Rightarrow> None
      | Some vs \<Rightarrow>
          let (volumes, volumeMounts) = add_ca E instance (vs, getDBSyncVolumeMounts E)
          in Some \<lparr>jb_Name = ServiceName @ ''-db-sync'', jb_Namespace = om_namespace (api_meta instance),
               jb_Labels = labels,
               jb_Pod = \<lparr>po_Labels = None, po_Annotations = Some annotations, po_RestartPolicy = ''OnFailure'',
                 po_ServiceAccountName = RbacResourceName instance, po_AutomountToken = False,
                 po_Security = pod_security E,
                 po_Containers = [job_container E instance (ServiceName @ ''-db-sync'') [''/bin/bash'']
                   [''-c'', DBSyncCommand] (MergeEnvs (cl E) [] []) volumeMounts],
                 po_Volumes = volumes, po_NodeSelector = node_selector instance, po_Affinity = None\<rparr>\<rparr>)"

definition bootstrap_vars :: "KeystoneAPI \<Rightarrow> string gomap \<Rightarrow> string gomap" where
  "bootstrap_vars instance endpoints =
     [(''OS_BOOTSTRAP_USERNAME'', api_AdminUser (api_spec instance)),
      (''OS_BOOTSTRAP_PROJECT_NAME'', api_AdminProject (api_spec instance)),
      (''OS_BOOTSTRAP_SERVICE_NAME'', ServiceName),
      (''OS_BOOTSTRAP_REGION_ID'', api_Region (api_spec instance))]
     @ (case map_of endpoints ''admin'' of Some u \<Rightarrow> [(''OS_BOOTSTRAP_ADMIN_URL'', u)] | None \<Rightarrow> [])
     @ (case map_of endpoints ''internal'' of Some u \<Rightarrow> [(''OS_BOOTSTRAP_INTERNAL_URL'', u)] | None \<Rightarrow> [])
     @ (case map_of endpoints ''public'' of Some u \<Rightarrow> [(''OS_BOOTSTRAP_PUBLIC_URL'', u)] | None \<Rightarrow> [])"

definition BootstrapJob ::
  "env \<Rightarrow> KeystoneAPI \<Rightarrow> string gomap \<Rightarrow> string gomap \<Rightarrow> string gomap \<Rightarrow> memcached \<Rightarrow> job option" where
  "BootstrapJob E instance labels annotations endpoints mc =
     (case getVolumes E instance [] BootstrapPropagation of
        None \<Rightarrow> None
      | Some vs \<Rightarrow>
          let (volumes, volumeMounts) = add_mtls E mc (add_ca E instance (vs, getBootstrapVolumeMounts E))
          in Some \<lparr>jb_Name = ServiceName @ ''-bootstrap'', jb_Namespace = om_namespace (api_meta instance),
               jb_Labels = labels,
               jb_Pod = \<lparr>po_Labels = None, po_Annotations = Some annotations, po_RestartPolicy = ''OnFailure'',
                 po_ServiceAccountName = RbacResourceName instance, po_AutomountToken = False,
                 po_Security = pod_security E,
                 po_Containers = [job_container E instance (ServiceName @ ''-bootstrap'') [''/bin/bash'']
                   [''-c'', BootstrapCommand]
                   (MergeEnvs (cl E) [EnvSecret ''OS_BOOTSTRAP_PASSWORD'' (api_Secret (api_spec instance)) ''AdminPassword'']
                     (bootstrap_vars instance endpoints)) volumeMounts],
                 po_Volumes = volumes, po_NodeSelector = node_selector instance, po_Affinity = None\<rparr>\<rparr>)"

definition CronJob :: "env \<Rightarrow> KeystoneAPI \<Rightarrow> string gomap \<Rightarrow> string gomap \<Rightarrow> memcached \<Rightarrow> cron_job option" where
  "CronJob E instance labels annotations mc =
     (case getVolumes E instance [] KeystoneCronJobPropagation of
        None \<Rightarrow> None
      | Some vs \<Rightarrow>
          let cmd = [''keystone-manage'', ''trust_flush'']
                @ (if api_TrustFlushArgs (api_spec instance) \<noteq> '''' then Fields (api_TrustFlushArgs (api_spec instance)) else []);
              (volumes, volumeMounts) = add_mtls E mc (add_ca E instance (vs, getCronJobVolumeMounts E))
          in Some \<lparr>cj_Name = ServiceName @ ''-cron'', cj_Namespace = om_namespace (api_meta instance),
               cj_Schedule = api_TrustFlushSchedule (api_spec instance),
               cj_Suspend = api_TrustFlushSuspend (api_spec instance), cj_ConcurrencyPolicy = ''Forbid'',
               cj_Parallelism = 1, cj_Completions = 1, cj_Labels = labels, cj_Annotations = annotations,
               cj_Pod = \<lparr>po_Labels = None, po_Annotations = None, po_RestartPolicy = ''Never'',
                 po_ServiceAccountName = RbacResourceName instance, po_AutomountToken = False,
                 po_Security = pod_security E,
                 po_Containers = [job_container E instance (ServiceName @ ''-cron'') cmd []
                   (MergeEnvs (cl E) [] []) volumeMounts],
                 po_Volumes = volumes, po_NodeSelector = node_selector instance, po_Affinity = None\<rparr>\<rparr>)"

section \<open>Federation and cloudrc\<close>

definition indexed :: "'a list \<Rightarrow> (nat \<times> 'a) list" where
  "indexed xs = zip [0..<length xs] xs"

definition realm_volume :: "nat \<Rightarrow> string" where
  "realm_volume index = ''federation-realm-volume'' @ itoa (int index)"

definition getFederationVolumeMounts :: "env \<Rightarrow> string \<Rightarrow> string list \<Rightarrow> volume_mount list" where
  "getFederationVolumeMounts E federationMountPath federationFilenames =
     map (\<lambda>(index, filename). ro_mount (realm_volume index) (filepathJoin (cl E) federationMountPath filename)
       (itoa (int index))) (indexed federationFilenames)"

definition getFederationVolumes :: "string list \<Rightarrow> volume list" where
  "getFederationVolumes federationFilenames =
     map (\<lambda>(index, _). \<lparr>vol_Name = realm_volume index,
       vol_Source = SecretSource 288 FederationMultiRealmSecret []\<rparr>) (indexed federationFilenames)"

record OpenStackConfig =
  oc_AuthURL :: string
  oc_ProjectName :: string
  oc_UserName :: string
  oc_UserDomainName :: string
  oc_ProjectDomainName :: string
  oc_RegionName :: string

definition GenerateCloudrc :: "string \<Rightarrow> OpenStackConfig \<Rightarrow> string" where
  "GenerateCloudrc password config =
     ''export OS_AUTH_URL='' @ oc_AuthURL config
     @ ''\<newline>export OS_USERNAME='' @ oc_UserName config
     @ ''\<newline>export OS_PROJECT_NAME='' @ oc_ProjectName config
     @ ''\<newline>export OS_PROJECT_DOMAIN_NAME='' @ oc_ProjectDomainName config
     @ ''\<newline>export OS_USER_DOMAIN_NAME='' @ oc_UserDomainName config
     @ ''\<newline>export OS_PASSWORD='' @ password"

section \<open>The deployment\<close>

definition api_probe :: "env \<Rightarrow> KeystoneAPI \<Rightarrow> probe" where
  "api_probe E instance = \<lparr>pr_TimeoutSeconds = 30, pr_PeriodSeconds = 30, pr_InitialDelaySeconds = 5,
     pr_Path = ''/v3'', pr_Port = KeystonePublicPort,
     pr_HTTPS = TLSEnabled (cl E) (api_TLS_Internal (api_spec instance)) (api_TLS_Public (api_spec instance)) ''public''\<rparr>"

definition tls_secret :: "KeystoneAPI \<Rightarrow> string \<Rightarrow> string option" where
  "tls_secret instance endpt =
     (if endpt = ''public'' then api_TLS_Public (api_spec instance) else api_TLS_Internal (api_spec instance))"

text \<open>The certificate of each endpoint with TLS, or the first error of \<open>ToService\<close>.\<close>

fun add_endpoint_tls ::
  "env \<Rightarrow> KeystoneAPI \<Rightarrow> string list \<Rightarrow> volume list \<times> volume_mount list
     \<Rightarrow> error + (volume list \<times> volume_mount list)" where
  "add_endpoint_tls E instance [] vm = Inr vm"
| "add_endpoint_tls E instance (endpt # rest) vm =
     (if TLSEnabled (cl E) (api_TLS_Internal (api_spec instance)) (api_TLS_Public (api_spec instance)) endpt
      then case TLSToService (cl E) (tls_secret instance endpt) of
          Some err \<Rightarrow> Inl err
        | None \<Rightarrow> add_endpoint_tls E instance rest
            (fst vm @ [TLSVolume (cl E) (tls_secret instance endpt) endpt],
             snd vm @ TLSVolumeMounts (cl E) (tls_secret instance endpt) endpt
               (''/etc/pki/tls/certs/'' @ endpt @ ''.crt'') (''/etc/pki/tls/private/'' @ endpt @ ''.key''))
      else add_endpoint_tls E instance rest vm)"

definition httpd_mounts :: "string list \<Rightarrow> volume_mount list" where
  "httpd_mounts customConfigKeys = map (\<lambda>key. ro_mount ''config-data'' (''/etc/httpd/conf/'' @ key) key) customConfigKeys"

definition add_federation ::
  "env \<Rightarrow> KeystoneAPI \<Rightarrow> string list \<Rightarrow> volume list \<times> volume_mount list \<Rightarrow> volume list \<times> volume_mount list" where
  "add_federation E instance federationFilenames vm =
     (if api_FederatedRealmConfig (api_spec instance) \<noteq> ''''
      then (fst vm @ [\<lparr>vol_Name = ''federation-realm-dir'', vol_Source = EmptyDirSource\<rparr>]
              @ getFederationVolumes federationFilenames,
            snd vm @ [\<lparr>vm_Name = ''federation-realm-dir'', vm_MountPath = FederationDefaultMountPath, vm_SubPath = '''',
                vm_ReadOnly = False\<rparr>]
              @ getFederationVolumeMounts E FederationDefaultMountPath federationFilenames)
      else vm)"

text \<open>The pods of the deployment, and where they are placed.\<close>

definition api_pod ::
  "env \<Rightarrow> KeystoneAPI \<Rightarrow> string \<Rightarrow> string gomap \<Rightarrow> string gomap \<Rightarrow> volume list \<Rightarrow> volume_mount list \<Rightarrow> string list \<Rightarrow> pod" where
  "api_pod E instance configHash labels annotations volumes mounts customConfigKeys =
     \<lparr>po_Labels = Some labels, po_Annotations = Some annotations, po_RestartPolicy = '''',
      po_ServiceAccountName = RbacResourceName instance, po_AutomountToken = False,
      po_Security = LibValue (cl E)
        ''pod.RestrictivePodSecurityContext(users.KeystoneUID, users.KeystoneGID, users.ApacheGID)'',
      po_Containers = [\<lparr>ct_Name = ServiceName @ ''-api'', ct_Command = [''/bin/bash''],
        ct_Args = [''-c'', ''/usr/sbin/httpd -DFOREGROUND''],
        ct_Image = api_ContainerImage (api_spec instance), ct_Security = container_security E,
        ct_Env = MergeEnvs (cl E) [] [(''CONFIG_HASH'', configHash)],
        ct_VolumeMounts = mounts @ httpd_mounts customConfigKeys,
        ct_Resources = Some (api_Resources (api_spec instance)),
        ct_ReadinessProbe = Some (api_probe E instance),
        ct_LivenessProbe = Some (api_probe E instance)\<rparr>],
      po_Volumes = volumes, po_NodeSelector = node_selector instance, po_Affinity = None\<rparr>"

definition place_pod :: "env \<Rightarrow> opaque option \<Rightarrow> pod \<Rightarrow> pod" where
  "place_pod E topology pod =
     (case topology of
        Some t \<Rightarrow> ApplyTopology (cl E) t pod
      | None \<Rightarrow> pod\<lparr>po_Affinity := Some (LibValue (cl E)
          ''affinity.DistributePods(common.AppSelector, [ServiceName], corev1.LabelHostname)'')\<rparr>)"

definition Deployment ::
  "env \<Rightarrow> KeystoneAPI \<Rightarrow> string \<Rightarrow> string gomap \<Rightarrow> string gomap \<Rightarrow> opaque option \<Rightarrow> string list
     \<Rightarrow> memcached \<Rightarrow> string list \<Rightarrow> (error + deployment) option" where
  "Deployment E instance configHash labels annotations topology federationFilenames mc customConfigKeys =
     (case getVolumes E instance (api_ExtraMounts (api_spec instance)) KeystonePropagation of
        None \<Rightarrow> None
      | Some vs \<Rightarrow>
          let vm0 = (vs @ [WritableDirVolume (cl E) (LibString (cl E) ''volume.RunHttpdVolumeName''),
                  WritableDirVolume (cl E) VarLogKeystoneVolumeName,
                  WritableDirVolume (cl E) (LibString (cl E) ''volume.VarLogHttpdVolumeName'')],
                getVolumeMounts E (api_ExtraMounts (api_spec instance)) KeystonePropagation);
              vm1 = add_mtls E mc (add_federation E instance federationFilenames (add_ca E instance vm0))
          in (case add_endpoint_tls E instance [''internal'', ''public''] vm1 of
                Inl err \<Rightarrow> Some (Inl err)
              | Inr (volumes, mounts) \<Rightarrow>
                  Some (Inr \<lparr>dp_Name = ServiceName, dp_Namespace = om_namespace (api_meta instance),
                    dp_MatchLabels = labels, dp_Replicas = api_Replicas (api_spec instance),
                    dp_Pod = place_pod E topology
                      (api_pod E instance configHash labels annotations volumes mounts customConfigKeys)\<rparr>)))"

end
