(* ===== verification/ApiCtl.thy ===== *)
theory ApiCtl
  imports Workloads
begin

text \<open>
  The KeystoneAPI controller, \<open>internal/controller/keystoneapi_controller.go\<close>: it deploys
  Keystone (database, transport URL, memcached, configuration, keys, jobs, deployment, cron job)
  or, for an external Keystone, only publishes its endpoints. The early returns of the Go
  functions are values of \<open>step\<close>; a panic and a loop that does not end are values too.
\<close>

section \<open>Early returns\<close>

datatype 'a step = Go 'a | Stop outcome | Panics | Diverges

text \<open>Continue with the value of a step, or return what it returned.\<close>

definition andThen :: "('s, 'a step) state \<Rightarrow> ('a \<Rightarrow> ('s, 'b step) state) \<Rightarrow> ('s, 'b step) state" where
  "andThen m f = do {
     r \<leftarrow> m;
     case r of Go a \<Rightarrow> f a | Stop out \<Rightarrow> ret (Stop out) | Panics \<Rightarrow> ret Panics | Diverges \<Rightarrow> ret Diverges
   }"

text \<open>The caller's check of an outcome: an error or a result that is not empty ends the run.\<close>

definition proceed :: "outcome \<Rightarrow> unit step" where
  "proceed out = (if snd out = None \<and> fst out = Result0 then Go () else Stop out)"

text \<open>What a function returns: the end of its steps is an empty result.\<close>

definition returned :: "unit step \<Rightarrow> outcome step" where
  "returned r = (case r of Go _ \<Rightarrow> Go ok | Stop out \<Rightarrow> Go out | Panics \<Rightarrow> Panics | Diverges \<Rightarrow> Diverges)"

definition api_false :: "env \<Rightarrow> ctype \<Rightarrow> reason \<Rightarrow> severity \<Rightarrow> msg \<Rightarrow> (KeystoneAPI st, unit) state" where
  "api_false E t r sev m = upd_inst (api_upd_conds (condSet E (FalseCondition t r sev m)))"

definition api_true :: "env \<Rightarrow> ctype \<Rightarrow> msg \<Rightarrow> (KeystoneAPI st, unit) state" where
  "api_true E t m = upd_inst (api_upd_conds (condMarkTrue E t m))"

text \<open>The two usual early returns: an error with its condition, and a wait with its condition.\<close>

definition failed :: "env \<Rightarrow> ctype \<Rightarrow> string \<Rightarrow> ctrl_result \<Rightarrow> error \<Rightarrow> (KeystoneAPI st, 'a step) state" where
  "failed E t m res e = do {
     api_false E t ErrorReason SeverityWarning (LibMsg m [err_msg e]);
     ret (Stop (res, Some e))
   }"

definition waiting :: "env \<Rightarrow> ctype \<Rightarrow> reason \<Rightarrow> severity \<Rightarrow> msg \<Rightarrow> ctrl_result \<Rightarrow> (KeystoneAPI st, 'a step) state" where
  "waiting E t r sev m res = do { api_false E t r sev m; ret (Stop (res, None)) }"

abbreviation failing :: "error \<Rightarrow> ('s, 'a step) state" where "failing e \<equiv> ret (Stop (fail e))"

definition api_map_status :: "(KeystoneAPIStatus \<Rightarrow> KeystoneAPIStatus) \<Rightarrow> KeystoneAPI \<Rightarrow> KeystoneAPI" where
  "api_map_status f i = i\<lparr>api_status := f (api_status i)\<rparr>"

definition api_drop_finalizer :: "env \<Rightarrow> (KeystoneAPI st, unit) state" where
  "api_drop_finalizer E = upd_inst (\<lambda>i. api_set_finalizers (fst (RemoveFinalizer E (api_fins i) (GetFinalizer E KindAPI))) i)"

text \<open>The name of the TransportURL object, and a memcached object with other finalizers.\<close>

definition transport_name :: "KeystoneAPI \<Rightarrow> string" where
  "transport_name i = om_name (api_meta i) @ ''-keystone-transport''"

definition mc_set_finalizers :: "string list \<Rightarrow> memcached \<Rightarrow> memcached" where
  "mc_set_finalizers fs m = m\<lparr>mc_meta := (mc_meta m)\<lparr>om_finalizers := fs\<rparr>\<rparr>"

section \<open>Deletion\<close>

text \<open>Each step is one dependency that is released; a failed step ends the run.\<close>

definition release_memcached :: "env \<Rightarrow> (KeystoneAPI st, unit step) state" where
  "release_memcached E = do {
     i \<leftarrow> get_inst;
     r \<leftarrow> perform (Cluster (GetMemcachedByName (api_MemcachedInstance (api_spec i)) (om_namespace (api_meta i))))
       (rMemcached (cl E));
     case r of
       Inl err \<Rightarrow> if IsNotFound err then ret (Go ()) else failing err
     | Inr mc \<Rightarrow>
         (let (fs, changed) = RemoveFinalizer E (om_finalizers (mc_meta mc)) (GetFinalizer E KindAPI)
          in if changed then do {
               e \<leftarrow> perform (Cluster (KUpdateMemcached (mc_set_finalizers fs mc))) (rErr E);
               case e of Some err \<Rightarrow> failing err | None \<Rightarrow> ret (Go ())
             } else ret (Go ()))
   }"

definition release_database :: "env \<Rightarrow> (KeystoneAPI st, unit step) state" where
  "release_database E = do {
     i \<leftarrow> get_inst;
     r \<leftarrow> perform (Cluster (GetDatabaseByNameAndAccount DatabaseCRName (api_DatabaseAccount (api_spec i))
       (om_namespace (api_meta i)))) (rDatabase (cl E));
     case r of
       Inl err \<Rightarrow> if IsNotFound err then ret (Go ()) else failing err
     | Inr db \<Rightarrow> do {
         e \<leftarrow> perform (Cluster (DBDeleteFinalizer db)) (rErr E);
         case e of Some err \<Rightarrow> failing err | None \<Rightarrow> ret (Go ())
       }
   }"

definition release_transport :: "env \<Rightarrow> (KeystoneAPI st, unit step) state" where
  "release_transport E = do {
     i \<leftarrow> get_inst;
     let ns = om_namespace (api_meta i); tracked = apis_TransportURLSecret (api_status i) in do {
       e \<leftarrow> perform (Cluster (RemoveSecretConsumerFinalizer ns tracked TransportConsumerFinalizer)) (rErr E);
       case e of
         Some err \<Rightarrow> failing err
       | None \<Rightarrow> do {
           r \<leftarrow> perform (Cluster (GetTransportURL (transport_name i) ns)) (rTransportURL (cl E));
           case r of
             Inl err \<Rightarrow> if IsNotFound err then ret (Go ()) else failing err
           | Inr secretName \<Rightarrow>
               if secretName \<noteq> '''' \<and> secretName \<noteq> tracked then do {
                 e \<leftarrow> perform (Cluster (RemoveSecretConsumerFinalizer ns secretName TransportConsumerFinalizer)) (rErr E);
                 case e of Some err \<Rightarrow> failing err | None \<Rightarrow> ret (Go ())
               } else ret (Go ())
         }
     }
   }"

definition release_topology :: "env \<Rightarrow> (KeystoneAPI st, unit step) state" where
  "release_topology E = do {
     i \<leftarrow> get_inst;
     (res, e) \<leftarrow> perform (Cluster (EnsureDeletedTopologyRef (apis_LastAppliedTopology (api_status i))
       (om_name (api_meta i)))) (rOutcome (cl E));
     ret (case e of Some err \<Rightarrow> Stop (res, Some err) | None \<Rightarrow> Go ())
   }"

definition api_reconcileDelete :: "env \<Rightarrow> (KeystoneAPI st, unit step) state" where
  "api_reconcileDelete E = do {
     i \<leftarrow> get_inst;
     if api_ExternalKeystoneAPI (api_spec i) then do { api_drop_finalizer E; ret (Go ()) }
     else if list_ex (\<lambda>f. f \<noteq> GetFinalizer E KindAPI) (api_fins i) then ret (Go ())
     else andThen (release_topology E) (\<lambda>_.
       andThen (release_memcached E) (\<lambda>_.
       andThen (release_database E) (\<lambda>_.
       andThen (release_transport E) (\<lambda>_. do { api_drop_finalizer E; ret (Go ()) }))))
   }"

section \<open>Input secrets\<close>

text \<open>\<open>configMapVars\<close> is threaded: name to value, as \<open>env.SetValue\<close> sets it.\<close>

definition verifySecret :: "env \<Rightarrow> string gomap \<Rightarrow> (KeystoneAPI st, string gomap step) state" where
  "verifySecret E configMapVars = do {
     i \<leftarrow> get_inst;
     (hash, result, err) \<leftarrow> perform (Cluster (VerifySecretFields (api_Secret (api_spec i)) (om_namespace (api_meta i))
       [''AdminPassword''] (10 * second))) (rVerifySecret (cl E));
     case err of
       Some e \<Rightarrow> failed E InputReadyCondition ''InputReadyErrorMessage'' Result0 e
     | None \<Rightarrow>
         if result \<noteq> Result0
         then waiting E InputReadyCondition ErrorReason SeverityWarning (LibMsg ''InputReadyWaitingMessage'' []) result
         else ret (Go (AList.update (api_Secret (api_spec i)) hash configMapVars))
   }"

definition verifyTLSInput :: "env \<Rightarrow> string gomap \<Rightarrow> (KeystoneAPI st, error + string gomap) state" where
  "verifyTLSInput E configMapVars = do {
     i \<leftarrow> get_inst;
     let ca = api_TLS_CaBundleSecretName (api_spec i) in
     if ca = '''' then ret (Inr configMapVars)
     else do {
       r \<leftarrow> perform (Cluster (ValidateCACertSecret ca (om_namespace (api_meta i)))) (rHash (cl E));
       case r of
         Inl err \<Rightarrow> do {
           api_false E TLSInputReadyCondition ErrorReason SeverityWarning
             (if IsNotFound err then LibMsg ''TLSInputReadyWaitingMessage'' [ca]
              else LibMsg ''TLSInputErrorMessage'' [err_msg err]);
           ret (Inl err)
         }
       | Inr hash \<Rightarrow> ret (Inr (if hash \<noteq> '''' then AList.update (CABundleKey E) hash configMapVars else configMapVars))
     }
   }"

text \<open>The caller of \<open>verifyTLSInput\<close> hides a missing secret.\<close>

definition checkTLSInput :: "env \<Rightarrow> string gomap \<Rightarrow> (KeystoneAPI st, string gomap step) state" where
  "checkTLSInput E configMapVars = do {
     r \<leftarrow> verifyTLSInput E configMapVars;
     ret (case r of
       Inl err \<Rightarrow> Stop (if IsNotFound err then ok else fail err)
     | Inr vars \<Rightarrow> Go vars)
   }"
section \<open>Database, transport URL, memcached\<close>

definition db_request_of :: "KeystoneAPI \<Rightarrow> db_request" where
  "db_request_of i = \<lparr>dr_Instance = api_DatabaseInstance (api_spec i), dr_Name = DatabaseName,
     dr_CRName = DatabaseCRName, dr_Account = api_DatabaseAccount (api_spec i),
     dr_Namespace = om_namespace (api_meta i)\<rparr>"

abbreviation MariaDBAccountReadyCondition :: ctype where
  "MariaDBAccountReadyCondition \<equiv> OtherCondition ''MariaDBAccountReadyCondition''"

definition ensureDB :: "env \<Rightarrow> (KeystoneAPI st, database step) state" where
  "ensureDB E = do {
     i \<leftarrow> get_inst;
     e \<leftarrow> perform (Cluster (EnsureMariaDBAccount (api_DatabaseAccount (api_spec i)) (om_namespace (api_meta i))
       DatabaseUsernamePrefix)) (rErr E);
     case e of
       Some err \<Rightarrow> failed E MariaDBAccountReadyCondition ''MariaDBAccountNotReadyMessage'' Result0 err
     | None \<Rightarrow> do {
         api_true E MariaDBAccountReadyCondition (LibMsg ''MariaDBAccountReadyMessage'' []);
         (ctrlResult, e) \<leftarrow> perform (Cluster (DBCreateOrPatchAll (db_request_of i))) (rOutcome (cl E));
         case e of
           Some err \<Rightarrow> failed E DBReadyCondition ''DBReadyErrorMessage'' Result0 err
         | None \<Rightarrow>
             if ctrlResult \<noteq> Result0
             then waiting E DBReadyCondition RequestedReason SeverityInfo (LibMsg ''DBReadyRunningMessage'' []) ctrlResult
             else do {
               (ctrlResult, e) \<leftarrow> perform (Cluster (WaitForDBCreated (db_request_of i))) (rOutcome (cl E));
               case e of
                 Some err \<Rightarrow> failed E DBReadyCondition ''DBReadyErrorMessage'' Result0 err
               | None \<Rightarrow>
                   if ctrlResult \<noteq> Result0
                   then waiting E DBReadyCondition RequestedReason SeverityInfo (LibMsg ''DBReadyRunningMessage'' []) ctrlResult
                   else do {
                     s \<leftarrow> State_Monad.get;
                     let db = rDBHandle (cl E) (log s) in do {
                       upd_inst (api_map_status (\<lambda>st. st\<lparr>apis_DatabaseHostname := db_Hostname db\<rparr>));
                       api_true E DBReadyCondition (LibMsg ''DBReadyMessage'' []);
                       ret (Go db)
                     }
                   }
             }
       }
   }"

definition transport_spec_of :: "KeystoneAPISpec \<Rightarrow> transport_spec" where
  "transport_spec_of spec =
     (case api_NotificationsBus spec of
        Some bus \<Rightarrow> \<lparr>ts_Cluster = nb_Cluster bus, ts_Username = nb_User bus, ts_Vhost = nb_Vhost bus\<rparr>
      | None \<Rightarrow> \<lparr>ts_Cluster = (if api_RabbitMqClusterName spec \<noteq> '''' then api_RabbitMqClusterName spec else ''rabbitmq''),
          ts_Username = '''', ts_Vhost = ''''\<rparr>)"

definition transportURLCreateOrUpdate :: "env \<Rightarrow> string gomap \<Rightarrow> (KeystoneAPI st, error + string) state" where
  "transportURLCreateOrUpdate E serviceLabels = do {
     i \<leftarrow> get_inst;
     perform (Cluster (CreateOrUpdateTransportURL (transport_name i) (om_namespace (api_meta i)) serviceLabels
       (transport_spec_of (api_spec i)))) (rTransportURL (cl E))
   }"

text \<open>The secret of the transport URL, protected by our consumer finalizer before it is used.\<close>

definition ensure_transport :: "env \<Rightarrow> string gomap \<Rightarrow> (KeystoneAPI st, string step) state" where
  "ensure_transport E serviceLabels = do {
     r \<leftarrow> transportURLCreateOrUpdate E serviceLabels;
     case r of
       Inl err \<Rightarrow> failed E RabbitMqTransportURLReadyCondition ''RabbitMqTransportURLReadyErrorMessage'' Result0 err
     | Inr currentTransportSecret \<Rightarrow>
         if currentTransportSecret = ''''
         then waiting E RabbitMqTransportURLReadyCondition RequestedReason SeverityInfo
           (LibMsg ''RabbitMqTransportURLReadyRunningMessage'' []) (requeueAfter (10 * second))
         else do {
           api_true E RabbitMqTransportURLReadyCondition (LibMsg ''RabbitMqTransportURLReadyMessage'' []);
           upd_inst (api_map_status (\<lambda>st. if apis_TransportURLSecret st = ''''
             then st\<lparr>apis_TransportURLSecret := currentTransportSecret\<rparr> else st));
           i \<leftarrow> get_inst;
           e \<leftarrow> perform (Cluster (ManageSecretConsumerFinalizer (om_namespace (api_meta i)) currentTransportSecret
             TransportConsumerFinalizer)) (rErr E);
           case e of Some err \<Rightarrow> failing err | None \<Rightarrow> ret (Go currentTransportSecret)
         }
   }"

definition ensure_memcached :: "env \<Rightarrow> (KeystoneAPI st, memcached step) state" where
  "ensure_memcached E = do {
     i \<leftarrow> get_inst;
     r \<leftarrow> perform (Cluster (GetMemcachedByName (api_MemcachedInstance (api_spec i)) (om_namespace (api_meta i))))
       (rMemcached (cl E));
     case r of
       Inl err \<Rightarrow>
         if IsNotFound err
         then waiting E MemcachedReadyCondition ErrorReason SeverityWarning (LibMsg ''MemcachedReadyWaitingMessage'' [])
           (requeueAfter (10 * second))
         else failed E MemcachedReadyCondition ''MemcachedReadyErrorMessage'' Result0 err
     | Inr mc0 \<Rightarrow>
         (let (fs, changed) = AddFinalizer E (om_finalizers (mc_meta mc0)) (GetFinalizer E KindAPI);
              mc = mc_set_finalizers fs mc0
          in do {
            e \<leftarrow> (if changed then perform (Cluster (KUpdateMemcached mc)) (rErr E) else ret None);
            case e of
              Some err \<Rightarrow> failed E MemcachedReadyCondition ''MemcachedReadyErrorMessage'' Result0 err
            | None \<Rightarrow>
                if \<not> mc_IsReady mc
                then waiting E MemcachedReadyCondition RequestedReason SeverityInfo
                  (LibMsg ''MemcachedReadyWaitingMessage'' []) (requeueAfter (10 * second))
                else do {
                  api_true E MemcachedReadyCondition (LibMsg ''MemcachedReadyMessage'' []);
                  ret (Go mc)
                }
          })
   }"
section \<open>Configuration\<close>

abbreviation lib :: "env \<Rightarrow> string \<Rightarrow> string" where "lib E n \<equiv> LibString (cl E) n"

definition cmLabels :: "env \<Rightarrow> KeystoneAPI \<Rightarrow> string gomap" where
  "cmLabels E i = GetLabels (cl E) (api_meta i) (GroupLabel E ServiceName)"

definition vhost_config :: "env \<Rightarrow> KeystoneAPI \<Rightarrow> bool \<Rightarrow> string \<Rightarrow> (string \<times> tval) list" where
  "vhost_config E i override endpt =
     (let tls = TLSEnabled (cl E) (api_TLS_Internal (api_spec i)) (api_TLS_Public (api_spec i)) endpt
      in [(''ServerName'', TStr (om_name (api_meta i) @ ''-'' @ endpt @ ''.'' @ om_namespace (api_meta i) @ ''.svc'')),
          (''TLS'', TBool tls)]
         @ (if tls then [(''SSLCertificateFile'', TStr (''/etc/pki/tls/certs/'' @ endpt @ ''.crt'')),
              (''SSLCertificateKeyFile'', TStr (''/etc/pki/tls/private/'' @ endpt @ ''.key''))] else [])
         @ [(''Override'', TBool override)])"

definition httpd_endpoints :: "string list" where "httpd_endpoints = [''internal'', ''public'']"

definition custom_key :: "string \<Rightarrow> string \<Rightarrow> string" where
  "custom_key endpt key = ''httpd_custom_'' @ endpt @ ''_'' @ key"

text \<open>The templates of the override secret: every key with content, once for each endpoint.\<close>

definition customTemplates :: "string gomap \<Rightarrow> string gomap" where
  "customTemplates d = concat (map (\<lambda>endpt.
     concat (map (\<lambda>key. if str_at d key \<noteq> '''' then [(custom_key endpt key, str_at d key)] else []) (sorted_keys d)))
     httpd_endpoints)"

definition endpoint_or_empty :: "KeystoneAPI \<Rightarrow> string \<Rightarrow> string" where
  "endpoint_or_empty i t = (case GetEndpoint i t of Inl _ \<Rightarrow> '''' | Inr u \<Rightarrow> u)"

definition databaseConnection :: "KeystoneAPI \<Rightarrow> database \<Rightarrow> string" where
  "databaseConnection i db = ''mysql+pymysql://'' @ db_UserName db @ '':'' @ db_Password db @ ''@''
     @ apis_DatabaseHostname (api_status i) @ ''/'' @ DatabaseName @ ''?read_default_file=/etc/my.cnf''"

definition templateParameters ::
  "env \<Rightarrow> KeystoneAPI \<Rightarrow> memcached \<Rightarrow> database \<Rightarrow> secret \<Rightarrow> string gomap \<Rightarrow> (string \<times> tval) list" where
  "templateParameters E i mc db transportURLSecret overrides =
     [(''MemcachedServers'', TStr (mc_ServerList mc)),
      (''MemcachedServersWithInet'', TStr (mc_ServerListWithInet mc)),
      (''MemcachedTLS'', TBool (mc_TLSSupport mc)),
      (''TransportURL'', TStr (sec_at transportURLSecret ''transport_url'')),
      (''DatabaseConnection'', TStr (databaseConnection i db)),
      (''ProcessNumber'', TInt (api_ProcessNumber (api_spec i))),
      (''EnableSecureRBAC'', TBool (api_EnableSecureRBAC (api_spec i))),
      (''FernetMaxActiveKeys'', TInt (api_FernetMaxActiveKeys (api_spec i))),
      (''KeystoneEndpointPublic'', TStr (endpoint_or_empty i ''public'')),
      (''KeystoneEndpointInternal'', TStr (endpoint_or_empty i ''internal''))]
     @ (if mc_MTLSSecret mc \<noteq> ''''
        then [(''MemcachedAuthCert'', TStr (lib E ''memcachedv1.CertMountPath()'')),
              (''MemcachedAuthKey'', TStr (lib E ''memcachedv1.KeyMountPath()'')),
              (''MemcachedAuthCa'', TStr (lib E ''memcachedv1.CaMountPath()''))]
        else [])
     @ [(''QuorumQueues'', TBool (sec_at transportURLSecret ''quorumqueues'' = ''true'')),
        (''VHosts'', TMap (map (\<lambda>endpt. (endpt, TMap (vhost_config E i (overrides \<noteq> []) endpt))) httpd_endpoints)),
        (''TimeOut'', TInt (Some (api_APITimeout (api_spec i))))]"

text \<open>\<open>maps.Copy\<close> of the overwrites over the generated files; the rendered parameters come last.\<close>

definition customData :: "env \<Rightarrow> KeystoneAPI \<Rightarrow> database \<Rightarrow> string \<Rightarrow> string gomap" where
  "customData E i db yamlData =
     AList.update (lib E ''common.TemplateParameters'') yamlData
       (foldl (\<lambda>m kv. AList.update (fst kv) (snd kv) m)
         [(lib E ''common.CustomServiceConfigFileName'', api_CustomServiceConfig (api_spec i)),
          (''my.cnf'', DBClientConfig (cl E) db (api_TLS_CaBundleSecretName (api_spec i) \<noteq> ''''))]
         (api_DefaultConfigOverwrite (api_spec i)))"

definition config_data_template ::
  "env \<Rightarrow> KeystoneAPI \<Rightarrow> string gomap \<Rightarrow> string gomap \<Rightarrow> (string \<times> tval) list \<Rightarrow> config_template" where
  "config_data_template E i templates data params =
     \<lparr>tp_Name = om_name (api_meta i) @ ''-config-data'', tp_Namespace = om_namespace (api_meta i),
      tp_Type = lib E ''util.TemplateTypeConfig'', tp_StringTemplate = templates, tp_CustomData = data,
      tp_ConfigOptions = params, tp_Labels = cmLabels E i, tp_CommonTemplates = [''ssl.conf'']\<rparr>"

text \<open>\<open>EnsureSecrets\<close> with \<open>envVars\<close>: on success the variables are what it wrote through the pointer.\<close>

definition ensure_secrets ::
  "env \<Rightarrow> config_template \<Rightarrow> string gomap \<Rightarrow> (KeystoneAPI st, error + string gomap) state" where
  "ensure_secrets E tmpl envVars = do {
     e \<leftarrow> perform (Cluster (EnsureConfigSecrets tmpl)) (rErr E);
     s \<leftarrow> State_Monad.get;
     ret (case e of Some err \<Rightarrow> Inl err | None \<Rightarrow> Inr (rEnsureVars (cl E) (log s) envVars))
   }"

definition override_data :: "env \<Rightarrow> KeystoneAPI \<Rightarrow> (KeystoneAPI st, error + string gomap) state" where
  "override_data E i =
     (case api_CustomConfigSecret (api_spec i) of
        None \<Rightarrow> ret (Inr [])
      | Some n \<Rightarrow>
          if n = '''' then ret (Inr [])
          else do {
            r \<leftarrow> perform (KGetSecret (om_namespace (api_meta i)) n) (rGetSecret E);
            ret (case r of Inl err \<Rightarrow> Inl err
              | Inr sec \<Rightarrow> Inr (case sec_data sec of None \<Rightarrow> [] | Some d \<Rightarrow> d))
          })"

definition yaml_error :: "error \<Rightarrow> error" where
  "yaml_error e = wrap_err ''error marshalling to YAML: '' e"

text \<open>The answer: the keys to mount, and the variables with the hash of the generated secret.\<close>

definition generateServiceConfigMaps ::
  "env \<Rightarrow> string gomap \<Rightarrow> memcached \<Rightarrow> database \<Rightarrow> string
     \<Rightarrow> (KeystoneAPI st, error + (string list \<times> string gomap)) state" where
  "generateServiceConfigMaps E envVars mc db transportURLSecretName = do {
     i \<leftarrow> get_inst;
     r \<leftarrow> perform (KGetSecret (om_namespace (api_meta i)) transportURLSecretName) (rGetSecret E);
     case r of
       Inl err \<Rightarrow> ret (Inl err)
     | Inr transportURLSecret \<Rightarrow> do {
         r2 \<leftarrow> override_data E i;
         case r2 of
           Inl err \<Rightarrow> ret (Inl err)
         | Inr overrides \<Rightarrow>
             (let templates = customTemplates overrides;
                  params = templateParameters E i mc db transportURLSecret overrides
              in case YamlMarshal (cl E) (TMap params) of
                Inl err \<Rightarrow> ret (Inl (yaml_error err))
              | Inr yamlData \<Rightarrow> do {
                  v \<leftarrow> ensure_secrets E (config_data_template E i templates (customData E i db yamlData) params) envVars;
                  ret (case v of Inl err \<Rightarrow> Inl err | Inr vars \<Rightarrow> Inr (sorted_keys templates, vars))
                })
       }
   }"
section \<open>Client configuration\<close>

definition cloud_config :: "KeystoneAPI \<Rightarrow> string \<Rightarrow> OpenStackConfig" where
  "cloud_config i authURL = \<lparr>oc_AuthURL = authURL, oc_ProjectName = api_AdminProject (api_spec i),
     oc_UserName = api_AdminUser (api_spec i), oc_UserDomainName = ''Default'', oc_ProjectDomainName = ''Default'',
     oc_RegionName = api_Region (api_spec i)\<rparr>"

text \<open>The two documents as \<open>yaml.v3\<close> sees them: the tags of the structs, or the field names in lower case.\<close>

definition clouds_yaml :: "OpenStackConfig \<Rightarrow> tval" where
  "clouds_yaml c = TMap [(''clouds'', TMap [(''default'', TMap [
     (''auth'', TMap [(''auth_url'', TStr (oc_AuthURL c)), (''project_name'', TStr (oc_ProjectName c)),
        (''username'', TStr (oc_UserName c)), (''user_domain_name'', TStr (oc_UserDomainName c)),
        (''project_domain_name'', TStr (oc_ProjectDomainName c))]),
     (''region_name'', TStr (oc_RegionName c))])])]"

definition secure_yaml :: "string \<Rightarrow> tval" where
  "secure_yaml password = TMap [(''clouds'', TMap [(''default'', TMap [
     (''auth'', TMap [(''password'', TStr password)])])])]"

definition plain_template :: "env \<Rightarrow> KeystoneAPI \<Rightarrow> string \<Rightarrow> string gomap \<Rightarrow> config_template" where
  "plain_template E i n data = \<lparr>tp_Name = n, tp_Namespace = om_namespace (api_meta i),
     tp_Type = lib E ''util.TemplateTypeNone'', tp_StringTemplate = [], tp_CustomData = data, tp_ConfigOptions = [],
     tp_Labels = cmLabels E i, tp_CommonTemplates = []\<rparr>"

definition client_secret :: "env \<Rightarrow> KeystoneAPI \<Rightarrow> OpenStackConfig \<Rightarrow> (KeystoneAPI st, error option) state" where
  "client_secret E i config = do {
     r \<leftarrow> perform (KGetSecret (om_namespace (api_meta i)) (api_Secret (api_spec i))) (rGetSecret E);
     case r of
       Inl err \<Rightarrow> ret (Some err)
     | Inr keystoneSecret \<Rightarrow>
         (let password = sec_at keystoneSecret (api_PasswordSelectors_Admin (api_spec i))
          in case YamlMarshal (cl E) (secure_yaml password) of
               Inl err \<Rightarrow> ret (Some err)
             | Inr secretVal \<Rightarrow>
                 perform (Cluster (EnsureConfigSecrets (plain_template E i ''openstack-config-secret''
                   [(''secure.yaml'', secretVal), (''cloudrc'', GenerateCloudrc password config)]))) (rErr E))
   }"

definition reconcileCloudConfig :: "env \<Rightarrow> (KeystoneAPI st, error option) state" where
  "reconcileCloudConfig E = do {
     i \<leftarrow> get_inst;
     case GetEndpoint i ''public'' of
       Inl err \<Rightarrow> ret (Some err)
     | Inr authURL \<Rightarrow>
         (let config = cloud_config i authURL
          in case YamlMarshal (cl E) (clouds_yaml config) of
               Inl err \<Rightarrow> ret (Some err)
             | Inr cloudsYamlVal \<Rightarrow> do {
                 e \<leftarrow> perform (Cluster (EnsureConfigMaps (plain_template E i ''openstack-config''
                   [(''clouds.yaml'', cloudsYamlVal), (''OS_CLOUD'', ''default'')]))) (rErr E);
                 case e of Some err \<Rightarrow> ret (Some err) | None \<Rightarrow> client_secret E i config
               })
   }"

definition check_err :: "error option \<Rightarrow> unit step" where
  "check_err e = (case e of Some err \<Rightarrow> Stop (fail err) | None \<Rightarrow> Go ())"

section \<open>Keys and realms\<close>

text \<open>\<open>ensureFernetKeys\<close> changes the variables only when its last call is the creation of the secret.\<close>

definition ensured_vars :: "env \<Rightarrow> history \<Rightarrow> string gomap \<Rightarrow> string gomap" where
  "ensured_vars E h vars =
     (case last h of EnsureSecrets _ \<Rightarrow> rEnsureVars (cl E) h vars | _ \<Rightarrow> vars)"

definition ensure_keys :: "env \<Rightarrow> string gomap \<Rightarrow> (KeystoneAPI st, string gomap step) state" where
  "ensure_keys E configMapVars = do {
     r \<leftarrow> ensureFernetKeys E;
     s \<leftarrow> State_Monad.get;
     case r of
       Done None \<Rightarrow> ret (Go (ensured_vars E (log s) configMapVars))
     | Done (Some err) \<Rightarrow> failed E ServiceConfigReadyCondition ''ServiceConfigReadyErrorMessage'' Result0 err
     | Panic \<Rightarrow> ret Panics
     | Diverge \<Rightarrow> ret Diverges
   }"

definition missing_config_key :: "env \<Rightarrow> string \<Rightarrow> error" where
  "missing_config_key E n = \<lparr>err_kind = FieldNotFound,
     err_msg = ''key '' @ FederationConfigKey @ '' not found in secret '' @ n @ '': '' @ lib E ''util.ErrFieldNotFound''\<rparr>"

text \<open>The secret with the realms: the files by their position in the sorted list of names, and that list.\<close>

definition realm_data :: "string gomap \<Rightarrow> string \<Rightarrow> string gomap" where
  "realm_data rawConfigs filenamesJSON =
     map (\<lambda>(index, filename). (itoa (int index), str_at rawConfigs filename)) (indexed (sorted_keys rawConfigs))
     @ [(''_filenames.json'', filenamesJSON)]"

definition ensureFederationRealmConfig ::
  "env \<Rightarrow> string gomap \<Rightarrow> (KeystoneAPI st, error + (string list \<times> string gomap)) state" where
  "ensureFederationRealmConfig E envVars = do {
     i \<leftarrow> get_inst;
     let realm = api_FederatedRealmConfig (api_spec i) in
     if realm = '''' then ret (Inr ([], envVars))
     else do {
       r \<leftarrow> perform (KGetSecret (om_namespace (api_meta i)) realm) (rGetSecret E);
       s \<leftarrow> State_Monad.get;
       case r of
         Inl err \<Rightarrow> ret (Inl err)
       | Inr federationSecret \<Rightarrow>
           (let envVars1 = AList.update realm (rSecretHash (cl E) (log s)) envVars
            in case map_of (case sec_data federationSecret of None \<Rightarrow> [] | Some d \<Rightarrow> d) FederationConfigKey of
                 None \<Rightarrow> ret (Inl (missing_config_key E realm))
               | Some jsonData \<Rightarrow> (case JsonObject (cl E) jsonData of
                     Inl err \<Rightarrow> ret (Inl err)
                   | Inr rawConfigs \<Rightarrow> (case JsonStrings (cl E) (sorted_keys rawConfigs) of
                         Inl err \<Rightarrow> ret (Inl err)
                       | Inr filenamesJSON \<Rightarrow> do {
                           v \<leftarrow> ensure_secrets E (plain_template E i FederationMultiRealmSecret
                             (realm_data rawConfigs filenamesJSON)) envVars1;
                           ret (case v of Inl err \<Rightarrow> Inl err | Inr vars \<Rightarrow> Inr (sorted_keys rawConfigs, vars))
                         })))
     }
   }"

text \<open>The caller of the configuration functions: every error is one of the service configuration.\<close>

definition service_config :: "env \<Rightarrow> error + 'a \<Rightarrow> (KeystoneAPI st, 'a step) state" where
  "service_config E r =
     (case r of
        Inl err \<Rightarrow> failed E ServiceConfigReadyCondition ''ServiceConfigReadyErrorMessage'' Result0 err
      | Inr a \<Rightarrow> ret (Go a))"

definition InputHashName :: "env \<Rightarrow> string" where "InputHashName E = lib E ''common.InputHashName''"

definition hash_map :: "KeystoneAPI \<Rightarrow> string gomap" where
  "hash_map i = (case apis_Hash (api_status i) of None \<Rightarrow> [] | Some m \<Rightarrow> m)"

definition createHashOfInputHashes :: "env \<Rightarrow> string gomap \<Rightarrow> (KeystoneAPI st, error + string) state" where
  "createHashOfInputHashes E envVars = do {
     i \<leftarrow> get_inst;
     case EnvHash (cl E) envVars of
       Inl err \<Rightarrow> ret (Inl err)
     | Inr hash \<Rightarrow>
         (let (hashMap, changed) = SetHash (cl E) (hash_map i) (InputHashName E) hash
          in do {
            upd_inst (api_map_status (\<lambda>st. if changed then st\<lparr>apis_Hash := Some hashMap\<rparr> else st));
            ret (Inr hash)
          })
   }"
section \<open>reconcileInit\<close>

definition DbSyncHash :: string where "DbSyncHash = ''dbsync''"
definition BootstrapHash :: string where "BootstrapHash = ''bootstrap''"

text \<open>\<open>RbacConditionsSet\<close> is the callback by which \<open>ReconcileRbac\<close> sets conditions of the instance.\<close>

definition RbacConditionsSet :: "env \<Rightarrow> condition \<Rightarrow> KeystoneAPI \<Rightarrow> KeystoneAPI" where
  "RbacConditionsSet E c = api_upd_conds (condSet E (Some c))"

definition rbacRules :: "policy_rule list" where
  "rbacRules = [\<lparr>pl_APIGroups = [''security.openshift.io''], pl_ResourceNames = [''nonroot-v2''],
     pl_Resources = [''securitycontextconstraints''], pl_Verbs = [''use'']\<rparr>]"

definition reconcile_rbac :: "env \<Rightarrow> (KeystoneAPI st, unit step) state" where
  "reconcile_rbac E = do {
     i \<leftarrow> get_inst;
     out \<leftarrow> perform (Cluster (ReconcileRbac (RbacResourceName i) rbacRules)) (rOutcome (cl E));
     s \<leftarrow> State_Monad.get;
     upd_inst (\<lambda>i. foldl (\<lambda>j c. RbacConditionsSet E c j) i (rRbacConditions (cl E) (log s)));
     ret (proceed out)
   }"

text \<open>
  A job and its hash. A result that is not empty wins over an error. Writing to a nil hash map,
  or building a job from a nil \<open>FernetMaxActiveKeys\<close>, panics.
\<close>

definition run_job :: "env \<Rightarrow> job option \<Rightarrow> string \<Rightarrow> ctype \<Rightarrow> string \<Rightarrow> (KeystoneAPI st, unit step) state" where
  "run_job E jobDef hashName t messages =
     (case jobDef of
        None \<Rightarrow> ret Panics
      | Some j \<Rightarrow> do {
          i \<leftarrow> get_inst;
          ((ctrlResult, err), changed, hash) \<leftarrow> perform (Cluster (DoJob j hashName (api_PreserveJobs (api_spec i))
            (5 * second) (str_at (hash_map i) hashName))) (rJob (cl E));
          if ctrlResult \<noteq> Result0
          then waiting E t RequestedReason SeverityInfo (LibMsg (messages @ ''RunningMessage'') []) ctrlResult
          else (case err of
              Some e \<Rightarrow> failed E t (messages @ ''ErrorMessage'') Result0 e
            | None \<Rightarrow>
                if changed \<and> apis_Hash (api_status i) = None then ret Panics
                else do {
                  upd_inst (api_map_status (\<lambda>st. if changed
                    then st\<lparr>apis_Hash := Some (AList.update hashName hash (hash_map i))\<rparr> else st));
                  api_true E t (LibMsg (messages @ ''Message'') []);
                  ret (Go ())
                })
        })"

text \<open>The endpoints with their ports, in the order of their sorted names.\<close>

definition keystoneEndpoints :: "(string \<times> int) list" where
  "keystoneEndpoints = [(''internal'', KeystoneInternalPort), (''public'', KeystonePublicPort)]"

definition no_override :: override where
  "no_override = \<lparr>ov_EndpointURL = None, ov_Labelled = False, ov_Spec = 0\<rparr>"

definition svc_override :: "KeystoneAPI \<Rightarrow> string \<Rightarrow> override" where
  "svc_override i endpt =
     (case map_of (api_Override_Service (api_spec i)) endpt of Some v \<Rightarrow> v | None \<Rightarrow> no_override)\<lparr>ov_Labelled := True\<rparr>"

definition endpoint_service_details :: "env \<Rightarrow> KeystoneAPI \<Rightarrow> string gomap \<Rightarrow> string \<Rightarrow> int \<Rightarrow> service_details" where
  "endpoint_service_details E i serviceLabels endpt port =
     (let endpointName = om_name (api_meta i) @ ''-'' @ endpt
      in \<lparr>sd_Name = endpointName, sd_Namespace = om_namespace (api_meta i),
          sd_Labels = MergeStringMaps (cl E) serviceLabels [(lib E ''service.AnnotationEndpointKey'', endpt)],
          sd_Selector = serviceLabels, sd_PortName = endpointName, sd_Port = port\<rparr>)"

text \<open>The annotations: the endpoint, whether an ingress is wanted, and the hostname of a load balancer.\<close>

definition annotate_service :: "env \<Rightarrow> string \<Rightarrow> k8s_service \<Rightarrow> k8s_service" where
  "annotate_service E endpt svc =
     (let svc1 = AddAnnotation (cl E) [(lib E ''service.AnnotationEndpointKey'', endpt)] svc;
          ingress = (\<lambda>v. AddAnnotation (cl E) [(lib E ''service.AnnotationIngressCreateKey'', v)])
      in if endpt = ''public'' \<and> ks_Type svc1 = ''ClusterIP'' then ingress ''true'' svc1
         else let svc2 = ingress ''false'' svc1
              in if ks_Type svc2 = ''LoadBalancer''
                 then AddAnnotation (cl E) [(lib E ''service.AnnotationHostnameKey'', ks_Hostname svc2)] svc2 else svc2)"

definition create_service ::
  "env \<Rightarrow> KeystoneAPI \<Rightarrow> string gomap \<Rightarrow> string \<Rightarrow> int \<Rightarrow> (KeystoneAPI st, string step) state" where
  "create_service E i serviceLabels endpt port =
     (case NewService (cl E) (endpoint_service_details E i serviceLabels endpt port) 5 (svc_override i endpt) of
        Inl err \<Rightarrow> failed E CreateServiceReadyCondition ''CreateServiceReadyErrorMessage'' Result0 err
      | Inr svc0 \<Rightarrow>
          (let svc = annotate_service E endpt svc0
           in do {
             (ctrlResult, e) \<leftarrow> perform (Cluster (CreateOrPatchService svc)) (rOutcome (cl E));
             case e of
               Some err \<Rightarrow> failed E CreateServiceReadyCondition ''CreateServiceReadyErrorMessage'' ctrlResult err
             | None \<Rightarrow>
                 if ctrlResult \<noteq> Result0
                 then waiting E CreateServiceReadyCondition RequestedReason SeverityInfo
                   (LibMsg ''CreateServiceReadyRunningMessage'' []) ctrlResult
                 else do {
                   r \<leftarrow> perform (Cluster (GetAPIEndpoint svc (ov_EndpointURL (svc_override i endpt))
                     (if TLSEnabled (cl E) (api_TLS_Internal (api_spec i)) (api_TLS_Public (api_spec i)) endpt
                      then Some ''https'' else None) '''')) (rHash (cl E));
                   ret (case r of Inl err \<Rightarrow> Stop (fail err) | Inr url \<Rightarrow> Go url)
                 }
           }))"

primrec create_services ::
  "env \<Rightarrow> KeystoneAPI \<Rightarrow> string gomap \<Rightarrow> (string \<times> int) list \<Rightarrow> string gomap
     \<Rightarrow> (KeystoneAPI st, string gomap step) state" where
  "create_services E i serviceLabels [] apiEndpoints = ret (Go apiEndpoints)"
| "create_services E i serviceLabels (ep # eps) apiEndpoints =
     andThen (create_service E i serviceLabels (fst ep) (snd ep)) (\<lambda>url.
       create_services E i serviceLabels eps (AList.update (fst ep) url apiEndpoints))"

definition expose_services :: "env \<Rightarrow> string gomap \<Rightarrow> (KeystoneAPI st, unit step) state" where
  "expose_services E serviceLabels = do {
     i \<leftarrow> get_inst;
     andThen (create_services E i serviceLabels keystoneEndpoints []) (\<lambda>apiEndpoints. do {
       api_true E CreateServiceReadyCondition (LibMsg ''CreateServiceReadyMessage'' []);
       upd_inst (api_map_status (\<lambda>st. st\<lparr>apis_APIEndpoints := Some apiEndpoints\<rparr>));
       ret (Go ())
     })
   }"

definition endpoints_map :: "KeystoneAPI \<Rightarrow> string gomap" where
  "endpoints_map i = (case apis_APIEndpoints (api_status i) of None \<Rightarrow> [] | Some m \<Rightarrow> m)"

definition bootstrap ::
  "env \<Rightarrow> string gomap \<Rightarrow> string gomap \<Rightarrow> memcached \<Rightarrow> (KeystoneAPI st, unit step) state" where
  "bootstrap E serviceLabels serviceAnnotations mc = do {
     j \<leftarrow> get_inst;
     run_job E (BootstrapJob E j serviceLabels serviceAnnotations (endpoints_map j) mc) BootstrapHash
       BootstrapReadyCondition ''BootstrapReady''
   }"

definition reconcileInit ::
  "env \<Rightarrow> string gomap \<Rightarrow> string gomap \<Rightarrow> memcached \<Rightarrow> (KeystoneAPI st, unit step) state" where
  "reconcileInit E serviceLabels serviceAnnotations mc =
     andThen (reconcile_rbac E) (\<lambda>_. do {
       i \<leftarrow> get_inst;
       andThen (run_job E (DbSyncJob E i serviceLabels serviceAnnotations) DbSyncHash DBSyncReadyCondition
           ''DBSyncReady'') (\<lambda>_.
         andThen (expose_services E serviceLabels) (\<lambda>_. bootstrap E serviceLabels serviceAnnotations mc))
     })"
section \<open>reconcileNormal\<close>

definition serviceLabels_of :: "env \<Rightarrow> KeystoneAPI \<Rightarrow> string gomap" where
  "serviceLabels_of E i = [(AppSelector E, ServiceName), (lib E ''common.OwnerSelector'', om_name (api_meta i))]"

definition validate_certs :: "env \<Rightarrow> (KeystoneAPI st, string step) state" where
  "validate_certs E = do {
     i \<leftarrow> get_inst;
     r \<leftarrow> perform (Cluster (ValidateCertSecrets (api_TLS_Internal (api_spec i)) (api_TLS_Public (api_spec i))
       (om_namespace (api_meta i)))) (rHash (cl E));
     case r of
       Inl err \<Rightarrow>
         if IsNotFound err
         then waiting E TLSInputReadyCondition RequestedReason SeverityInfo
           (LibMsg ''TLSInputReadyWaitingMessage'' [err_msg err]) Result0
         else failed E TLSInputReadyCondition ''TLSInputErrorMessage'' Result0 err
     | Inr certsHash \<Rightarrow> ret (Go certsHash)
   }"

text \<open>From the services it depends on to the hash over all inputs.\<close>

definition hash_inputs :: "env \<Rightarrow> string gomap \<Rightarrow> (KeystoneAPI st, string step) state" where
  "hash_inputs E configMapVars =
     andThen (checkTLSInput E configMapVars) (\<lambda>vars.
     andThen (validate_certs E) (\<lambda>certsHash. do {
       api_true E TLSInputReadyCondition (LibMsg ''InputReadyMessage'' []);
       r \<leftarrow> createHashOfInputHashes E (AList.update (lib E ''tls.TLSHashName'') certsHash vars);
       case r of
         Inl err \<Rightarrow> failing err
       | Inr inputHash \<Rightarrow> do {
           api_true E ServiceConfigReadyCondition (LibMsg ''ServiceConfigReadyMessage'' []);
           ret (Go inputHash)
         }
     }))"

primrec networks :: "env \<Rightarrow> string \<Rightarrow> string list \<Rightarrow> opaque list \<Rightarrow> (KeystoneAPI st, opaque list step) state" where
  "networks E ns [] nadList = ret (Go nadList)"
| "networks E ns (netAtt # rest) nadList = do {
     r \<leftarrow> perform (Cluster (GetNADWithName netAtt ns)) (rNAD (cl E));
     case r of
       Inl err \<Rightarrow>
         if IsNotFound err
         then waiting E NetworkAttachmentsReadyCondition ErrorReason SeverityWarning
           (LibMsg ''NetworkAttachmentsReadyWaitingMessage'' [netAtt]) (requeueAfter (10 * second))
         else failed E NetworkAttachmentsReadyCondition ''NetworkAttachmentsReadyErrorMessage'' Result0 err
     | Inr nad \<Rightarrow> networks E ns rest (case nad of None \<Rightarrow> nadList | Some n \<Rightarrow> nadList @ [n])
   }"

text \<open>The verb \<open>%s\<close> on a list of strings.\<close>

definition sprint_list :: "string list \<Rightarrow> string" where
  "sprint_list xs = ''['' @ concat (map (\<lambda>(n, x). if n = 0 then x else '' '' @ x) (indexed xs)) @ '']''"

definition network_annotations :: "env \<Rightarrow> (KeystoneAPI st, string gomap step) state" where
  "network_annotations E = do {
     i \<leftarrow> get_inst;
     andThen (networks E (om_namespace (api_meta i)) (api_NetworkAttachments (api_spec i)) []) (\<lambda>nadList.
       case EnsureNetworksAnnotation (cl E) nadList of
         Inl err \<Rightarrow> failing (wrap_err (''failed create network annotation from ''
           @ sprint_list (api_NetworkAttachments (api_spec i)) @ '': '') err)
       | Inr serviceAnnotations \<Rightarrow> ret (Go serviceAnnotations))
   }"

definition reconcileUpdate :: "(KeystoneAPI st, outcome) state" where "reconcileUpdate = ret ok"
definition reconcileUpgrade :: "(KeystoneAPI st, outcome) state" where "reconcileUpgrade = ret ok"

definition update_and_upgrade :: "(KeystoneAPI st, unit step) state" where
  "update_and_upgrade = do {
     u \<leftarrow> reconcileUpdate;
     andThen (ret (proceed u)) (\<lambda>_. do { g \<leftarrow> reconcileUpgrade; ret (proceed g) })
   }"

definition ensure_topology :: "env \<Rightarrow> string gomap \<Rightarrow> (KeystoneAPI st, opaque option step) state" where
  "ensure_topology E serviceLabels = do {
     i \<leftarrow> get_inst;
     r \<leftarrow> perform (Cluster (EnsureServiceTopology (api_TopologyRef (api_spec i))
       (apis_LastAppliedTopology (api_status i)) (om_name (api_meta i)) serviceLabels)) (rTopology (cl E));
     case r of
       Inl err \<Rightarrow> do {
         api_false E TopologyReadyCondition ErrorReason SeverityWarning (LibMsg ''TopologyReadyErrorMessage'' [err_msg err]);
         failing (wrap_err ''waiting for Topology requirements: '' err)
       }
     | Inr topology \<Rightarrow> do {
         upd_inst (api_map_status (\<lambda>st. st\<lparr>apis_LastAppliedTopology := api_TopologyRef (api_spec i)\<rparr>));
         (if api_TopologyRef (api_spec i) \<noteq> None
          then api_true E TopologyReadyCondition (LibMsg ''TopologyReadyMessage'' []) else ret ());
         ret (Go topology)
       }
   }"

text \<open>The deployment, with what its status says of ready replicas.\<close>

definition deploy :: "env \<Rightarrow> (error + deployment) option \<Rightarrow> (KeystoneAPI st, deployed step) state" where
  "deploy E deplDef =
     (case deplDef of
        None \<Rightarrow> ret Panics
      | Some (Inl err) \<Rightarrow> failed E DeploymentReadyCondition ''DeploymentReadyErrorMessage'' Result0 err
      | Some (Inr depl) \<Rightarrow> do {
          (ctrlResult, e) \<leftarrow> perform (Cluster (CreateOrPatchDeployment depl)) (rOutcome (cl E));
          case e of
            Some err \<Rightarrow> failed E DeploymentReadyCondition ''DeploymentReadyErrorMessage'' ctrlResult err
          | None \<Rightarrow>
              if ctrlResult \<noteq> Result0
              then waiting E DeploymentReadyCondition RequestedReason SeverityInfo
                (LibMsg ''DeploymentReadyRunningMessage'' []) ctrlResult
              else do {
                dy \<leftarrow> perform (Cluster GetDeployment) (rDeployed (cl E));
                upd_inst (\<lambda>i. api_map_status (\<lambda>st. if dy_Generation dy = dy_ObservedGeneration dy
                  then st\<lparr>apis_ReadyCount := dy_ReadyReplicas dy, apis_Region := api_Region (api_spec i)\<rparr> else st) i);
                ret (Go dy)
              }
        })"

definition verify_networks :: "env \<Rightarrow> string gomap \<Rightarrow> (KeystoneAPI st, unit step) state" where
  "verify_networks E serviceLabels = do {
     i \<leftarrow> get_inst;
     r \<leftarrow> perform (Cluster (VerifyNetworkStatus (api_NetworkAttachments (api_spec i)) serviceLabels
       (apis_ReadyCount (api_status i)))) (rNetworkStatus (cl E));
     case r of
       Inl err \<Rightarrow> failing err
     | Inr (networkReady, status) \<Rightarrow> do {
         upd_inst (api_map_status (\<lambda>st. st\<lparr>apis_NetworkAttachments := Some status\<rparr>));
         if networkReady then do {
           api_true E NetworkAttachmentsReadyCondition (LibMsg ''NetworkAttachmentsReadyMessage'' []);
           ret (Go ())
         } else waiting E NetworkAttachmentsReadyCondition ErrorReason SeverityWarning
             (LibMsg ''NetworkAttachmentsErrorMessage'' (api_NetworkAttachments (api_spec i))) Result0
       }
   }"

text \<open>Ready when the deployment is ready with the current hash of inputs. Nil \<open>Replicas\<close> panic.\<close>

definition check_deployment :: "env \<Rightarrow> string \<Rightarrow> deployed \<Rightarrow> (KeystoneAPI st, unit step) state" where
  "check_deployment E inputHash dy =
     andThen (if DeploymentIsReady (cl E) dy then do {
         r \<leftarrow> perform (Cluster (IsReadyForInput (dy_Name dy) (dy_Namespace dy) inputHash)) (rReadyForInput (cl E));
         ret (case r of Inl err \<Rightarrow> Stop (fail err) | Inr ready \<Rightarrow> Go ready)
       } else ret (Go False)) (\<lambda>ready. do {
     i \<leftarrow> get_inst;
     case api_Replicas (api_spec i) of
       None \<Rightarrow> ret Panics
     | Some replicas \<Rightarrow> do {
         (if ready then api_true E DeploymentReadyCondition (LibMsg ''DeploymentReadyMessage'' [])
          else if replicas > 0
          then api_false E DeploymentReadyCondition RequestedReason SeverityInfo (LibMsg ''DeploymentReadyRunningMessage'' [])
          else ret ());
         if apis_ReadyCount (api_status i) = replicas
         then do {
           e \<leftarrow> perform (Cluster (DeleteUnusedMariaDBAccountFinalizers DatabaseName (api_DatabaseAccount (api_spec i))
             (om_namespace (api_meta i)))) (rErr E);
           ret (check_err e)
         } else ret (Go ())
       }
   })"

text \<open>The result of the cron job call is read only on an error.\<close>

definition ensure_cron_job :: "env \<Rightarrow> cron_job option \<Rightarrow> (KeystoneAPI st, unit step) state" where
  "ensure_cron_job E cronjobDef =
     (case cronjobDef of
        None \<Rightarrow> ret Panics
      | Some cj \<Rightarrow> do {
          (ctrlResult, e) \<leftarrow> perform (Cluster (CreateOrPatchCronJob cj)) (rOutcome (cl E));
          case e of
            Some err \<Rightarrow> failed E CronJobReadyCondition ''CronJobReadyErrorMessage'' ctrlResult err
          | None \<Rightarrow> do { api_true E CronJobReadyCondition (LibMsg ''CronJobReadyMessage'' []); ret (Go ()) }
        })"

text \<open>The end of a transport URL rotation, and the pruning of consumer finalizers that were left behind.\<close>

definition finish_rotation :: "env \<Rightarrow> string \<Rightarrow> (KeystoneAPI st, unit step) state" where
  "finish_rotation E currentTransportSecret = do {
     i \<leftarrow> get_inst;
     let ns = om_namespace (api_meta i) in do {
       r \<leftarrow> perform (Cluster (FinalizeSecretRotation ns (apis_TransportURLSecret (api_status i)) currentTransportSecret
         TransportConsumerFinalizer (AllSubConditionIsTrue E (api_conds i)))) (rRotation (cl E));
       case r of
         Inl err \<Rightarrow> failing err
       | Inr transportSecretName \<Rightarrow> do {
           upd_inst (api_map_status (\<lambda>st. st\<lparr>apis_TransportURLSecret := transportSecretName\<rparr>));
           e \<leftarrow> perform (Cluster (PruneSecretConsumerFinalizers ns TransportConsumerFinalizer
             [transportSecretName, currentTransportSecret])) (rErr E);
           ret (check_err e)
         }
     }
   }"
text \<open>What the service needs from others, and its generated configuration: the values the later stages use.\<close>

record inputs =
  in_serviceLabels :: "string gomap"
  in_transportSecret :: string
  in_memcached :: memcached
  in_customConfigKeys :: "string list"
  in_federationFilenames :: "string list"
  in_vars :: "string gomap"

definition prepare_inputs :: "env \<Rightarrow> (KeystoneAPI st, inputs step) state" where
  "prepare_inputs E = do {
     i \<leftarrow> get_inst;
     let serviceLabels = serviceLabels_of E i in
     andThen (verifySecret E []) (\<lambda>vars0. do {
       api_true E InputReadyCondition (LibMsg ''InputReadyMessage'' []);
       andThen (ensureDB E) (\<lambda>db.
       andThen (ensure_transport E serviceLabels) (\<lambda>currentTransportSecret.
       andThen (ensure_memcached E) (\<lambda>mc.
       andThen (do { r \<leftarrow> generateServiceConfigMaps E vars0 mc db currentTransportSecret; service_config E r })
         (\<lambda>(customConfigKeys, vars1).
       andThen (ensure_keys E vars1) (\<lambda>vars2.
       andThen (do { r \<leftarrow> ensureFederationRealmConfig E vars2; service_config E r })
         (\<lambda>(federationFilenames, vars3).
       ret (Go \<lparr>in_serviceLabels = serviceLabels, in_transportSecret = currentTransportSecret, in_memcached = mc,
         in_customConfigKeys = customConfigKeys, in_federationFilenames = federationFilenames, in_vars = vars3\<rparr>)))))))
     })
   }"

text \<open>The objects that run Keystone, in the order they are created.\<close>

definition run_service :: "env \<Rightarrow> inputs \<Rightarrow> string \<Rightarrow> (KeystoneAPI st, unit step) state" where
  "run_service E inp inputHash =
     andThen (network_annotations E) (\<lambda>serviceAnnotations.
     andThen (reconcileInit E (in_serviceLabels inp) serviceAnnotations (in_memcached inp)) (\<lambda>_.
     andThen update_and_upgrade (\<lambda>_.
     andThen (ensure_topology E (in_serviceLabels inp)) (\<lambda>topology. do {
       i \<leftarrow> get_inst;
       andThen (deploy E (Deployment E i inputHash (in_serviceLabels inp) serviceAnnotations topology
           (in_federationFilenames inp) (in_memcached inp) (in_customConfigKeys inp))) (\<lambda>dy.
       andThen (verify_networks E (in_serviceLabels inp)) (\<lambda>_.
       andThen (check_deployment E inputHash dy) (\<lambda>_. do {
         j \<leftarrow> get_inst;
         ensure_cron_job E (CronJob E j (in_serviceLabels inp) serviceAnnotations (in_memcached inp))
       })))
     }))))"

definition api_reconcileNormal :: "env \<Rightarrow> (KeystoneAPI st, unit step) state" where
  "api_reconcileNormal E =
     andThen (prepare_inputs E) (\<lambda>inp.
     andThen (hash_inputs E (in_vars inp)) (\<lambda>inputHash.
     andThen (run_service E inp inputHash) (\<lambda>_.
     andThen (do { e \<leftarrow> reconcileCloudConfig E; ret (check_err e) }) (\<lambda>_.
     finish_rotation E (in_transportSecret inp)))))"

section \<open>An external Keystone\<close>

datatype override_check = Checked "string option" "string option" | Rejected string

text \<open>The loop over the sorted override keys: the URLs of the public and the internal endpoint.\<close>

definition endpoint_url_of :: "override \<Rightarrow> string option" where
  "endpoint_url_of v = (case ov_EndpointURL v of None \<Rightarrow> None | Some u \<Rightarrow> if u = '''' then None else Some u)"

primrec check_overrides ::
  "override gomap \<Rightarrow> string list \<Rightarrow> string option \<Rightarrow> string option \<Rightarrow> override_check" where
  "check_overrides m [] pub intern = Checked pub intern"
| "check_overrides m (endpointType # rest) pub intern =
     (case map_of m endpointType of
        None \<Rightarrow> check_overrides m rest pub intern
      | Some data \<Rightarrow>
          if endpointType = ''public'' then
            (case endpoint_url_of data of
               None \<Rightarrow> Rejected ''external Keystone API requires endpointURL to be set for public endpoint''
             | Some u \<Rightarrow> check_overrides m rest (Some u) intern)
          else if endpointType = ''internal'' then
            (case endpoint_url_of data of
               None \<Rightarrow> Rejected ''external Keystone API requires endpointURL to be set for internal endpoint''
             | Some u \<Rightarrow> check_overrides m rest pub (Some u))
          else check_overrides m rest pub intern)"

text \<open>The URLs to publish, or the message of the condition.\<close>

definition external_endpoints :: "override gomap \<Rightarrow> msg + (string \<times> string)" where
  "external_endpoints m =
     (if m = [] then Inl (LibMsg ''InputReadyWaitingMessage'' [])
      else case check_overrides m (sorted_keys m) None None of
        Rejected e \<Rightarrow> Inl (Msg e [])
      | Checked None _ \<Rightarrow> Inl (Msg ''external Keystone API requires public endpoint to be defined'' [])
      | Checked (Some _) None \<Rightarrow> Inl (Msg ''external Keystone API requires internal endpoint to be defined'' [])
      | Checked (Some p) (Some n) \<Rightarrow> Inr (p, n))"

definition publish_external :: "string \<Rightarrow> string \<Rightarrow> KeystoneAPI \<Rightarrow> KeystoneAPI" where
  "publish_external p n i = api_map_status (\<lambda>st. st\<lparr>
     apis_APIEndpoints := Some (AList.update ''internal'' n (AList.update ''public'' p (endpoints_map i))),
     apis_Region := api_Region (api_spec i)\<rparr>) i"

definition reconcileExternalKeystoneAPI :: "env \<Rightarrow> (KeystoneAPI st, unit step) state" where
  "reconcileExternalKeystoneAPI E =
     andThen (verifySecret E []) (\<lambda>vars. do {
       i \<leftarrow> get_inst;
       case external_endpoints (api_Override_Service (api_spec i)) of
         Inl m \<Rightarrow> waiting E InputReadyCondition ErrorReason SeverityWarning m Result0
       | Inr (p, n) \<Rightarrow> do {
           upd_inst (publish_external p n);
           api_true E InputReadyCondition (LibMsg ''InputReadyMessage'' []);
           upd_inst (api_map_status (\<lambda>st. st\<lparr>apis_ReadyCount := 0\<rparr>));
           andThen (checkTLSInput E vars) (\<lambda>_. do {
             api_true E TLSInputReadyCondition (LibMsg ''InputReadyMessage'' []);
             e \<leftarrow> reconcileCloudConfig E;
             ret (check_err e)
           })
         }
     })"

section \<open>Reconcile\<close>

definition api_init_types :: "KeystoneAPISpec \<Rightarrow> (ctype \<times> string) list" where
  "api_init_types spec =
     [(InputReadyCondition, ''InputReadyInitMessage''), (TLSInputReadyCondition, ''InputReadyInitMessage'')]
     @ (if \<not> api_ExternalKeystoneAPI spec then
         [(DBReadyCondition, ''DBReadyInitMessage''), (DBSyncReadyCondition, ''DBSyncReadyInitMessage''),
          (RabbitMqTransportURLReadyCondition, ''RabbitMqTransportURLReadyInitMessage''),
          (MemcachedReadyCondition, ''MemcachedReadyInitMessage''),
          (CreateServiceReadyCondition, ''CreateServiceReadyInitMessage''),
          (BootstrapReadyCondition, ''BootstrapReadyInitMessage''),
          (ServiceConfigReadyCondition, ''ServiceConfigReadyInitMessage''),
          (DeploymentReadyCondition, ''DeploymentReadyInitMessage''),
          (NetworkAttachmentsReadyCondition, ''NetworkAttachmentsReadyInitMessage''),
          (CronJobReadyCondition, ''CronJobReadyInitMessage''),
          (OtherCondition ''ServiceAccountReadyCondition'', ''ServiceAccountReadyInitMessage''),
          (OtherCondition ''RoleReadyCondition'', ''RoleReadyInitMessage''),
          (OtherCondition ''RoleBindingReadyCondition'', ''RoleBindingReadyInitMessage'')] else [])
     @ (if api_TopologyRef spec \<noteq> None then [(TopologyReadyCondition, ''TopologyReadyInitMessage'')] else [])"

definition api_init_conditions :: "KeystoneAPISpec \<Rightarrow> conditions" where
  "api_init_conditions spec = map (\<lambda>(t, m). UnknownCondition t InitReason (LibMsg m [])) (api_init_types spec)"

definition default_status :: "KeystoneAPIStatus \<Rightarrow> KeystoneAPIStatus" where
  "default_status st = st\<lparr>apis_Hash := Some (case apis_Hash st of None \<Rightarrow> [] | Some m \<Rightarrow> m),
     apis_APIEndpoints := Some (case apis_APIEndpoints st of None \<Rightarrow> [] | Some m \<Rightarrow> m),
     apis_NetworkAttachments := Some (case apis_NetworkAttachments st of None \<Rightarrow> [] | Some m \<Rightarrow> m)\<rparr>"

definition api_dispatch :: "env \<Rightarrow> (KeystoneAPI st, unit step) state" where
  "api_dispatch E = do {
     i \<leftarrow> get_inst;
     if deleting (api_meta i) then api_reconcileDelete E
     else if api_ExternalKeystoneAPI (api_spec i) then reconcileExternalKeystoneAPI E
     else api_reconcileNormal E
   }"

definition api_body :: "env \<Rightarrow> (KeystoneAPI st, unit step) state" where
  "api_body E = do {
     i \<leftarrow> get_inst;
     let isNewInstance = apis_Conditions (api_status i) = None in do {
       upd_inst (api_upd_conds (\<lambda>cs. condInit E cs (api_init_conditions (api_spec i))));
       upd_inst (api_map_status (\<lambda>st. st\<lparr>apis_ObservedGeneration := om_generation (api_meta i)\<rparr>));
       let (fs, added) = AddFinalizer E (api_fins i) (GetFinalizer E KindAPI) in do {
         (if \<not> deleting (api_meta i) then upd_inst (api_set_finalizers fs) else ret ());
         if \<not> deleting (api_meta i) \<and> added \<or> isNewInstance then ret (Go ())
         else do { upd_inst (api_map_status default_status); api_dispatch E }
       }
     }
   }"

text \<open>The deferred patch; a panic is passed on without it.\<close>

definition api_deferred :: "env \<Rightarrow> conditions \<Rightarrow> outcome step \<Rightarrow> (KeystoneAPI st, outcome step) state" where
  "api_deferred E savedConditions r =
     (case r of
        Go out \<Rightarrow> do {
          res \<leftarrow> deferred E api_upd_conds KPatchAPI
            (\<lambda>cs. condRestoreTimes E (ready_step E cs) savedConditions) out;
          ret (Go res)
        }
      | Stop out \<Rightarrow> ret (Stop out) | Panics \<Rightarrow> ret Panics | Diverges \<Rightarrow> ret Diverges)"

definition api_Reconcile :: "env \<Rightarrow> string \<Rightarrow> string \<Rightarrow> (KeystoneAPI st, outcome step) state" where
  "api_Reconcile E namespace name = do {
     r \<leftarrow> perform (KGet KindAPI namespace name) (rGetAPI E);
     case r of
       Inl err \<Rightarrow> ret (Go (if IsNotFound err then ok else fail err))
     | Inr i \<Rightarrow> do {
         upd_inst (\<lambda>_. i);
         err \<leftarrow> perform (NewHelper KindAPI) (rErr E);
         case err of
           Some e \<Rightarrow> ret (Go (fail e))
         | None \<Rightarrow> do { out \<leftarrow> api_body E; api_deferred E (api_conds i) (returned out) }
       }
   }"

section \<open>Watches\<close>

definition memcachedFn :: "env \<Rightarrow> string \<Rightarrow> string \<Rightarrow> ('i st, (string \<times> string) list) state" where
  "memcachedFn E namespace name = do {
     r \<leftarrow> perform (KList KindAPI namespace []) (rListAPIs E);
     ret (case r of
       Inl _ \<Rightarrow> []
     | Inr items \<Rightarrow> map (\<lambda>cr. (namespace, om_name (api_meta cr)))
         (filter (\<lambda>cr. api_MemcachedInstance (api_spec cr) = name) items))
   }"

definition allWatchFields :: "string list" where
  "allWatchFields = [''.spec.secret'', ''.spec.tls.caBundleSecretName'', ''.spec.tls.api.internal.secretName'',
     ''.spec.tls.api.public.secretName'', ''.spec.httpdCustomization.customServiceConfigSecret'',
     ''.spec.federatedRealmConfig'', ''.spec.topologyRef.Name'']"

text \<open>What each index function extracts from an object.\<close>

definition opt_list :: "string \<Rightarrow> string list" where "opt_list s = (if s = '''' then [] else [s])"

definition indexField :: "string \<Rightarrow> KeystoneAPISpec \<Rightarrow> string list" where
  "indexField f spec =
     (if f = ''.spec.secret'' then opt_list (api_Secret spec)
      else if f = ''.spec.tls.caBundleSecretName'' then opt_list (api_TLS_CaBundleSecretName spec)
      else if f = ''.spec.tls.api.internal.secretName'' then (case api_TLS_Internal spec of None \<Rightarrow> [] | Some n \<Rightarrow> [n])
      else if f = ''.spec.tls.api.public.secretName'' then (case api_TLS_Public spec of None \<Rightarrow> [] | Some n \<Rightarrow> [n])
      else if f = ''.spec.httpdCustomization.customServiceConfigSecret''
      then (case api_CustomConfigSecret spec of None \<Rightarrow> [] | Some n \<Rightarrow> [n])
      else if f = ''.spec.federatedRealmConfig'' then opt_list (api_FederatedRealmConfig spec)
      else if f = ''.spec.topologyRef.Name'' then (case api_TopologyRef spec of None \<Rightarrow> [] | Some r \<Rightarrow> [fst r])
      else [])"

text \<open>The loop over the fields; a failed listing ends it with what was found so far.\<close>

primrec find_objects ::
  "env \<Rightarrow> string \<Rightarrow> string \<Rightarrow> string list \<Rightarrow> (string \<times> string) list \<Rightarrow> ('i st, (string \<times> string) list) state" where
  "find_objects E namespace name [] requests = ret requests"
| "find_objects E namespace name (f # fs) requests = do {
     r \<leftarrow> perform (Cluster (ListAPIsByField f name namespace)) (rListAPIs E);
     case r of
       Inl _ \<Rightarrow> ret requests
     | Inr items \<Rightarrow> find_objects E namespace name fs
         (requests @ map (\<lambda>item. (om_namespace (api_meta item), om_name (api_meta item))) items)
   }"

definition findObjectsForSrc :: "env \<Rightarrow> string \<Rightarrow> string \<Rightarrow> ('i st, (string \<times> string) list) state" where
  "findObjectsForSrc E namespace name = find_objects E namespace name allWatchFields []"

end
