(* ===== verification/Webhook.thy ===== *)
theory Webhook
  imports ApiHelpers
begin

text \<open>
  The admission webhook of KeystoneAPI, \<open>api/v1beta1/keystoneapi_webhook.go\<close>: defaulting,
  validation of creation and update, the rules for an external Keystone, and the default route
  annotations. What lib-common and \<open>net/url\<close> decide is a field of \<open>webhook_env\<close>. Go iterates a
  map in an arbitrary order: \<open>RangeOrder\<close> is the order of one iteration.
\<close>

section \<open>Fields and errors\<close>

datatype path_elem = Child string | Key string

type_synonym path = "path_elem list"

datatype field_error =
    Required path string
  | Invalid path string string
  | LibFieldError nat

text \<open>The verdict of the webhook: an admission, \<open>apierrors.NewInvalid\<close>, or an internal error.\<close>

datatype verdict = Admitted | InvalidObject string "field_error list" | InternalError string

record deprecated_field =
  df_Name :: string
  df_NewFieldPath :: "string list"
  df_OldDeprecatedValue :: "string option"
  df_NewDeprecatedValue :: string
  df_NewValue :: "string option"

record webhook_env =
  ContainerImageURL :: string
  DefaultAPITimeout :: int
  ParseURL :: "string \<Rightarrow> error + string" \<comment> \<open>\<open>url.Parse\<close> and the scheme of its result\<close>
  RangeOrder :: "override gomap \<Rightarrow> string list"
  ValidateRoutedOverrides :: "path \<Rightarrow> override gomap \<Rightarrow> field_error list"
  ValidateTopologyRef :: "(string \<times> string) option \<Rightarrow> path \<Rightarrow> string \<Rightarrow> field_error list"
  ValidateDeprecatedFieldsCreate :: "deprecated_field list \<Rightarrow> path \<Rightarrow> string list"
  ValidateDeprecatedFieldsUpdate :: "deprecated_field list \<Rightarrow> path \<Rightarrow> string list \<times> field_error list"

definition range_law :: "webhook_env \<Rightarrow> bool" where
  "range_law W \<longleftrightarrow> (\<forall>m. set (RangeOrder W m) = dom (map_of m) \<and> distinct (RangeOrder W m))"

section \<open>Defaults\<close>

definition default_core :: "webhook_env \<Rightarrow> KeystoneAPISpec \<Rightarrow> KeystoneAPISpec" where
  "default_core W spec =
     (if api_APITimeout spec = 0 then spec\<lparr>api_APITimeout := DefaultAPITimeout W\<rparr> else spec)"

definition default_spec :: "webhook_env \<Rightarrow> KeystoneAPISpec \<Rightarrow> KeystoneAPISpec" where
  "default_spec W spec = default_core W spec"

definition Default :: "webhook_env \<Rightarrow> KeystoneAPI \<Rightarrow> KeystoneAPI" where
  "Default W r =
     (let spec = api_spec r;
          spec1 = (if api_ContainerImage spec = '''' then spec\<lparr>api_ContainerImage := ContainerImageURL W\<rparr> else spec)
      in r\<lparr>api_spec := default_spec W spec1\<rparr>)"

section \<open>The external Keystone\<close>

definition service_path :: "path \<Rightarrow> path" where
  "service_path basePath = basePath @ [Child ''override'', Child ''service'']"

text \<open>The checks of the URL of one endpoint.\<close>

definition check_endpoint_url :: "webhook_env \<Rightarrow> path \<Rightarrow> string \<Rightarrow> override \<Rightarrow> field_error list" where
  "check_endpoint_url W basePath endpt v =
     (let p = service_path basePath @ [Key endpt, Child ''endpointURL'']
      in case ov_EndpointURL v of
           None \<Rightarrow> [Required p (''external Keystone API requires endpointURL to be set for '' @ endpt @ '' endpoint'')]
         | Some u \<Rightarrow>
             if u = ''''
             then [Required p (''external Keystone API requires endpointURL to be set for '' @ endpt @ '' endpoint'')]
             else (case ParseURL W u of
                 Inl err \<Rightarrow> [Invalid p u (''invalid URL format: '' @ err_msg err)]
               | Inr scheme \<Rightarrow>
                   if scheme = '''' then [Invalid p u ''URL must include a scheme (e.g., http:// or https://)''] else []))"

primrec check_endpoints :: "webhook_env \<Rightarrow> path \<Rightarrow> override gomap \<Rightarrow> string list \<Rightarrow> field_error list" where
  "check_endpoints W basePath m [] = []"
| "check_endpoints W basePath m (endpt # rest) =
     (case map_of m endpt of
        Some v \<Rightarrow> if endpt = ''public'' \<or> endpt = ''internal'' then check_endpoint_url W basePath endpt v else []
      | None \<Rightarrow> []) @ check_endpoints W basePath m rest"

definition missing_endpoint :: "path \<Rightarrow> override gomap \<Rightarrow> string \<Rightarrow> field_error list" where
  "missing_endpoint basePath m endpt =
     (if has_key m endpt then []
      else [Required (service_path basePath) (''external Keystone API requires '' @ endpt @ '' endpoint to be defined'')])"

definition ValidateExternalKeystoneAPI :: "webhook_env \<Rightarrow> path \<Rightarrow> KeystoneAPISpec \<Rightarrow> field_error list" where
  "ValidateExternalKeystoneAPI W basePath spec =
     (if \<not> api_ExternalKeystoneAPI spec then []
      else let m = api_Override_Service spec
           in check_endpoints W basePath m (RangeOrder W m)
              @ missing_endpoint basePath m ''public'' @ missing_endpoint basePath m ''internal'')"

section \<open>Deprecated fields\<close>

definition getDeprecatedFields :: "KeystoneAPISpec \<Rightarrow> KeystoneAPISpec option \<Rightarrow> deprecated_field list" where
  "getDeprecatedFields spec old =
     [\<lparr>df_Name = ''rabbitMqClusterName'', df_NewFieldPath = [''notificationsBus'', ''cluster''],
       df_OldDeprecatedValue = map_option api_RabbitMqClusterName old,
       df_NewDeprecatedValue = api_RabbitMqClusterName spec,
       df_NewValue = map_option nb_Cluster (api_NotificationsBus spec)\<rparr>]"

definition validateDeprecatedFieldsCreate ::
  "webhook_env \<Rightarrow> path \<Rightarrow> KeystoneAPISpec \<Rightarrow> string list \<times> field_error list" where
  "validateDeprecatedFieldsCreate W basePath spec =
     (ValidateDeprecatedFieldsCreate W (getDeprecatedFields spec None) basePath, [])"

definition validateDeprecatedFieldsUpdate ::
  "webhook_env \<Rightarrow> KeystoneAPISpec \<Rightarrow> path \<Rightarrow> KeystoneAPISpec \<Rightarrow> string list \<times> field_error list" where
  "validateDeprecatedFieldsUpdate W old basePath spec =
     ValidateDeprecatedFieldsUpdate W (getDeprecatedFields spec (Some old)) basePath"

section \<open>Validation\<close>

definition ValidateTopology :: "webhook_env \<Rightarrow> path \<Rightarrow> string \<Rightarrow> KeystoneAPISpec \<Rightarrow> field_error list" where
  "ValidateTopology W basePath namespace spec =
     ValidateTopologyRef W (api_TopologyRef spec) (basePath @ [Child ''topologyRef'']) namespace"

text \<open>The rules both validations share.\<close>

definition common_errors :: "webhook_env \<Rightarrow> path \<Rightarrow> string \<Rightarrow> KeystoneAPISpec \<Rightarrow> field_error list" where
  "common_errors W basePath namespace spec =
     ValidateRoutedOverrides W (service_path basePath) (api_Override_Service spec)
     @ ValidateTopology W basePath namespace spec
     @ ValidateExternalKeystoneAPI W basePath spec"

definition validate_create_core ::
  "webhook_env \<Rightarrow> path \<Rightarrow> string \<Rightarrow> KeystoneAPISpec \<Rightarrow> string list \<times> field_error list" where
  "validate_create_core W basePath namespace spec =
     (let (warnings, errs) = validateDeprecatedFieldsCreate W basePath spec
      in (warnings, errs @ common_errors W basePath namespace spec))"

definition validate_update_core ::
  "webhook_env \<Rightarrow> KeystoneAPISpec \<Rightarrow> path \<Rightarrow> string \<Rightarrow> KeystoneAPISpec \<Rightarrow> string list \<times> field_error list" where
  "validate_update_core W old basePath namespace spec =
     (let (warnings, errs) = validateDeprecatedFieldsUpdate W old basePath spec
      in (warnings, errs @ common_errors W basePath namespace spec))"

definition verdict_of :: "string \<Rightarrow> string list \<times> field_error list \<Rightarrow> string list \<times> verdict" where
  "verdict_of name we = (fst we, if snd we \<noteq> [] then InvalidObject name (snd we) else Admitted)"

definition ValidateCreate :: "webhook_env \<Rightarrow> KeystoneAPI \<Rightarrow> string list \<times> verdict" where
  "ValidateCreate W r = verdict_of (om_name (api_meta r))
     (validate_create_core W [Child ''spec''] (om_namespace (api_meta r)) (api_spec r))"

text \<open>\<open>None\<close> stands for an old object that is nil or of another type.\<close>

definition ValidateUpdate :: "webhook_env \<Rightarrow> KeystoneAPI \<Rightarrow> KeystoneAPI option \<Rightarrow> string list \<times> verdict" where
  "ValidateUpdate W r old =
     (case old of
        None \<Rightarrow> ([], InternalError ''unable to convert existing object'')
      | Some oldKeystoneAPI \<Rightarrow> verdict_of (om_name (api_meta r))
          (validate_update_core W (api_spec oldKeystoneAPI) [Child ''spec''] (om_namespace (api_meta r)) (api_spec r)))"

definition ValidateDelete :: "KeystoneAPI \<Rightarrow> string list \<times> verdict" where
  "ValidateDelete r = ([], Admitted)"

section \<open>Route annotations\<close>

definition haProxyAnno :: string where "haProxyAnno = ''haproxy.router.openshift.io/timeout''"
definition keystoneAnno :: string where "keystoneAnno = ''api.keystone.openstack.org/timeout''"

definition SetDefaultRouteAnnotations :: "KeystoneAPISpec \<Rightarrow> string gomap \<Rightarrow> string gomap" where
  "SetDefaultRouteAnnotations spec annotations =
     (let valKeystoneAPI = map_of annotations keystoneAnno; valHAProxy = map_of annotations haProxyAnno
      in if valKeystoneAPI = None \<and> valHAProxy \<noteq> None then annotations
         else if valKeystoneAPI \<noteq> None \<and> valHAProxy \<noteq> None \<and> valKeystoneAPI \<noteq> valHAProxy
         then AList.delete keystoneAnno annotations
         else let timeout = itoa (api_APITimeout spec) @ ''s''
              in AList.update haProxyAnno timeout (AList.update keystoneAnno timeout annotations))"

lemma annos_distinct [simp]: "haProxyAnno \<noteq> keystoneAnno" "keystoneAnno \<noteq> haProxyAnno"
  by (simp_all add: haProxyAnno_def keystoneAnno_def)

text \<open>The timeout belongs to the user when it is set and the operator's flag does not say the same.\<close>

definition user_timeout :: "string gomap \<Rightarrow> bool" where
  "user_timeout a \<longleftrightarrow> map_of a haProxyAnno \<noteq> None \<and> map_of a keystoneAnno \<noteq> map_of a haProxyAnno"

lemma SetDefaultRouteAnnotations_lookup:
  "map_of (SetDefaultRouteAnnotations spec a) =
    (if user_timeout a then (map_of a)(keystoneAnno := None)
     else (map_of a)(keystoneAnno \<mapsto> itoa (api_APITimeout spec) @ ''s'',
            haProxyAnno \<mapsto> itoa (api_APITimeout spec) @ ''s''))"
  by (auto simp: SetDefaultRouteAnnotations_def user_timeout_def Let_def)

text \<open>
  The route's timeout is the operator's own unless a user set it: a timeout the user chose is kept by
  this and by every later call, under any spec; otherwise it becomes the APITimeout of the spec, a second
  call changes nothing, and a later spec can still change it. Other annotations are never touched.
\<close>
lemma route_annotations_respect_user:
  "map_of (SetDefaultRouteAnnotations spec a) haProxyAnno =
      (if user_timeout a then map_of a haProxyAnno else Some (itoa (api_APITimeout spec) @ ''s''))
   \<and> user_timeout (SetDefaultRouteAnnotations spec a) = user_timeout a
   \<and> map_of (SetDefaultRouteAnnotations spec (SetDefaultRouteAnnotations spec a)) = map_of (SetDefaultRouteAnnotations spec a)
   \<and> map_of (SetDefaultRouteAnnotations spec a) |` (- {haProxyAnno, keystoneAnno}) = map_of a |` (- {haProxyAnno, keystoneAnno})"
  unfolding user_timeout_def [of "SetDefaultRouteAnnotations spec a"] SetDefaultRouteAnnotations_lookup
  by (auto simp: user_timeout_def restrict_map_def fun_eq_iff)
section \<open>The registered webhook\<close>

text \<open>
  \<open>internal/webhook/v1beta1/keystoneapi_webhook.go\<close>: the manager hands over an object of any type,
  named here by what \<open>%T\<close> prints; only a KeystoneAPI is passed on.
\<close>

datatype runtime_object = APIObject KeystoneAPI | OtherObject string

definition unexpected_type :: "string \<Rightarrow> string \<Rightarrow> error" where
  "unexpected_type expected got = new_err (''unexpected object type: expected '' @ expected @ '' but got '' @ got)"

definition custom_Default :: "webhook_env \<Rightarrow> runtime_object \<Rightarrow> error + KeystoneAPI" where
  "custom_Default W obj = (case obj of APIObject r \<Rightarrow> Inr (Default W r)
     | OtherObject t \<Rightarrow> Inl (unexpected_type ''an KeystoneAPI object'' t))"

definition custom_ValidateCreate :: "webhook_env \<Rightarrow> runtime_object \<Rightarrow> error + (string list \<times> verdict)" where
  "custom_ValidateCreate W obj = (case obj of APIObject r \<Rightarrow> Inr (ValidateCreate W r)
     | OtherObject t \<Rightarrow> Inl (unexpected_type ''a KeystoneAPI object'' t))"

definition custom_ValidateUpdate ::
  "webhook_env \<Rightarrow> runtime_object \<Rightarrow> runtime_object \<Rightarrow> error + (string list \<times> verdict)" where
  "custom_ValidateUpdate W oldObj newObj = (case newObj of
       APIObject r \<Rightarrow> Inr (ValidateUpdate W r (case oldObj of APIObject old \<Rightarrow> Some old | OtherObject _ \<Rightarrow> None))
     | OtherObject t \<Rightarrow> Inl (unexpected_type ''a KeystoneAPI object for the newObj'' t))"

definition custom_ValidateDelete :: "runtime_object \<Rightarrow> error + (string list \<times> verdict)" where
  "custom_ValidateDelete obj = (case obj of APIObject r \<Rightarrow> Inr (ValidateDelete r)
     | OtherObject t \<Rightarrow> Inl (unexpected_type ''a KeystoneAPI object'' t))"

end
