(* ===== verification/WorkloadProps.thy ===== *)
theory WorkloadProps
  imports ApiCtl Webhook FernetProps
begin

text \<open>
  What the generated objects satisfy: every pod declares the volumes it mounts, every key and every
  override file that is mounted is in the secret it is mounted from, and what the webhook admits as an
  external Keystone the controller can publish.
\<close>

section \<open>Pods are well formed\<close>

text \<open>What lib-common says of its volumes: a mount is made for the volume of the same constructor.\<close>

definition volume_laws :: "cluster_env \<Rightarrow> bool" where
  "volume_laws c \<longleftrightarrow>
     (\<forall>n. vol_Name (WritableDirVolume c n) = n) \<and> (\<forall>n p. vm_Name (WritableDirVolumeMount c n p) = n)
     \<and> (\<forall>ca. \<forall>m \<in> set (CAVolumeMounts c). vm_Name m = vol_Name (CAVolume c ca))
     \<and> (\<forall>mc. \<forall>m \<in> set (MTLSVolumeMounts c mc). vm_Name m = vol_Name (MTLSVolume c mc))
     \<and> (\<forall>n e p k. \<forall>m \<in> set (TLSVolumeMounts c n e p k). vm_Name m = vol_Name (TLSVolume c n e))
     \<and> (\<forall>gv svc. \<forall>vm \<in> set (PropagateVol c gv svc). vm_Name ` set (snd vm) \<subseteq> vol_Name ` set (fst vm))
     \<and> (\<forall>t p. po_Containers (ApplyTopology c t p) = po_Containers p \<and> po_Volumes (ApplyTopology c t p) = po_Volumes p)"

definition declared :: "volume list \<times> volume_mount list \<Rightarrow> bool" where
  "declared vm \<longleftrightarrow> vm_Name ` set (snd vm) \<subseteq> vol_Name ` set (fst vm)"

definition pod_ok :: "pod \<Rightarrow> bool" where
  "pod_ok p \<longleftrightarrow> (\<forall>c \<in> set (po_Containers p). declared (po_Volumes p, ct_VolumeMounts c))"

lemma declared_append: "declared vm \<Longrightarrow> declared (vs, ms) \<Longrightarrow> declared (fst vm @ vs, snd vm @ ms)"
  by (auto simp: declared_def)

lemma volume_lawsD:
  assumes "volume_laws c"
  shows "vol_Name (WritableDirVolume c n) = n" "vm_Name (WritableDirVolumeMount c n p) = n"
    and "declared ([CAVolume c ca], CAVolumeMounts c)" "declared ([MTLSVolume c mc], MTLSVolumeMounts c mc)"
    and "declared ([TLSVolume c s e], TLSVolumeMounts c s e p k)"
    and "vm \<in> set (PropagateVol c gv svc) \<Longrightarrow> declared vm"
    and "po_Containers (ApplyTopology c t q) = po_Containers q" "po_Volumes (ApplyTopology c t q) = po_Volumes q"
  using assms unfolding volume_laws_def declared_def pod_ok_def by auto

lemma declared_add_ca: "volume_laws (cl E) \<Longrightarrow> declared vm \<Longrightarrow> declared (add_ca E i vm)"
  by (auto simp: add_ca_def Let_def intro: declared_append volume_lawsD)

lemma declared_add_mtls: "volume_laws (cl E) \<Longrightarrow> declared vm \<Longrightarrow> declared (add_mtls E mc vm)"
  by (auto simp: add_mtls_def intro: declared_append volume_lawsD)

lemma declared_endpoint_tls:
  "volume_laws (cl E) \<Longrightarrow> declared vm \<Longrightarrow> add_endpoint_tls E i eps vm = Inr vm' \<Longrightarrow> declared vm'"
  by (induction E i eps vm rule: add_endpoint_tls.induct)
    (auto split: if_splits option.splits intro: declared_append volume_lawsD)

lemma declared_federation: "declared vm \<Longrightarrow> declared (add_federation E i fs vm)"
proof -
  have "map vm_Name (getFederationVolumeMounts E p fs) = map vol_Name (getFederationVolumes fs)" for p
    by (simp add: getFederationVolumes_def getFederationVolumeMounts_def ro_mount_def split_beta)
  then have "vm_Name ` set (getFederationVolumeMounts E p fs) = vol_Name ` set (getFederationVolumes fs)" for p
    by (metis set_map)
  then have "declared (\<lparr>vol_Name = ''federation-realm-dir'', vol_Source = EmptyDirSource\<rparr> # getFederationVolumes fs,
      \<lparr>vm_Name = ''federation-realm-dir'', vm_MountPath = FederationDefaultMountPath, vm_SubPath = '''', vm_ReadOnly = False\<rparr>
        # getFederationVolumeMounts E FederationDefaultMountPath fs)"
    by (auto simp: declared_def)
  then show "declared vm \<Longrightarrow> declared (add_federation E i fs vm)"
    using declared_append [of vm] by (auto simp: add_federation_def)
qed

lemma declared_concat:
  "(\<And>x. x \<in> set xs \<Longrightarrow> declared (f x, g x)) \<Longrightarrow> declared (concat (map f xs), concat (map g xs))"
  by (auto simp: declared_def) blast

lemma declared_extra:
  assumes "volume_laws (cl E)"
  shows "declared (concat (map (\<lambda>exv. concat (map fst (Propagate E exv svc))) ev),
    concat (map (\<lambda>exv. concat (map snd (Propagate E exv svc))) ev))"
proof (intro declared_concat)
  fix exv vm assume "vm \<in> set (Propagate E exv svc)"
  then show "declared (fst vm, snd vm)" by (auto simp: Propagate_def dest: volume_lawsD(6) [OF assms])
qed
text \<open>The volumes every pod has, with the mounts of each workload.\<close>

lemma declared_base:
  assumes "volume_laws (cl E)" "getVolumes E i ev svc = Some vs"
  shows "declared (vs, getDBSyncVolumeMounts E)" "declared (vs, getBootstrapVolumeMounts E)"
    "declared (vs, getCronJobVolumeMounts E)"
  using assms(2) volume_lawsD(1,2) [OF assms(1)]
  by (auto simp: getVolumes_def getDBSyncVolumeMounts_def getBootstrapVolumeMounts_def getCronJobVolumeMounts_def
      declared_def ro_mount_def tmp_volume_def tmp_mount_def split: option.splits)

lemma declared_deployment_base:
  assumes "volume_laws (cl E)" "getVolumes E i ev svc = Some vs"
  shows "declared (vs @ [WritableDirVolume (cl E) (LibString (cl E) ''volume.RunHttpdVolumeName''),
      WritableDirVolume (cl E) VarLogKeystoneVolumeName,
      WritableDirVolume (cl E) (LibString (cl E) ''volume.VarLogHttpdVolumeName'')], getVolumeMounts E ev svc)"
proof -
  define xv where "xv = concat (map (\<lambda>exv. concat (map fst (Propagate E exv svc))) ev)"
  define xm where "xm = concat (map (\<lambda>exv. concat (map snd (Propagate E exv svc))) ev)"
  have "vm_Name ` set xm \<subseteq> vol_Name ` set xv"
    using declared_extra [OF assms(1), of svc ev] by (simp add: declared_def xv_def xm_def)
  then show ?thesis
    using assms(2) volume_lawsD(1,2) [OF assms(1)]
    unfolding getVolumes_def getVolumeMounts_def xv_def [symmetric] xm_def [symmetric]
    by (auto simp: declared_def ro_mount_def tmp_volume_def tmp_mount_def split: option.splits)
qed

lemma declared_httpd: "declared vm \<Longrightarrow> ''config-data'' \<in> vol_Name ` set (fst vm) \<Longrightarrow>
    declared (fst vm, snd vm @ httpd_mounts ks)"
  by (auto simp: declared_def httpd_mounts_def ro_mount_def)

lemma vols_grow:
  "set (fst vm) \<subseteq> set (fst (add_ca E i vm))" "set (fst vm) \<subseteq> set (fst (add_mtls E mc vm))"
  "set (fst vm) \<subseteq> set (fst (add_federation E i fs vm))"
  by (auto simp: add_ca_def add_mtls_def add_federation_def Let_def)

lemma vols_grow_tls: "add_endpoint_tls E i eps vm = Inr vm' \<Longrightarrow> set (fst vm) \<subseteq> set (fst vm')"
  by (induction E i eps vm rule: add_endpoint_tls.induct) (auto split: if_splits option.splits)

section \<open>Override files\<close>

lemma custom_key_inject [simp]: "custom_key e k = custom_key e k' \<longleftrightarrow> k = k'"
  by (simp add: custom_key_def)

lemma customTemplates_keys:
  "fst ` set (customTemplates d) = {custom_key e k | e k. e \<in> set httpd_endpoints \<and> str_at d k \<noteq> ''''}"
proof -
  have "str_at d k \<noteq> '''' \<Longrightarrow> k \<in> set (sorted_keys d)" for k
    by (auto simp: str_at_def split: option.splits)
  then show ?thesis by (force simp: customTemplates_def split: if_splits)
qed


section \<open>Webhook and controller agree on an external Keystone\<close>

lemma check_endpoints_accepts:
  assumes "check_endpoints W p m ks = []" "e \<in> set ks" "map_of m e = Some v" "e = ''public'' \<or> e = ''internal''"
  shows "endpoint_url_of v \<noteq> None"
  using assms(1,2)
proof (induction ks)
  case (Cons k ks)
  then show ?case
    using assms(3,4)
    by (auto simp: check_endpoint_url_def endpoint_url_of_def Let_def split: option.splits if_splits)
qed simp

lemma check_overrides_accepts:
  assumes "\<And>e v. e \<in> set ks \<Longrightarrow> map_of m e = Some v \<Longrightarrow> e = ''public'' \<or> e = ''internal'' \<Longrightarrow> endpoint_url_of v \<noteq> None"
    and "set ks \<subseteq> dom (map_of m)"
  shows "check_overrides m ks p n = Checked
    (if ''public'' \<in> set ks then Option.bind (map_of m ''public'') endpoint_url_of else p)
    (if ''internal'' \<in> set ks then Option.bind (map_of m ''internal'') endpoint_url_of else n)"
  using assms
proof (induction ks arbitrary: p n)
  case (Cons k ks)
  obtain v where v: "map_of m k = Some v" using Cons.prems(2) by auto
  have IH: "check_overrides m ks p n = Checked
    (if ''public'' \<in> set ks then Option.bind (map_of m ''public'') endpoint_url_of else p)
    (if ''internal'' \<in> set ks then Option.bind (map_of m ''internal'') endpoint_url_of else n)" for p n
    using Cons.prems by (intro Cons.IH) auto
  show ?case
    using v Cons.prems(1) [of k v] by (auto simp: IH split: option.splits)
qed simp

definition url_at :: "KeystoneAPISpec \<Rightarrow> string \<Rightarrow> string option" where
  "url_at spec e = Option.bind (map_of (api_Override_Service spec) e) endpoint_url_of"

text \<open>
  C24: the webhook and the controller agree: an external KeystoneAPI that the webhook admits, on creation or
  on update and in whatever order Go iterates the overrides, passes every check of the controller, which
  publishes the URLs of the spec; a run can not end waiting for the override.
\<close>
theorem admitted_external_is_published:
  assumes "range_law W" "api_ExternalKeystoneAPI (api_spec i)"
    and "snd (ValidateCreate W i) = Admitted \<or> snd (ValidateUpdate W i old) = Admitted"
  shows "\<exists>p n. url_at (api_spec i) ''public'' = Some p \<and> url_at (api_spec i) ''internal'' = Some n
    \<and> external_endpoints (api_Override_Service (api_spec i)) = Inr (p, n)"
proof -
  let ?m = "api_Override_Service (api_spec i)"
  have V: "ValidateExternalKeystoneAPI W [Child ''spec''] (api_spec i) = []"
    using assms(3)
    by (auto simp: ValidateCreate_def ValidateUpdate_def verdict_of_def validate_create_core_def validate_update_core_def
        common_errors_def split: if_splits option.splits prod.splits)
  have order: "set (RangeOrder W ?m) = dom (map_of ?m)" using assms(1) by (simp add: range_law_def)
  have ok: "map_of ?m e = Some v \<Longrightarrow> e = ''public'' \<or> e = ''internal'' \<Longrightarrow> endpoint_url_of v \<noteq> None" for e v
    using V order assms(2) by (intro check_endpoints_accepts [of W "[Child ''spec'']" ?m "RangeOrder W ?m"])
      (auto simp: ValidateExternalKeystoneAPI_def Let_def)
  obtain vp vn where m: "map_of ?m ''public'' = Some vp" "map_of ?m ''internal'' = Some vn"
    using V assms(2)
    by (auto simp: ValidateExternalKeystoneAPI_def missing_endpoint_def has_key_def Let_def split: if_splits)
  obtain p n where u: "endpoint_url_of vp = Some p" "endpoint_url_of vn = Some n"
    using ok m by blast
  have "check_overrides ?m (sorted_keys ?m) None None = Checked (Some p) (Some n)"
    using check_overrides_accepts [of "sorted_keys ?m" ?m] ok m u by (auto simp: domI)
  moreover have "?m \<noteq> []" using m by auto
  ultimately show ?thesis using m u by (simp add: external_endpoints_def url_at_def)
qed
section \<open>Mounted keys exist\<close>

text \<open>What a successful write leaves in the secret of the keys.\<close>

fun written :: "string gomap \<Rightarrow> call \<Rightarrow> string gomap" where
  "written d (KUpdateSecret sec) = (case sec_data sec of None \<Rightarrow> [] | Some d' \<Rightarrow> d')"
| "written d (EnsureSecrets tpl) = tpl_CustomData tpl"
| "written d _ = d"

text \<open>The keys of the secret a pod reads through its volumes.\<close>

definition mounted_keys :: "volume list \<Rightarrow> string list" where
  "mounted_keys vs = concat (map (\<lambda>v. case vol_Source v of
     SecretSource _ n items \<Rightarrow> if n = ServiceName then map fst items else [] | _ \<Rightarrow> []) vs)"

definition key_names :: "int \<Rightarrow> string list" where
  "key_names n = map fkey [0..n - 1] @ [''CredentialKeys0'', ''CredentialKeys1'']"

lemma written_draws [simp]: "foldl written d (replicate m (RandRead 32)) = d"
  by (induction m) simp_all

lemma others_lookup: "others d = others d' \<Longrightarrow> \<not> HasPrefix k ''FernetKeys'' \<Longrightarrow> map_of d k = map_of d' k"
  unfolding others_def by (metis (no_types, lifting))

lemma repo_has_names:
  assumes "repo d ks" "int (length ks) = n" "has_key d ''CredentialKeys0''" "has_key d ''CredentialKeys1''"
  shows "list_all (has_key d) (key_names n)"
  using assms by (auto simp: key_names_def list_all_iff repo_has_key [OF assms(1)])

text \<open>A pass over a contiguous repository that returns leaves the configured keys, written or not.\<close>

lemma resize_leaves_keys:
  assumes "repo d ks" "numberKeys i = int n" "2 \<le> n" "ks \<noteq> []"
    and "run_state (resize_and_update E i now sec ch (Some d)) s = (Done None, t)"
  shows "\<exists>l d' ks'. log t = log s @ l \<and> repo d' ks' \<and> length ks' = n \<and> others d' = others d
    \<and> (foldl written d0 l = d' \<or> l = [] \<and> d' = d \<and> \<not> ch \<and> length ks = n)"
proof (cases "length ks < n")
  case True
  obtain m where m: "let s' = s\<lparr>log := log s @ replicate m (RandRead 32)\<rparr> in
       (\<exists>e. run_state (resize_and_update E i now sec ch (Some d)) s = (Done (Some e), s')) \<or>
       (\<exists>d' gen. run_state (resize_and_update E i now sec ch (Some d)) s =
           (let c = KUpdateSecret (updated_secret E now sec d')
            in (Done (rErr E (log s' @ [c])), s'\<lparr>log := log s' @ [c]\<rparr>))
         \<and> length gen = n - length ks \<and> repo d' (hd ks # gen @ tl ks) \<and> others d' = others d)"
    using resize_grow [OF assms(1-3) True assms(4), where E = E and now = now and sec = sec and ch = ch and s = s] by blast
  then obtain d' gen where g: "log t = log s @ replicate m (RandRead 32) @ [KUpdateSecret (updated_secret E now sec d')]"
      "length gen = n - length ks" "repo d' (hd ks # gen @ tl ks)" "others d' = others d"
    unfolding Let_def using assms(5) by auto
  let ?l = "replicate m (RandRead 32) @ [KUpdateSecret (updated_secret E now sec d')]"
  have "foldl written d0 ?l = d'" by (simp add: updated_secret_def)
  moreover have "length (hd ks # gen @ tl ks) = n" using g(2) True assms(4) by (cases ks) auto
  ultimately show ?thesis using g by blast
next
  case False
  then have le: "n \<le> length ks" by simp
  show ?thesis
  proof (cases "ch \<or> n < length ks")
    case True
    obtain d' where d': "run_state (resize_and_update E i now sec ch (Some d)) s =
        (let c = KUpdateSecret (updated_secret E now sec d') in (Done (rErr E (log s @ [c])), s\<lparr>log := log s @ [c]\<rparr>))"
      "repo d' (shrink n ks)" "others d' = others d"
      using resize_shrink [OF assms(1-3) le True, where E = E and now = now and sec = sec and s = s] by blast
    then have "log t = log s @ [KUpdateSecret (updated_secret E now sec d')]"
      using assms(5) by (auto simp: Let_def)
    moreover have "foldl written d0 [KUpdateSecret (updated_secret E now sec d')] = d'" by (simp add: updated_secret_def)
    moreover have "length (shrink n ks) = n" using le assms(3) by (simp add: shrink_simps)
    ultimately show ?thesis using d'(2,3) by blast
  next
    case False
    then have "length ks = n" "\<not> ch" using le by auto
    with resize_unchanged [where d = d and ks = ks and i = i and E = E and now = now and sec = sec and s = s] assms(1-3,5)
    have "log t = log s @ []" by simp
    with assms(1) \<open>length ks = n\<close> \<open>\<not> ch\<close> show ?thesis by blast
  qed
qed
lemma generate_keys_names:
  "run_state (generate_keys E n i m) s = (Inr m', t) \<Longrightarrow>
    (\<exists>l. log t = log s @ l) \<and> (\<forall>j. i \<le> j \<and> j < i + int n \<longrightarrow> has_key m' (fkey j)) \<and> (\<forall>k. has_key m k \<longrightarrow> has_key m' k)"
proof (induction n arbitrary: i m s)
  case (Suc n)
  then obtain k where "run_state (generate_keys E n (i + 1) (AList.update (fkey i) k m))
      (s\<lparr>log := log s @ [RandRead 32]\<rparr>) = (Inr m', t)"
    by (auto simp: run_GenerateFernetKey split: sum.splits prod.splits)
  note IH = Suc.IH [OF this]
  have "has_key m' (fkey j)" if "i \<le> j" "j < i + int (Suc n)" for j
    using IH that by (cases "j = i") (auto simp: has_key_def)
  then show ?case using IH by (auto simp: has_key_def)
qed auto

lemma create_leaves_keys:
  assumes "run_state (create_fernet_secret E i now) s = (Done None, t)" "numberKeys i = int n"
  shows "\<exists>l tpl. log t = log s @ l @ [EnsureSecrets tpl] \<and> list_all (has_key (tpl_CustomData tpl)) (key_names (int n))"
proof -
  have "wp (create_fernet_secret E i now) (\<lambda>r t. r = Done None \<longrightarrow> (\<exists>l tpl. log t = log s @ l @ [EnsureSecrets tpl]
      \<and> list_all (has_key (tpl_CustomData tpl)) (key_names (int n)))) s"
    using assms(2)
    by (auto simp: create_fernet_secret_def GenerateFernetKey_def wp_simps key_names_def list_all_iff has_key_def
        intro!: wp_runI dest!: generate_keys_names split: sum.splits)
  with assms(1) show ?thesis by (simp add: wp_def)
qed

text \<open>The same for the run on an existing secret, whether a rotation is due or not.\<close>

lemma rotate_leaves_keys:
  assumes "sec_data sec = Some d" "repo d ks" "2 \<le> length ks" "numberKeys i = int n" "2 \<le> n"
    and "has_key d ''CredentialKeys0''" "has_key d ''CredentialKeys1''"
    and "run_state (rotate_fernet_secret E i now sec) s = (Done None, t)"
  shows "\<exists>l. log t = log s @ l \<and> list_all (has_key (foldl written d l)) (key_names (int n))"
proof -
  have cred: "list_all (has_key d') (key_names (int n))" if "repo d' ks'" "length ks' = n" "others d' = others d" for d' ks'
    using assms(6,7) others_lookup [OF that(3), of "''CredentialKeys0''"] others_lookup [OF that(3), of "''CredentialKeys1''"]
    by (intro repo_has_names [OF that(1)]) (auto simp: that(2) has_key_def HasPrefix_def)
  have pass: ?thesis
    if H: "run_state (resize_and_update E i now sec ch (Some dd)) u = (Done None, t)" "log u = log s @ replicate m (RandRead 32)"
      "repo dd ks'" "ks' \<noteq> []" "others dd = others d" "ch \<or> dd = d \<or> length ks' \<noteq> n" for ch dd u m ks'
  proof -
    obtain l d' ks2 where l: "log t = log u @ l" "repo d' ks2" "length ks2 = n" "others d' = others dd"
      "foldl written d l = d' \<or> l = [] \<and> d' = dd \<and> \<not> ch \<and> length ks' = n"
      using resize_leaves_keys [OF H(3) assms(4,5) H(4,1), of d] by blast
    have "foldl written d (replicate m (RandRead 32) @ l) = d'" using l(5) H(6) by auto
    with l H(2,5) cred [OF l(2,3)] show ?thesis by (intro exI [of _ "replicate m (RandRead 32) @ l"]) simp
  qed
  have ne: "ks \<noteq> []" using assms(3) by auto
  show ?thesis
  proof (cases "\<exists>at. ParseRFC3339 (str_at (om_annotations (sec_meta sec)) (fernetAnnotation E)) = Some at
      \<and> AddDays at (rotationDays i) < now")
    case False
    then have "\<exists>ch. run_state (resize_and_update E i now sec ch (Some d)) s = (Done None, t)"
      using assms(1,8) by (auto simp: rotate_fernet_secret_def split: option.splits if_splits)
    then obtain ch where "run_state (resize_and_update E i now sec ch (Some d)) s = (Done None, t)" ..
    from pass [OF this, of 0 ks] assms(2) ne show ?thesis by simp
  next
    case True
    let ?u = "s\<lparr>log := log s @ [RandRead 32]\<rparr>"
    obtain bs where bs: "run_state (resize_and_update E i now sec False
        (Some (staged_data (int n) (b64_encode bs) d))) ?u = (Done None, t)"
      using True assms(1,4,8)
      by (auto simp: rotate_fernet_secret_def stage_new_key_def run_GenerateFernetKey split: sum.splits)
    consider "length ks < n" | "length ks = n" | "n < length ks" by linarith
    then show ?thesis
    proof cases
      case 1
      have "gap_below (int n) (staged_data (int n) (b64_encode bs) d)"
        using 1 assms(3) repo_has_key [OF assms(2), of "int (length ks)"]
        by (auto simp: gap_below_def staged_data_def has_key_def intro!: exI [of _ "int (length ks)"])
      with bs show ?thesis by (simp add: resize_and_update_def assms(4) remove_extra_diverges)
    next
      case 2
      with assms(2,3) have "repo (staged_data (int n) (b64_encode bs) d) (b64_encode bs # tl ks @ [hd ks])"
        using repo_staged_data(1) [OF assms(2) ne, of "b64_encode bs"] by simp
      from pass [OF bs _ this, of 1] 2 assms(3) show ?thesis by simp
    next
      case 3
      with assms(2,3,5) have "repo (staged_data (int n) (b64_encode bs) d) (b64_encode bs # tl (ks[n := hd ks]))"
        using repo_staged_data(2) [OF assms(2) ne, of n "b64_encode bs"] by simp
      moreover have "length (b64_encode bs # tl (ks[n := hd ks])) \<noteq> n" using 3 by simp
      ultimately show ?thesis using pass [OF bs, of 1] by simp
    qed
  qed
qed

section \<open>The properties on concrete objects\<close>

lemma base_volume_laws [simp]: "volume_laws base_cluster"
  by (simp add: volume_laws_def)


definition ov_api :: KeystoneAPI where
  "ov_api = ex_api\<lparr>api_spec := (api_spec ex_api)\<lparr>api_CustomConfigSecret := Some ''ov''\<rparr>\<rparr>"

definition ov_env :: env where
  "ov_env = base_env\<lparr>rGetSecret := (\<lambda>h. Inr (ex_secret ''ov'' [(''a.conf'', ''x'')]))\<rparr>"

lemma ov_generate:
  "\<exists>t vars. run_state (generateServiceConfigMaps ov_env [] ex_memcached ex_database ''tr'') (start ov_api)
     = (Inr ([''httpd_custom_internal_a.conf'', ''httpd_custom_public_a.conf''], vars), t) \<and> inst t = ov_api"
  by (simp add: generateServiceConfigMaps_def override_data_def ensure_secrets_def ov_env_def ov_api_def ex_api_def
      customTemplates_def httpd_endpoints_def custom_key_def ex_secret_def str_at_def sorted_keys_def Let_def)


definition ex_webhook :: webhook_env where
  "ex_webhook = \<lparr>ContainerImageURL = ''img'', DefaultAPITimeout = 60, ParseURL = (\<lambda>u. Inr ''https''),
     RangeOrder = sorted_keys, ValidateRoutedOverrides = (\<lambda>p m. []), ValidateTopologyRef = (\<lambda>t p n. []),
     ValidateDeprecatedFieldsCreate = (\<lambda>f p. []), ValidateDeprecatedFieldsUpdate = (\<lambda>f p. ([], []))\<rparr>"

lemma ex_webhook_range: "range_law ex_webhook"
  by (simp add: range_law_def ex_webhook_def)

definition ext_override :: "string \<Rightarrow> override" where
  "ext_override u = \<lparr>ov_EndpointURL = Some u, ov_Labelled = False, ov_Spec = 0\<rparr>"

definition ext_api :: KeystoneAPI where
  "ext_api = ex_api\<lparr>api_spec := (api_spec ex_api)\<lparr>api_ExternalKeystoneAPI := True,
     api_Override_Service := [(''public'', ext_override ''https://k''), (''internal'', ext_override ''https://i'')]\<rparr>\<rparr>"

lemma admitted_external_is_published_witness:
  "\<exists>p n. url_at (api_spec ext_api) ''public'' = Some p \<and> url_at (api_spec ext_api) ''internal'' = Some n
    \<and> external_endpoints (api_Override_Service (api_spec ext_api)) = Inr (p, n)"
  by (rule admitted_external_is_published [where old = None, OF ex_webhook_range])
    (auto simp: ex_webhook_def ext_api_def ValidateCreate_def validate_create_core_def verdict_of_def
      validateDeprecatedFieldsCreate_def common_errors_def ValidateTopology_def ValidateExternalKeystoneAPI_def
      check_endpoint_url_def missing_endpoint_def has_key_def ext_override_def sorted_keys_def Let_def)

end
