(* ===== verification/ObjectHelpers.thy ===== *)
theory ObjectHelpers
  imports ApiHelpers
begin

text \<open>
  The helpers other operators use to own KeystoneService and KeystoneEndpoint objects:
  \<open>CreateOrPatch\<close> and \<open>Delete\<close> of \<open>api/v1beta1/keystoneservice.go\<close> and
  \<open>keystoneendpoint.go\<close>. \<open>fin\<close> is the finalizer of the operator that calls. A failed lookup
  leaves a helper with a nil object, and using it again panics: \<open>None\<close>.
\<close>

section \<open>Objects\<close>

definition no_svc_status :: KeystoneServiceStatus where
  "no_svc_status = \<lparr>svcs_ServiceID = '''', svcs_Conditions = None\<rparr>"

definition no_ep_status :: KeystoneEndpointStatus where
  "no_ep_status = \<lparr>eps_EndpointIDs = None, eps_ServiceID = '''', eps_Conditions = None, eps_Endpoints = [],
     eps_ObservedGeneration = 0\<rparr>"

record KeystoneServiceHelper =
  ks_service :: "KeystoneService option"
  ks_timeout :: int
  ks_labels :: "string gomap"
  ks_id :: string

record KeystoneEndpointHelper =
  ke_endpoint :: "KeystoneEndpoint option"
  ke_timeout :: int
  ke_labels :: "string gomap"
  ke_id :: "string gomap option"

definition new_service :: "string \<Rightarrow> string \<Rightarrow> KeystoneServiceSpec \<Rightarrow> KeystoneService" where
  "new_service name namespace spec = \<lparr>svc_meta = new_meta name namespace, svc_spec = spec, svc_status = no_svc_status\<rparr>"

definition new_endpoint :: "string \<Rightarrow> string \<Rightarrow> KeystoneEndpointSpec \<Rightarrow> KeystoneEndpoint" where
  "new_endpoint name namespace spec = \<lparr>ep_meta = new_meta name namespace, ep_spec = spec, ep_status = no_ep_status\<rparr>"

definition NewKeystoneService :: "KeystoneServiceSpec \<Rightarrow> string \<Rightarrow> string gomap \<Rightarrow> int \<Rightarrow> KeystoneServiceHelper" where
  "NewKeystoneService spec namespace labels timeout =
     \<lparr>ks_service = Some (new_service (svc_ServiceName spec) namespace spec), ks_timeout = timeout, ks_labels = labels,
      ks_id = ''''\<rparr>"

definition NewKeystoneEndpoint ::
  "string \<Rightarrow> string \<Rightarrow> KeystoneEndpointSpec \<Rightarrow> string gomap \<Rightarrow> int \<Rightarrow> KeystoneEndpointHelper" where
  "NewKeystoneEndpoint name namespace spec labels timeout =
     \<lparr>ke_endpoint = Some (new_endpoint name namespace spec), ke_timeout = timeout, ke_labels = labels, ke_id = None\<rparr>"

definition GetServiceID :: "KeystoneServiceHelper \<Rightarrow> string" where "GetServiceID ks = ks_id ks"
definition GetEndpointIDs :: "KeystoneEndpointHelper \<Rightarrow> string gomap option" where "GetEndpointIDs ke = ke_id ke"

definition ks_GetConditions :: "KeystoneServiceHelper \<Rightarrow> conditions option" where
  "ks_GetConditions ks = map_option svc_conds (ks_service ks)"

definition ke_GetConditions :: "KeystoneEndpointHelper \<Rightarrow> conditions option" where
  "ke_GetConditions ke = map_option ep_conds (ke_endpoint ke)"

definition ValidateGeneration :: "KeystoneEndpointHelper \<Rightarrow> bool option" where
  "ValidateGeneration ke =
     map_option (\<lambda>ep. om_generation (ep_meta ep) = eps_ObservedGeneration (ep_status ep)) (ke_endpoint ke)"

text \<open>\<open>KeystoneEndpointStatusChangedPredicate\<close>: an update with another status; \<open>None\<close> is a nil object.\<close>

definition KeystoneEndpointStatusChangedPredicate :: "KeystoneEndpoint option \<Rightarrow> KeystoneEndpoint option \<Rightarrow> bool" where
  "KeystoneEndpointStatusChangedPredicate old new =
     (case (old, new) of (Some a, Some b) \<Rightarrow> ep_status a \<noteq> ep_status b | _ \<Rightarrow> False)"

definition KeystoneEndpointDeletedPredicate :: bool where "KeystoneEndpointDeletedPredicate = True"

definition ep_IsReady :: "env \<Rightarrow> KeystoneEndpoint \<Rightarrow> bool" where
  "ep_IsReady E i = condIsTrue E ReadyCondition (ep_conds i)"

section \<open>CreateOrPatch\<close>

text \<open>
  The object handed to \<open>controllerutil.CreateOrPatch\<close>: our finalizer and the spec; the labels are
  merged by its mutate function. A missing object is retried after the timeout of the helper.
\<close>

definition ks_CreateOrPatch ::
  "env \<Rightarrow> string \<Rightarrow> KeystoneServiceHelper \<Rightarrow> ('i st, (outcome \<times> KeystoneServiceHelper) option) state" where
  "ks_CreateOrPatch E fin ks =
     (case ks_service ks of
        None \<Rightarrow> ret None
      | Some service \<Rightarrow> (let n = om_name (svc_meta service); ns = om_namespace (svc_meta service) in do {
          e \<leftarrow> perform (CreateOrPatchKS (svc_set_finalizers (fst (AddFinalizer E [] fin))
            (new_service n ns (svc_spec service))) (ks_labels ks)) (rErr E);
          case e of
            Some err \<Rightarrow> ret (Some (if IsNotFound err then (requeueAfter (ks_timeout ks), None) else fail err, ks))
          | None \<Rightarrow> do {
              r \<leftarrow> GetKeystoneServiceWithName E n ns;
              ret (Some (case r of
                Inl err \<Rightarrow> (fail err, ks\<lparr>ks_service := None\<rparr>)
              | Inr found \<Rightarrow> (ok, ks\<lparr>ks_service := Some found, ks_id := svcs_ServiceID (svc_status found)\<rparr>)))
            }
        }))"

definition ke_CreateOrPatch ::
  "env \<Rightarrow> string \<Rightarrow> KeystoneEndpointHelper \<Rightarrow> ('i st, (outcome \<times> KeystoneEndpointHelper) option) state" where
  "ke_CreateOrPatch E fin ke =
     (case ke_endpoint ke of
        None \<Rightarrow> ret None
      | Some endpt \<Rightarrow> (let n = om_name (ep_meta endpt); ns = om_namespace (ep_meta endpt) in do {
          e \<leftarrow> perform (CreateOrPatchKE (ep_set_finalizers (fst (AddFinalizer E [] fin))
            (new_endpoint n ns (ep_spec endpt))) (ke_labels ke)) (rErr E);
          case e of
            Some err \<Rightarrow> ret (Some (if IsNotFound err then (requeueAfter (ke_timeout ke), None) else fail err, ke))
          | None \<Rightarrow> do {
              r \<leftarrow> GetKeystoneEndpointWithName E n ns;
              ret (Some (case r of
                Inl err \<Rightarrow> (fail err, ke\<lparr>ke_endpoint := None\<rparr>)
              | Inr found \<Rightarrow> (ok, ke\<lparr>ke_endpoint := Some found, ke_id := eps_EndpointIDs (ep_status found)\<rparr>)))
            }
        }))"

section \<open>Delete\<close>

text \<open>
  Both kinds are deleted the same way: look the object up, delete it, then remove our finalizer
  from the copy that was read. An object that is gone is never an error.
\<close>

definition delete_object ::
  "env \<Rightarrow> kind \<Rightarrow> (string \<Rightarrow> string \<Rightarrow> ('i st, error + 'o) state) \<Rightarrow> ('o \<Rightarrow> string list) \<Rightarrow> (string list \<Rightarrow> 'o \<Rightarrow> 'o)
     \<Rightarrow> ('o \<Rightarrow> call) \<Rightarrow> string \<Rightarrow> string \<Rightarrow> string \<Rightarrow> ('i st, error option) state" where
  "delete_object E k getc fins set_fins update fin name namespace = do {
     r \<leftarrow> getc name namespace;
     case r of
       Inl err \<Rightarrow> ret (IgnoreNotFound err)
     | Inr obj \<Rightarrow> do {
         e \<leftarrow> perform (KDelete k namespace name) (rErr E);
         case Option.bind e IgnoreNotFound of
           Some err \<Rightarrow> ret (Some err)
         | None \<Rightarrow>
             (let (fs, removed) = RemoveFinalizer E (fins obj) fin
              in if removed then do {
                   e \<leftarrow> perform (update (set_fins fs obj)) (rErr E);
                   ret (Option.bind e IgnoreNotFound)
                 } else ret None)
       }
   }"

definition ks_Delete :: "env \<Rightarrow> string \<Rightarrow> KeystoneServiceHelper \<Rightarrow> ('i st, error option option) state" where
  "ks_Delete E fin ks =
     (case ks_service ks of
        None \<Rightarrow> ret None
      | Some service \<Rightarrow> do {
          e \<leftarrow> delete_object E KindService (GetKeystoneServiceWithName E) svc_fins svc_set_finalizers KUpdateService fin
            (om_name (svc_meta service)) (om_namespace (svc_meta service));
          ret (Some e)
        })"

definition ke_Delete :: "env \<Rightarrow> string \<Rightarrow> KeystoneEndpointHelper \<Rightarrow> ('i st, error option option) state" where
  "ke_Delete E fin ke =
     (case ke_endpoint ke of
        None \<Rightarrow> ret None
      | Some endpt \<Rightarrow> do {
          e \<leftarrow> delete_object E KindEndpoint (GetKeystoneEndpointWithName E) ep_fins ep_set_finalizers KUpdateEndpoint fin
            (om_name (ep_meta endpt)) (om_namespace (ep_meta endpt));
          ret (Some e)
        })"

text \<open>The helper is made from the object found; the one for a service is named after its \<open>ServiceName\<close>.\<close>

definition DeleteKeystoneServiceWithName ::
  "env \<Rightarrow> string \<Rightarrow> string \<Rightarrow> string \<Rightarrow> ('i st, error option option) state" where
  "DeleteKeystoneServiceWithName E fin name namespace = do {
     r \<leftarrow> GetKeystoneServiceWithName E name namespace;
     case r of
       Inl err \<Rightarrow> ret (Some (IgnoreNotFound err))
     | Inr ks \<Rightarrow> ks_Delete E fin (NewKeystoneService (svc_spec ks) namespace [] 10)
   }"

definition DeleteKeystoneEndpointWithName ::
  "env \<Rightarrow> string \<Rightarrow> string \<Rightarrow> string \<Rightarrow> ('i st, error option option) state" where
  "DeleteKeystoneEndpointWithName E fin name namespace = do {
     r \<leftarrow> GetKeystoneEndpointWithName E name namespace;
     case r of
       Inl err \<Rightarrow> ret (Some (IgnoreNotFound err))
     | Inr ke \<Rightarrow> ke_Delete E fin (NewKeystoneEndpoint (om_name (ep_meta ke)) namespace (ep_spec ke) [] 10)
   }"
section \<open>The contract of the deletion\<close>

text \<open>What a kind of object offers to \<open>delete_object\<close>: finalizers, and a lookup that is one read.\<close>

locale deletable = finalizer_host fins set_fins
  for fins :: "'o \<Rightarrow> string list" and set_fins :: "string list \<Rightarrow> 'o \<Rightarrow> 'o" +
  fixes k :: kind
    and getc :: "env \<Rightarrow> string \<Rightarrow> string \<Rightarrow> ('i st, error + 'o) state"
    and reply :: "env \<Rightarrow> history \<Rightarrow> error + 'o"
    and update :: "'o \<Rightarrow> call"
  assumes get_reads: "getc E name namespace = perform (KGet k namespace name) (reply E)"
begin

text \<open>The calls of a deletion without an error, by what the lookup answered.\<close>

definition deletes :: "string \<Rightarrow> string \<Rightarrow> string \<Rightarrow> error + 'o \<Rightarrow> call list \<Rightarrow> bool" where
  "deletes fin name namespace r l \<longleftrightarrow> (case r of
     Inl err \<Rightarrow> IsNotFound err \<and> l = []
   | Inr obj \<Rightarrow> \<exists>obj'. l = KDelete k namespace name # (if fin \<in> set (fins obj) then [update obj'] else [])
       \<and> set (fins obj') = set (fins obj) - {fin} \<and> set_fins (fins obj) obj' = obj)"

lemma delete_calls:
  assumes "finalizer_laws E" "run_state (delete_object E k (getc E) fins set_fins update fin name namespace) s = (None, t)"
  shows "\<exists>l. log t = log s @ KGet k namespace name # l
    \<and> deletes fin name namespace (reply E (log s @ [KGet k namespace name])) l"
proof -
  let ?r = "reply E (log s @ [KGet k namespace name])"
  show ?thesis
  proof (cases ?r)
    case (Inl err)
    with assms(2) show ?thesis
      by (auto simp: delete_object_def get_reads deletes_def IgnoreNotFound_def split: if_splits)
  next
    case (Inr obj)
    let ?o = "set_fins (fst (RemoveFinalizer E (fins obj) fin)) obj"
    have "set (fins ?o) = set (fins obj) - {fin}" "set_fins (fins obj) ?o = obj"
      using fins_remove [OF assms(1)] by (simp_all add: set_set set_fins_id)
    moreover have "log t = log s @ KGet k namespace name # KDelete k namespace name
        # (if fin \<in> set (fins obj) then [update ?o] else [])"
      using assms(2) Inr finalizer_lawsD [OF assms(1)]
      by (auto simp: delete_object_def get_reads IgnoreNotFound_def split_beta split: if_splits option.splits)
    ultimately show ?thesis unfolding Inr deletes_def by auto
  qed
qed

end

interpretation svc_del: deletable svc_fins svc_set_finalizers KindService GetKeystoneServiceWithName rGetService KUpdateService
  by unfold_locales (simp add: GetKeystoneServiceWithName_def)

interpretation ep_del: deletable ep_fins ep_set_finalizers KindEndpoint GetKeystoneEndpointWithName rGetEndpoint KUpdateEndpoint
  by unfold_locales (simp add: GetKeystoneEndpointWithName_def)

text \<open>
  Another operator's deletion of its KeystoneEndpoint that returns without an error has asked for the
  deletion of the very object that was named and then given up the operator's own finalizer, and no other,
  when it was there; an object that is already gone is no error and nothing is called.
\<close>
lemma endpoint_deletion_releases_own_finalizer:
  assumes "finalizer_laws E" "run_state (ke_Delete E fin ke) s = (Some None, t)" "ke_endpoint ke = Some i"
    and "om_name (ep_meta i) = n" "om_namespace (ep_meta i) = ns" "r = rGetEndpoint E (log s @ [KGet KindEndpoint ns n])"
  shows "case r of
      Inl err \<Rightarrow> IsNotFound err \<and> log t = log s @ [KGet KindEndpoint ns n]
    | Inr found \<Rightarrow> \<exists>j. log t = log s @ [KGet KindEndpoint ns n, KDelete KindEndpoint ns n]
          @ (if fin \<in> set (ep_fins found) then [KUpdateEndpoint j] else [])
        \<and> set (ep_fins j) = set (ep_fins found) - {fin} \<and> ep_spec j = ep_spec found"
proof -
  have "run_state (delete_object E KindEndpoint (GetKeystoneEndpointWithName E) ep_fins ep_set_finalizers KUpdateEndpoint
      fin n ns) s = (None, t)"
    using assms(2-5) by (simp add: ke_Delete_def split: prod.splits)
  from ep_del.delete_calls [OF assms(1) this] obtain l where l:
    "log t = log s @ KGet KindEndpoint ns n # l" "ep_del.deletes fin n ns r l"
    by (auto simp: assms(6))
  show ?thesis
  proof (cases r)
    case (Inl err)
    with l show ?thesis by (simp add: ep_del.deletes_def)
  next
    case (Inr found)
    with l(2) obtain j where j: "l = KDelete KindEndpoint ns n # (if fin \<in> set (ep_fins found) then [KUpdateEndpoint j] else [])"
        "set (ep_fins j) = set (ep_fins found) - {fin}" "ep_set_finalizers (ep_fins found) j = found"
      by (auto simp: ep_del.deletes_def)
    have "ep_spec j = ep_spec found" by (subst j(3) [symmetric]) (simp add: ep_set_finalizers_def)
    then show ?thesis unfolding Inr sum.case using l(1) j(1,2) by (intro exI [of _ j]) simp
  qed
qed



lemma endpoint_deletion_releases_own_finalizer_witness:
  "\<exists>j. log (snd (run_state (ke_Delete (base_env\<lparr>rGetEndpoint := (\<lambda>h. Inr (ep_set_finalizers [''a'', ''f''] ex_ep))\<rparr>) ''f''
        (NewKeystoneEndpoint ''placement'' ''openstack'' (ep_spec ex_ep) [] 10)) (start ())))
      = [KGet KindEndpoint ''openstack'' ''placement'', KDelete KindEndpoint ''openstack'' ''placement'', KUpdateEndpoint j]
    \<and> set (ep_fins j) = {''a''}"
proof -
  let ?E = "base_env\<lparr>rGetEndpoint := (\<lambda>h. Inr (ep_set_finalizers [''a'', ''f''] ex_ep))\<rparr>"
  let ?k = "NewKeystoneEndpoint ''placement'' ''openstack'' (ep_spec ex_ep) [] 10"
  obtain t where t: "run_state (ke_Delete ?E ''f'' ?k) (start ()) = (Some None, t)"
    by (simp add: ke_Delete_def NewKeystoneEndpoint_def delete_object_def GetKeystoneEndpointWithName_def)
  have "case rGetEndpoint ?E (log (start ()) @ [KGet KindEndpoint ''openstack'' ''placement'']) of
      Inl err \<Rightarrow> IsNotFound err \<and> log t = log (start ()) @ [KGet KindEndpoint ''openstack'' ''placement'']
    | Inr found \<Rightarrow> \<exists>j. log t = log (start ()) @ [KGet KindEndpoint ''openstack'' ''placement'',
            KDelete KindEndpoint ''openstack'' ''placement'']
          @ (if ''f'' \<in> set (ep_fins found) then [KUpdateEndpoint j] else [])
        \<and> set (ep_fins j) = set (ep_fins found) - {''f''} \<and> ep_spec j = ep_spec found"
    by (rule endpoint_deletion_releases_own_finalizer [OF _ t]) (auto simp: NewKeystoneEndpoint_def new_endpoint_def new_meta_def)
  with t show ?thesis by auto
qed

end
