(* ===== verification/GoSlice.thy ===== *)
theory GoSlice
  imports Prelude
begin

text \<open>
  Go slices with their backing arrays. A slice is a window on an array; two slices made from one may share it, and
  \<open>append\<close> writes into the shared array while there is room. How much room a new array has is not fixed by the
  language: \<open>growcap\<close> is the capacity \<open>append\<close> gives to the copy of a full slice.
\<close>

record slice =
  sl_array :: nat
  sl_len :: nat
  sl_cap :: nat

text \<open>The arrays by address; a slot that was never written holds the zero value, \<open>None\<close>.\<close>

type_synonym 'a arrays = "'a option list list"

definition nil_slice :: slice where
  "nil_slice = \<lparr>sl_array = 0, sl_len = 0, sl_cap = 0\<rparr>"

definition contents :: "'a arrays \<Rightarrow> slice \<Rightarrow> 'a option list" where
  "contents H sl = take (sl_len sl) (H ! sl_array sl)"

text \<open>\<open>append(sl, x)\<close>: in place while the array has room, into a new array otherwise.\<close>

definition append1 :: "(nat \<Rightarrow> nat) \<Rightarrow> slice \<Rightarrow> 'a \<Rightarrow> 'a arrays \<Rightarrow> slice \<times> 'a arrays" where
  "append1 growcap sl x H =
     (let n = sl_len sl
      in if n < sl_cap sl
         then (sl\<lparr>sl_len := Suc n\<rparr>, H[sl_array sl := (H ! sl_array sl)[n := Some x]])
         else (\<lparr>sl_array = length H, sl_len = Suc n, sl_cap = growcap n\<rparr>,
               H @ [(if n = 0 then [] else contents H sl) @ Some x # replicate (growcap n - Suc n) None]))"

text \<open>A slice that fits the arrays, and slices whose next append leaves another slice alone.\<close>

definition valid_slice :: "'a arrays \<Rightarrow> slice \<Rightarrow> bool" where
  "valid_slice H sl \<longleftrightarrow> sl_len sl \<le> sl_cap sl \<and>
     (sl_cap sl \<noteq> 0 \<longrightarrow> sl_array sl < length H \<and> length (H ! sl_array sl) = sl_cap sl)"

definition untouched :: "slice \<Rightarrow> slice \<Rightarrow> bool" where
  "untouched sl other \<longleftrightarrow> sl_array sl \<noteq> sl_array other \<or> sl_cap sl \<le> sl_len sl \<or> sl_len other \<le> sl_len sl"

lemma contents_nil [simp]: "contents H nil_slice = []"
  by (simp add: contents_def nil_slice_def)

lemma valid_nil [simp]: "valid_slice H nil_slice"
  by (simp add: valid_slice_def nil_slice_def)

lemma contents_append1:
  assumes "append1 g sl x H = (sl', H')" "valid_slice H sl"
  shows "contents H' sl' = contents H sl @ [Some x]"
proof (cases "sl_len sl < sl_cap sl")
  case True
  with assms have "sl' = sl\<lparr>sl_len := Suc (sl_len sl)\<rparr>" "H' = H[sl_array sl := (H ! sl_array sl)[sl_len sl := Some x]]"
    by (simp_all add: append1_def Let_def)
  with True assms(2) show ?thesis
    by (simp add: contents_def valid_slice_def take_Suc_conv_app_nth)
next
  case False
  with assms have "sl' = \<lparr>sl_array = length H, sl_len = Suc (sl_len sl), sl_cap = g (sl_len sl)\<rparr>"
    "H' = H @ [(if sl_len sl = 0 then [] else contents H sl) @ Some x # replicate (g (sl_len sl) - Suc (sl_len sl)) None]"
    by (simp_all add: append1_def Let_def)
  with False assms(2) show ?thesis
    by (auto simp: contents_def valid_slice_def)
qed

lemma valid_append1:
  assumes "append1 g sl x H = (sl', H')" "valid_slice H sl" "\<And>n. n < g n"
  shows "valid_slice H' sl'"
  using assms(1,2) assms(3) [of "sl_len sl"]
  by (auto simp: append1_def valid_slice_def contents_def Let_def split: if_splits)

text \<open>What an append keeps of another slice: it writes no slot of it unless the two share the array and the room.\<close>

lemma valid_append1_other:
  "append1 g sl x H = (sl', H') \<Longrightarrow> valid_slice H other \<Longrightarrow> valid_slice H' other"
  by (cases "sl_array sl = sl_array other")
    (auto simp: append1_def valid_slice_def nth_append Let_def split: if_splits)

lemma contents_append1_other:
  assumes "append1 g sl x H = (sl', H')" "valid_slice H other" "untouched sl other"
  shows "contents H' other = contents H other"
  using assms
  by (cases "sl_array sl = sl_array other"; cases "sl_cap other = 0")
    (auto simp: append1_def valid_slice_def untouched_def contents_def nth_append Let_def split: if_splits)

end
