(* ===== verification/Wiring.thy ===== *)
theory Wiring
  imports ApiCtl AppCredCtl GoSlice
begin

text \<open>
  How the operator is wired to its manager: what each \<open>SetupWithManager\<close> registers (indexes, owned and watched
  kinds, predicates), the calls \<open>cmd/main.go\<close> makes on the way, and what a manager does with an event.
  controller-runtime itself is a parameter: \<open>manager\<close>, with its documented behaviour in \<open>manager_laws\<close>.
\<close>

section \<open>What a controller watches\<close>

datatype object_kind =
    OKeystoneAPI | OKeystoneService | OKeystoneEndpoint | OApplicationCredential
  | OMariaDBDatabase | OMariaDBAccount | OJob | OCronJob | OService | OSecret | OConfigMap | ODeployment
  | OServiceAccount | ORole | ORoleBinding | OTransportURL | OMemcached | OTopology | ONodeSet

record watched_object =
  wo_Kind :: object_kind
  wo_Meta :: objmeta
  wo_ResourceVersion :: string
  wo_Controller :: "(object_kind \<times> string) option" \<comment> \<open>the controlling owner: kind and name\<close>

type_synonym request = "string \<times> string" \<comment> \<open>namespace, name\<close>

text \<open>\<open>predicate.Funcs\<close> with its \<open>CreateFunc\<close>; the code sets no other field of it.\<close>

datatype predicate =
    ResourceVersionChanged
  | GenerationChanged
  | Funcs "(watched_object \<Rightarrow> bool) option"

datatype map_func = MemcachedFn | FindObjectsForSrc | NodesetToACMapFunc

datatype watch =
    For object_kind
  | Owns object_kind "predicate list"
  | Watches object_kind map_func "predicate list"

fun watch_kind :: "watch \<Rightarrow> object_kind" where
  "watch_kind (For k) = k"
| "watch_kind (Owns k _) = k"
| "watch_kind (Watches k _ _) = k"

fun watch_predicates :: "watch \<Rightarrow> predicate list" where
  "watch_predicates (For _) = []"
| "watch_predicates (Owns _ ps) = ps"
| "watch_predicates (Watches _ _ ps) = ps"

definition api_watches :: "watch list" where
  "api_watches =
     [For OKeystoneAPI, Owns OMariaDBDatabase [], Owns OMariaDBAccount [], Owns OJob [], Owns OCronJob [],
      Owns OService [], Owns OSecret [], Owns OConfigMap [], Owns ODeployment [], Owns OServiceAccount [],
      Owns ORole [], Owns ORoleBinding [], Owns OTransportURL [],
      Watches OMemcached MemcachedFn [],
      Watches OSecret FindObjectsForSrc [ResourceVersionChanged],
      Watches OTopology FindObjectsForSrc [GenerationChanged]]"

definition svc_watches :: "watch list" where "svc_watches = [For OKeystoneService]"

definition ep_watches :: "watch list" where "ep_watches = [For OKeystoneEndpoint]"

text \<open>Create events of owned secrets are suppressed; node sets are watched where their CRD is installed.\<close>

definition ac_watches :: "bool \<Rightarrow> watch list" where
  "ac_watches nodeSetsInstalled =
     [For OApplicationCredential, Owns OSecret [Funcs (Some (\<lambda>_. False))]]
     @ (if nodeSetsInstalled then [Watches ONodeSet NodesetToACMapFunc [ResourceVersionChanged]] else [])"

section \<open>The calls of the start-up\<close>

datatype tls_server = WebhookServer | MetricsServer

text \<open>The functions that configure a TLS server; the last one takes the certificate from a watcher.\<close>

datatype tls_option = MinVersionTLS13 | NextProtosHTTP1 | GetCertificateFrom tls_server

record manager_options =
  mo_Scheme :: "string list"
  mo_MetricsBindAddress :: string
  mo_MetricsSecureServing :: bool
  mo_MetricsTLSOpts :: slice
  mo_MetricsAuth :: bool \<comment> \<open>whether \<open>FilterProvider\<close> is set\<close>
  mo_WebhookPort :: int
  mo_WebhookTLSOpts :: slice
  mo_HealthProbeBindAddress :: string
  mo_PprofBindAddress :: string
  mo_LeaderElection :: bool
  mo_LeaderElectionID :: string

datatype health_check = Ping | WebhookStarted

datatype boot_call =
    AddToScheme string
  | NewCertWatcher tls_server string string
  | NewManager manager_options
  | GetConfig
  | NewKubeClient
  | IndexField object_kind string
  | RESTMapping object_kind
  | CompleteController object_kind "watch list"
  | CompleteWebhook
  | AddRunnable tls_server
  | AddHealthzCheck string health_check
  | AddReadyzCheck string health_check
  | StartManager

record KeystoneAPIDefaults =
  kd_ContainerImageURL :: string
  kd_APITimeout :: int

text \<open>The process: its slices, its global defaults and the calls it has made.\<close>

record process =
  ps_Arrays :: "tls_option arrays"
  ps_Defaults :: KeystoneAPIDefaults
  ps_Calls :: "boot_call list"

definition attempt :: "(boot_call list \<Rightarrow> error option) \<Rightarrow> boot_call \<Rightarrow> (process, error option) state" where
  "attempt answer c = State (\<lambda>p. (answer (ps_Calls p @ [c]), p\<lparr>ps_Calls := ps_Calls p @ [c]\<rparr>))"

lemma run_attempt [simp]:
  "run_state (attempt answer c) p = (answer (ps_Calls p @ [c]), p\<lparr>ps_Calls := ps_Calls p @ [c]\<rparr>)"
  by (simp add: attempt_def)

lemma wp_attempt [wp_simps]:
  "wp (attempt answer c) Q p = Q (answer (ps_Calls p @ [c])) (p\<lparr>ps_Calls := ps_Calls p @ [c]\<rparr>)"
  by (simp add: wp_def)

section \<open>SetupWithManager\<close>

primrec index_fields :: "(boot_call list \<Rightarrow> error option) \<Rightarrow> string list \<Rightarrow> (process, error option) state" where
  "index_fields answer [] = ret None"
| "index_fields answer (f # fs) = do {
     e \<leftarrow> attempt answer (IndexField OKeystoneAPI f);
     case e of Some err \<Rightarrow> ret (Some err) | None \<Rightarrow> index_fields answer fs
   }"

definition api_SetupWithManager :: "(boot_call list \<Rightarrow> error option) \<Rightarrow> (process, error option) state" where
  "api_SetupWithManager answer = do {
     e \<leftarrow> index_fields answer allWatchFields;
     case e of
       Some err \<Rightarrow> ret (Some err)
     | None \<Rightarrow> attempt answer (CompleteController OKeystoneAPI api_watches)
   }"

definition svc_SetupWithManager :: "(boot_call list \<Rightarrow> error option) \<Rightarrow> (process, error option) state" where
  "svc_SetupWithManager answer = attempt answer (CompleteController OKeystoneService svc_watches)"

definition ep_SetupWithManager :: "(boot_call list \<Rightarrow> error option) \<Rightarrow> (process, error option) state" where
  "ep_SetupWithManager answer = attempt answer (CompleteController OKeystoneEndpoint ep_watches)"

definition ac_SetupWithManager :: "(boot_call list \<Rightarrow> error option) \<Rightarrow> (process, error option) state" where
  "ac_SetupWithManager answer = do {
     e \<leftarrow> attempt answer (RESTMapping ONodeSet);
     attempt answer (CompleteController OApplicationCredential (ac_watches (e = None)))
   }"

section \<open>Events\<close>

datatype event =
    Created watched_object
  | Updated watched_object watched_object \<comment> \<open>old, new\<close>
  | Deleted watched_object

fun objects_of :: "event \<Rightarrow> watched_object list" where
  "objects_of (Created obj) = [obj]"
| "objects_of (Updated old new) = [old, new]"
| "objects_of (Deleted obj) = [obj]"

text \<open>The mapping functions of the controllers, by name.\<close>

definition run_map_func :: "env \<Rightarrow> map_func \<Rightarrow> watched_object \<Rightarrow> request list" where
  "run_map_func E f src =
     (let ns = om_namespace (wo_Meta src); n = om_name (wo_Meta src)
      in fst (run_state
          (case f of
             MemcachedFn \<Rightarrow> memcachedFn E ns n
           | FindObjectsForSrc \<Rightarrow> findObjectsForSrc E ns n
           | NodesetToACMapFunc \<Rightarrow> nodesetToACMapFunc E ns) (start ())))"

text \<open>
  controller-runtime: \<open>Passes\<close> says which events a predicate lets through, \<open>Enqueued\<close> which requests a controller of
  a kind gets for an event, given its watches and the answers of its mapping functions.
\<close>

record manager =
  Passes :: "predicate \<Rightarrow> event \<Rightarrow> bool"
  Enqueued :: "object_kind \<Rightarrow> watch list \<Rightarrow> (map_func \<Rightarrow> watched_object \<Rightarrow> request list) \<Rightarrow> event \<Rightarrow> request set"

definition predicate_laws :: "manager \<Rightarrow> bool" where
  "predicate_laws M \<longleftrightarrow>
     (\<forall>old new. Passes M ResourceVersionChanged (Updated old new)
        \<longleftrightarrow> wo_ResourceVersion old \<noteq> wo_ResourceVersion new) \<and>
     (\<forall>old new. Passes M GenerationChanged (Updated old new)
        \<longleftrightarrow> om_generation (wo_Meta old) \<noteq> om_generation (wo_Meta new)) \<and>
     (\<forall>f old new. Passes M (Funcs f) (Updated old new)) \<and>
     (\<forall>p obj. Passes M p (Deleted obj)) \<and>
     (\<forall>p obj. Passes M p (Created obj)
        \<longleftrightarrow> (case p of Funcs (Some f) \<Rightarrow> f obj | _ \<Rightarrow> True))"

text \<open>The object itself, the controlling owner of the kind, or what the mapping function answers; for an update of both objects.\<close>

definition handled_by :: "object_kind \<Rightarrow> (map_func \<Rightarrow> watched_object \<Rightarrow> request list) \<Rightarrow> watch \<Rightarrow> watched_object \<Rightarrow> request \<Rightarrow> bool" where
  "handled_by k mapped w obj r \<longleftrightarrow>
     (case w of
        For _ \<Rightarrow> r = (om_namespace (wo_Meta obj), om_name (wo_Meta obj))
      | Owns _ _ \<Rightarrow> fst r = om_namespace (wo_Meta obj) \<and> wo_Controller obj = Some (k, snd r)
      | Watches _ f _ \<Rightarrow> r \<in> set (mapped f obj))"

definition manager_laws :: "manager \<Rightarrow> bool" where
  "manager_laws M \<longleftrightarrow> predicate_laws M \<and>
     (\<forall>k ws mapped ev r. r \<in> Enqueued M k ws mapped ev \<longleftrightarrow>
        (\<exists>w\<in>set ws. list_all (\<lambda>p. Passes M p ev) (watch_predicates w)
          \<and> (\<exists>obj\<in>set (objects_of ev). wo_Kind obj = watch_kind w \<and> handled_by k mapped w obj r)))"

text \<open>A manager that behaves so.\<close>

fun plain_passes :: "predicate \<Rightarrow> event \<Rightarrow> bool" where
  "plain_passes ResourceVersionChanged (Updated old new) = (wo_ResourceVersion old \<noteq> wo_ResourceVersion new)"
| "plain_passes GenerationChanged (Updated old new) = (om_generation (wo_Meta old) \<noteq> om_generation (wo_Meta new))"
| "plain_passes (Funcs (Some f)) (Created obj) = f obj"
| "plain_passes _ _ = True"

definition plain_manager :: manager where
  "plain_manager = \<lparr>Passes = plain_passes, Enqueued = \<lambda>k ws mapped ev.
     {r. \<exists>w\<in>set ws. list_all (\<lambda>p. plain_passes p ev) (watch_predicates w)
        \<and> (\<exists>obj\<in>set (objects_of ev). wo_Kind obj = watch_kind w \<and> handled_by k mapped w obj r)}\<rparr>"

lemma plain_manager_laws: "manager_laws plain_manager"
  by (auto simp: manager_laws_def predicate_laws_def plain_manager_def split: predicate.splits option.splits
      elim: plain_passes.elims)

end
