(* ===== verification/Command.thy ===== *)
theory Command
  imports Wiring Webhook
begin

text \<open>
  The process of \<open>cmd/main.go\<close>: scheme registration, flags, the TLS options of the two servers, the manager and what
  is registered with it, up to \<open>Start\<close>. A step that fails ends the process with exit code 1. The outside (the flag
  package, the environment, the libraries that are called) is the record \<open>boot\<close>.
\<close>

record flags =
  fl_metricsAddr :: string
  fl_probeAddr :: string
  fl_enableLeaderElection :: bool
  fl_secureMetrics :: bool
  fl_webhookCertPath :: string
  fl_webhookCertName :: string
  fl_webhookCertKey :: string
  fl_metricsCertPath :: string
  fl_metricsCertName :: string
  fl_metricsCertKey :: string
  fl_pprofBindAddress :: string
  fl_webhookPort :: int
  fl_enableHTTP2 :: bool

definition default_flags :: flags where
  "default_flags = \<lparr>fl_metricsAddr = ''0'', fl_probeAddr = '':8081'', fl_enableLeaderElection = False,
     fl_secureMetrics = True, fl_webhookCertPath = '''', fl_webhookCertName = ''tls.crt'', fl_webhookCertKey = ''tls.key'',
     fl_metricsCertPath = '''', fl_metricsCertName = ''tls.crt'', fl_metricsCertKey = ''tls.key'',
     fl_pprofBindAddress = '''', fl_webhookPort = 9443, fl_enableHTTP2 = False\<rparr>"

record boot =
  growcap :: "nat \<Rightarrow> nat" \<comment> \<open>the capacity \<open>append\<close> gives to the copy of a full slice\<close>
  flag_Parse :: "flags \<Rightarrow> flags" \<comment> \<open>the variables after the arguments were parsed\<close>
  Getenv :: "string \<Rightarrow> string"
  GetEnvVar :: "string \<Rightarrow> string \<Rightarrow> string" \<comment> \<open>\<open>util.GetEnvVar\<close>: the variable, or the given default\<close>
  pathJoin :: "string \<Rightarrow> string \<Rightarrow> string"
  SetManagerOptions :: "manager_options \<Rightarrow> manager_options \<times> error option"
  rBoot :: "boot_call list \<Rightarrow> error option"

section \<open>Defaults of the webhook\<close>

definition KeystoneAPIContainerImage :: string where
  "KeystoneAPIContainerImage = ''quay.io/openstack-s2i-containers/openstack-keystone:master-latest''"

definition APIDefaultTimeout :: int where "APIDefaultTimeout = 60"

definition SetupKeystoneAPIDefaults :: "KeystoneAPIDefaults \<Rightarrow> (process, unit) state" where
  "SetupKeystoneAPIDefaults defaults = modify (\<lambda>p. p\<lparr>ps_Defaults := defaults\<rparr>)"

definition SetupDefaults :: "boot \<Rightarrow> (process, unit) state" where
  "SetupDefaults B = SetupKeystoneAPIDefaults
     \<lparr>kd_ContainerImageURL = GetEnvVar B ''RELATED_IMAGE_KEYSTONE_API_IMAGE_URL_DEFAULT'' KeystoneAPIContainerImage,
      kd_APITimeout = APIDefaultTimeout\<rparr>"

text \<open>\<open>SetupKeystoneAPIWebhookWithManager\<close>: the validator and the defaulter of \<open>Webhook\<close>.\<close>

definition SetupKeystoneAPIWebhookWithManager :: "boot \<Rightarrow> (process, error option) state" where
  "SetupKeystoneAPIWebhookWithManager B = attempt (rBoot B) CompleteWebhook"

section \<open>The main function\<close>

definition schemes :: "string list" where
  "schemes = [''clientgoscheme'', ''keystonev1'', ''mariadbv1'', ''rabbitmqv1'', ''memcachedv1'', ''networkv1'', ''topologyv1'']"

text \<open>The process ends with an exit code, or goes on with a value.\<close>

datatype 'a run = Exit int | Continue 'a

definition andThenRun :: "('s, 'a run) state \<Rightarrow> ('a \<Rightarrow> ('s, 'b run) state) \<Rightarrow> ('s, 'b run) state" where
  "andThenRun m f = do { r \<leftarrow> m; case r of Exit n \<Rightarrow> ret (Exit n) | Continue a \<Rightarrow> f a }"

text \<open>\<open>os.Exit(1)\<close> after an error; a panic of \<open>utilruntime.Must\<close> ends the process with exit code 2.\<close>

definition or_exit :: "(process, error option) state \<Rightarrow> int \<Rightarrow> (process, unit run) state" where
  "or_exit m n = do { e \<leftarrow> m; ret (case e of Some _ \<Rightarrow> Exit n | None \<Rightarrow> Continue ()) }"

primrec register_schemes :: "boot \<Rightarrow> string list \<Rightarrow> (process, unit run) state" where
  "register_schemes B [] = ret (Continue ())"
| "register_schemes B (g # gs) =
     andThenRun (or_exit (attempt (rBoot B) (AddToScheme g)) 2) (\<lambda>_. register_schemes B gs)"

text \<open>\<open>append\<close> on a slice of TLS options.\<close>

definition append_opt :: "boot \<Rightarrow> slice \<Rightarrow> tls_option \<Rightarrow> (process, slice) state" where
  "append_opt B sl x = State (\<lambda>p. let (sl', H) = append1 (growcap B) sl x (ps_Arrays p) in (sl', p\<lparr>ps_Arrays := H\<rparr>))"

definition base_tls :: "boot \<Rightarrow> flags \<Rightarrow> (process, slice) state" where
  "base_tls B fl = do {
     tlsOpts \<leftarrow> append_opt B nil_slice MinVersionTLS13;
     if \<not> fl_enableHTTP2 fl then append_opt B tlsOpts NextProtosHTTP1 else ret tlsOpts
   }"

text \<open>The webhook server: its options, and whether it has a certificate watcher.\<close>

definition webhook_tls :: "boot \<Rightarrow> flags \<Rightarrow> slice \<Rightarrow> (process, (slice \<times> bool) run) state" where
  "webhook_tls B fl tlsOpts =
     (if fl_webhookCertPath fl \<noteq> '''' then
        andThenRun (or_exit (attempt (rBoot B) (NewCertWatcher WebhookServer
            (pathJoin B (fl_webhookCertPath fl) (fl_webhookCertName fl))
            (pathJoin B (fl_webhookCertPath fl) (fl_webhookCertKey fl)))) 1) (\<lambda>_. do {
          webhookTLSOpts \<leftarrow> append_opt B tlsOpts (GetCertificateFrom WebhookServer);
          ret (Continue (webhookTLSOpts, True))
        })
      else ret (Continue (tlsOpts, False)))"

definition metrics_tls :: "boot \<Rightarrow> flags \<Rightarrow> slice \<Rightarrow> (process, (slice \<times> bool) run) state" where
  "metrics_tls B fl tlsOpts =
     (if fl_metricsCertPath fl \<noteq> '''' then
        andThenRun (or_exit (attempt (rBoot B) (NewCertWatcher MetricsServer
            (pathJoin B (fl_metricsCertPath fl) (fl_metricsCertName fl))
            (pathJoin B (fl_metricsCertPath fl) (fl_metricsCertKey fl)))) 1) (\<lambda>_. do {
          metricsTLSOpts \<leftarrow> append_opt B tlsOpts (GetCertificateFrom MetricsServer);
          ret (Continue (metricsTLSOpts, True))
        })
      else ret (Continue (tlsOpts, False)))"

definition options_of :: "flags \<Rightarrow> slice \<Rightarrow> slice \<Rightarrow> manager_options" where
  "options_of fl webhookTLSOpts metricsTLSOpts =
     \<lparr>mo_Scheme = schemes, mo_MetricsBindAddress = fl_metricsAddr fl, mo_MetricsSecureServing = fl_secureMetrics fl,
      mo_MetricsTLSOpts = metricsTLSOpts, mo_MetricsAuth = fl_secureMetrics fl,
      mo_WebhookPort = fl_webhookPort fl, mo_WebhookTLSOpts = webhookTLSOpts,
      mo_HealthProbeBindAddress = fl_probeAddr fl, mo_PprofBindAddress = fl_pprofBindAddress fl,
      mo_LeaderElection = fl_enableLeaderElection fl, mo_LeaderElectionID = ''6012128b.openstack.org''\<rparr>"

text \<open>From the options to the clients; \<open>GetConfigOrDie\<close> and \<open>GetConfig\<close> read the same configuration.\<close>

definition new_manager :: "boot \<Rightarrow> manager_options \<Rightarrow> (process, unit run) state" where
  "new_manager B opts0 =
     (let (opts, err) = SetManagerOptions B opts0
      in andThenRun (or_exit (ret err) 1) (\<lambda>_.
         andThenRun (or_exit (attempt (rBoot B) GetConfig) 1) (\<lambda>_.
         andThenRun (or_exit (attempt (rBoot B) (NewManager opts)) 1) (\<lambda>_.
         andThenRun (or_exit (attempt (rBoot B) GetConfig) 1) (\<lambda>_.
         or_exit (attempt (rBoot B) NewKubeClient) 1)))))"

text \<open>The four controllers, in the order of the code.\<close>

definition setup_controllers :: "boot \<Rightarrow> (process, unit run) state" where
  "setup_controllers B =
     andThenRun (or_exit (api_SetupWithManager (rBoot B)) 1) (\<lambda>_.
     andThenRun (or_exit (svc_SetupWithManager (rBoot B)) 1) (\<lambda>_.
     andThenRun (or_exit (ep_SetupWithManager (rBoot B)) 1) (\<lambda>_.
     or_exit (ac_SetupWithManager (rBoot B)) 1)))"

text \<open>The webhook, unless it is disabled, and the check that reports the process healthy.\<close>

definition setup_webhook :: "boot \<Rightarrow> (process, health_check run) state" where
  "setup_webhook B =
     (if Getenv B ''ENABLE_WEBHOOKS'' \<noteq> ''false'' then
        andThenRun (or_exit (SetupKeystoneAPIWebhookWithManager B) 1) (\<lambda>_. ret (Continue WebhookStarted))
      else ret (Continue Ping))"

definition add_watcher :: "boot \<Rightarrow> tls_server \<Rightarrow> bool \<Rightarrow> (process, unit run) state" where
  "add_watcher B w present = (if present then or_exit (attempt (rBoot B) (AddRunnable w)) 1 else ret (Continue ()))"

definition start_manager :: "boot \<Rightarrow> bool \<Rightarrow> bool \<Rightarrow> health_check \<Rightarrow> (process, unit run) state" where
  "start_manager B metricsCertWatcher webhookCertWatcher checker =
     andThenRun (add_watcher B MetricsServer metricsCertWatcher) (\<lambda>_.
     andThenRun (add_watcher B WebhookServer webhookCertWatcher) (\<lambda>_.
     andThenRun (or_exit (attempt (rBoot B) (AddHealthzCheck ''healthz'' checker)) 1) (\<lambda>_.
     andThenRun (or_exit (attempt (rBoot B) (AddReadyzCheck ''readyz'' checker)) 1) (\<lambda>_.
     or_exit (attempt (rBoot B) StartManager) 1))))"

definition main_body :: "boot \<Rightarrow> (process, unit run) state" where
  "main_body B =
     (let fl = flag_Parse B default_flags
      in do {
        tlsOpts \<leftarrow> base_tls B fl;
        andThenRun (webhook_tls B fl tlsOpts) (\<lambda>(webhookTLSOpts, webhookCertWatcher).
        andThenRun (metrics_tls B fl tlsOpts) (\<lambda>(metricsTLSOpts, metricsCertWatcher).
        andThenRun (new_manager B (options_of fl webhookTLSOpts metricsTLSOpts)) (\<lambda>_. do {
          SetupDefaults B;
          andThenRun (setup_controllers B) (\<lambda>_.
          andThenRun (setup_webhook B) (\<lambda>checker.
          start_manager B metricsCertWatcher webhookCertWatcher checker))
        })))
      })"

text \<open>\<open>init\<close> before \<open>main\<close>; the exit code of the process.\<close>

definition main :: "boot \<Rightarrow> (process, int) state" where
  "main B = do {
     r \<leftarrow> andThenRun (register_schemes B schemes) (\<lambda>_. main_body B);
     ret (case r of Exit n \<Rightarrow> n | Continue _ \<Rightarrow> 0)
   }"

end
