(* ===== verification/CommandProps.thy ===== *)
theory CommandProps
  imports Command
begin

text \<open>
  What the start-up guarantees: the two servers get the TLS options meant for them although they share a slice, and
  the manager starts only after everything that must be registered was registered without an error.
\<close>

section \<open>TLS options\<close>

text \<open>The configuration the options make; an option that was never written is a nil function, which panics.\<close>

record tls_config =
  tc_MinVersion :: nat
  tc_NextProtos :: "string list"
  tc_GetCertificate :: "tls_server option"

fun apply_opt :: "tls_option \<Rightarrow> tls_config \<Rightarrow> tls_config" where
  "apply_opt MinVersionTLS13 c = c\<lparr>tc_MinVersion := 0x0304\<rparr>"
| "apply_opt NextProtosHTTP1 c = c\<lparr>tc_NextProtos := [''http/1.1'']\<rparr>"
| "apply_opt (GetCertificateFrom w) c = c\<lparr>tc_GetCertificate := Some w\<rparr>"

primrec configured :: "tls_option option list \<Rightarrow> tls_config \<Rightarrow> tls_config option" where
  "configured [] c = Some c"
| "configured (x # xs) c = (case x of None \<Rightarrow> None | Some opt \<Rightarrow> configured xs (apply_opt opt c))"

definition empty_config :: tls_config where
  "empty_config = \<lparr>tc_MinVersion = 0, tc_NextProtos = [], tc_GetCertificate = None\<rparr>"

text \<open>
  The runtime grows an empty slice to one slot and a slice of one to two. The language only promises that there is
  room for the new element, and a slice with more room would be shared by both servers.
\<close>

definition runtime_growth :: "(nat \<Rightarrow> nat) \<Rightarrow> bool" where
  "runtime_growth g \<longleftrightarrow> (\<forall>n. n < g n) \<and> g 0 = 1 \<and> g 1 = 2"

lemma run_append_opt:
  "run_state (append_opt B sl x) p =
    (fst (append1 (growcap B) sl x (ps_Arrays p)), p\<lparr>ps_Arrays := snd (append1 (growcap B) sl x (ps_Arrays p))\<rparr>)"
  by (simp add: append_opt_def split: prod.split)

lemma wp_append_opt [wp_simps]:
  "wp (append_opt B sl x) Q p \<longleftrightarrow>
    Q (fst (append1 (growcap B) sl x (ps_Arrays p))) (p\<lparr>ps_Arrays := snd (append1 (growcap B) sl x (ps_Arrays p))\<rparr>)"
  by (simp add: wp_def run_append_opt)

lemma wp_andThenRun [wp_simps]:
  "wp (andThenRun m f) Q p = wp m (\<lambda>r t. case r of Exit n \<Rightarrow> Q (Exit n) t | Continue a \<Rightarrow> wp (f a) Q t) p"
  unfolding andThenRun_def wp_bind
  by (rule arg_cong [where f = "\<lambda>P. wp m P p"]) (auto simp: fun_eq_iff wp_simps split: run.splits)

lemma wp_run_then:
  assumes "wp m P p" "\<And>n t. P (Exit n) t \<Longrightarrow> Q (Exit n) t" "\<And>a t. P (Continue a) t \<Longrightarrow> wp (f a) Q t"
  shows "wp (andThenRun m f) Q p"
  unfolding wp_andThenRun by (rule wp_mono [OF assms(1)]) (use assms(2,3) in \<open>auto split: run.split\<close>)

lemma wp_run_then_pair:
  assumes "wp m P p" "\<And>n t. P (Exit n) t \<Longrightarrow> Q (Exit n) t" "\<And>a b t. P (Continue (a, b)) t \<Longrightarrow> wp (f a b) Q t"
  shows "wp (andThenRun m (\<lambda>(a, b). f a b)) Q p"
  by (rule wp_run_then, rule assms(1), erule assms(2)) (use assms(3) in auto)

lemma wp_or_exit [wp_simps]:
  "wp (or_exit m n) Q p = wp m (\<lambda>e t. Q (case e of Some _ \<Rightarrow> Exit n | None \<Rightarrow> Continue ()) t) p"
  by (simp add: or_exit_def wp_def split: prod.splits)

text \<open>The options both servers start from: a slice that is full.\<close>

abbreviation base_opts :: "flags \<Rightarrow> tls_option list" where
  "base_opts fl \<equiv> MinVersionTLS13 # (if fl_enableHTTP2 fl then [] else [NextProtosHTTP1])"

definition full_slice :: "flags \<Rightarrow> tls_option arrays \<Rightarrow> slice \<Rightarrow> bool" where
  "full_slice fl H sl \<longleftrightarrow> valid_slice H sl \<and> sl_cap sl = sl_len sl \<and> contents H sl = map Some (base_opts fl)"

lemma base_tls_full:
  assumes "runtime_growth (growcap B)" "list_all C (ps_Calls p)"
  shows "wp (base_tls B fl) (\<lambda>sl t. full_slice fl (ps_Arrays t) sl \<and> list_all C (ps_Calls t)) p"
  using assms
  by (simp add: base_tls_def wp_simps full_slice_def runtime_growth_def append1_def nil_slice_def valid_slice_def
      contents_def nth_append Let_def)

text \<open>Appending to a full slice makes a new array, so nothing a server was given changes.\<close>

lemma append_full:
  assumes "full_slice fl H sl" "append1 g sl x H = (sl', H')" "\<And>n. n < g n"
  shows "contents H' sl' = map Some (base_opts fl @ [x])" "valid_slice H' sl'" "full_slice fl H' sl"
    and "valid_slice H other \<Longrightarrow> valid_slice H' other \<and> contents H' other = contents H other"
proof -
  have v: "valid_slice H sl" "sl_cap sl \<le> sl_len sl" using assms(1) by (simp_all add: full_slice_def)
  show "contents H' sl' = map Some (base_opts fl @ [x])" "valid_slice H' sl'"
    using assms contents_append1 [OF assms(2) v(1)] valid_append1 [OF assms(2) v(1)] by (simp_all add: full_slice_def)
  show other: "valid_slice H' other \<and> contents H' other = contents H other" if "valid_slice H other" for other
    using that contents_append1_other [OF assms(2) that] valid_append1_other [OF assms(2) that] v by (simp add: untouched_def)
  show "full_slice fl H' sl" using other [OF v(1)] assms(1) by (simp add: full_slice_def)
qed

section \<open>Steps that only call\<close>

text \<open>A step that leaves the slices alone and makes calls of a class only.\<close>

definition calling :: "(boot_call \<Rightarrow> bool) \<Rightarrow> (process, 'a) state \<Rightarrow> bool" where
  "calling C m \<longleftrightarrow> (\<forall>p. wp m (\<lambda>_ t. ps_Arrays t = ps_Arrays p
     \<and> (\<exists>l. ps_Calls t = ps_Calls p @ l \<and> list_all C l)) p)"

named_theorems calling_intros \<open>structural rules for \<open>calling\<close>\<close>

lemma calling_ret [calling_intros]: "calling C (ret a)"
  by (simp add: calling_def wp_simps)

lemma calling_attempt [calling_intros]: "C c \<Longrightarrow> calling C (attempt answer c)"
  by (simp add: calling_def wp_simps)

lemma calling_bind [calling_intros]:
  assumes "calling C m" "\<And>a. calling C (f a)"
  shows "calling C (State_Monad.bind m f)"
  unfolding calling_def wp_bind
proof (rule allI, rule wp_runI)
  fix p a t assume run: "run_state m p = (a, t)"
  have "wp m (\<lambda>_ t. ps_Arrays t = ps_Arrays p \<and> (\<exists>l. ps_Calls t = ps_Calls p @ l \<and> list_all C l)) p"
    using assms(1) unfolding calling_def by blast
  from wp_run [OF run this] obtain l where l: "ps_Arrays t = ps_Arrays p" "ps_Calls t = ps_Calls p @ l" "list_all C l" by blast
  have "wp (f a) (\<lambda>_ u. ps_Arrays u = ps_Arrays t \<and> (\<exists>l. ps_Calls u = ps_Calls t @ l \<and> list_all C l)) t"
    using assms(2) unfolding calling_def by blast
  then show "wp (f a) (\<lambda>_ u. ps_Arrays u = ps_Arrays p \<and> (\<exists>l. ps_Calls u = ps_Calls p @ l \<and> list_all C l)) t"
    by (rule wp_mono) (use l in fastforce)
qed

lemma calling_option [calling_intros]:
  "calling C m \<Longrightarrow> (\<And>a. calling C (f a)) \<Longrightarrow> calling C (case x of None \<Rightarrow> m | Some a \<Rightarrow> f a)"
  by (simp split: option.split)

lemma calling_exit [calling_intros]:
  "(\<And>n. calling C (g n)) \<Longrightarrow> (\<And>a. calling C (f a)) \<Longrightarrow> calling C (case x of Exit n \<Rightarrow> g n | Continue a \<Rightarrow> f a)"
  by (simp split: run.split)

lemma calling_if [calling_intros]: "calling C m \<Longrightarrow> calling C n \<Longrightarrow> calling C (if b then m else n)"
  by simp

lemma calling_run [calling_intros]:
  "calling C k \<Longrightarrow> calling C (or_exit k n)"
  "calling C m \<Longrightarrow> (\<And>a. calling C (f a)) \<Longrightarrow> calling C (andThenRun m f)"
  unfolding or_exit_def andThenRun_def by (intro calling_intros; assumption)+

lemma calling_index_fields: "(\<And>f. C (IndexField OKeystoneAPI f)) \<Longrightarrow> calling C (index_fields answer fs)"
  by (induction fs) (auto intro!: calling_intros)

lemma calling_schemes: "(\<And>g. C (AddToScheme g)) \<Longrightarrow> calling C (register_schemes B gs)"
  by (induction gs) (auto intro!: calling_intros)

lemma calling_defaults: "calling C (SetupDefaults B)"
  by (simp add: calling_def SetupDefaults_def SetupKeystoneAPIDefaults_def wp_simps)

lemmas setup_defs = api_SetupWithManager_def svc_SetupWithManager_def ep_SetupWithManager_def ac_SetupWithManager_def

lemma calling_after_manager:
  assumes "\<And>c. (\<And>opts. c \<noteq> NewManager opts) \<Longrightarrow> C c"
  shows "calling C (setup_controllers B)" "calling C (setup_webhook B)" "calling C (start_manager B mw ww ch)"
  unfolding setup_controllers_def setup_defs setup_webhook_def SetupKeystoneAPIWebhookWithManager_def start_manager_def
    add_watcher_def
  by (intro calling_intros calling_index_fields assms; simp)+

section \<open>The certificates of the servers\<close>

abbreviation server_opts :: "flags \<Rightarrow> tls_server \<Rightarrow> bool \<Rightarrow> tls_option list" where
  "server_opts fl w present \<equiv> base_opts fl @ (if present then [GetCertificateFrom w] else [])"

definition has_opts :: "tls_option arrays \<Rightarrow> slice \<Rightarrow> tls_option list \<Rightarrow> bool" where
  "has_opts H sl xs \<longleftrightarrow> valid_slice H sl \<and> contents H sl = map Some xs"

abbreviation no_manager :: "boot_call \<Rightarrow> bool" where "no_manager c \<equiv> \<forall>opts. c \<noteq> NewManager opts"

lemma webhook_tls_opts:
  assumes "\<And>n. n < growcap B n" "full_slice fl (ps_Arrays p) tlsOpts" "list_all no_manager (ps_Calls p)"
  shows "wp (webhook_tls B fl tlsOpts) (\<lambda>r t. list_all no_manager (ps_Calls t) \<and> (\<forall>sl b. r = Continue (sl, b) \<longrightarrow> b = (fl_webhookCertPath fl \<noteq> '''')
    \<and> has_opts (ps_Arrays t) sl (server_opts fl WebhookServer b) \<and> full_slice fl (ps_Arrays t) tlsOpts)) p"
  using assms(2,3) append_full [OF assms(2) prod.collapse [symmetric] assms(1)]
  by (simp add: webhook_tls_def wp_simps has_opts_def full_slice_def split: option.split)

lemma metrics_tls_opts:
  assumes "\<And>n. n < growcap B n" "full_slice fl (ps_Arrays p) tlsOpts" "has_opts (ps_Arrays p) other xs" "list_all no_manager (ps_Calls p)"
  shows "wp (metrics_tls B fl tlsOpts) (\<lambda>r t. list_all no_manager (ps_Calls t) \<and> (\<forall>sl b. r = Continue (sl, b) \<longrightarrow> b = (fl_metricsCertPath fl \<noteq> '''')
    \<and> has_opts (ps_Arrays t) sl (server_opts fl MetricsServer b) \<and> has_opts (ps_Arrays t) other xs)) p"
  using assms(2-4) append_full [OF assms(2) prod.collapse [symmetric] assms(1)]
  by (simp add: metrics_tls_def wp_simps has_opts_def full_slice_def split: option.split)

lemma configured_opts:
  "configured (map Some (server_opts fl w b)) c = Some (c\<lparr>tc_MinVersion := 0x0304,
     tc_NextProtos := if fl_enableHTTP2 fl then tc_NextProtos c else [''http/1.1''],
     tc_GetCertificate := if b then Some w else tc_GetCertificate c\<rparr>)"
  by simp

text \<open>What a manager was given is configured as the flags say.\<close>

definition well_served :: "flags \<Rightarrow> process \<Rightarrow> bool" where
  "well_served fl p \<longleftrightarrow> (\<forall>opts. NewManager opts \<in> set (ps_Calls p) \<longrightarrow>
     has_opts (ps_Arrays p) (mo_WebhookTLSOpts opts) (server_opts fl WebhookServer (fl_webhookCertPath fl \<noteq> '''')) \<and>
     has_opts (ps_Arrays p) (mo_MetricsTLSOpts opts) (server_opts fl MetricsServer (fl_metricsCertPath fl \<noteq> '''')))"

lemma calling_well_served:
  assumes "calling no_manager m" "well_served fl p"
  shows "wp m (\<lambda>_. well_served fl) p"
proof -
  have "wp m (\<lambda>_ t. ps_Arrays t = ps_Arrays p \<and> (\<exists>l. ps_Calls t = ps_Calls p @ l \<and> list_all no_manager l)) p"
    using assms(1) unfolding calling_def by blast
  then show ?thesis
  proof (rule wp_mono)
    fix t :: process assume t: "ps_Arrays t = ps_Arrays p \<and> (\<exists>l. ps_Calls t = ps_Calls p @ l \<and> list_all no_manager l)"
    then have "NewManager opts \<in> set (ps_Calls t) \<Longrightarrow> NewManager opts \<in> set (ps_Calls p)" for opts
      by (auto simp: list_all_iff)
    with t assms(2) show "well_served fl t" unfolding well_served_def by simp
  qed
qed

text \<open>\<open>operator.SetManagerOptions\<close> sets leader election timings and leaves the servers alone.\<close>

definition options_law :: "boot \<Rightarrow> bool" where
  "options_law B \<longleftrightarrow> (\<forall>opts. mo_WebhookTLSOpts (fst (SetManagerOptions B opts)) = mo_WebhookTLSOpts opts
     \<and> mo_MetricsTLSOpts (fst (SetManagerOptions B opts)) = mo_MetricsTLSOpts opts)"

lemma new_manager_serves:
  assumes "options_law B" "well_served fl p"
    and "has_opts (ps_Arrays p) wsl (server_opts fl WebhookServer (fl_webhookCertPath fl \<noteq> ''''))"
    and "has_opts (ps_Arrays p) msl (server_opts fl MetricsServer (fl_metricsCertPath fl \<noteq> ''''))"
  shows "wp (new_manager B (options_of fl wsl msl)) (\<lambda>_. well_served fl) p"
proof -
  obtain opts err where opts: "SetManagerOptions B (options_of fl wsl msl) = (opts, err)" by fastforce
  then have "mo_WebhookTLSOpts opts = wsl" "mo_MetricsTLSOpts opts = msl"
    using assms(1) unfolding options_law_def by (metis fst_conv manager_options.select_convs(4,7) options_of_def)+
  with assms(2-4) show ?thesis
    by (simp add: new_manager_def opts wp_simps well_served_def split: option.split)
qed

lemma calling_served:
  assumes "calling no_manager m" "\<And>r t. well_served fl t \<Longrightarrow> wp (f r) (\<lambda>_. well_served fl) t" "well_served fl p"
  shows "wp (State_Monad.bind m f) (\<lambda>_. well_served fl) p"
  unfolding wp_bind by (rule wp_mono [OF calling_well_served [OF assms(1,3)]]) (rule assms(2))

lemma after_manager_served:
  assumes "well_served fl p"
  shows "wp (do { SetupDefaults B; andThenRun (setup_controllers B) (\<lambda>_.
      andThenRun (setup_webhook B) (\<lambda>checker. start_manager B mw ww checker)) }) (\<lambda>_. well_served fl) p"
  by (rule calling_well_served [OF _ assms], intro calling_intros calling_defaults calling_after_manager) simp_all

lemma main_body_served:
  assumes "runtime_growth (growcap B)" "options_law B" "list_all no_manager (ps_Calls p)"
  shows "wp (main_body B) (\<lambda>_. well_served (flag_Parse B default_flags)) p"
proof -
  define fl where "fl = flag_Parse B default_flags"
  have g: "\<And>n. n < growcap B n" using assms(1) by (simp add: runtime_growth_def)
  have idle: "well_served fl t" if "list_all no_manager (ps_Calls t)" for t :: process
    using that by (auto simp: well_served_def list_all_iff)
  let ?rest = "\<lambda>wsl ww msl mw. andThenRun (new_manager B (options_of fl wsl msl)) (\<lambda>_. do { SetupDefaults B;
      andThenRun (setup_controllers B) (\<lambda>_. andThenRun (setup_webhook B) (\<lambda>checker. start_manager B mw ww checker)) })"
  have rest: "wp (?rest wsl ww msl mw) (\<lambda>_. well_served fl) t"
    if "list_all no_manager (ps_Calls t)"
      "has_opts (ps_Arrays t) wsl (server_opts fl WebhookServer (fl_webhookCertPath fl \<noteq> ''''))"
      "has_opts (ps_Arrays t) msl (server_opts fl MetricsServer (fl_metricsCertPath fl \<noteq> ''''))" for wsl ww msl mw t
    by (rule wp_run_then [OF new_manager_serves [OF assms(2) idle [OF that(1)] that(2,3)]], assumption)
      (rule after_manager_served)
  have metrics: "wp (andThenRun (metrics_tls B fl sl) (\<lambda>(msl, mw). ?rest wsl ww msl mw)) (\<lambda>_. well_served fl) t"
    if "list_all no_manager (ps_Calls t)" "full_slice fl (ps_Arrays t) sl"
      "has_opts (ps_Arrays t) wsl (server_opts fl WebhookServer (fl_webhookCertPath fl \<noteq> ''''))" for sl wsl ww t
    by (rule wp_run_then_pair [OF metrics_tls_opts [OF g that(2,3,1)]], simp add: idle, rule rest) (use that in simp_all)
  have webhook: "wp (andThenRun (webhook_tls B fl sl) (\<lambda>(wsl, ww). andThenRun (metrics_tls B fl sl) (\<lambda>(msl, mw). ?rest wsl ww msl mw)))
      (\<lambda>_. well_served fl) t" if "list_all no_manager (ps_Calls t)" "full_slice fl (ps_Arrays t) sl" for sl t
    by (rule wp_run_then_pair [OF webhook_tls_opts [OF g that(2,1)]], simp add: idle, rule metrics) simp_all
  have "wp (main_body B) (\<lambda>_. well_served fl) p"
    unfolding main_body_def Let_def wp_bind [of "base_tls B _"] fl_def [symmetric]
    by (rule wp_mono [OF base_tls_full [OF assms(1,3)]]) (simp add: webhook)
  then show ?thesis by (simp add: fl_def)
qed

lemma main_served:
  assumes "runtime_growth (growcap B)" "options_law B" "list_all no_manager (ps_Calls p)"
  shows "wp (main B) (\<lambda>_. well_served (flag_Parse B default_flags)) p"
proof -
  have "calling no_manager (register_schemes B schemes)" by (rule calling_schemes) simp
  then have schemes: "wp (register_schemes B schemes) (\<lambda>_ t. list_all no_manager (ps_Calls t)) p"
    unfolding calling_def by (auto elim!: allE [of _ p] wp_mono simp: assms(3))
  have idle: "well_served fl t" if "list_all no_manager (ps_Calls t)" for t :: process and fl
    using that by (auto simp: well_served_def list_all_iff)
  show ?thesis
    unfolding main_def wp_bind wp_ret wp_andThenRun
    by (rule wp_mono [OF schemes]) (auto split: run.split intro!: idle main_body_served assms)
qed


section \<open>Start-up in order, or not at all\<close>

text \<open>The calls of a start-up that reaches the end, for given manager options and presence of the node set CRD.\<close>

definition setup_plan :: "bool \<Rightarrow> boot_call list" where
  "setup_plan nodeSets = map (IndexField OKeystoneAPI) allWatchFields @
     [CompleteController OKeystoneAPI api_watches, CompleteController OKeystoneService svc_watches,
      CompleteController OKeystoneEndpoint ep_watches, RESTMapping ONodeSet,
      CompleteController OApplicationCredential (ac_watches nodeSets)]"

definition startup_plan :: "boot \<Rightarrow> flags \<Rightarrow> manager_options \<Rightarrow> bool \<Rightarrow> boot_call list" where
  "startup_plan B fl opts nodeSets =
     (let webhooks = Getenv B ''ENABLE_WEBHOOKS'' \<noteq> ''false'';
          ww = fl_webhookCertPath fl \<noteq> ''''; mw = fl_metricsCertPath fl \<noteq> '''';
          check = (if webhooks then WebhookStarted else Ping)
      in map AddToScheme schemes
         @ (if ww then [NewCertWatcher WebhookServer (pathJoin B (fl_webhookCertPath fl) (fl_webhookCertName fl))
             (pathJoin B (fl_webhookCertPath fl) (fl_webhookCertKey fl))] else [])
         @ (if mw then [NewCertWatcher MetricsServer (pathJoin B (fl_metricsCertPath fl) (fl_metricsCertName fl))
             (pathJoin B (fl_metricsCertPath fl) (fl_metricsCertKey fl))] else [])
         @ [GetConfig, NewManager opts, GetConfig, NewKubeClient]
         @ setup_plan nodeSets
         @ (if webhooks then [CompleteWebhook] else [])
         @ (if mw then [AddRunnable MetricsServer] else []) @ (if ww then [AddRunnable WebhookServer] else [])
         @ [AddHealthzCheck ''healthz'' check, AddReadyzCheck ''readyz'' check, StartManager])"

text \<open>All calls of a list succeed after a history; the lookup of the node set CRD may fail.\<close>

definition smooth :: "boot \<Rightarrow> boot_call list \<Rightarrow> boot_call list \<Rightarrow> bool" where
  "smooth B h l \<longleftrightarrow> (\<forall>pre c post. l = pre @ c # post \<longrightarrow> c \<noteq> RESTMapping ONodeSet \<longrightarrow> rBoot B (h @ pre @ [c]) = None)"

lemma smooth_Nil [simp]: "smooth B h []"
  by (simp add: smooth_def)

lemma smooth_Cons [simp]:
  "smooth B h (c # l) \<longleftrightarrow> (c \<noteq> RESTMapping ONodeSet \<longrightarrow> rBoot B (h @ [c]) = None) \<and> smooth B (h @ [c]) l"
proof
  assume L: "smooth B h (c # l)"
  then have "c \<noteq> RESTMapping ONodeSet \<longrightarrow> rBoot B (h @ [c]) = None"
    unfolding smooth_def by (metis append_Nil)
  moreover have "rBoot B ((h @ [c]) @ pre @ [d]) = None" if "l = pre @ d # post" "d \<noteq> RESTMapping ONodeSet" for pre d post
    using L that unfolding smooth_def by (metis append_Cons append_Nil append_assoc)
  ultimately show "(c \<noteq> RESTMapping ONodeSet \<longrightarrow> rBoot B (h @ [c]) = None) \<and> smooth B (h @ [c]) l"
    by (simp add: smooth_def)
next
  assume R: "(c \<noteq> RESTMapping ONodeSet \<longrightarrow> rBoot B (h @ [c]) = None) \<and> smooth B (h @ [c]) l"
  show "smooth B h (c # l)"
    unfolding smooth_def
  proof (intro allI impI)
    fix pre d post assume "c # l = pre @ d # post" "d \<noteq> RESTMapping ONodeSet"
    with R show "rBoot B (h @ pre @ [d]) = None"
      by (cases pre) (auto simp: smooth_def)
  qed
qed

lemma smooth_append [simp]: "smooth B h (l @ k) \<longleftrightarrow> smooth B h l \<and> smooth B (h @ l) k"
  by (induction l arbitrary: h) auto

text \<open>
  \<open>goes B L h r h'\<close>: a step that goes on with a value has made, smoothly, the calls \<open>L\<close> gives for it; one that exits did so
  on its last call with a code that is not zero, and has started the manager only if it made the calls of \<open>L\<close>.
\<close>

definition goes ::
  "boot \<Rightarrow> ('a \<Rightarrow> boot_call list \<Rightarrow> bool) \<Rightarrow> boot_call list \<Rightarrow> 'a run \<Rightarrow> boot_call list \<Rightarrow> bool" where
  "goes B L h r h' \<longleftrightarrow> (\<exists>l. h' = h @ l \<and> (case r of
      Continue a \<Rightarrow> L a l \<and> smooth B h l
    | Exit n \<Rightarrow> n \<noteq> 0 \<and> smooth B h (butlast l) \<and> (StartManager \<in> set l \<longrightarrow> (\<exists>a. L a l))))"

definition follows :: "boot \<Rightarrow> (process, 'a run) state \<Rightarrow> ('a \<Rightarrow> boot_call list \<Rightarrow> bool) \<Rightarrow> bool" where
  "follows B m L \<longleftrightarrow> (\<forall>p. wp m (\<lambda>r t. goes B L (ps_Calls p) r (ps_Calls t)) p)"

lemma followsD: "follows B m L \<Longrightarrow> wp m (\<lambda>r t. goes B L (ps_Calls p) r (ps_Calls t)) p"
  by (simp add: follows_def)

lemma goes_append:
  assumes "goes B (\<lambda>b k. K b (l @ k)) (h @ l) r h'" "smooth B h l" "StartManager \<notin> set l"
  shows "goes B K h r h'"
proof -
  have "smooth B h (butlast (l @ k))" if "smooth B (h @ l) (butlast k)" for k
    using that assms(2) by (cases k rule: rev_cases; cases l rule: rev_cases) (auto simp: butlast_append)
  then show ?thesis
    using assms unfolding goes_def by (force split: run.splits)
qed

lemma follows_ret: "L a [] \<Longrightarrow> follows B (ret (Continue a)) L"
  by (auto simp: follows_def goes_def wp_simps)

lemma follows_attempt: "n \<noteq> 0 \<Longrightarrow> L () [c] \<Longrightarrow> follows B (or_exit (attempt (rBoot B) c) n) L"
  by (auto simp: follows_def goes_def wp_simps split: option.split)

lemma follows_bind:
  assumes "\<And>p. wp m (\<lambda>_ t. ps_Calls t = ps_Calls p) p" "\<And>a. follows B (f a) L"
  shows "follows B (State_Monad.bind m f) L"
  unfolding follows_def wp_bind
proof (rule allI, rule wp_mono [OF assms(1)])
  fix p :: process and a and t :: process
  assume t: "ps_Calls t = ps_Calls p"
  show "wp (f a) (\<lambda>r u. goes B L (ps_Calls p) r (ps_Calls u)) t"
    unfolding t [symmetric] by (rule followsD [OF assms(2)])
qed

lemma follows_mono: "follows B m L \<Longrightarrow> (\<And>a l. L a l \<Longrightarrow> K a l) \<Longrightarrow> follows B m K"
  unfolding follows_def goes_def by (erule all_forward, erule wp_mono) (fastforce split: run.splits)

text \<open>A part with a value in \<open>V\<close> and calls in \<open>L\<close> that does not start the manager, and the rest.\<close>

lemma follows_then:
  assumes "follows B m L" "\<And>a l. L a l \<Longrightarrow> StartManager \<notin> set l" "\<And>a l. L a l \<Longrightarrow> follows B (f a) (\<lambda>b k. K b (l @ k))"
  shows "follows B (andThenRun m f) K"
  unfolding follows_def
proof (rule allI, rule wp_run_then [OF followsD [OF assms(1)]])
  fix p :: process and n and t :: process
  show "goes B L (ps_Calls p) (Exit n) (ps_Calls t) \<Longrightarrow> goes B K (ps_Calls p) (Exit n) (ps_Calls t)"
    using assms(2) by (auto simp: goes_def)
next
  fix p :: process and a and t :: process
  assume "goes B L (ps_Calls p) (Continue a) (ps_Calls t)"
  then obtain l where l: "ps_Calls t = ps_Calls p @ l" "L a l" "smooth B (ps_Calls p) l" by (auto simp: goes_def)
  show "wp (f a) (\<lambda>r u. goes B K (ps_Calls p) r (ps_Calls u)) t"
    by (rule wp_mono [OF followsD [OF assms(3) [OF l(2)]]], rule goes_append [of B K l])
      (simp_all add: l assms(2) [OF l(2)])
qed

lemma follows_step:
  assumes "n \<noteq> 0" "c \<noteq> StartManager" "follows B (f ()) (\<lambda>b k. K b (c # k))"
  shows "follows B (andThenRun (or_exit (attempt (rBoot B) c) n) f) K"
  by (rule follows_then [OF follows_attempt [where L = "\<lambda>_ l. l = [c]"]]) (use assms in simp_all)

text \<open>The parts of the start-up.\<close>

lemma follows_schemes: "follows B (register_schemes B gs) (\<lambda>_ l. l = map AddToScheme gs)"
proof (induction gs)
  case (Cons g gs)
  then show ?case by (simp, intro follows_step) simp_all
qed (simp add: follows_ret)

lemma follows_webhook_tls:
  "follows B (webhook_tls B fl sl) (\<lambda>(_, b) l. b = (fl_webhookCertPath fl \<noteq> '''') \<and>
     l = (if b then [NewCertWatcher WebhookServer (pathJoin B (fl_webhookCertPath fl) (fl_webhookCertName fl))
             (pathJoin B (fl_webhookCertPath fl) (fl_webhookCertKey fl))] else []))"
  "follows B (metrics_tls B fl sl) (\<lambda>(_, b) l. b = (fl_metricsCertPath fl \<noteq> '''') \<and>
     l = (if b then [NewCertWatcher MetricsServer (pathJoin B (fl_metricsCertPath fl) (fl_metricsCertName fl))
             (pathJoin B (fl_metricsCertPath fl) (fl_metricsCertKey fl))] else []))"
  unfolding webhook_tls_def metrics_tls_def
  by (auto intro!: follows_ret follows_step follows_bind simp: wp_simps)

lemma follows_new_manager:
  "follows B (new_manager B opts0) (\<lambda>_ l. l = [GetConfig, NewManager (fst (SetManagerOptions B opts0)), GetConfig, NewKubeClient])"
proof -
  have ret_err: "follows B (or_exit (ret err) 1) (\<lambda>_ l. l = [])" for err
    by (auto simp: follows_def goes_def wp_simps split: option.split)
  show ?thesis
    unfolding new_manager_def case_prod_unfold Let_def
    by (rule follows_then [OF ret_err], simp, simp, intro follows_step follows_attempt) simp_all
qed

lemma or_exit_seq:
  "or_exit (do { e \<leftarrow> m; case e of Some err \<Rightarrow> ret (Some err) | None \<Rightarrow> k }) n =
    andThenRun (or_exit m n) (\<lambda>_. or_exit k n)"
proof -
  have "run_state (or_exit (do { e \<leftarrow> m; case e of Some err \<Rightarrow> ret (Some err) | None \<Rightarrow> k }) n) p =
      run_state (andThenRun (or_exit m n) (\<lambda>_. or_exit k n)) p" for p
    by (cases "run_state m p") (simp add: or_exit_def andThenRun_def split: option.split)
  then show ?thesis by (intro state.expand) (simp add: fun_eq_iff)
qed

lemma follows_index_fields:
  "follows B (or_exit (index_fields (rBoot B) fs) 1) (\<lambda>_ l. l = map (IndexField OKeystoneAPI) fs)"
proof (induction fs)
  case Nil
  show ?case by (auto simp: follows_def goes_def wp_simps)
next
  case (Cons f fs)
  then show ?case by (simp add: or_exit_seq, intro follows_step) simp_all
qed

text \<open>The lookup of the node set CRD decides on a watch and is the one call that may fail.\<close>

lemma follows_ac_setup:
  "follows B (or_exit (ac_SetupWithManager (rBoot B)) 1)
     (\<lambda>_ l. \<exists>b. l = [RESTMapping ONodeSet, CompleteController OApplicationCredential (ac_watches b)])"
  by (auto simp: ac_SetupWithManager_def follows_def goes_def wp_simps split: option.split)

lemma follows_setup: "follows B (setup_controllers B) (\<lambda>_ l. \<exists>b. l = setup_plan b)"
proof -
  have api: "follows B (or_exit (api_SetupWithManager (rBoot B)) 1)
      (\<lambda>_ l. l = map (IndexField OKeystoneAPI) allWatchFields @ [CompleteController OKeystoneAPI api_watches])"
    unfolding api_SetupWithManager_def or_exit_seq
    by (rule follows_then [OF follows_index_fields], auto intro!: follows_attempt)
  show ?thesis
    unfolding setup_controllers_def svc_SetupWithManager_def ep_SetupWithManager_def
    by (rule follows_then [OF api], force, intro follows_step)
      (simp_all, use follows_ac_setup [of B] in \<open>simp add: setup_plan_def\<close>)
qed

lemma follows_setup_webhook:
  "follows B (setup_webhook B) (\<lambda>check l. let on = Getenv B ''ENABLE_WEBHOOKS'' \<noteq> ''false'' in
     check = (if on then WebhookStarted else Ping) \<and> l = (if on then [CompleteWebhook] else []))"
  unfolding setup_webhook_def SetupKeystoneAPIWebhookWithManager_def
  by (auto intro!: follows_ret follows_step)

lemma follows_add_watcher: "follows B (add_watcher B w b) (\<lambda>_ l. l = (if b then [AddRunnable w] else []))"
  unfolding add_watcher_def by (auto intro!: follows_ret follows_attempt)

lemma follows_start_manager:
  "follows B (start_manager B mw ww check) (\<lambda>_ l. l = (if mw then [AddRunnable MetricsServer] else [])
     @ (if ww then [AddRunnable WebhookServer] else [])
     @ [AddHealthzCheck ''healthz'' check, AddReadyzCheck ''readyz'' check, StartManager])"
  unfolding start_manager_def
  by (rule follows_then [OF follows_add_watcher], force, rule follows_then [OF follows_add_watcher], force,
      intro follows_step follows_attempt) simp_all

lemma follows_main_body:
  assumes "fl = flag_Parse B default_flags"
  shows "follows B (main_body B) (\<lambda>_ l. \<exists>opts b. map AddToScheme schemes @ l = startup_plan B fl opts b)"
proof -
  have tls: "wp (base_tls B fl) (\<lambda>_ t. ps_Calls t = ps_Calls p) p" for p
    by (simp add: base_tls_def wp_simps)
  have defaults: "wp (SetupDefaults B) (\<lambda>_ t. ps_Calls t = ps_Calls p) p" for p
    by (simp add: SetupDefaults_def SetupKeystoneAPIDefaults_def wp_simps)
  have quiet: "StartManager \<notin> set (setup_plan b)" for b
    by (auto simp: setup_plan_def)
  show ?thesis
    unfolding main_body_def Let_def assms [symmetric] case_prod_unfold
    apply (rule follows_bind [OF tls])
    apply (rule follows_then [OF follows_webhook_tls(1) [unfolded case_prod_unfold]], force)
    apply (rule follows_then [OF follows_webhook_tls(2) [unfolded case_prod_unfold]], force)
    apply (rule follows_then [OF follows_new_manager], force)
    apply (rule follows_bind [OF defaults])
    apply (rule follows_then [OF follows_setup], use quiet in blast)
    apply (rule follows_then [OF follows_setup_webhook], force simp: Let_def)
    apply (rule follows_mono [OF follows_start_manager])
    apply (auto simp: startup_plan_def Let_def)
    done
qed

lemma follows_main:
  "follows B (andThenRun (register_schemes B schemes) (\<lambda>_. main_body B))
     (\<lambda>_ l. \<exists>opts b. l = startup_plan B (flag_Parse B default_flags) opts b)"
  by (rule follows_then [OF follows_schemes]) (use follows_main_body [OF refl] in auto)

text \<open>
  C28: the process starts the manager only as its last call, after all it needs was set up in order and without an
  error: the schemes, the certificate watchers the flags ask for, the manager, the indexes of all watched fields, the four
  controllers, the webhook unless it is disabled, and the checks. Whatever fails before ends the process at once
  with an exit code that is not zero; only the lookup of the node set CRD may fail.
\<close>

theorem main_starts_complete:
  assumes "run_state (main B) p = (code, t)" "ps_Calls p = []"
  shows "smooth B [] (butlast (ps_Calls t))
    \<and> (StartManager \<in> set (ps_Calls t) \<or> code = 0 \<longrightarrow>
        (\<exists>opts nodeSets. ps_Calls t = startup_plan B (flag_Parse B default_flags) opts nodeSets))
    \<and> (code = 0 \<longrightarrow> rBoot B (ps_Calls t) = None)"
proof -
  have "wp (main B) (\<lambda>code t. \<exists>r. goes B (\<lambda>_ l. \<exists>opts b. l = startup_plan B (flag_Parse B default_flags) opts b)
      (ps_Calls p) (r :: unit run) (ps_Calls t) \<and> code = (case r of Exit n \<Rightarrow> n | Continue _ \<Rightarrow> 0)) p"
    unfolding main_def wp_bind wp_ret by (rule wp_mono [OF followsD [OF follows_main]]) blast
  from wp_run [OF assms(1) this] obtain r :: "unit run"
    where r: "goes B (\<lambda>_ l. \<exists>opts b. l = startup_plan B (flag_Parse B default_flags) opts b) [] r (ps_Calls t)"
      "code = (case r of Exit n \<Rightarrow> n | Continue _ \<Rightarrow> 0)" using assms(2) by auto
  show ?thesis
  proof (cases r)
    case (Exit n)
    with r show ?thesis by (auto simp: goes_def)
  next
    case (Continue a)
    with r obtain opts b where plan: "ps_Calls t = startup_plan B (flag_Parse B default_flags) opts b" "smooth B [] (ps_Calls t)" "code = 0"
      by (auto simp: goes_def)
    then obtain h where h: "ps_Calls t = h @ [StartManager]" by (auto simp: startup_plan_def Let_def)
    with plan(2) have "smooth B [] (butlast (ps_Calls t)) \<and> rBoot B (ps_Calls t) = None" by simp
    with plan show ?thesis by blast
  qed
qed

text \<open>A machine on which everything succeeds, started with certificates for both servers.\<close>

definition ex_boot :: "(nat \<Rightarrow> nat) \<Rightarrow> boot" where
  "ex_boot g = \<lparr>growcap = g, flag_Parse = \<lambda>fl. fl\<lparr>fl_webhookCertPath := ''/tmp/webhook'', fl_metricsCertPath := ''/tmp/metrics''\<rparr>,
     Getenv = \<lambda>_. '''', GetEnvVar = \<lambda>_ d. d, pathJoin = \<lambda>d f. d @ ''/'' @ f, SetManagerOptions = \<lambda>opts. (opts, None),
     rBoot = \<lambda>_. None\<rparr>"

definition ex_process :: process where
  "ex_process = \<lparr>ps_Arrays = [], ps_Defaults = \<lparr>kd_ContainerImageURL = '''', kd_APITimeout = 0\<rparr>, ps_Calls = []\<rparr>"

definition doubling :: "nat \<Rightarrow> nat" where "doubling n = (if n = 0 then 1 else 2 * n)"

lemma ex_boot_simps [simp]:
  "growcap (ex_boot g) = g" "rBoot (ex_boot g) h = None" "SetManagerOptions (ex_boot g) opts = (opts, None)"
  "Getenv (ex_boot g) v = ''''" "fl_enableHTTP2 (flag_Parse (ex_boot g) default_flags) = False"
  "fl_webhookCertPath (flag_Parse (ex_boot g) default_flags) = ''/tmp/webhook''"
  "fl_metricsCertPath (flag_Parse (ex_boot g) default_flags) = ''/tmp/metrics''"
  by (simp_all add: ex_boot_def default_flags_def)

lemma ex_process_simps [simp]: "ps_Arrays ex_process = []" "ps_Calls ex_process = []"
  by (simp_all add: ex_process_def)

text \<open>Its run succeeds, and ends with the arrays and the manager options the slices of the two servers were made in.\<close>

abbreviation ex_slices :: "(nat \<Rightarrow> nat) \<Rightarrow> (slice \<times> slice) \<times> tls_option arrays" where
  "ex_slices g \<equiv> let (base0, H0) = append1 g nil_slice MinVersionTLS13 []; (base, H1) = append1 g base0 NextProtosHTTP1 H0;
       (wsl, H2) = append1 g base (GetCertificateFrom WebhookServer) H1;
       (msl, H3) = append1 g base (GetCertificateFrom MetricsServer) H2
     in ((wsl, msl), H3)"

lemma index_fields_run:
  "(\<And>h. answer h = None) \<Longrightarrow> run_state (index_fields answer fs) p = (None, p\<lparr>ps_Calls := ps_Calls p @ map (IndexField OKeystoneAPI) fs\<rparr>)"
  by (induction fs arbitrary: p) simp_all

lemma schemes_run:
  "(\<And>h. rBoot B h = None) \<Longrightarrow>
    run_state (register_schemes B gs) p = (Continue (), p\<lparr>ps_Calls := ps_Calls p @ map AddToScheme gs\<rparr>)"
  by (induction gs arbitrary: p) (simp_all add: andThenRun_def or_exit_def)

lemma ex_run:
  "wp (main (ex_boot g)) (\<lambda>code t. code = 0 \<and> (\<exists>opts. NewManager opts \<in> set (ps_Calls t)
     \<and> ex_slices g = ((mo_WebhookTLSOpts opts, mo_MetricsTLSOpts opts), ps_Arrays t))) ex_process"
proof -
  have index: "wp (index_fields (rBoot (ex_boot g)) fs) Q p = Q None (p\<lparr>ps_Calls := ps_Calls p @ map (IndexField OKeystoneAPI) fs\<rparr>)" for fs Q p
    by (simp add: wp_def index_fields_run)
  have reg: "wp (register_schemes (ex_boot g) gs) Q p = Q (Continue ()) (p\<lparr>ps_Calls := ps_Calls p @ map AddToScheme gs\<rparr>)"
    for gs :: "string list" and Q :: "unit run \<Rightarrow> process \<Rightarrow> bool" and p
    by (simp add: wp_def schemes_run)
  show ?thesis
    unfolding main_def main_body_def base_tls_def webhook_tls_def metrics_tls_def new_manager_def setup_controllers_def setup_defs
      setup_webhook_def start_manager_def add_watcher_def SetupDefaults_def SetupKeystoneAPIDefaults_def
      SetupKeystoneAPIWebhookWithManager_def Let_def
    by (simp add: wp_simps index reg options_of_def split_beta Let_def, rule exI, rule conjI, rule disjI1, rule refl) simp
qed

lemma main_starts_complete_witness:
  "\<exists>opts nodeSets. ps_Calls (snd (run_state (main (ex_boot doubling)) ex_process))
    = startup_plan (ex_boot doubling) (flag_Parse (ex_boot doubling) default_flags) opts nodeSets"
proof -
  obtain code t where run: "run_state (main (ex_boot doubling)) ex_process = (code, t)" by fastforce
  then have "code = 0" using wp_run [OF run ex_run] by simp
  with main_starts_complete [OF run] run show ?thesis by simp
qed


text \<open>
  The growth matters: with room to spare, which the language allows, both servers append into one array and the
  webhook server presents the certificate of the metrics server.
\<close>

lemma certificates_mixed_with_spare_room:
  "\<exists>opts. NewManager opts \<in> set (ps_Calls (snd (run_state (main (ex_boot (\<lambda>n. n + 4))) ex_process)))
    \<and> map_option tc_GetCertificate (configured (contents (ps_Arrays (snd (run_state (main (ex_boot (\<lambda>n. n + 4))) ex_process)))
        (mo_WebhookTLSOpts opts)) empty_config) = Some (Some MetricsServer)"
proof -
  obtain code t where run: "run_state (main (ex_boot (\<lambda>n. n + 4))) ex_process = (code, t)" by fastforce
  obtain opts where opts: "NewManager opts \<in> set (ps_Calls t)"
    "ex_slices (\<lambda>n. n + 4) = ((mo_WebhookTLSOpts opts, mo_MetricsTLSOpts opts), ps_Arrays t)"
    using wp_run [OF run ex_run] by blast
  then have "ps_Arrays t = [[Some MinVersionTLS13, Some NextProtosHTTP1, Some (GetCertificateFrom MetricsServer), None]]"
    "mo_WebhookTLSOpts opts = \<lparr>sl_array = 0, sl_len = 3, sl_cap = 4\<rparr>"
    by (simp_all add: append1_def nil_slice_def numeral_eq_Suc)
  with opts(1) run show ?thesis by (auto simp: contents_def empty_config_def numeral_eq_Suc)
qed

end
