(* ===== verification/FinalizerProtocol.thy ===== *)
theory FinalizerProtocol
  imports Prelude
begin

text \<open>
  The protocol by which controllers that register something in Keystone and the controller that owns the KeystoneAPI
  agree on its lifetime, as an abstract specification. Each registering object has its own finalizer, the holder \<open>f\<close>.
  \<open>accept\<close> is what a run on that object may do next, given what it has read; \<open>step\<close> interleaves the runs of all
  objects on a cluster with optimistic concurrency, the deletion of the KeystoneAPI by a user, and its release.
\<close>

section \<open>A run on one object\<close>

datatype ev =
    Got bool \<comment> \<open>the object was read; whether its status records a registration\<close>
  | Listed "string set" bool \<comment> \<open>the KeystoneAPI was read: its finalizers, and whether it is being deleted\<close>
  | Wrote "string set" bool \<comment> \<open>finalizers written to it, and whether the write was accepted\<close>
  | Looked bool \<comment> \<open>whether the catalog has the registration\<close>
  | Registered bool \<comment> \<open>an attempt to register, and whether it succeeded\<close>
  | Unregistered bool
  | Saved bool bool \<comment> \<open>the status written: whether it records a registration; whether it was accepted\<close>

record actor =
  recorded :: bool \<comment> \<open>the status in memory records a registration\<close>
  copied :: "(string set \<times> bool) option" \<comment> \<open>the KeystoneAPI in memory: finalizers, being deleted\<close>
  absent :: bool \<comment> \<open>the last lookup of this run found nothing\<close>

definition idle :: actor where
  "idle = \<lparr>recorded = False, copied = None, absent = False\<rparr>"

definition holds :: "string \<Rightarrow> actor \<Rightarrow> bool" where
  "holds f l \<longleftrightarrow> (case copied l of None \<Rightarrow> False | Some (F, _) \<Rightarrow> f \<in> F)"

text \<open>
  The rules of a holder: it touches its own finalizer only, drops it only when its object records no registration or
  the KeystoneAPI is being deleted, and looks up, registers and saves only while its copy shows the finalizer.
\<close>

definition may_write :: "string \<Rightarrow> actor \<Rightarrow> string set \<Rightarrow> bool" where
  "may_write f l F' \<longleftrightarrow> (case copied l of None \<Rightarrow> False
     | Some (F, d) \<Rightarrow> F' = insert f F \<or> F' = F - {f} \<and> (\<not> recorded l \<or> d))"

fun accept :: "string \<Rightarrow> actor \<Rightarrow> ev \<Rightarrow> actor option" where
  "accept f l (Got r) = Some \<lparr>recorded = r, copied = None, absent = False\<rparr>"
| "accept f l (Listed F d) = Some (l\<lparr>copied := Some (F, d)\<rparr>)"
| "accept f l (Wrote F' acc) =
     (if may_write f l F'
      then Some (if acc then l\<lparr>copied := map_option (\<lambda>(_, d). (F', d)) (copied l)\<rparr> else l) else None)"
| "accept f l (Looked b) = (if holds f l then Some (l\<lparr>recorded := b \<or> recorded l, absent := \<not> b\<rparr>) else None)"
| "accept f l (Registered acc) =
     (if holds f l \<and> absent l then Some (l\<lparr>recorded := acc, absent := False\<rparr>) else None)"
| "accept f l (Unregistered acc) = Some (if acc then l\<lparr>recorded := False, absent := False\<rparr> else l)"
| "accept f l (Saved r acc) = (if r = recorded l then Some l else None)"

primrec accepts :: "string \<Rightarrow> actor \<Rightarrow> ev list \<Rightarrow> actor option" where
  "accepts f l [] = Some l"
| "accepts f l (e # es) = Option.bind (accept f l e) (\<lambda>l'. accepts f l' es)"

lemma accepts_append: "accepts f l (es @ es') = Option.bind (accepts f l es) (\<lambda>l'. accepts f l' es')"
  by (induction es arbitrary: l) (auto split: Option.bind_split)

lemma accepts_snoc: "accepts f l es = Some l' \<Longrightarrow> accepts f l (es @ [e]) = accept f l' e"
  by (simp add: accepts_append)

text \<open>
  The interface of a controller that holds the KeystoneAPI: its runs read the object first and are accepted. What a holder
  knew before does not matter then.
\<close>

locale holder =
  fixes runs :: "string \<Rightarrow> ev list \<Rightarrow> bool"
  assumes begins: "runs f es \<Longrightarrow> \<exists>r es'. es = Got r # es'"
    and accepted: "runs f es \<Longrightarrow> accepts f idle es \<noteq> None"
begin

lemma starts: "runs f es \<Longrightarrow> accepts f l es \<noteq> None"
  using begins [of f es] accepted [of f es] by auto

end

section \<open>The cluster\<close>

record cluster =
  finalizers :: "string set" \<comment> \<open>of the KeystoneAPI, without the one of its own controller\<close>
  api_version :: nat
  api_deleting :: bool
  released :: bool \<comment> \<open>its own controller has dropped its finalizer\<close>
  catalog :: "string set" \<comment> \<open>the registrations in Keystone, by holder\<close>
  statuses :: "string set" \<comment> \<open>the objects whose stored status records a registration\<close>
  actors :: "string \<Rightarrow> actor"
  versions :: "string \<Rightarrow> nat" \<comment> \<open>the version of an actor's copy\<close>
  owner_copy :: "(string set \<times> bool) option" \<comment> \<open>the KeystoneAPI as its own controller read it\<close>

text \<open>
  What the cluster answers: reads are current; a write is accepted only from a copy of the current version and,
  once the object is being deleted, adds nothing; the catalog changes only by these calls, and a call that failed
  had no effect.
\<close>

fun answered_by :: "string \<Rightarrow> cluster \<Rightarrow> ev \<Rightarrow> bool" where
  "answered_by f g (Got r) \<longleftrightarrow> r = (f \<in> statuses g)"
| "answered_by f g (Listed F d) \<longleftrightarrow> F = finalizers g \<and> d = api_deleting g \<and> \<not> released g"
| "answered_by f g (Wrote F acc) \<longleftrightarrow> (acc \<longrightarrow> versions g f = api_version g \<and> \<not> released g
     \<and> (api_deleting g \<longrightarrow> F \<subseteq> finalizers g))"
| "answered_by f g (Looked b) \<longleftrightarrow> b = (f \<in> catalog g)"
| "answered_by f g (Registered acc) \<longleftrightarrow> True"
| "answered_by f g (Unregistered acc) \<longleftrightarrow> True"
| "answered_by f g (Saved r acc) \<longleftrightarrow> True"

fun effect :: "string \<Rightarrow> ev \<Rightarrow> cluster \<Rightarrow> cluster" where
  "effect f (Got r) g = g"
| "effect f (Listed F d) g = g\<lparr>versions := (versions g)(f := api_version g)\<rparr>"
| "effect f (Wrote F acc) g =
     (if acc then g\<lparr>finalizers := F, api_version := Suc (api_version g),
                   versions := (versions g)(f := Suc (api_version g))\<rparr> else g)"
| "effect f (Looked b) g = g"
| "effect f (Registered acc) g = (if acc then g\<lparr>catalog := insert f (catalog g)\<rparr> else g)"
| "effect f (Unregistered acc) g = (if acc then g\<lparr>catalog := catalog g - {f}\<rparr> else g)"
| "effect f (Saved r acc) g =
     (if acc then g\<lparr>statuses := (if r then insert f (statuses g) else statuses g - {f})\<rparr> else g)"

text \<open>A run that begins while the registration of the last one is not in the stored status has lost it.\<close>

definition lost :: "string \<Rightarrow> cluster \<Rightarrow> bool" where
  "lost f g \<longleftrightarrow> recorded (actors g f) \<noteq> (f \<in> statuses g)"

inductive step :: "bool \<Rightarrow> cluster \<Rightarrow> cluster \<Rightarrow> bool" for lossy :: bool where
  act: "accept f (actors g f) e = Some l \<Longrightarrow> answered_by f g e \<Longrightarrow> (\<exists>r. e = Got r) \<and> lost f g \<longrightarrow> lossy \<Longrightarrow>
    step lossy g ((effect f e g)\<lparr>actors := (actors g)(f := l)\<rparr>)"
| user_deletes: "step lossy g (g\<lparr>api_deleting := True, api_version := Suc (api_version g)\<rparr>)"
| others_write: "step lossy g (g\<lparr>api_version := Suc (api_version g)\<rparr>)"
| owner_reads: "\<not> released g \<Longrightarrow> step lossy g (g\<lparr>owner_copy := Some (finalizers g, api_deleting g)\<rparr>)"
| owner_releases: "owner_copy g = Some ({}, True) \<Longrightarrow> step lossy g (g\<lparr>released := True\<rparr>)"

inductive_cases step_elim: "step lossy g g'"

definition fresh :: "cluster \<Rightarrow> bool" where
  "fresh g \<longleftrightarrow> finalizers g = {} \<and> \<not> released g \<and> catalog g = {} \<and> statuses g = {} \<and> owner_copy g = None
     \<and> (\<forall>f. actors g f = idle)"

inductive reachable :: "bool \<Rightarrow> cluster \<Rightarrow> bool" for lossy :: bool where
  init: "fresh g \<Longrightarrow> reachable lossy g"
| next_step: "reachable lossy g \<Longrightarrow> step lossy g g' \<Longrightarrow> reachable lossy g'"

section \<open>Invariants\<close>

text \<open>What an actor knows: its copy is right about its own finalizer, and current if its version is.\<close>

definition knows :: "cluster \<Rightarrow> string \<Rightarrow> bool" where
  "knows g f \<longleftrightarrow> (case copied (actors g f) of None \<Rightarrow> True
     | Some (F, d) \<Rightarrow> (f \<in> F \<longleftrightarrow> f \<in> finalizers g) \<and> (d \<longrightarrow> api_deleting g) \<and> versions g f \<le> api_version g
        \<and> (versions g f = api_version g \<longrightarrow> F = finalizers g \<and> d = api_deleting g))"

definition remembers :: "cluster \<Rightarrow> string \<Rightarrow> bool" where
  "remembers g f \<longleftrightarrow> (f \<in> catalog g \<longrightarrow> recorded (actors g f)) \<and> (absent (actors g f) \<longrightarrow> f \<notin> catalog g)"

definition protects :: "cluster \<Rightarrow> bool" where
  "protects g \<longleftrightarrow> (\<not> api_deleting g \<longrightarrow> catalog g \<subseteq> finalizers g)"

definition owner_knows :: "cluster \<Rightarrow> bool" where
  "owner_knows g \<longleftrightarrow> (\<forall>F. owner_copy g = Some (F, True) \<longrightarrow> api_deleting g \<and> finalizers g \<subseteq> F) \<and>
     (released g \<longrightarrow> owner_copy g = Some ({}, True))"

lemma owner_knows_step:
  assumes "step lossy g g'" "owner_knows g"
  shows "owner_knows g'"
  using assms
proof (cases rule: step.cases)
  case (act f e l)
  with assms(2) show ?thesis by (cases e) (auto simp: owner_knows_def)
qed (auto simp: owner_knows_def)

text \<open>Only reads and writes of the KeystoneAPI matter for what an actor knows.\<close>

lemma knows_frame:
  assumes "finalizers g' = finalizers g" "api_deleting g' = api_deleting g" "api_version g' = api_version g"
    and "versions g' h = versions g h" "copied (actors g' h) = copied (actors g h) \<or> copied (actors g' h) = None"
  shows "knows g h \<Longrightarrow> knows g' h"
  using assms(5) by (elim disjE) (simp_all add: knows_def assms(1-4) split: option.splits prod.splits)

lemma knows_write:
  assumes "knows g f" "knows g h" "may_write f (actors g f) F" "versions g f = api_version g"
    and "copied (l :: actor) = map_option (\<lambda>(_, d). (F, d)) (copied (actors g f))"
  shows "knows (g\<lparr>finalizers := F, api_version := Suc (api_version g),
    versions := (versions g)(f := Suc (api_version g)), actors := (actors g)(f := l)\<rparr>) h"
proof -
  obtain d where c: "copied (actors g f) = Some (finalizers g, d)" "d = api_deleting g"
    "F = insert f (finalizers g) \<or> F = finalizers g - {f}"
    using assms(1,3,4) by (auto simp: may_write_def knows_def split: option.splits)
  show ?thesis
  proof (cases "h = f")
    case True
    with c assms(5) show ?thesis by (auto simp: knows_def)
  next
    case False
    then have "h \<in> F \<longleftrightarrow> h \<in> finalizers g" using c(3) by auto
    with False assms(2) show ?thesis by (auto simp: knows_def split: option.splits)
  qed
qed

lemma knows_step:
  assumes "step lossy g g'" "\<And>f. knows g f"
  shows "knows g' h"
  using assms(1)
proof (cases rule: step.cases)
  case (act f e l)
  show ?thesis
  proof (cases e)
    case (Listed F d)
    with act assms(2) [of h] show ?thesis by (auto simp: knows_def split: option.splits)
  next
    case (Wrote F acc)
    show ?thesis
    proof (cases acc)
      case True
      with act Wrote have "may_write f (actors g f) F" "versions g f = api_version g"
        "l = (actors g f)\<lparr>copied := map_option (\<lambda>(_, d). (F, d)) (copied (actors g f))\<rparr>"
        by (simp_all split: if_splits)
      then show ?thesis
        using act(1) Wrote True knows_write [OF assms(2) assms(2)] by simp
    next
      case False
      with act Wrote show ?thesis by (auto split: if_splits intro: knows_frame [OF _ _ _ _ _ assms(2)])
    qed
  qed (use act in \<open>auto split: if_splits intro!: knows_frame [OF _ _ _ _ _ assms(2)]\<close>)
next
  case user_deletes
  with assms(2) [of h] show ?thesis by (auto simp: knows_def split: option.splits)
next
  case others_write
  with assms(2) [of h] show ?thesis by (auto simp: knows_def split: option.splits)
qed (auto intro: knows_frame [OF _ _ _ _ _ assms(2)])

lemma remembers_step:
  assumes "step False g g'" "\<And>f. remembers g f" 
  shows "remembers g' h"
  using assms(1)
proof (cases rule: step.cases)
  case (act f e l)
  with assms(2) [of h] assms(2) [of f] show ?thesis
    by (cases e) (auto simp: remembers_def lost_def split: if_splits)
qed (use assms(2) [of h] in \<open>auto simp: remembers_def\<close>)

lemma protects_step:
  assumes "step lossy g g'" "\<And>f. knows g f" "\<And>f. remembers g f" "protects g"
  shows "protects g'"
  using assms(1)
proof (cases rule: step.cases)
  case (act f e l)
  show ?thesis
  proof (cases e)
    case (Wrote F acc)
    with act assms(2) [of f] assms(3) [of f] assms(4) show ?thesis
      by (auto simp: protects_def knows_def remembers_def may_write_def split: option.splits if_splits)
  next
    case (Registered acc)
    with act assms(2) [of f] assms(4) show ?thesis
      by (auto simp: protects_def knows_def holds_def split: option.splits if_splits)
  qed (use act assms(4) in \<open>auto simp: protects_def split: if_splits\<close>)
qed (use assms(4) in \<open>auto simp: protects_def\<close>)

lemma fresh_knows: "fresh g \<Longrightarrow> owner_knows g" "fresh g \<Longrightarrow> knows g f" "fresh g \<Longrightarrow> remembers g f" "fresh g \<Longrightarrow> protects g"
  by (simp_all add: fresh_def owner_knows_def knows_def remembers_def protects_def idle_def)

lemma reachable_knows: "reachable lossy g \<Longrightarrow> owner_knows g \<and> (\<forall>f. knows g f)"
proof (induction rule: reachable.induct)
  case (next_step g g')
  then show ?case using owner_knows_step knows_step by blast
qed (simp add: fresh_knows)


lemma reachable_protects: "reachable False g \<Longrightarrow> (\<forall>f. remembers g f) \<and> protects g"
proof (induction rule: reachable.induct)
  case (next_step g g')
  then show ?case using reachable_knows remembers_step protects_step by blast
qed (simp add: fresh_knows)

section \<open>What the protocol guarantees\<close>

text \<open>
  As long as no run loses the registration it made, the KeystoneAPI carries the finalizer of everything that is
  registered until a user deletes it.
\<close>

lemma protocol_protects:
  assumes "reachable False g" "\<not> api_deleting g"
  shows "catalog g \<subseteq> finalizers g"
  using reachable_protects [OF assms(1)] assms(2) by (simp add: protects_def)

text \<open>
  Its own controller releases it only when every holder has let go, also when a status was lost on the way, and from
  then on nothing is registered, looked up or written.
\<close>

lemma protocol_release:
  assumes "reachable lossy g" "released g"
  shows "finalizers g = {}" "api_deleting g"
    and "accept f (actors g f) e = Some l \<Longrightarrow> answered_by f g e \<Longrightarrow> (\<nexists>acc. e = Registered acc) \<and> (\<nexists>F. e = Wrote F True)"
proof -
  have "owner_knows g" and k: "knows g f" for f using reachable_knows [OF assms(1)] by blast+
  with assms(2) show fin: "finalizers g = {}" and "api_deleting g" by (auto simp: owner_knows_def)
  show "accept f (actors g f) e = Some l \<Longrightarrow> answered_by f g e \<Longrightarrow> (\<nexists>acc. e = Registered acc) \<and> (\<nexists>F. e = Wrote F True)"
    using k [of f] fin assms(2) by (cases e) (auto simp: holds_def knows_def split: if_splits option.splits)
qed

text \<open>
  A lost status breaks the first guarantee: a registration that was made but not recorded is invisible to the next run,
  which drops the finalizer of a deleted object.
\<close>

fun plays :: "string \<Rightarrow> ev list \<Rightarrow> cluster \<Rightarrow> cluster option" where
  "plays f [] g = Some g"
| "plays f (e # es) g =
     (case accept f (actors g f) e of
        None \<Rightarrow> None
      | Some l \<Rightarrow> if answered_by f g e then plays f es ((effect f e g)\<lparr>actors := (actors g)(f := l)\<rparr>) else None)"

lemma plays_reachable: "plays f es g = Some g' \<Longrightarrow> reachable True g \<Longrightarrow> reachable True g'"
  by (induction f es g rule: plays.induct)
    (auto split: option.splits if_splits intro: next_step step.act)

lemma lost_registration_leaks:
  "\<exists>g. reachable True g \<and> \<not> api_deleting g \<and> ''placement'' \<in> catalog g \<and> ''placement'' \<notin> finalizers g"
proof -
  let ?f = "''placement''"
  define g0 :: cluster where "g0 = \<lparr>finalizers = {}, api_version = 0, api_deleting = False, released = False, catalog = {},
    statuses = {}, actors = \<lambda>_. idle, versions = \<lambda>_. 0, owner_copy = None\<rparr>"
  let ?es = "[Got False, Listed {} False, Wrote {?f} True, Looked False, Registered True, Saved True False,
    Got False, Listed {?f} False, Wrote {} True]"
  have "reachable True g0" by (rule reachable.init) (simp add: fresh_def g0_def)
  moreover have "\<exists>g. plays ?f ?es g0 = Some g \<and> \<not> api_deleting g \<and> ?f \<in> catalog g \<and> ?f \<notin> finalizers g"
    by (simp add: g0_def idle_def may_write_def holds_def)
  ultimately show ?thesis using plays_reachable by blast
qed

end
