(* ===== verification/ServiceCtl.thy ===== *)
theory ServiceCtl
  imports ApiHelpers
begin

text \<open>
  The KeystoneService controller, \<open>internal/controller/keystoneservice_controller.go\<close>: it
  registers a service and its user in Keystone, and keeps a finalizer on the \<open>KeystoneAPI\<close> so
  that the API outlives the registration. Each Go function is one definition with the same
  early returns; the instance is the object in memory, and the deferred patch persists it.
\<close>

section \<open>Setting conditions\<close>

definition svc_false :: "env \<Rightarrow> ctype \<Rightarrow> reason \<Rightarrow> severity \<Rightarrow> msg \<Rightarrow> (KeystoneService st, unit) state" where
  "svc_false E t r sev m = upd_inst (svc_upd_conds (condSet E (FalseCondition t r sev m)))"

definition svc_true :: "env \<Rightarrow> ctype \<Rightarrow> msg \<Rightarrow> (KeystoneService st, unit) state" where
  "svc_true E t m = upd_inst (svc_upd_conds (condMarkTrue E t m))"

lemma wp_svc_false [wp_simps]:
  "wp (svc_false E t r sev m) Q s = Q () (s\<lparr>inst := svc_upd_conds (condSet E (FalseCondition t r sev m)) (inst s)\<rparr>)"
  by (simp add: svc_false_def wp_simps)

lemma wp_svc_true [wp_simps]:
  "wp (svc_true E t m) Q s = Q () (s\<lparr>inst := svc_upd_conds (condMarkTrue E t m) (inst s)\<rparr>)"
  by (simp add: svc_true_def wp_simps)

definition svc_drop_finalizer :: "env \<Rightarrow> (KeystoneService st, unit) state" where
  "svc_drop_finalizer E = upd_inst (\<lambda>i. svc_set_finalizers (fst (RemoveFinalizer E (svc_fins i) (GetFinalizer E KindService))) i)"

section \<open>Deletion\<close>

definition svc_reconcileDelete ::
  "env \<Rightarrow> os_client option \<Rightarrow> KeystoneAPI option \<Rightarrow> (KeystoneService st, outcome) state" where
  "svc_reconcileDelete E os keystoneAPI = do {
     i \<leftarrow> get_inst;
     cleanup \<leftarrow>
       (if svcs_ServiceID (svc_status i) \<noteq> '''' \<and> os \<noteq> None then do {
          err \<leftarrow> perform (OSDeleteUser (the os) (svc_ServiceUser (svc_spec i)) ''default'') (rErr E);
          case err of
            Some e \<Rightarrow> ret (Some e)
          | None \<Rightarrow> do {
              err \<leftarrow> perform (OSDeleteService (the os) (svcs_ServiceID (svc_status i))) (rErr E);
              case err of
                Some e \<Rightarrow> ret (Some e)
              | None \<Rightarrow> do { upd_inst (svc_set_ServiceID ''''); ret None }
            }
        } else ret None);
     case cleanup of
       Some e \<Rightarrow> ret (fail e)
     | None \<Rightarrow> do {
         err \<leftarrow> (case keystoneAPI of
           None \<Rightarrow> ret None
         | Some api \<Rightarrow> drop_api_finalizer E (api_finalizer E KindService (svc_meta i)) api);
         case err of
           Some e \<Rightarrow> ret (fail e)
         | None \<Rightarrow> do { svc_drop_finalizer E; ret ok }
       }
   }"

definition svc_reconcileDeleteFinalizersOnly :: "env \<Rightarrow> KeystoneAPI \<Rightarrow> (KeystoneService st, outcome) state" where
  "svc_reconcileDeleteFinalizersOnly E keystoneAPI = do {
     i \<leftarrow> get_inst;
     err \<leftarrow> drop_api_finalizer E (api_finalizer E KindService (svc_meta i)) keystoneAPI;
     case err of
       Some e \<Rightarrow> ret (fail e)
     | None \<Rightarrow> do { svc_drop_finalizer E; ret ok }
   }"

section \<open>Registration\<close>

definition wanted_service :: "KeystoneServiceSpec \<Rightarrow> os_service" where
  "wanted_service spec = \<lparr>os_Name = svc_ServiceName spec, os_Type = svc_ServiceType spec,
     os_Description = svc_ServiceDescription spec, os_Enabled = svc_Enabled spec\<rparr>"

text \<open>A failed \<open>CreateService\<close> stores the ID it returned all the same.\<close>

definition register_service ::
  "env \<Rightarrow> os_client \<Rightarrow> registered_service option \<Rightarrow> (KeystoneService st, error option) state" where
  "register_service E os found = do {
     i \<leftarrow> get_inst;
     case found of
       None \<Rightarrow> do {
         (newID, err) \<leftarrow> perform (OSCreateService os (wanted_service (svc_spec i))) (rCreateService E);
         upd_inst (svc_set_ServiceID newID);
         ret err
       }
     | Some service \<Rightarrow> do {
         upd_inst (svc_set_ServiceID (rs_ID service));
         if rs_Enabled service \<noteq> svc_Enabled (svc_spec i)
            \<or> rs_description service \<noteq> Some (svc_ServiceDescription (svc_spec i))
         then perform (OSUpdateService os (wanted_service (svc_spec i)) (rs_ID service)) (rErr E)
         else ret None
       }
   }"

definition reconcileService :: "env \<Rightarrow> os_client \<Rightarrow> (KeystoneService st, error option) state" where
  "reconcileService E os = do {
     i \<leftarrow> get_inst;
     (service, err) \<leftarrow> perform (OSGetService os (svc_ServiceType (svc_spec i)) (svc_ServiceName (svc_spec i))) (rGetOSService E);
     if (case err of Some e \<Rightarrow> \<not> Contains (err_msg e) (ServiceNotFound E) | None \<Rightarrow> False)
     then ret err
     else register_service E os service
   }"

primrec assign_roles :: "env \<Rightarrow> os_client \<Rightarrow> string \<Rightarrow> string \<Rightarrow> string list \<Rightarrow> ('i st, error option) state" where
  "assign_roles E os userID projectID [] = ret None"
| "assign_roles E os userID projectID (roleName # roleNames) = do {
     r \<leftarrow> perform (OSCreateRole os roleName) (rObjectID E);
     case r of
       Inl e \<Rightarrow> ret (Some e)
     | Inr _ \<Rightarrow> do {
         err \<leftarrow> perform (OSAssignUserRole os roleName userID projectID) (rErr E);
         case err of
           Some e \<Rightarrow> ret (Some e)
         | None \<Rightarrow> assign_roles E os userID projectID roleNames
       }
   }"

definition reconcileUser :: "env \<Rightarrow> os_client \<Rightarrow> (KeystoneService st, outcome) state" where
  "reconcileUser E os = do {
     i \<leftarrow> get_inst;
     (password, ctrlResult, err) \<leftarrow> perform (GetDataFromSecret (svc_Secret (svc_spec i)) (10 * second)
        (svc_PasswordSelector (svc_spec i))) (rDataFromSecret E);
     case err of
       Some e \<Rightarrow> ret (fail e)
     | None \<Rightarrow>
         if ctrlResult \<noteq> Result0 then ret (ctrlResult, None)
         else do {
           project \<leftarrow> perform (OSCreateProject os \<lparr>op_Name = ''service'', op_Description = ''service'',
              op_DomainID = ''default''\<rparr>) (rObjectID E);
           case project of
             Inl e \<Rightarrow> ret (fail e)
           | Inr serviceProjectID \<Rightarrow> do {
               user \<leftarrow> perform (OSCreateUser os \<lparr>ou_Name = svc_ServiceUser (svc_spec i), ou_Password = password,
                  ou_ProjectID = serviceProjectID, ou_DomainID = ''default''\<rparr>) (rObjectID E);
               case user of
                 Inl e \<Rightarrow> ret (fail e)
               | Inr userID \<Rightarrow> do {
                   err \<leftarrow> assign_roles E os userID serviceProjectID [''admin'', ''service''];
                   ret (case err of Some e \<Rightarrow> fail e | None \<Rightarrow> ok)
                 }
             }
         }
   }"

definition svc_reconcileNormal :: "env \<Rightarrow> os_client \<Rightarrow> KeystoneAPI \<Rightarrow> (KeystoneService st, outcome) state" where
  "svc_reconcileNormal E os keystoneAPI = do {
     i \<leftarrow> get_inst;
     err \<leftarrow> add_api_finalizer E (api_finalizer E KindService (svc_meta i)) keystoneAPI;
     case err of
       Some e \<Rightarrow> ret (fail e)
     | None \<Rightarrow> do {
         err \<leftarrow> reconcileService E os;
         case err of
           Some e \<Rightarrow> do {
             svc_false E KeystoneServiceOSServiceReadyCondition ErrorReason SeverityWarning
               (KeystoneServiceOSServiceReadyErrorMessage (err_msg e));
             ret (fail e)
           }
         | None \<Rightarrow> do {
             j \<leftarrow> get_inst;
             svc_true E KeystoneServiceOSServiceReadyCondition
               (KeystoneServiceOSServiceReadyMessage (svc_ServiceName (svc_spec j)) (svcs_ServiceID (svc_status j)));
             (ctrlResult, err) \<leftarrow> reconcileUser E os;
             case err of
               Some e \<Rightarrow> do {
                 svc_false E KeystoneServiceOSUserReadyCondition ErrorReason SeverityWarning
                   (KeystoneServiceOSUserReadyErrorMessage (err_msg e));
                 ret (ctrlResult, Some e)
               }
             | None \<Rightarrow>
                 if ctrlResult \<noteq> Result0 then do {
                   svc_false E KeystoneServiceOSUserReadyCondition RequestedReason SeverityInfo
                     KeystoneServiceOSUserReadyWaitingMessage;
                   ret (ctrlResult, None)
                 } else do {
                   svc_true E KeystoneServiceOSUserReadyCondition
                     (KeystoneServiceOSUserReadyMessage (svc_ServiceUser (svc_spec j)));
                   ret ok
                 }
           }
       }
   }"

section \<open>Reconcile\<close>

definition svc_init_conditions :: conditions where
  "svc_init_conditions =
     [UnknownCondition KeystoneAPIReadyCondition InitReason KeystoneAPIReadyInitMessage,
      UnknownCondition AdminServiceClientReadyCondition InitReason AdminServiceClientReadyInitMessage,
      UnknownCondition KeystoneServiceOSServiceReadyCondition InitReason KeystoneServiceOSServiceReadyInitMessage,
      UnknownCondition KeystoneServiceOSUserReadyCondition InitReason KeystoneServiceOSUserReadyInitMessage]"

text \<open>From the ready KeystoneAPI on: the admin client, then deletion or the normal path.\<close>

definition svc_with_api :: "env \<Rightarrow> KeystoneAPI \<Rightarrow> (KeystoneService st, outcome) state" where
  "svc_with_api E keystoneAPI = do {
     svc_true E KeystoneAPIReadyCondition KeystoneAPIReadyMessage;
     client \<leftarrow> GetAdminServiceClient E keystoneAPI;
     case client of
       Inl (ctrlResult, Some e) \<Rightarrow> do {
         svc_false E AdminServiceClientReadyCondition ErrorReason SeverityWarning
           (AdminServiceClientReadyErrorMessage (err_msg e));
         ret (fail e)
       }
     | Inl (ctrlResult, None) \<Rightarrow> do {
         svc_false E AdminServiceClientReadyCondition RequestedReason SeverityInfo
           AdminServiceClientReadyWaitingMessage;
         ret (ctrlResult, None)
       }
     | Inr os \<Rightarrow> do {
         svc_true E AdminServiceClientReadyCondition AdminServiceClientReadyMessage;
         i \<leftarrow> get_inst;
         if deleting (svc_meta i) then svc_reconcileDelete E (Some os) (Some keystoneAPI)
         else svc_reconcileNormal E os keystoneAPI
       }
   }"

definition svc_body :: "env \<Rightarrow> (KeystoneService st, outcome) state" where
  "svc_body E = do {
     i0 \<leftarrow> get_inst;
     if svcs_Conditions (svc_status i0) = None
     then do { upd_inst (svc_upd_conds (\<lambda>cs. condInit E cs svc_init_conditions)); ret ok }
     else
       (let (fs, added) = AddFinalizer E (svc_fins i0) (GetFinalizer E KindService)
        in if \<not> deleting (svc_meta i0) \<and> added
           then do { upd_inst (svc_set_finalizers fs); ret ok }
           else do {
             r \<leftarrow> GetKeystoneAPI E (om_namespace (svc_meta i0)) [];
             case r of
               Inl err \<Rightarrow>
                 if IsNotFound err then
                   if deleting (svc_meta i0) \<and> svcs_ServiceID (svc_status i0) = ''''
                   then svc_reconcileDelete E None None
                   else do {
                     svc_false E KeystoneAPIReadyCondition ErrorReason SeverityWarning KeystoneAPIReadyNotFoundMessage;
                     ret (requeueAfter (5 * second), None)
                   }
                 else do {
                   svc_false E KeystoneAPIReadyCondition ErrorReason SeverityWarning
                     (KeystoneAPIReadyErrorMessage (err_msg err));
                   ret (fail err)
                 }
             | Inr keystoneAPI \<Rightarrow>
                 if deleting (svc_meta i0) \<and> deleting (api_meta keystoneAPI)
                 then svc_reconcileDeleteFinalizersOnly E keystoneAPI
                 else if deleting (svc_meta i0) \<and> svcs_ServiceID (svc_status i0) = ''''
                 then svc_reconcileDelete E None (Some keystoneAPI)
                 else if \<not> IsReady E keystoneAPI
                 then do {
                   svc_false E KeystoneAPIReadyCondition RequestedReason SeverityInfo KeystoneAPIReadyWaitingMessage;
                   ret (requeueAfter (5 * second), None)
                 }
                 else svc_with_api E keystoneAPI
           })
   }"

definition svc_Reconcile :: "env \<Rightarrow> string \<Rightarrow> string \<Rightarrow> (KeystoneService st, outcome) state" where
  "svc_Reconcile E namespace name = do {
     r \<leftarrow> perform (KGet KindService namespace name) (rGetService E);
     case r of
       Inl err \<Rightarrow> ret (if IsNotFound err then ok else fail err)
     | Inr i \<Rightarrow> do {
         upd_inst (\<lambda>_. i);
         err \<leftarrow> perform (NewHelper KindService) (rErr E);
         case err of
           Some e \<Rightarrow> ret (fail e)
         | None \<Rightarrow> do {
             out \<leftarrow> svc_body E;
             deferred E svc_upd_conds KPatchService (ready_step E) out
           }
       }
   }"

end
