(* ===== verification/ServiceProps.thy ===== *)
theory ServiceProps
  imports ServiceCtl
begin

text \<open>
  What the KeystoneService controller guarantees: nothing is registered before the KeystoneAPI
  carries the service's finalizer, the finalizers go only after the registration is gone,
  a registration is found before it is created, and the status says what was done.
\<close>

section \<open>Finalizer before registration\<close>

fun registers :: "call \<Rightarrow> bool" where
  "registers (OSCreateService _ _) = True"
| "registers (OSUpdateService _ _ _) = True"
| "registers (OSCreateProject _ _) = True"
| "registers (OSCreateUser _ _) = True"
| "registers (OSCreateRole _ _) = True"
| "registers (OSAssignUserRole _ _ _ _) = True"
| "registers _ = False"

abbreviation behind :: "env \<Rightarrow> string \<Rightarrow> history \<Rightarrow> bool" where
  "behind E f \<equiv> guarded registers (held E f)"

definition named :: "string \<Rightarrow> KeystoneService \<Rightarrow> bool" where
  "named n i \<longleftrightarrow> om_name (svc_meta i) = n"

lemma named_simps [simp]:
  "named n (svc_upd_conds f i) = named n i" "named n (svc_set_finalizers fs i) = named n i"
  "named n (svc_set_ServiceID x i) = named n i"
  by (simp_all add: named_def svc_set_finalizers_def svc_set_ServiceID_def)

abbreviation svc_safe :: "env \<Rightarrow> string \<Rightarrow> string \<Rightarrow> KeystoneService st \<Rightarrow> bool" where
  "svc_safe E f n s \<equiv> behind E f (log s) \<and> named n (inst s)"

lemma inv_assign_roles [inv_intros]:
  assumes "\<And>s r. J s \<Longrightarrow> J (s\<lparr>log := log s @ [OSCreateRole os r]\<rparr>)"
    "\<And>s r u p. J s \<Longrightarrow> J (s\<lparr>log := log s @ [OSAssignUserRole os r u p]\<rparr>)"
  shows "inv J (assign_roles E os u p rs)"
  by (induction rs) (auto intro!: inv_intros assms)

lemma registration_safe:
  "inv (\<lambda>s. (svc_safe E f n s) \<and> held E f (log s)) (reconcileService E os)"
  "inv (\<lambda>s. (svc_safe E f n s) \<and> held E f (log s)) (reconcileUser E os)"
  unfolding reconcileService_def register_service_def reconcileUser_def
  by (intro inv_intros; auto)+

lemma svc_reconcileDelete_safe: "inv (svc_safe E f n) (svc_reconcileDelete E os api)"
  unfolding svc_reconcileDelete_def svc_drop_finalizer_def by (intro inv_intros; auto)

lemma svc_reconcileDeleteFinalizersOnly_safe: "inv (svc_safe E f n) (svc_reconcileDeleteFinalizersOnly E api)"
  unfolding svc_reconcileDeleteFinalizersOnly_def svc_drop_finalizer_def by (intro inv_intros; auto)

lemma svc_reconcileNormal_safe:
  assumes "finalizer_laws E" "f = GetFinalizer E KindService @ ''-'' @ n"
  shows "hoare (\<lambda>s. svc_safe E f n s \<and> listed E api (log s)) (svc_reconcileNormal E os api) (\<lambda>_. svc_safe E f n)"
  unfolding svc_reconcileNormal_def
proof (rule hoare_get_inst_bind [where K = "named n"], 
    rule hoare_bind [where R = "\<lambda>r s. svc_safe E f n s \<and> (r = None \<longrightarrow> held E f (log s))"], goal_cases)
  case (1 i)
  then have "api_finalizer E KindService (svc_meta i) = f"
    using assms(2) by (simp add: api_finalizer_def named_def)
  then show ?case
    using hoare_add_api_finalizer [OF assms(1), where I = "behind E f" and J = "named n" and f = f and api = api]
    by (auto elim!: hoare_weaken)
next
  case (2 i err)
  show ?case
  proof (cases err)
    case None
    show ?thesis
      unfolding svc_false_def svc_true_def None option.case
      by (rule hoare_inv [where J = "\<lambda>s. svc_safe E f n s \<and> held E f (log s)"])
        ((intro inv_intros registration_safe; auto), auto)
  next
    case (Some e)
    show ?thesis unfolding Some option.case by (rule hoare_ret) simp
  qed
qed auto

lemma svc_with_api_safe:
  assumes "finalizer_laws E" "f = GetFinalizer E KindService @ ''-'' @ n"
  shows "hoare (\<lambda>s. svc_safe E f n s \<and> listed E api (log s)) (svc_with_api E api) (\<lambda>_. svc_safe E f n)"
  unfolding svc_with_api_def svc_true_def svc_false_def
proof (rule hoare_bind [where R = "\<lambda>_ s. svc_safe E f n s \<and> listed E api (log s)"],
    (intro inv_intros; auto),
    rule hoare_bind [where R = "\<lambda>_ s. svc_safe E f n s \<and> listed E api (log s)"],
    (intro inv_intros; auto), goal_cases)
  case (1 _ client)
  show ?case
  proof (cases client)
    case (Inl r)
    show ?thesis
      unfolding Inl sum.case
      by (rule hoare_inv [where J = "svc_safe E f n"]) ((intro inv_intros; auto), auto)
  next
    case (Inr os)
    show ?thesis
      unfolding Inr sum.case
    proof (rule hoare_bind [where R = "\<lambda>_ s. svc_safe E f n s \<and> listed E api (log s)"],
        (intro inv_intros; auto), rule hoare_bind [OF inv_get_inst], rule hoare_if)
      show "hoare (\<lambda>s. svc_safe E f n s \<and> listed E api (log s)) (svc_reconcileDelete E (Some os) (Some api))
          (\<lambda>_. svc_safe E f n)"
        by (rule hoare_inv [OF svc_reconcileDelete_safe]) auto
    qed (rule svc_reconcileNormal_safe [OF assms])
  qed
qed

lemma svc_body_safe:
  assumes "finalizer_laws E" "f = GetFinalizer E KindService @ ''-'' @ n"
  shows "inv (svc_safe E f n) (svc_body E)"
  unfolding svc_body_def Let_def case_prod_unfold
proof (rule inv_bind [OF inv_get_inst], rule inv_if, (intro inv_intros; auto), rule inv_if, (intro inv_intros; auto),
    rule hoare_bind [where R = "\<lambda>r s. svc_safe E f n s \<and> (\<forall>api. r = Inr api \<longrightarrow> listed E api (log s))"], goal_cases)
  case (1 i)
  show ?case
    using hoare_GetKeystoneAPI [where I = "behind E f" and J = "named n" and E = E]
    by (auto elim!: hoare_weaken)
next
  case (2 i r)
  show ?case
  proof (cases r)
    case (Inl e)
    show ?thesis
      unfolding Inl sum.case svc_false_def
      by (rule hoare_inv [where J = "svc_safe E f n"])
        ((intro inv_intros svc_reconcileDelete_safe; auto), auto)
  next
    case (Inr api)
    have del: "hoare (\<lambda>s. svc_safe E f n s \<and> listed E api (log s)) m (\<lambda>_. svc_safe E f n)"
      if "inv (svc_safe E f n) m" for m :: "(KeystoneService st, outcome) state"
      by (rule hoare_inv [OF that]) auto
    show ?thesis
      unfolding Inr sum.case svc_false_def
      by (rule hoare_weaken [where P = "\<lambda>s. svc_safe E f n s \<and> listed E api (log s)" and Q = "\<lambda>_. svc_safe E f n"],
          intro hoare_if del svc_reconcileDeleteFinalizersOnly_safe svc_reconcileDelete_safe
            svc_with_api_safe [OF assms]; (intro inv_intros)?; auto)
  qed
qed

text \<open>
  C8: in a run of the controller, every call that creates or changes a service, project, user or
  role in Keystone comes after the log shows the KeystoneAPI carrying the finalizer of this
  service; a KeystoneAPI that could not be updated is never registered with.
\<close>

theorem svc_registers_behind_finalizer:
  assumes "finalizer_laws E" "rGetService E [KGet KindService ns name] = Inr i"
    and "run_state (svc_Reconcile E ns name) (start x) = (r, t)"
    and "log t = pre @ c # post" "registers c"
  shows "held E (api_finalizer E KindService (svc_meta i)) pre"
proof -
  let ?n = "om_name (svc_meta i)" and ?f = "api_finalizer E KindService (svc_meta i)"
  have f: "?f = GetFinalizer E KindService @ ''-'' @ ?n" by (simp add: api_finalizer_def)
  let ?rest = "\<lambda>err. case err of Some e \<Rightarrow> ret (fail e)
     | None \<Rightarrow> do { out \<leftarrow> svc_body E; deferred E svc_upd_conds KPatchService (ready_step E) out }"
  have "inv (svc_safe E ?f ?n) (?rest err)" for err
    by (intro inv_intros svc_body_safe [OF assms(1) f]; simp)
  then have "inv (svc_safe E ?f ?n) (do { err \<leftarrow> perform (NewHelper KindService) (rErr E); ?rest err })"
    by (intro inv_bind inv_perform) simp_all
  moreover have "run_state (do { err \<leftarrow> perform (NewHelper KindService) (rErr E); ?rest err })
      \<lparr>inst = i, log = [KGet KindService ns name]\<rparr> = (r, t)"
    using assms(2,3) by (simp add: svc_Reconcile_def start_def)
  ultimately have "svc_safe E ?f ?n t"
    by (rule hoareD) (simp_all add: named_def guarded_snoc [of _ _ "[]", simplified])
  then have "behind E ?f (log t)" by simp
  then show ?thesis using assms(4,5) unfolding guarded_def by blast
qed

section \<open>A registered example\<close>

lemmas svc_code = svc_Reconcile_def svc_body_def svc_with_api_def svc_reconcileNormal_def svc_reconcileDelete_def
  svc_reconcileDeleteFinalizersOnly_def reconcileService_def register_service_def reconcileUser_def
  svc_true_def svc_false_def svc_drop_finalizer_def GetKeystoneAPI_def GetAdminServiceClient_def GetScopedClient_def
  GetEndpoint_def IsReady_def add_api_finalizer_def drop_api_finalizer_def deferred_def

text \<open>The example service, initialised and with its own finalizer; and with a registration.\<close>

definition ex_svc1 :: KeystoneService where
  "ex_svc1 = svc_upd_conds (\<lambda>_. svc_init_conditions) (svc_set_finalizers [''openstack.org/keystoneservice''] ex_svc)"

definition ex_svc2 :: KeystoneService where
  "ex_svc2 = svc_set_ServiceID ''svc-id'' ex_svc1"

definition ex_svc_env :: env where
  "ex_svc_env = base_env\<lparr>rGetService := \<lambda>h. Inr ex_svc1, rListAPIs := \<lambda>h. Inr [ex_api]\<rparr>"

definition ex_api_held :: KeystoneAPI where
  "ex_api_held = api_set_finalizers [''openstack.org/keystoneservice-placement''] ex_api"

lemmas ex_svc_defs = ex_svc2_def ex_svc1_def ex_svc_def ex_api_def new_meta_def svc_init_conditions_def fins_defs conds_defs
  start_def deleting_def svc_set_ServiceID_def Contains_def new_err_def status_at_def cond_at_Cons true_cond_def

lemma svc_registers_behind_finalizer_witness:
  "\<exists>pre c post. log (snd (run_state (svc_Reconcile ex_svc_env ''openstack'' ''placement'') (start ex_svc))) = pre @ c # post
    \<and> registers c \<and> held ex_svc_env ''openstack.org/keystoneservice-placement'' pre"
proof -
  obtain r t where run: "run_state (svc_Reconcile ex_svc_env ''openstack'' ''placement'') (start ex_svc) = (r, t)"
    by fastforce
  then have "t = snd (run_state (svc_Reconcile ex_svc_env ''openstack'' ''placement'') (start ex_svc))" by simp
  then have "map registers (log t) = replicate 7 False @ True # [False, True, True, True, True, True, True, False]"
    by (simp add: ex_svc_env_def svc_code ex_svc_defs Let_def numeral_eq_Suc)
  then obtain pre c post where eq: "log t = pre @ c # post" "registers c" by (auto simp: map_eq_append_conv)
  have "held ex_svc_env (api_finalizer ex_svc_env KindService (svc_meta ex_svc1)) pre"
    by (rule svc_registers_behind_finalizer [OF _ _ run eq]) (simp_all add: ex_svc_env_def)
  moreover have "api_finalizer ex_svc_env KindService (svc_meta ex_svc1) = ''openstack.org/keystoneservice-placement''"
    by (simp add: api_finalizer_def ex_svc_env_def ex_svc_defs)
  ultimately show ?thesis using eq run by auto
qed

section \<open>Deletion\<close>



text \<open>
  A deletion that fails at any call keeps the service's own finalizer, so the object and the
  recorded ID stay and the next run tries again.
\<close>

lemma svc_delete_failure_keeps_finalizer:
  assumes "run_state (svc_reconcileDelete E (Some os) api) s = (r, t)" "snd r = Some e"
  shows "svc_fins (inst t) = svc_fins (inst s) \<and>
    (svcs_ServiceID (svc_status (inst t)) \<noteq> svcs_ServiceID (svc_status (inst s)) \<longrightarrow>
      rErr E (log s @ [OSDeleteUser os (svc_ServiceUser (svc_spec (inst s))) ''default'',
        OSDeleteService os (svcs_ServiceID (svc_status (inst s)))]) = None)"
  using assms
  by (auto simp: svc_reconcileDelete_def drop_api_finalizer_def svc_drop_finalizer_def Let_def
      svc_set_ServiceID_def fins_defs split: option.splits if_splits prod.splits)

lemma svc_delete_failure_keeps_finalizer_witness:
  "svc_fins (inst (snd (run_state (svc_reconcileDelete (base_env\<lparr>rErr := \<lambda>h. Some no_err\<rparr>) (Some 0) (Some ex_api_held))
      (start ex_svc2)))) = [''openstack.org/keystoneservice'']"
proof -
  let ?m = "svc_reconcileDelete (base_env\<lparr>rErr := \<lambda>h. Some no_err\<rparr>) (Some 0) (Some ex_api_held)"
  obtain r t where run: "run_state ?m (start ex_svc2) = (r, t)" by fastforce
  then have r: "r = fst (run_state ?m (start ex_svc2))" by simp
  have "snd r = Some no_err"
    unfolding r by (simp add: svc_code ex_svc_defs ex_api_held_def Let_def api_finalizer_def)
  from svc_delete_failure_keeps_finalizer [OF run this] run show ?thesis
    by (simp add: ex_svc_defs)
qed

text \<open>
  A deleted service that was never registered is released without the KeystoneAPI being
  there, without any call to OpenStack, whatever the environment.
\<close>

lemma svc_delete_never_blocks:
  assumes "finalizer_laws E" "deleting (svc_meta (inst s))" "svcs_Conditions (svc_status (inst s)) \<noteq> None"
    and "svcs_ServiceID (svc_status (inst s)) = ''''"
    and "rListAPIs E (log s @ [KList KindAPI (om_namespace (svc_meta (inst s))) []]) = Inr []"
    and "run_state (svc_body E) s = (r, t)"
  shows "r = ok \<and> GetFinalizer E KindService \<notin> set (svc_fins (inst t))
    \<and> log t = log s @ [KList KindAPI (om_namespace (svc_meta (inst s))) []]"
  using assms(2-6) svc_fin.fins_remove [OF assms(1)]
  by (cases "AddFinalizer E (svc_fins (inst s)) (GetFinalizer E KindService)")
    (auto simp: svc_body_def GetKeystoneAPI_def IsNotFound_def svc_reconcileDelete_def svc_drop_finalizer_def Let_def)

definition ex_deleted :: "objmeta \<Rightarrow> objmeta" where
  "ex_deleted m = m\<lparr>om_deletionTimestamp := Some 0\<rparr>"

lemma svc_delete_never_blocks_witness:
  "svc_fins (inst (snd (run_state (svc_body base_env) (start (ex_svc1\<lparr>svc_meta := ex_deleted (svc_meta ex_svc1)\<rparr>))))) = []"
proof -
  let ?i = "ex_svc1\<lparr>svc_meta := ex_deleted (svc_meta ex_svc1)\<rparr>"
  obtain r t where run: "run_state (svc_body base_env) (start ?i) = (r, t)" by fastforce
  have "GetFinalizer base_env KindService \<notin> set (svc_fins (inst t))"
    using svc_delete_never_blocks [OF base_finalizer_laws _ _ _ _ run]
    by (simp add: ex_deleted_def ex_svc_defs)
  then have "''openstack.org/keystoneservice'' \<notin> set (svc_fins (inst t))" by simp
  moreover have "set (svc_fins (inst t)) \<subseteq> {''openstack.org/keystoneservice''}"
    using run by (auto simp: svc_code ex_svc_defs ex_deleted_def Let_def IsNotFound_def)
  moreover have "A = {}" if "x \<notin> A" "A \<subseteq> {x}" for A :: "string set" and x using that by blast
  ultimately have "set (svc_fins (inst t)) = {}" by metis
  then show ?thesis using run by simp
qed

section \<open>Registration\<close>

text \<open>
  A service is created only when the lookup found none, and once: what a first run creates,
  the next run finds, records under the same ID, and leaves alone.
\<close>

lemma reconcileService_converges:
  assumes lookup: "l = OSGetService os (svc_ServiceType (svc_spec (inst s))) (svc_ServiceName (svc_spec (inst s)))"
    and absent: "rGetOSService E (log s @ [l]) = (None, Some e)" "Contains (err_msg e) (ServiceNotFound E)"
    and created: "rCreateService E (log s @ [l, OSCreateService os (wanted_service (svc_spec (inst s)))]) = (i, None)"
    and run: "run_state (reconcileService E os) s = (r, t)"
    and found: "rGetOSService E (log t @ [l]) = (Some \<lparr>rs_ID = i, rs_Enabled = svc_Enabled (svc_spec (inst s)),
      rs_description = Some (svc_ServiceDescription (svc_spec (inst s)))\<rparr>, None)"
  shows "r = None \<and> svcs_ServiceID (svc_status (inst t)) = i
    \<and> run_state (reconcileService E os) t = (None, t\<lparr>log := log t @ [l]\<rparr>)"
proof -
  have first: "r = None" "inst t = svc_set_ServiceID i (inst s)"
    "log t = log s @ [l, OSCreateService os (wanted_service (svc_spec (inst s)))]"
    using run lookup absent created
    by (auto simp: reconcileService_def register_service_def)
  have "svc_spec (inst t) = svc_spec (inst s)" "svc_set_ServiceID i (inst t) = inst t"
    by (simp_all add: first(2) svc_set_ServiceID_def)
  then show ?thesis
    using found lookup first
    by (simp add: reconcileService_def register_service_def) (simp add: svc_set_ServiceID_def)
qed

definition registry_env :: env where
  "registry_env = base_env\<lparr>rGetOSService := \<lambda>h.
     if never (\<lambda>c. c = OSCreateService 0 (wanted_service (svc_spec ex_svc1))) h
     then (None, Some (new_err ''service not found in keystone''))
     else (Some \<lparr>rs_ID = ''svc-id'', rs_Enabled = True, rs_description = Some ''Placement Service''\<rparr>, None)\<rparr>"

lemma reconcileService_converges_witness:
  "svcs_ServiceID (svc_status (inst (snd (run_state (reconcileService registry_env 0) (start ex_svc1))))) = ''svc-id''"
proof -
  obtain r t where run: "run_state (reconcileService registry_env 0) (start ex_svc1) = (r, t)" by fastforce
  have t: "log t = [OSGetService 0 ''placement'' ''placement'', OSCreateService 0 (wanted_service (svc_spec ex_svc1))]"
    using run by (auto simp: registry_env_def svc_code ex_svc_defs)
  have "r = None \<and> svcs_ServiceID (svc_status (inst t)) = ''svc-id''
      \<and> run_state (reconcileService registry_env 0) t = (None, t\<lparr>log := log t @ [OSGetService 0 ''placement'' ''placement'']\<rparr>)"
    by (rule reconcileService_converges [OF _ _ _ _ run, where e = "new_err ''service not found in keystone''"])
      (simp_all add: t registry_env_def ex_svc_defs)
  then show ?thesis using run by simp
qed

text \<open>
  When the user is reconciled without error or wait, the user was created in the project that
  was created before, and both roles, admin and service, were assigned in that project.
\<close>

lemma reconcileUser_assigns_both_roles:
  assumes "run_state (reconcileUser E os) s = (ok, t)"
  shows "\<exists>pw pid uid. log t = log s @
     [GetDataFromSecret (svc_Secret (svc_spec (inst s))) (10 * second) (svc_PasswordSelector (svc_spec (inst s))),
      OSCreateProject os \<lparr>op_Name = ''service'', op_Description = ''service'', op_DomainID = ''default''\<rparr>,
      OSCreateUser os \<lparr>ou_Name = svc_ServiceUser (svc_spec (inst s)), ou_Password = pw, ou_ProjectID = pid,
        ou_DomainID = ''default''\<rparr>,
      OSCreateRole os ''admin'', OSAssignUserRole os ''admin'' uid pid,
      OSCreateRole os ''service'', OSAssignUserRole os ''service'' uid pid]
    \<and> rErr E (log t) = None \<and> rErr E (butlast (butlast (log t))) = None"
  using assms
  by (auto simp: reconcileUser_def butlast_append split: option.splits sum.splits prod.splits if_splits)

lemma reconcileUser_assigns_both_roles_witness:
  "\<exists>uid pid. last (log (snd (run_state (reconcileUser base_env 0) (start ex_svc1)))) = OSAssignUserRole 0 ''service'' uid pid"
proof -
  obtain r t where run: "run_state (reconcileUser base_env 0) (start ex_svc1) = (r, t)" by fastforce
  then have "r = ok" by (auto simp: svc_code ex_svc_defs)
  then show ?thesis using reconcileUser_assigns_both_roles [of base_env 0 "start ex_svc1" t] run by fastforce
qed

section \<open>Conditions\<close>

text \<open>
  Every run that gets past reading the object and building the helper ends by patching it, and
  what is persisted is Ready exactly when all its other conditions are true.
\<close>

lemma svc_reconcile_persists_ready:
  assumes "condition_laws E" "rGetService E (log s @ [KGet KindService ns name]) = Inr i"
    and "rErr E (log s @ [KGet KindService ns name, NewHelper KindService]) = None"
    and "run_state (svc_Reconcile E ns name) s = (r, t)"
  shows "last (log t) = KPatchService (inst t)
    \<and> (condIsTrue E ReadyCondition (svc_conds (inst t)) \<longleftrightarrow> AllSubConditionIsTrue E (svc_conds (inst t)))"
proof -
  let ?s = "s\<lparr>inst := i, log := log s @ [KGet KindService ns name, NewHelper KindService]\<rparr>"
  obtain out u where body: "run_state (svc_body E) ?s = (out, u)" by fastforce
  have "run_state (deferred E svc_upd_conds KPatchService (ready_step E) out) u = (r, t)"
    using assms(2-4) body by (simp add: svc_Reconcile_def)
  from svc_rec.deferred_persists [OF this assms(1)] show ?thesis by simp
qed

lemma svc_reconcile_persists_ready_witness:
  "\<exists>i. last (log (snd (run_state (svc_Reconcile ex_svc_env ''openstack'' ''placement'') (start ex_svc)))) = KPatchService i
    \<and> (condIsTrue ex_svc_env ReadyCondition (svc_conds i) \<longleftrightarrow> AllSubConditionIsTrue ex_svc_env (svc_conds i))"
proof -
  obtain r t where run: "run_state (svc_Reconcile ex_svc_env ''openstack'' ''placement'') (start ex_svc) = (r, t)"
    by fastforce
  have "condition_laws ex_svc_env" by (simp add: ex_svc_env_def)
  from svc_reconcile_persists_ready [OF this _ _ run] run show ?thesis by (auto simp: ex_svc_env_def)
qed

end
