(* ===== verification/EndpointCtl.thy ===== *)
theory EndpointCtl
  imports ServiceCtl
begin

text \<open>
  The KeystoneEndpoint controller, \<open>internal/controller/keystoneendpoint_controller.go\<close>: it
  registers the endpoints of a service in the catalog of Keystone and removes those the spec no
  longer names. Its finalizers on the \<open>KeystoneAPI\<close> and on the \<open>KeystoneService\<close> keep both
  in place while endpoints are registered.
\<close>

section \<open>Setting conditions and finalizers\<close>

definition ep_false :: "env \<Rightarrow> ctype \<Rightarrow> reason \<Rightarrow> severity \<Rightarrow> msg \<Rightarrow> (KeystoneEndpoint st, unit) state" where
  "ep_false E t r sev m = upd_inst (ep_upd_conds (condSet E (FalseCondition t r sev m)))"

definition ep_true :: "env \<Rightarrow> ctype \<Rightarrow> msg \<Rightarrow> (KeystoneEndpoint st, unit) state" where
  "ep_true E t m = upd_inst (ep_upd_conds (condMarkTrue E t m))"

definition drop_svc_finalizer :: "env \<Rightarrow> string \<Rightarrow> KeystoneService \<Rightarrow> ('i st, error option) state" where
  "drop_svc_finalizer E f svc =
     (let (fs, changed) = RemoveFinalizer E (svc_fins svc) f
      in if changed then perform (KUpdateService (svc_set_finalizers fs svc)) (rErr E) else ret None)"

definition add_svc_finalizer :: "env \<Rightarrow> string \<Rightarrow> KeystoneService \<Rightarrow> ('i st, error option) state" where
  "add_svc_finalizer E f svc =
     (let (fs, changed) = AddFinalizer E (svc_fins svc) f
      in if changed then perform (KUpdateService (svc_set_finalizers fs svc)) (rErr E) else ret None)"

definition ep_drop_finalizer :: "env \<Rightarrow> (KeystoneEndpoint st, unit) state" where
  "ep_drop_finalizer E = upd_inst (\<lambda>i. ep_set_finalizers (fst (RemoveFinalizer E (ep_fins i) (GetFinalizer E KindEndpoint))) i)"

definition svc_IsReady :: "env \<Rightarrow> KeystoneService \<Rightarrow> bool" where
  "svc_IsReady E svc = condIsTrue E ReadyCondition (svc_conds svc)"

section \<open>The endpoints of the spec\<close>

definition getEndpointIdx :: "string \<Rightarrow> Endpoint list \<Rightarrow> nat option" where
  "getEndpointIdx endpointType endpoints =
     (let idx = length (takeWhile (\<lambda>e. e_Interface e \<noteq> endpointType) endpoints)
      in if idx < length endpoints then Some idx else None)"

definition set_endpoint_id :: "string \<Rightarrow> string \<Rightarrow> KeystoneEndpoint \<Rightarrow> KeystoneEndpoint" where
  "set_endpoint_id ty x i = ep_map_status (\<lambda>st. st\<lparr>eps_EndpointIDs := Some (AList.update ty x (ep_ids i))\<rparr>) i"

text \<open>\<open>delete(instance.Status.EndpointIDs, endpointType)\<close>, and the entry of the list, if any.\<close>

definition forget_endpoint :: "string \<Rightarrow> KeystoneEndpoint \<Rightarrow> KeystoneEndpoint" where
  "forget_endpoint ty i = ep_map_status (\<lambda>st. st\<lparr>
     eps_EndpointIDs := map_option (AList.delete ty) (eps_EndpointIDs st),
     eps_Endpoints := (case getEndpointIdx ty (eps_Endpoints st) of
        Some idx \<Rightarrow> take idx (eps_Endpoints st) @ drop (Suc idx) (eps_Endpoints st)
      | None \<Rightarrow> eps_Endpoints st)\<rparr>) i"

definition record_endpoint :: "string \<Rightarrow> string \<Rightarrow> string \<Rightarrow> KeystoneEndpoint \<Rightarrow> KeystoneEndpoint" where
  "record_endpoint ty url x i = ep_map_status (\<lambda>st. st\<lparr>
     eps_Endpoints := (case getEndpointIdx ty (eps_Endpoints st) of
        Some idx \<Rightarrow> (eps_Endpoints st)[idx := ((eps_Endpoints st) ! idx)\<lparr>e_ID := x, e_URL := url\<rparr>]
      | None \<Rightarrow> eps_Endpoints st @ [\<lparr>e_Interface = ty, e_URL = url, e_ID = x\<rparr>])\<rparr>)
     (if has_key (ep_Endpoints (ep_spec i)) ty then set_endpoint_id ty x i else i)"

primrec delete_stale :: "env \<Rightarrow> os_client \<Rightarrow> string list \<Rightarrow> (KeystoneEndpoint st, error option) state" where
  "delete_stale E os [] = ret None"
| "delete_stale E os (endpointType # rest) = do {
     i \<leftarrow> get_inst;
     if has_key (ep_Endpoints (ep_spec i)) endpointType then delete_stale E os rest
     else case GetAvailability E endpointType of
       Inl err \<Rightarrow> ret (Some err)
     | Inr availability \<Rightarrow> do {
         err \<leftarrow> perform (OSDeleteEndpoint os \<lparr>oe_Name = ep_ServiceName (ep_spec i),
            oe_ServiceID = eps_ServiceID (ep_status i), oe_Availability = availability, oe_URL = ''''\<rparr>) (rErr E);
         case err of
           Some e \<Rightarrow> ret (Some e)
         | None \<Rightarrow> do { upd_inst (forget_endpoint endpointType); delete_stale E os rest }
       }
   }"

text \<open>The registered endpoint of one type: created, updated or left alone; its ID, or the error.\<close>

definition register_endpoint ::
  "env \<Rightarrow> os_client \<Rightarrow> string \<Rightarrow> string \<Rightarrow> string \<Rightarrow> (KeystoneEndpoint st, error + string) state" where
  "register_endpoint E os endpointType endpointURL availability = do {
     i \<leftarrow> get_inst;
     r \<leftarrow> perform (OSGetEndpoints os (eps_ServiceID (ep_status i)) endpointType) (rGetEndpoints E);
     case r of
       Inl err \<Rightarrow> ret (Inl err)
     | Inr allEndpoints \<Rightarrow>
         (case allEndpoints of
            [] \<Rightarrow> do {
              (endpointID, err) \<leftarrow> perform (OSCreateEndpoint os \<lparr>oe_Name = ep_ServiceName (ep_spec i),
                 oe_ServiceID = eps_ServiceID (ep_status i), oe_Availability = availability,
                 oe_URL = endpointURL\<rparr>) (rEndpointID E);
              ret (case err of Some e \<Rightarrow> Inl e | None \<Rightarrow> Inr endpointID)
            }
          | endpoint # extra \<Rightarrow>
              if extra = [] then
                if endpointURL \<noteq> re_URL endpoint then do {
                  (endpointID, err) \<leftarrow> perform (OSUpdateEndpoint os \<lparr>oe_Name = re_Name endpoint,
                     oe_ServiceID = re_ServiceID endpoint, oe_Availability = availability,
                     oe_URL = endpointURL\<rparr> (re_ID endpoint)) (rEndpointID E);
                  ret (case err of Some e \<Rightarrow> Inl e | None \<Rightarrow> Inr endpointID)
                } else ret (Inr (re_ID endpoint))
              else ret (Inl (WrapErrorForObject E
                (''multiple endpoints registered for service:'' @ ep_ServiceName (ep_spec i) @ '' type: '' @ endpointType)
                (ep_meta i) None)))
   }"

primrec ensure_endpoints :: "env \<Rightarrow> os_client \<Rightarrow> string list \<Rightarrow> (KeystoneEndpoint st, error option) state" where
  "ensure_endpoints E os [] = ret None"
| "ensure_endpoints E os (endpointType # rest) = do {
     i \<leftarrow> get_inst;
     let endpointURL = str_at (ep_Endpoints (ep_spec i)) endpointType;
     case GetAvailability E endpointType of
       Inl err \<Rightarrow> ret (Some err)
     | Inr availability \<Rightarrow> do {
         r \<leftarrow> register_endpoint E os endpointType endpointURL availability;
         case r of
           Inl err \<Rightarrow> ret (Some err)
         | Inr endpointID \<Rightarrow> do {
             (if endpointID \<noteq> '''' then upd_inst (record_endpoint endpointType endpointURL endpointID) else ret ());
             ensure_endpoints E os rest
           }
       }
   }"

definition reconcileEndpoints :: "env \<Rightarrow> os_client \<Rightarrow> (KeystoneEndpoint st, error option) state" where
  "reconcileEndpoints E os = do {
     i \<leftarrow> get_inst;
     err \<leftarrow> delete_stale E os (sorted_keys (ep_ids i));
     case err of
       Some e \<Rightarrow> ret (Some e)
     | None \<Rightarrow> ensure_endpoints E os (sorted_keys (ep_Endpoints (ep_spec i)))
   }"

section \<open>Deletion\<close>

primrec delete_endpoints :: "env \<Rightarrow> os_client \<Rightarrow> string list \<Rightarrow> (KeystoneEndpoint st, error option) state" where
  "delete_endpoints E os [] = ret None"
| "delete_endpoints E os (endpointType # rest) = do {
     i \<leftarrow> get_inst;
     case GetAvailability E endpointType of
       Inl err \<Rightarrow> ret (Some err)
     | Inr availability \<Rightarrow> do {
         err \<leftarrow> perform (OSDeleteEndpoint os \<lparr>oe_Name = ep_ServiceName (ep_spec i),
            oe_ServiceID = eps_ServiceID (ep_status i), oe_Availability = availability, oe_URL = ''''\<rparr>) (rErr E);
         case err of Some e \<Rightarrow> ret (Some e) | None \<Rightarrow> delete_endpoints E os rest
       }
   }"

text \<open>The finalizer on the KeystoneService; a missing service is no error.\<close>

definition release_service :: "env \<Rightarrow> (KeystoneEndpoint st, error option) state" where
  "release_service E = do {
     i \<leftarrow> get_inst;
     r \<leftarrow> GetKeystoneServiceWithName E (ep_ServiceName (ep_spec i)) (om_namespace (ep_meta i));
     case r of
       Inr ksSvc \<Rightarrow> drop_svc_finalizer E (api_finalizer E KindEndpoint (ep_meta i)) ksSvc
     | Inl err \<Rightarrow> ret (if IsNotFound err then None else Some err)
   }"

definition ep_reconcileDelete ::
  "env \<Rightarrow> os_client option \<Rightarrow> KeystoneAPI option \<Rightarrow> (KeystoneEndpoint st, outcome) state" where
  "ep_reconcileDelete E os keystoneAPI = do {
     i \<leftarrow> get_inst;
     err \<leftarrow> (case os of None \<Rightarrow> ret None | Some c \<Rightarrow> delete_endpoints E c (sorted_keys (ep_Endpoints (ep_spec i))));
     case err of
       Some e \<Rightarrow> ret (fail e)
     | None \<Rightarrow> do {
         upd_inst (ep_map_status (\<lambda>st. st\<lparr>eps_EndpointIDs := Some []\<rparr>));
         err \<leftarrow> release_service E;
         case err of
           Some e \<Rightarrow> ret (fail e)
         | None \<Rightarrow> do {
             err \<leftarrow> (case keystoneAPI of
               None \<Rightarrow> ret None
             | Some api \<Rightarrow> drop_api_finalizer E (api_finalizer E KindEndpoint (ep_meta i)) api);
             case err of
               Some e \<Rightarrow> ret (fail e)
             | None \<Rightarrow> do { ep_drop_finalizer E; ret ok }
           }
       }
   }"

definition ep_reconcileDeleteFinalizersOnly :: "env \<Rightarrow> KeystoneAPI \<Rightarrow> (KeystoneEndpoint st, outcome) state" where
  "ep_reconcileDeleteFinalizersOnly E keystoneAPI = do {
     i \<leftarrow> get_inst;
     err \<leftarrow> release_service E;
     case err of
       Some e \<Rightarrow> ret (fail e)
     | None \<Rightarrow> do {
         err \<leftarrow> drop_api_finalizer E (api_finalizer E KindEndpoint (ep_meta i)) keystoneAPI;
         case err of
           Some e \<Rightarrow> ret (fail e)
         | None \<Rightarrow> do { ep_drop_finalizer E; ret ok }
       }
   }"

section \<open>The normal path\<close>

definition endpoint_strs :: "string gomap \<Rightarrow> string list" where
  "endpoint_strs m = map (\<lambda>k. k @ '':'' @ str_at m k) (sorted_keys m)"

text \<open>From the ready service on: both finalizers, then the endpoints.\<close>

definition ep_with_service :: "env \<Rightarrow> os_client \<Rightarrow> KeystoneAPI \<Rightarrow> KeystoneService \<Rightarrow> (KeystoneEndpoint st, outcome) state" where
  "ep_with_service E os keystoneAPI ksSvc = do {
     upd_inst (ep_map_status (\<lambda>st. st\<lparr>eps_ServiceID := svcs_ServiceID (svc_status ksSvc)\<rparr>));
     i \<leftarrow> get_inst;
     err \<leftarrow> add_api_finalizer E (api_finalizer E KindEndpoint (ep_meta i)) keystoneAPI;
     case err of
       Some e \<Rightarrow> ret (fail e)
     | None \<Rightarrow> do {
         err \<leftarrow> add_svc_finalizer E (api_finalizer E KindEndpoint (ep_meta i)) ksSvc;
         case err of
           Some e \<Rightarrow> ret (fail e)
         | None \<Rightarrow> do {
             err \<leftarrow> reconcileEndpoints E os;
             case err of
               Some e \<Rightarrow> do {
                 ep_false E KeystoneServiceOSEndpointsReadyCondition ErrorReason SeverityWarning
                   (KeystoneServiceOSEndpointsReadyErrorMessage (err_msg e));
                 ret (fail e)
               }
             | None \<Rightarrow> do {
                 ep_true E KeystoneServiceOSEndpointsReadyCondition
                   (KeystoneServiceOSEndpointsReadyMessage (endpoint_strs (ep_Endpoints (ep_spec i))));
                 ret ok
               }
           }
       }
   }"

definition ep_reconcileNormal :: "env \<Rightarrow> os_client \<Rightarrow> KeystoneAPI \<Rightarrow> (KeystoneEndpoint st, outcome) state" where
  "ep_reconcileNormal E os keystoneAPI = do {
     i \<leftarrow> get_inst;
     r \<leftarrow> GetKeystoneServiceWithName E (ep_ServiceName (ep_spec i)) (om_namespace (ep_meta i));
     case r of
       Inl err \<Rightarrow> ret (if IsNotFound err then (requeueAfter (5 * second), None) else fail err)
     | Inr ksSvc \<Rightarrow> do {
         let c = condMirror E KeystoneServiceReadyCondition (svc_conds ksSvc);
         (if c \<noteq> None then upd_inst (ep_upd_conds (condSet E c)) else ret ());
         if \<not> svc_IsReady E ksSvc then ret (requeueAfter (10 * second), None)
         else ep_with_service E os keystoneAPI ksSvc
       }
   }"

section \<open>Reconcile\<close>

definition ep_init_conditions :: conditions where
  "ep_init_conditions =
     [UnknownCondition KeystoneAPIReadyCondition InitReason KeystoneAPIReadyInitMessage,
      UnknownCondition AdminServiceClientReadyCondition InitReason AdminServiceClientReadyInitMessage,
      UnknownCondition KeystoneServiceOSEndpointsReadyCondition InitReason KeystoneServiceOSEndpointsReadyInitMessage,
      UnknownCondition KeystoneServiceReadyCondition InitReason (Msg '''' [])]"

definition ep_with_api :: "env \<Rightarrow> KeystoneAPI \<Rightarrow> (KeystoneEndpoint st, outcome) state" where
  "ep_with_api E keystoneAPI = do {
     ep_true E KeystoneAPIReadyCondition KeystoneAPIReadyMessage;
     client \<leftarrow> GetAdminServiceClient E keystoneAPI;
     case client of
       Inl (ctrlResult, Some e) \<Rightarrow> do {
         ep_false E AdminServiceClientReadyCondition ErrorReason SeverityWarning
           (AdminServiceClientReadyErrorMessage (err_msg e));
         ret (fail e)
       }
     | Inl (ctrlResult, None) \<Rightarrow> do {
         ep_false E AdminServiceClientReadyCondition RequestedReason SeverityInfo
           AdminServiceClientReadyWaitingMessage;
         ret (ctrlResult, None)
       }
     | Inr os \<Rightarrow> do {
         ep_true E AdminServiceClientReadyCondition AdminServiceClientReadyMessage;
         i \<leftarrow> get_inst;
         if deleting (ep_meta i) then ep_reconcileDelete E (Some os) (Some keystoneAPI)
         else ep_reconcileNormal E os keystoneAPI
       }
   }"

definition ep_init_status :: "KeystoneEndpoint \<Rightarrow> KeystoneEndpoint" where
  "ep_init_status i = ep_map_status (\<lambda>st. st\<lparr>eps_EndpointIDs := Some (ep_ids i),
     eps_ObservedGeneration := om_generation (ep_meta i)\<rparr>) i"

definition ep_body :: "env \<Rightarrow> (KeystoneEndpoint st, outcome) state" where
  "ep_body E = do {
     i0 \<leftarrow> get_inst;
     if eps_Conditions (ep_status i0) = None
     then do { upd_inst (ep_upd_conds (\<lambda>cs. condInit E cs ep_init_conditions)); ret ok }
     else do {
       upd_inst ep_init_status;
       let (fs, added) = AddFinalizer E (ep_fins i0) (GetFinalizer E KindEndpoint);
       if \<not> deleting (ep_meta i0) \<and> added
       then do { upd_inst (ep_set_finalizers fs); ret ok }
       else do {
         r \<leftarrow> GetKeystoneAPI E (om_namespace (ep_meta i0)) [];
         case r of
           Inl err \<Rightarrow>
             if IsNotFound err then
               if deleting (ep_meta i0) \<and> ep_ids i0 = []
               then ep_reconcileDelete E None None
               else do {
                 ep_false E KeystoneAPIReadyCondition ErrorReason SeverityWarning KeystoneAPIReadyNotFoundMessage;
                 ret (requeueAfter (5 * second), None)
               }
             else do {
               ep_false E KeystoneAPIReadyCondition ErrorReason SeverityWarning
                 (KeystoneAPIReadyErrorMessage (err_msg err));
               ret (fail err)
             }
         | Inr keystoneAPI \<Rightarrow>
             if deleting (ep_meta i0) \<and> deleting (api_meta keystoneAPI)
             then ep_reconcileDeleteFinalizersOnly E keystoneAPI
             else if deleting (ep_meta i0) \<and> ep_ids i0 = []
             then ep_reconcileDelete E None (Some keystoneAPI)
             else if \<not> IsReady E keystoneAPI
             then do {
               ep_false E KeystoneAPIReadyCondition RequestedReason SeverityInfo KeystoneAPIReadyWaitingMessage;
               ret (requeueAfter (5 * second), None)
             }
             else ep_with_api E keystoneAPI
       }
     }
   }"

definition ep_Reconcile :: "env \<Rightarrow> string \<Rightarrow> string \<Rightarrow> (KeystoneEndpoint st, outcome) state" where
  "ep_Reconcile E namespace name = do {
     r \<leftarrow> perform (KGet KindEndpoint namespace name) (rGetEndpoint E);
     case r of
       Inl err \<Rightarrow> ret (if IsNotFound err then ok else fail err)
     | Inr i \<Rightarrow> do {
         upd_inst (\<lambda>_. i);
         err \<leftarrow> perform (NewHelper KindEndpoint) (rErr E);
         case err of
           Some e \<Rightarrow> ret (fail e)
         | None \<Rightarrow> do {
             out \<leftarrow> ep_body E;
             deferred E ep_upd_conds KPatchEndpoint (ready_step E) out
           }
       }
   }"

end
