(* ===== verification/EndpointProps.thy ===== *)
theory EndpointProps
  imports ServiceProps EndpointCtl
begin

text \<open>
  What the KeystoneEndpoint controller guarantees. The catalog of Keystone is a function of
  the calls made so far (\<open>catalog_laws\<close>): against it a successful run leaves exactly the
  endpoints of the spec registered, and the next run only reads. Finalizers on the KeystoneAPI
  and the KeystoneService are placed before the first registration and go after the last.
\<close>

section \<open>The catalog\<close>

text \<open>The endpoints registered under a service ID and an availability, after a history.\<close>

type_synonym catalog = "history \<Rightarrow> string \<Rightarrow> string \<Rightarrow> registered_endpoint list"

fun catalog_write :: "os_client \<Rightarrow> call \<Rightarrow> bool" where
  "catalog_write os (OSCreateEndpoint c _) \<longleftrightarrow> c = os"
| "catalog_write os (OSUpdateEndpoint c _ _) \<longleftrightarrow> c = os"
| "catalog_write os (OSDeleteEndpoint c _) \<longleftrightarrow> c = os"
| "catalog_write os _ \<longleftrightarrow> False"

definition put_entries :: "string \<Rightarrow> string \<Rightarrow> 'e list \<Rightarrow> (string \<Rightarrow> string \<Rightarrow> 'e list) \<Rightarrow> string \<Rightarrow> string \<Rightarrow> 'e list" where
  "put_entries sid a es cat = cat(sid := (cat sid)(a := es))"

lemma put_entries_at [simp]:
  "put_entries sid a es cat sid a = es" "b \<noteq> a \<Longrightarrow> put_entries sid a es cat sid' b = cat sid' b"
  by (simp_all add: put_entries_def)

definition catalog_laws :: "env \<Rightarrow> os_client \<Rightarrow> catalog \<Rightarrow> bool" where
  "catalog_laws E os cat \<longleftrightarrow>
     (\<forall>h sid t a es. GetAvailability E t = Inr a \<longrightarrow> rGetEndpoints E (h @ [OSGetEndpoints os sid t]) = Inr es
        \<longrightarrow> es = cat h sid a) \<and>
     (\<forall>h sid a. \<forall>r \<in> set (cat h sid a). re_ServiceID r = sid \<and> re_ID r \<noteq> '''') \<and>
     (\<forall>h c. \<not> catalog_write os c \<longrightarrow> cat (h @ [c]) = cat h) \<and>
     (\<forall>h e i. rEndpointID E (h @ [OSCreateEndpoint os e]) = (i, None) \<longrightarrow> i \<noteq> '''' \<and>
        cat (h @ [OSCreateEndpoint os e]) = put_entries (oe_ServiceID e) (oe_Availability e)
          (cat h (oe_ServiceID e) (oe_Availability e) @
             [\<lparr>re_ID = i, re_Name = oe_Name e, re_ServiceID = oe_ServiceID e, re_URL = oe_URL e\<rparr>]) (cat h)) \<and>
     (\<forall>h e x i. rEndpointID E (h @ [OSUpdateEndpoint os e x]) = (i, None) \<longrightarrow> i = x \<and>
        cat (h @ [OSUpdateEndpoint os e x]) = put_entries (oe_ServiceID e) (oe_Availability e)
          (map (\<lambda>r. if re_ID r = x then r\<lparr>re_URL := oe_URL e\<rparr> else r) (cat h (oe_ServiceID e) (oe_Availability e))) (cat h)) \<and>
     (\<forall>h e. rErr E (h @ [OSDeleteEndpoint os e]) = None \<longrightarrow>
        cat (h @ [OSDeleteEndpoint os e]) = put_entries (oe_ServiceID e) (oe_Availability e) [] (cat h)) \<and>
     (\<forall>t t' a. GetAvailability E t = Inr a \<longrightarrow> GetAvailability E t' = Inr a \<longrightarrow> t = t')"

lemma catalog_lawsD:
  assumes "catalog_laws E os cat"
  shows "GetAvailability E t = Inr a \<Longrightarrow> rGetEndpoints E (h @ [OSGetEndpoints os sid t]) = Inr es \<Longrightarrow> es = cat h sid a"
    and "r \<in> set (cat h sid a) \<Longrightarrow> re_ServiceID r = sid \<and> re_ID r \<noteq> ''''"
    and "\<not> catalog_write os c \<Longrightarrow> cat (h @ [c]) = cat h"
    and "rEndpointID E (h @ [OSCreateEndpoint os e]) = (i, None) \<Longrightarrow> i \<noteq> '''' \<and>
        cat (h @ [OSCreateEndpoint os e]) = put_entries (oe_ServiceID e) (oe_Availability e)
          (cat h (oe_ServiceID e) (oe_Availability e) @
             [\<lparr>re_ID = i, re_Name = oe_Name e, re_ServiceID = oe_ServiceID e, re_URL = oe_URL e\<rparr>]) (cat h)"
    and "rEndpointID E (h @ [OSUpdateEndpoint os e x]) = (i, None) \<Longrightarrow> i = x \<and>
        cat (h @ [OSUpdateEndpoint os e x]) = put_entries (oe_ServiceID e) (oe_Availability e)
          (map (\<lambda>r. if re_ID r = x then r\<lparr>re_URL := oe_URL e\<rparr> else r) (cat h (oe_ServiceID e) (oe_Availability e))) (cat h)"
    and "rErr E (h @ [OSDeleteEndpoint os e]) = None \<Longrightarrow>
        cat (h @ [OSDeleteEndpoint os e]) = put_entries (oe_ServiceID e) (oe_Availability e) [] (cat h)"
    and "GetAvailability E t = Inr a \<Longrightarrow> GetAvailability E t' = Inr a \<Longrightarrow> t = t'"
proof -
  note L = assms [unfolded catalog_laws_def]
  note L2 = L [THEN conjunct2]
  note L3 = L2 [THEN conjunct2]
  note L4 = L3 [THEN conjunct2]
  note L5 = L4 [THEN conjunct2]
  note L6 = L5 [THEN conjunct2]
  note rules = L [THEN conjunct1, rule_format] L2 [THEN conjunct1, rule_format] L3 [THEN conjunct1, rule_format]
    L4 [THEN conjunct1, rule_format] L5 [THEN conjunct1, rule_format] L6 [THEN conjunct1, rule_format]
    L6 [THEN conjunct2, rule_format]
  show "GetAvailability E t = Inr a \<Longrightarrow> rGetEndpoints E (h @ [OSGetEndpoints os sid t]) = Inr es \<Longrightarrow> es = cat h sid a"
    by (rule rules(1))
  show "r \<in> set (cat h sid a) \<Longrightarrow> re_ServiceID r = sid \<and> re_ID r \<noteq> ''''"
    by (rule rules(2))
  show "\<not> catalog_write os c \<Longrightarrow> cat (h @ [c]) = cat h"
    by (rule rules(3))
  show "GetAvailability E t = Inr a \<Longrightarrow> GetAvailability E t' = Inr a \<Longrightarrow> t = t'"
    by (rule rules(7))
qed (rule assms [unfolded catalog_laws_def, THEN conjunct2, THEN conjunct2, THEN conjunct2, THEN conjunct1, rule_format]
  assms [unfolded catalog_laws_def, THEN conjunct2, THEN conjunct2, THEN conjunct2, THEN conjunct2, THEN conjunct1, rule_format]
  assms [unfolded catalog_laws_def, THEN conjunct2, THEN conjunct2, THEN conjunct2, THEN conjunct2, THEN conjunct2, THEN conjunct1, rule_format];
  assumption)+

section \<open>The bookkeeping of the status\<close>

abbreviation ep_sid :: "KeystoneEndpoint \<Rightarrow> string" where
  "ep_sid i \<equiv> eps_ServiceID (ep_status i)"

lemma forget_endpoint_simps [simp]:
  "ep_spec (forget_endpoint ty i) = ep_spec i" "ep_sid (forget_endpoint ty i) = ep_sid i"
  "ep_meta (forget_endpoint ty i) = ep_meta i"
  "map_of (ep_ids (forget_endpoint ty i)) = (map_of (ep_ids i))(ty := None)"
  by (auto simp: forget_endpoint_def ep_map_status_def ep_ids_def split: option.splits)

lemma record_endpoint_simps [simp]:
  "ep_spec (record_endpoint ty u x i) = ep_spec i" "ep_sid (record_endpoint ty u x i) = ep_sid i"
  "ep_meta (record_endpoint ty u x i) = ep_meta i"
  "has_key (ep_Endpoints (ep_spec i)) ty \<Longrightarrow> map_of (ep_ids (record_endpoint ty u x i)) = (map_of (ep_ids i))(ty \<mapsto> x)"
  by (auto simp: record_endpoint_def set_endpoint_id_def ep_map_status_def ep_ids_def split: option.splits)

lemma getEndpointIdx_Some:
  "getEndpointIdx ty es = Some n \<Longrightarrow> n < length es \<and> e_Interface (es ! n) = ty"
  using nth_length_takeWhile [of "\<lambda>e. e_Interface e \<noteq> ty" es]
  by (auto simp: getEndpointIdx_def Let_def split: if_splits)

section \<open>One endpoint\<close>

lemma register_endpoint_spec:
  assumes L: "catalog_laws E os cat" and av: "GetAvailability E ty = Inr a"
    and run: "run_state (register_endpoint E os ty url a) s = (Inr x, t)"
  shows "inst t = inst s \<and> x \<noteq> ''''
    \<and> (\<exists>e. cat (log t) (ep_sid (inst s)) a = [e] \<and> re_URL e = url \<and> re_ID e = x)
    \<and> (\<forall>b. b \<noteq> a \<longrightarrow> cat (log t) (ep_sid (inst s)) b = cat (log s) (ep_sid (inst s)) b)"
proof -
  let ?sid = "ep_sid (inst s)" and ?h = "log s @ [OSGetEndpoints os (ep_sid (inst s)) ty]"
  have quiet: "cat ?h = cat (log s)" by (rule catalog_lawsD(3) [OF L]) simp
  from run obtain es where es: "rGetEndpoints E ?h = Inr es"
    by (auto simp: register_endpoint_def split: sum.splits)
  then have cat: "es = cat (log s) ?sid a" using catalog_lawsD(1) [OF L av] by simp
  show ?thesis
  proof (cases es)
    case Nil
    let ?c = "\<lparr>oe_Name = ep_ServiceName (ep_spec (inst s)), oe_ServiceID = ?sid, oe_Availability = a, oe_URL = url\<rparr>"
    have "rEndpointID E (?h @ [OSCreateEndpoint os ?c]) = (x, None)" "t = s\<lparr>log := ?h @ [OSCreateEndpoint os ?c]\<rparr>"
      using run es Nil by (auto simp: register_endpoint_def split: prod.splits option.splits)
    then show ?thesis
      using catalog_lawsD(4) [OF L, of ?h ?c x] cat Nil quiet by auto
  next
    case (Cons e more)
    then have more: "more = []" using run es by (auto simp: register_endpoint_def split: if_splits)
    have e: "cat (log s) ?sid a = [e]" using cat Cons more by simp
    then have eid: "re_ServiceID e = ?sid" "re_ID e \<noteq> ''''" using catalog_lawsD(2) [OF L, of e "log s" ?sid a] by auto
    show ?thesis
    proof (cases "url = re_URL e")
      case True
      then have "x = re_ID e" "t = s\<lparr>log := ?h\<rparr>"
        using run es Cons more by (auto simp: register_endpoint_def)
      then show ?thesis using e eid quiet True by auto
    next
      case False
      let ?c = "\<lparr>oe_Name = re_Name e, oe_ServiceID = re_ServiceID e, oe_Availability = a, oe_URL = url\<rparr>"
      have "rEndpointID E (?h @ [OSUpdateEndpoint os ?c (re_ID e)]) = (x, None)"
          "t = s\<lparr>log := ?h @ [OSUpdateEndpoint os ?c (re_ID e)]\<rparr>"
        using run es Cons more False by (auto simp: register_endpoint_def split: prod.splits option.splits)
      then show ?thesis
        using catalog_lawsD(5) [OF L, of ?h ?c "re_ID e" x] e eid quiet by auto
    qed
  qed
qed

text \<open>An endpoint of the spec is in place: registered once, with its URL, and known to the status.\<close>

definition in_place :: "env \<Rightarrow> catalog \<Rightarrow> KeystoneEndpoint st \<Rightarrow> string \<Rightarrow> bool" where
  "in_place E cat s ty \<longleftrightarrow> (\<exists>a e. GetAvailability E ty = Inr a \<and> cat (log s) (ep_sid (inst s)) a = [e]
     \<and> re_URL e = str_at (ep_Endpoints (ep_spec (inst s))) ty \<and> map_of (ep_ids (inst s)) ty = Some (re_ID e))"

definition frame :: "env \<Rightarrow> catalog \<Rightarrow> string set \<Rightarrow> KeystoneEndpoint st \<Rightarrow> KeystoneEndpoint st \<Rightarrow> bool" where
  "frame E cat T s t \<longleftrightarrow> ep_spec (inst t) = ep_spec (inst s) \<and> ep_sid (inst t) = ep_sid (inst s)
     \<and> ep_meta (inst t) = ep_meta (inst s)
     \<and> (\<forall>ty. ty \<notin> T \<longrightarrow> map_of (ep_ids (inst t)) ty = map_of (ep_ids (inst s)) ty)
     \<and> (\<forall>a. (\<forall>ty \<in> T. GetAvailability E ty \<noteq> Inr a) \<longrightarrow>
          cat (log t) (ep_sid (inst s)) a = cat (log s) (ep_sid (inst s)) a)"

lemma frame_refl [simp]: "frame E cat T s s"
  by (simp add: frame_def)

lemma frame_trans: "frame E cat T s t \<Longrightarrow> frame E cat T' t u \<Longrightarrow> frame E cat (T \<union> T') s u"
  by (simp add: frame_def)

lemma in_place_frame:
  assumes "catalog_laws E os cat" "in_place E cat s ty" "frame E cat T s t" "ty \<notin> T"
  shows "in_place E cat t ty"
  using assms(2-4) catalog_lawsD(7) [OF assms(1)] unfolding in_place_def frame_def by metis

lemma ensure_endpoints_spec:
  assumes L: "catalog_laws E os cat"
  shows "run_state (ensure_endpoints E os tys) s = (None, t) \<Longrightarrow> distinct tys \<Longrightarrow>
    set tys \<subseteq> dom (map_of (ep_Endpoints (ep_spec (inst s)))) \<Longrightarrow>
    frame E cat (set tys) s t \<and> (\<forall>ty \<in> set tys. in_place E cat t ty)"
proof (induction tys arbitrary: s)
  case (Cons ty tys)
  let ?url = "str_at (ep_Endpoints (ep_spec (inst s))) ty"
  from Cons.prems(1) obtain a where av: "GetAvailability E ty = Inr a" by (auto simp: Let_def split: sum.splits)
  obtain r u where reg: "run_state (register_endpoint E os ty ?url a) s = (r, u)" by fastforce
  with Cons.prems(1) av obtain x where r: "r = Inr x" by (auto simp: Let_def split: sum.splits)
  note spec = register_endpoint_spec [OF L av reg [unfolded r]]
  define v where "v = u\<lparr>inst := record_endpoint ty ?url x (inst u)\<rparr>"
  have rest: "run_state (ensure_endpoints E os tys) v = (None, t)"
    using Cons.prems(1) av reg r spec by (simp add: Let_def v_def)
  have key: "has_key (ep_Endpoints (ep_spec (inst s))) ty" using Cons.prems(3) by (auto simp: has_key_def)
  have fr: "frame E cat {ty} s v"
    unfolding frame_def
  proof (intro conjI allI impI)
    fix b assume "\<forall>ty' \<in> {ty}. GetAvailability E ty' \<noteq> Inr b"
    then show "cat (log v) (ep_sid (inst s)) b = cat (log s) (ep_sid (inst s)) b" using spec av by (auto simp: v_def)
  qed (use spec key in \<open>simp_all add: v_def\<close>)
  have "in_place E cat v ty"
    using spec av key unfolding in_place_def v_def by auto
  moreover have IH: "frame E cat (set tys) v t \<and> (\<forall>ty \<in> set tys. in_place E cat t ty)"
    using Cons.IH [OF rest] Cons.prems(2,3) fr by (simp add: frame_def)
  ultimately have "in_place E cat t ty" using in_place_frame [OF L] Cons.prems(2) by auto
  then show ?case using frame_trans [OF fr] IH by fastforce
qed simp

text \<open>A stale entry is gone: not registered and not in the status.\<close>

definition removed :: "env \<Rightarrow> catalog \<Rightarrow> KeystoneEndpoint st \<Rightarrow> string \<Rightarrow> bool" where
  "removed E cat s ty \<longleftrightarrow> (\<exists>a. GetAvailability E ty = Inr a \<and> cat (log s) (ep_sid (inst s)) a = [])
     \<and> map_of (ep_ids (inst s)) ty = None"

lemma removed_frame:
  assumes "catalog_laws E os cat" "removed E cat s ty" "frame E cat T s t" "ty \<notin> T"
  shows "removed E cat t ty"
  using assms(2-4) catalog_lawsD(7) [OF assms(1)] unfolding removed_def frame_def by metis

lemma delete_stale_spec:
  assumes L: "catalog_laws E os cat"
  shows "run_state (delete_stale E os tys) s = (None, t) \<Longrightarrow> distinct tys \<Longrightarrow>
    K = dom (map_of (ep_Endpoints (ep_spec (inst s)))) \<Longrightarrow>
    frame E cat (set tys - K) s t \<and> (\<forall>ty \<in> set tys - K. removed E cat t ty)"
proof (induction tys arbitrary: s)
  case (Cons ty tys)
  show ?case
  proof (cases "has_key (ep_Endpoints (ep_spec (inst s))) ty")
    case True
    then have "ty \<in> K" using Cons.prems(3) by (auto simp: has_key_def)
    then show ?thesis using Cons.IH [of s] Cons.prems True by (simp add: insert_Diff_if)
  next
    case False
    then have ty: "ty \<notin> K" using Cons.prems(3) by (auto simp: has_key_def)
    from Cons.prems(1) False obtain a where av: "GetAvailability E ty = Inr a" by (auto split: sum.splits)
    let ?c = "OSDeleteEndpoint os \<lparr>oe_Name = ep_ServiceName (ep_spec (inst s)),
      oe_ServiceID = ep_sid (inst s), oe_Availability = a, oe_URL = ''''\<rparr>"
    define v where "v = s\<lparr>log := log s @ [?c], inst := forget_endpoint ty (inst s)\<rparr>"
    have del: "rErr E (log s @ [?c]) = None" and rest: "run_state (delete_stale E os tys) v = (None, t)"
      using Cons.prems(1) False av by (auto simp: v_def split: option.splits)
    note cat = catalog_lawsD(6) [OF L del]
    have fr: "frame E cat {ty} s v" using cat av by (auto simp: frame_def v_def)
    have "removed E cat v ty" using cat av by (auto simp: removed_def v_def)
    moreover have IH: "frame E cat (set tys - K) v t \<and> (\<forall>ty \<in> set tys - K. removed E cat t ty)"
      using Cons.IH [OF rest] Cons.prems(2,3) by (simp add: v_def)
    ultimately have "removed E cat t ty" using removed_frame [OF L] Cons.prems(2) by auto
    then show ?thesis using frame_trans [OF fr] IH ty by (fastforce simp: insert_Diff_if)
  qed
qed simp

section \<open>Convergence\<close>

text \<open>
  C5: a run that returns no error leaves the catalog as the spec says: every endpoint of the spec
  is registered exactly once under the service, with the URL of the spec and the ID the status
  records; every endpoint the status knew and the spec does not name is gone from both; and
  the status knows no other endpoint.
\<close>

theorem reconcileEndpoints_converges:
  assumes "catalog_laws E os cat" "run_state (reconcileEndpoints E os) s = (None, t)"
  shows "(\<forall>ty \<in> dom (map_of (ep_Endpoints (ep_spec (inst s)))). in_place E cat t ty)
    \<and> (\<forall>ty \<in> dom (map_of (ep_ids (inst s))) - dom (map_of (ep_Endpoints (ep_spec (inst s)))). removed E cat t ty)
    \<and> dom (map_of (ep_ids (inst t))) = dom (map_of (ep_Endpoints (ep_spec (inst s))))
    \<and> ep_spec (inst t) = ep_spec (inst s)"
proof -
  let ?S = "dom (map_of (ep_Endpoints (ep_spec (inst s))))" and ?I = "dom (map_of (ep_ids (inst s)))"
  obtain r u where del: "run_state (delete_stale E os (sorted_keys (ep_ids (inst s)))) s = (r, u)" by fastforce
  then have r: "r = None" and ens: "run_state (ensure_endpoints E os (sorted_keys (ep_Endpoints (ep_spec (inst s))))) u = (None, t)"
    using assms(2) by (auto simp: reconcileEndpoints_def split: option.splits)
  have stale: "frame E cat (?I - ?S) s u" "\<forall>ty \<in> ?I - ?S. removed E cat u ty"
    using delete_stale_spec [OF assms(1) del [unfolded r], of ?S] by simp_all
  have kept: "frame E cat ?S u t" "\<forall>ty \<in> ?S. in_place E cat t ty"
    using ensure_endpoints_spec [OF assms(1) ens] stale(1) by (simp_all add: frame_def)
  have gone: "\<forall>ty \<in> ?I - ?S. removed E cat t ty"
    using stale(2) removed_frame [OF assms(1) _ kept(1)] by blast
  have "ty \<in> dom (map_of (ep_ids (inst t))) \<longleftrightarrow> ty \<in> ?S" for ty
  proof (cases "ty \<in> ?S")
    case True
    then show ?thesis using kept(2) by (auto simp: in_place_def)
  next
    case False
    show ?thesis
    proof (cases "ty \<in> ?I")
      case True
      with False have "removed E cat t ty" using gone by blast
      with False show ?thesis by (auto simp: removed_def)
    next
      case out: False
      then have "map_of (ep_ids (inst t)) ty = None"
        using False kept(1) stale(1) by (auto simp: frame_def domIff)
      with False show ?thesis by auto
    qed
  qed
  then show ?thesis using kept gone stale(1) by (auto simp: frame_def)
qed

lemma delete_stale_nothing:
  "set tys \<subseteq> dom (map_of (ep_Endpoints (ep_spec (inst s)))) \<Longrightarrow> run_state (delete_stale E os tys) s = (None, s)"
  by (induction tys) (auto simp: has_key_def)

lemma ensure_endpoints_reads:
  assumes L: "catalog_laws E os cat" and reads: "\<And>h ty. \<exists>es. rGetEndpoints E (h @ [OSGetEndpoints os (ep_sid (inst s0)) ty]) = Inr es"
  shows "ep_sid (inst s) = ep_sid (inst s0) \<Longrightarrow> distinct tys \<Longrightarrow>
    set tys \<subseteq> dom (map_of (ep_Endpoints (ep_spec (inst s)))) \<Longrightarrow> \<forall>ty \<in> set tys. in_place E cat s ty \<Longrightarrow>
    \<exists>t. run_state (ensure_endpoints E os tys) s = (None, t) \<and> log t = log s @ map (OSGetEndpoints os (ep_sid (inst s))) tys"
proof (induction tys arbitrary: s)
  case (Cons ty tys)
  let ?c = "OSGetEndpoints os (ep_sid (inst s)) ty" and ?url = "str_at (ep_Endpoints (ep_spec (inst s))) ty"
  obtain a e where av: "GetAvailability E ty = Inr a" and e: "cat (log s) (ep_sid (inst s)) a = [e]" "re_URL e = ?url"
    using Cons.prems(4) by (auto simp: in_place_def)
  have quiet: "cat (log s @ [?c]) = cat (log s)" by (rule catalog_lawsD(3) [OF L]) simp
  obtain es where es: "rGetEndpoints E (log s @ [?c]) = Inr es" using reads Cons.prems(1) by metis
  then have es': "es = [e]" using catalog_lawsD(1) [OF L av] e by simp
  have key: "has_key (ep_Endpoints (ep_spec (inst s))) ty" using Cons.prems(3) by (auto simp: has_key_def)
  have ne: "re_ID e \<noteq> ''''" using catalog_lawsD(2) [OF L, of e "log s" "ep_sid (inst s)" a] e by simp
  define v where "v = s\<lparr>log := log s @ [?c], inst := record_endpoint ty ?url (re_ID e) (inst s)\<rparr>"
  have step: "run_state (ensure_endpoints E os (ty # tys)) s = run_state (ensure_endpoints E os tys) v"
    using av es es' e ne by (simp add: Let_def register_endpoint_def v_def)
  have "frame E cat {ty} s v" using quiet key by (simp add: frame_def v_def)
  then have "in_place E cat v ty'" if "ty' \<in> set tys" for ty'
    using in_place_frame [OF L, of s ty' "{ty}" v] Cons.prems(2,4) that by auto
  then obtain t where "run_state (ensure_endpoints E os tys) v = (None, t)"
      "log t = log v @ map (OSGetEndpoints os (ep_sid (inst v))) tys"
    using Cons.IH [of v] Cons.prems by (auto simp: v_def)
  then show ?case using step by (simp add: v_def)
qed simp

text \<open>
  C22: once every endpoint of the spec is in place and the status knows no other, a run only reads
  the catalog, once for each endpoint, and returns no error.
\<close>

theorem reconcileEndpoints_idempotent:
  assumes "catalog_laws E os cat"
    and "\<forall>ty \<in> dom (map_of (ep_Endpoints (ep_spec (inst s)))). in_place E cat s ty"
    and "dom (map_of (ep_ids (inst s))) = dom (map_of (ep_Endpoints (ep_spec (inst s))))"
    and "\<And>h ty. \<exists>es. rGetEndpoints E (h @ [OSGetEndpoints os (ep_sid (inst s)) ty]) = Inr es"
  shows "\<exists>t. run_state (reconcileEndpoints E os) s = (None, t)
    \<and> log t = log s @ map (OSGetEndpoints os (ep_sid (inst s))) (sorted_keys (ep_Endpoints (ep_spec (inst s))))"
proof -
  have "run_state (delete_stale E os (sorted_keys (ep_ids (inst s)))) s = (None, s)"
    by (rule delete_stale_nothing) (simp add: assms(3))
  moreover have "\<exists>t. run_state (ensure_endpoints E os (sorted_keys (ep_Endpoints (ep_spec (inst s))))) s = (None, t)
      \<and> log t = log s @ map (OSGetEndpoints os (ep_sid (inst s))) (sorted_keys (ep_Endpoints (ep_spec (inst s))))"
    by (rule ensure_endpoints_reads [OF assms(1,4)]) (simp_all add: assms(2))
  ultimately show ?thesis by (simp add: reconcileEndpoints_def)
qed

section \<open>A concrete catalog\<close>

text \<open>The catalog computed from the history, and an environment that answers from it.\<close>

definition entry_id :: "os_endpoint \<Rightarrow> string" where
  "entry_id e = ''id-'' @ oe_Availability e"

fun catalog_step :: "call \<Rightarrow> (string \<Rightarrow> string \<Rightarrow> registered_endpoint list) \<Rightarrow> string \<Rightarrow> string \<Rightarrow> registered_endpoint list" where
  "catalog_step (OSCreateEndpoint c e) cat = (if c \<noteq> 0 then cat else put_entries (oe_ServiceID e) (oe_Availability e)
     (cat (oe_ServiceID e) (oe_Availability e) @
        [\<lparr>re_ID = entry_id e, re_Name = oe_Name e, re_ServiceID = oe_ServiceID e, re_URL = oe_URL e\<rparr>]) cat)"
| "catalog_step (OSUpdateEndpoint c e x) cat = (if c \<noteq> 0 then cat else put_entries (oe_ServiceID e) (oe_Availability e)
     (map (\<lambda>r. if re_ID r = x then r\<lparr>re_URL := oe_URL e\<rparr> else r) (cat (oe_ServiceID e) (oe_Availability e))) cat)"
| "catalog_step (OSDeleteEndpoint c e) cat =
     (if c \<noteq> 0 then cat else put_entries (oe_ServiceID e) (oe_Availability e) [] cat)"
| "catalog_step _ cat = cat"

definition catalog_of :: catalog where
  "catalog_of h = fold catalog_step h (\<lambda>_ _. [])"

fun endpoint_reply :: "call \<Rightarrow> string \<times> error option" where
  "endpoint_reply (OSCreateEndpoint _ e) = (entry_id e, None)"
| "endpoint_reply (OSUpdateEndpoint _ _ x) = (x, None)"
| "endpoint_reply _ = ('''', None)"

fun listing_reply :: "history \<Rightarrow> call \<Rightarrow> error + registered_endpoint list" where
  "listing_reply h (OSGetEndpoints _ sid ty) = Inr (catalog_of h sid ty)"
| "listing_reply h _ = Inr []"

definition catalog_env :: env where
  "catalog_env = base_env\<lparr>rGetEndpoints := \<lambda>h. listing_reply (butlast h) (last h), rEndpointID := \<lambda>h. endpoint_reply (last h)\<rparr>"

lemma entry_id_not_Nil [simp]: "entry_id e \<noteq> ''''"
  by (simp add: entry_id_def)

lemma catalog_step_entries:
  "\<forall>sid a. \<forall>r \<in> set (cat sid a). re_ServiceID r = sid \<and> re_ID r \<noteq> '''' \<Longrightarrow>
    \<forall>sid a. \<forall>r \<in> set (catalog_step c cat sid a). re_ServiceID r = sid \<and> re_ID r \<noteq> ''''"
  by (cases c) (auto simp: put_entries_def entry_id_def split: if_splits)

lemma catalog_of_entries: "r \<in> set (catalog_of h sid a) \<Longrightarrow> re_ServiceID r = sid \<and> re_ID r \<noteq> ''''"
proof (induction h arbitrary: r sid a rule: rev_induct)
  case (snoc c h)
  have "\<forall>sid a. \<forall>r \<in> set (catalog_of h sid a). re_ServiceID r = sid \<and> re_ID r \<noteq> ''''" using snoc.IH by blast
  from catalog_step_entries [OF this, of c] snoc.prems show ?case by (simp add: catalog_of_def)
qed (simp add: catalog_of_def)

lemma catalog_of_snoc: "catalog_of (h @ [c]) = catalog_step c (catalog_of h)"
  by (simp add: catalog_of_def)

lemma catalog_step_other: "\<not> catalog_write 0 c \<Longrightarrow> catalog_step c cat = cat"
  by (cases c) auto

lemma catalog_env_laws: "catalog_laws catalog_env 0 catalog_of"
  unfolding catalog_laws_def
  by (auto simp: catalog_env_def catalog_of_snoc catalog_step_other dest: catalog_of_entries)

definition ex_ep1 :: KeystoneEndpoint where
  "ex_ep1 = ep_map_status (\<lambda>st. st\<lparr>eps_EndpointIDs := Some [(''admin'', ''id-admin'')], eps_ServiceID := ''svc-id''\<rparr>) ex_ep"
lemma ex_ep1_simps:
  "sorted_keys (ep_ids ex_ep1) = [''admin'']" "sorted_keys (ep_Endpoints (ep_spec ex_ep1)) = [''internal'', ''public'']"
  "ep_Endpoints (ep_spec ex_ep1) = [(''internal'', ''http://a''), (''public'', ''http://b'')]"
  "ep_sid ex_ep1 = ''svc-id''" "ep_ServiceName (ep_spec ex_ep1) = ''placement''"
  by (simp_all add: ex_ep1_def ex_ep_def ep_map_status_def ep_ids_def sorted_keys_def)

lemma ex_ep1_run: "fst (run_state (reconcileEndpoints catalog_env 0) (start ex_ep1)) = None"
  by (simp add: reconcileEndpoints_def has_key_def Let_def catalog_env_def register_endpoint_def
      catalog_of_def put_entries_def entry_id_def ex_ep1_simps(1,2,4,5)) (simp add: ex_ep1_simps(3))?

lemma reconcileEndpoints_converges_witness:
  "\<exists>t. run_state (reconcileEndpoints catalog_env 0) (start ex_ep1) = (None, t) \<and> in_place catalog_env catalog_of t ''public''
    \<and> map_of (ep_ids (inst t)) ''admin'' = None"
proof -
  obtain t where run: "run_state (reconcileEndpoints catalog_env 0) (start ex_ep1) = (None, t)"
    using ex_ep1_run by (cases "run_state (reconcileEndpoints catalog_env 0) (start ex_ep1)") auto
  have dom: "dom (map_of (ep_Endpoints (ep_spec ex_ep1))) = {''internal'', ''public''}"
    by (auto simp: ex_ep1_simps)
  from reconcileEndpoints_converges [OF catalog_env_laws run] have "in_place catalog_env catalog_of t ''public''"
    and "''admin'' \<notin> dom (map_of (ep_ids (inst t)))"
    by (auto simp: dom)
  then show ?thesis using run by (auto simp: domIff)
qed

text \<open>One endpoint of the spec, registered.\<close>

definition ex_placed :: "KeystoneEndpoint st" where
  "ex_placed = \<lparr>inst = ep_map_status (\<lambda>st. st\<lparr>eps_EndpointIDs := Some [(''public'', ''id-public'')], eps_ServiceID := ''svc-id''\<rparr>)
       (ex_ep\<lparr>ep_spec := \<lparr>ep_ServiceName = ''placement'', ep_Endpoints = [(''public'', ''http://b'')]\<rparr>\<rparr>),
     log = [OSCreateEndpoint 0 \<lparr>oe_Name = ''placement'', oe_ServiceID = ''svc-id'', oe_Availability = ''public'', oe_URL = ''http://b''\<rparr>]\<rparr>"

lemma reconcileEndpoints_idempotent_witness:
  "\<exists>t. run_state (reconcileEndpoints catalog_env 0) ex_placed = (None, t)
    \<and> log t = log ex_placed @ [OSGetEndpoints 0 ''svc-id'' ''public'']"
proof -
  have spec: "ep_Endpoints (ep_spec (inst ex_placed)) = [(''public'', ''http://b'')]"
    "ep_ids (inst ex_placed) = [(''public'', ''id-public'')]" "ep_sid (inst ex_placed) = ''svc-id''"
    by (simp_all add: ex_placed_def ep_map_status_def ep_ids_def)
  have "in_place catalog_env catalog_of ex_placed ''public''"
    unfolding in_place_def spec by (simp add: catalog_env_def ex_placed_def catalog_of_def put_entries_def entry_id_def str_at_def)
  moreover have "\<exists>es. rGetEndpoints catalog_env (h @ [OSGetEndpoints 0 (ep_sid (inst ex_placed)) ty]) = Inr es" for h ty
    by (simp add: catalog_env_def)
  ultimately show ?thesis
    using reconcileEndpoints_idempotent [OF catalog_env_laws, of ex_placed]
    by (simp add: spec sorted_keys_def)
qed

text \<open>
  When Keystone has more than one endpoint registered for a service and type, the run reports
  an error for the object and neither creates nor changes one of that type.
\<close>

lemma multiple_endpoints_is_error:
  assumes "rGetEndpoints E (log s @ [OSGetEndpoints os (ep_sid (inst s)) ty]) = Inr (e1 # e2 # es)"
    and "GetAvailability E ty = Inr a"
  shows "run_state (ensure_endpoints E os (ty # tys)) s =
    (Some (WrapErrorForObject E (''multiple endpoints registered for service:'' @ ep_ServiceName (ep_spec (inst s))
        @ '' type: '' @ ty) (ep_meta (inst s)) None),
     s\<lparr>log := log s @ [OSGetEndpoints os (ep_sid (inst s)) ty]\<rparr>)"
  using assms by (simp add: register_endpoint_def Let_def)

definition ex_dup :: "string \<Rightarrow> registered_endpoint" where
  "ex_dup x = \<lparr>re_ID = x, re_Name = ''svc'', re_ServiceID = ''svc-id'', re_URL = ''http://a''\<rparr>"

lemma multiple_endpoints_is_error_witness:
  "fst (run_state (ensure_endpoints (base_env\<lparr>rGetEndpoints := \<lambda>h. Inr [ex_dup ''1'', ex_dup ''2'']\<rparr>) 0 [''public''])
    (start ex_ep1)) \<noteq> None"
  using multiple_endpoints_is_error [of "base_env\<lparr>rGetEndpoints := \<lambda>h. Inr [ex_dup ''1'', ex_dup ''2'']\<rparr>"
      "start ex_ep1" 0 "''public''" "ex_dup ''1''" "ex_dup ''2''" "[]" "''public''" "[]"]
  by simp

section \<open>Finalizers\<close>

fun registers_endpoint :: "call \<Rightarrow> bool" where
  "registers_endpoint (OSCreateEndpoint _ _) = True"
| "registers_endpoint (OSUpdateEndpoint _ _ _) = True"
| "registers_endpoint _ = False"

text \<open>The log shows that a KeystoneService carries the finalizer: it was read with it, or updated.\<close>

definition svc_read :: "env \<Rightarrow> KeystoneService \<Rightarrow> history \<Rightarrow> bool" where
  "svc_read E svc h \<longleftrightarrow> (\<exists>h0 ns n post. h = h0 @ [KGet KindService ns n] @ post
     \<and> rGetService E (h0 @ [KGet KindService ns n]) = Inr svc)"

definition svc_held :: "env \<Rightarrow> string \<Rightarrow> history \<Rightarrow> bool" where
  "svc_held E f h \<longleftrightarrow> (\<exists>svc. f \<in> set (svc_fins svc) \<and>
     (svc_read E svc h \<or> (\<exists>h0 post. h = h0 @ [KUpdateService svc] @ post \<and> rErr E (h0 @ [KUpdateService svc]) = None)))"

lemma svc_read_snoc [simp]: "svc_read E svc h \<Longrightarrow> svc_read E svc (h @ [c])"
  unfolding svc_read_def by (metis append.assoc)

lemma svc_held_snoc [simp]: "svc_held E f h \<Longrightarrow> svc_held E f (h @ [c])"
  unfolding svc_held_def by (metis append.assoc svc_read_snoc)

abbreviation both_held :: "env \<Rightarrow> string \<Rightarrow> history \<Rightarrow> bool" where
  "both_held E f h \<equiv> held E f h \<and> svc_held E f h"

definition ep_named :: "string \<Rightarrow> KeystoneEndpoint \<Rightarrow> bool" where
  "ep_named n i \<longleftrightarrow> om_name (ep_meta i) = n"

lemma ep_named_simps [simp]:
  "ep_named n (ep_upd_conds f i) = ep_named n i" "ep_named n (ep_set_finalizers fs i) = ep_named n i"
  "ep_named n (ep_map_status g i) = ep_named n i" "ep_named n (ep_init_status i) = ep_named n i"
  "ep_named n (forget_endpoint ty i) = ep_named n i" "ep_named n (record_endpoint ty u x i) = ep_named n i"
  by (simp_all add: ep_named_def ep_set_finalizers_def ep_map_status_def ep_init_status_def)

abbreviation ep_safe :: "env \<Rightarrow> string \<Rightarrow> string \<Rightarrow> KeystoneEndpoint st \<Rightarrow> bool" where
  "ep_safe E f n s \<equiv> guarded registers_endpoint (both_held E f) (log s) \<and> ep_named n (inst s)"

lemma inv_delete_endpoints [inv_intros]:
  assumes "\<And>s e. J s \<Longrightarrow> J (s\<lparr>log := log s @ [OSDeleteEndpoint os e]\<rparr>)"
  shows "inv J (delete_endpoints E os tys)"
  by (induction tys) (auto intro!: inv_intros assms)

lemma inv_delete_stale [inv_intros]:
  assumes "\<And>s e. J s \<Longrightarrow> J (s\<lparr>log := log s @ [OSDeleteEndpoint os e]\<rparr>)"
    "\<And>s ty. J s \<Longrightarrow> J (s\<lparr>inst := forget_endpoint ty (inst s)\<rparr>)"
  shows "inv J (delete_stale E os tys)"
  by (induction tys) (auto intro!: inv_intros assms)

lemma ensure_endpoints_safe:
  "inv (\<lambda>s. ep_safe E f n s \<and> both_held E f (log s)) (ensure_endpoints E os tys)"
proof (induction tys)
  case (Cons ty tys)
  show ?case
    unfolding ensure_endpoints.simps register_endpoint_def by (intro inv_intros Cons.IH; auto)
qed (simp add: inv_intros)

lemma reconcileEndpoints_safe:
  "inv (\<lambda>s. ep_safe E f n s \<and> both_held E f (log s)) (reconcileEndpoints E os)"
  unfolding reconcileEndpoints_def by (intro inv_intros ensure_endpoints_safe; auto)

lemma inv_release_service [inv_intros]:
  assumes "\<And>s ns n. J s \<Longrightarrow> J (s\<lparr>log := log s @ [KGet KindService ns n]\<rparr>)"
    "\<And>s x. J s \<Longrightarrow> J (s\<lparr>log := log s @ [KUpdateService x]\<rparr>)"
  shows "inv J (release_service E)"
  unfolding release_service_def GetKeystoneServiceWithName_def drop_svc_finalizer_def by (intro inv_intros assms)

lemma ep_reconcileDelete_safe: "inv (ep_safe E f n) (ep_reconcileDelete E os api)"
  unfolding ep_reconcileDelete_def ep_drop_finalizer_def by (intro inv_intros; auto)

lemma ep_reconcileDeleteFinalizersOnly_safe: "inv (ep_safe E f n) (ep_reconcileDeleteFinalizersOnly E api)"
  unfolding ep_reconcileDeleteFinalizersOnly_def ep_drop_finalizer_def by (intro inv_intros; auto)

lemma hoare_add_svc_finalizer:
  assumes "finalizer_laws E" "\<And>a h. I h \<Longrightarrow> I (h @ [KUpdateService a])"
  shows "hoare (\<lambda>s. I (log s) \<and> J (inst s) \<and> svc_read E svc (log s)) (add_svc_finalizer E f svc)
    (\<lambda>r s. I (log s) \<and> J (inst s) \<and> (r = None \<longrightarrow> svc_held E f (log s)))"
proof (rule hoareI)
  fix s :: "'a st" assume s: "I (log s) \<and> J (inst s) \<and> svc_read E svc (log s)"
  let ?svc = "svc_set_finalizers (fst (AddFinalizer E (svc_fins svc) f)) svc"
  have new: "f \<in> set (svc_fins ?svc)" using svc_fin.fins_add [OF assms(1), of svc f] by simp
  have held: "rErr E (log s @ [KUpdateService ?svc]) = None \<Longrightarrow> svc_held E f (log s @ [KUpdateService ?svc])"
    using new unfolding svc_held_def by (metis append.assoc append_Nil2)
  have old: "\<not> snd (AddFinalizer E (svc_fins svc) f) \<Longrightarrow> svc_held E f (log s)"
    using s finalizer_lawsD(2) [OF assms(1)] unfolding svc_held_def by metis
  show "wp (add_svc_finalizer E f svc) (\<lambda>r s. I (log s) \<and> J (inst s) \<and> (r = None \<longrightarrow> svc_held E f (log s))) s"
    using s held old assms(2)
    by (cases "AddFinalizer E (svc_fins svc) f") (simp add: add_svc_finalizer_def Let_def wp_simps)
qed

lemma ep_with_service_safe:
  assumes "finalizer_laws E" "f = GetFinalizer E KindEndpoint @ ''-'' @ n"
  shows "hoare (\<lambda>s. ep_safe E f n s \<and> listed E api (log s) \<and> svc_read E svc (log s))
    (ep_with_service E os api svc) (\<lambda>_. ep_safe E f n)"
  unfolding ep_with_service_def
proof (rule hoare_bind [where R = "\<lambda>_ s. ep_safe E f n s \<and> listed E api (log s) \<and> svc_read E svc (log s)"],
    (intro inv_intros; auto), rule hoare_get_inst_bind [where K = "ep_named n"],
    rule hoare_bind [where R = "\<lambda>r s. ep_safe E f n s \<and> svc_read E svc (log s) \<and> (r = None \<longrightarrow> held E f (log s))"], goal_cases)
  case (1 _ i)
  then have "api_finalizer E KindEndpoint (ep_meta i) = f"
    using assms(2) by (simp add: api_finalizer_def ep_named_def)
  then show ?case
    using hoare_add_api_finalizer [OF assms(1), where J = "ep_named n" and f = f and api = api
        and I = "\<lambda>h. guarded registers_endpoint (both_held E f) h \<and> svc_read E svc h"]
    by (auto elim!: hoare_weaken)
next
  case (2 _ i err)
  then have f: "api_finalizer E KindEndpoint (ep_meta i) = f"
    using assms(2) by (simp add: api_finalizer_def ep_named_def)
  show ?case
  proof (cases err)
    case None
    show ?thesis
      unfolding None option.case
    proof (rule hoare_bind [where R = "\<lambda>r s. ep_safe E f n s \<and> (r = None \<longrightarrow> both_held E f (log s))"], goal_cases)
      case 1
      show ?case
        using hoare_add_svc_finalizer [OF assms(1), where J = "ep_named n" and f = f and svc = svc
            and I = "\<lambda>h. guarded registers_endpoint (both_held E f) h \<and> held E f h"]
        unfolding f by (auto elim!: hoare_weaken)
    next
      case (2 err)
      show ?case
      proof (cases err)
        case None
        show ?thesis
          unfolding None option.case ep_false_def ep_true_def
          by (rule hoare_inv [where J = "\<lambda>s. ep_safe E f n s \<and> both_held E f (log s)"])
            ((intro inv_intros reconcileEndpoints_safe; auto), auto)
      next
        case (Some e)
        show ?thesis unfolding Some option.case by (rule hoare_ret) simp
      qed
    qed
  next
    case (Some e)
    show ?thesis unfolding Some option.case by (rule hoare_ret) simp
  qed
qed auto

lemma ep_reconcileNormal_safe:
  assumes "finalizer_laws E" "f = GetFinalizer E KindEndpoint @ ''-'' @ n"
  shows "hoare (\<lambda>s. ep_safe E f n s \<and> listed E api (log s)) (ep_reconcileNormal E os api) (\<lambda>_. ep_safe E f n)"
  unfolding ep_reconcileNormal_def GetKeystoneServiceWithName_def Let_def
proof (rule hoare_bind [OF inv_get_inst], rule hoare_bind [where R = "\<lambda>r s. (ep_safe E f n s \<and> listed E api (log s))
      \<and> (\<forall>svc. r = Inr svc \<longrightarrow> svc_read E svc (log s))"], goal_cases)
  case (1 i)
  show ?case by (rule hoare_perform) (force simp: svc_read_def)
next
  case (2 i r)
  show ?case
  proof (cases r)
    case (Inl e)
    show ?thesis unfolding Inl sum.case by (rule hoare_ret) simp
  next
    case (Inr svc)
    let ?P = "\<lambda>s. ep_safe E f n s \<and> listed E api (log s) \<and> svc_read E svc (log s)"
    show ?thesis
      unfolding Inr sum.case
    proof (rule hoare_bind [where R = "\<lambda>_. ?P"], goal_cases)
      case 1
      show ?case by (rule hoare_weaken [where P = ?P and Q = "\<lambda>_. ?P"]) ((intro inv_intros)?; auto)+
    next
      case 2
      show ?case
        by (rule hoare_if, rule hoare_ret, simp) (rule hoare_weaken [OF ep_with_service_safe [OF assms]]; simp)
    qed
  qed
qed

lemma ep_with_api_safe:
  assumes "finalizer_laws E" "f = GetFinalizer E KindEndpoint @ ''-'' @ n"
  shows "hoare (\<lambda>s. ep_safe E f n s \<and> listed E api (log s)) (ep_with_api E api) (\<lambda>_. ep_safe E f n)"
  unfolding ep_with_api_def ep_true_def ep_false_def
proof (rule hoare_bind [where R = "\<lambda>_ s. ep_safe E f n s \<and> listed E api (log s)"],
    (intro inv_intros; auto),
    rule hoare_bind [where R = "\<lambda>_ s. ep_safe E f n s \<and> listed E api (log s)"],
    (intro inv_intros; auto), goal_cases)
  case (1 _ client)
  show ?case
  proof (cases client)
    case (Inl r)
    show ?thesis
      unfolding Inl sum.case
      by (rule hoare_inv [where J = "ep_safe E f n"]) ((intro inv_intros; auto), auto)
  next
    case (Inr os)
    show ?thesis
      unfolding Inr sum.case
    proof (rule hoare_bind [where R = "\<lambda>_ s. ep_safe E f n s \<and> listed E api (log s)"],
        (intro inv_intros; auto), rule hoare_bind [OF inv_get_inst], rule hoare_if)
      show "hoare (\<lambda>s. ep_safe E f n s \<and> listed E api (log s)) (ep_reconcileDelete E (Some os) (Some api))
          (\<lambda>_. ep_safe E f n)"
        by (rule hoare_inv [OF ep_reconcileDelete_safe]) auto
    qed (rule ep_reconcileNormal_safe [OF assms])
  qed
qed

lemma ep_body_safe:
  assumes "finalizer_laws E" "f = GetFinalizer E KindEndpoint @ ''-'' @ n"
  shows "inv (ep_safe E f n) (ep_body E)"
  unfolding ep_body_def Let_def case_prod_unfold
proof (rule inv_bind [OF inv_get_inst], rule inv_if, (intro inv_intros; auto), rule inv_bind, (intro inv_intros; auto),
    rule inv_if, (intro inv_intros; auto),
    rule hoare_bind [where R = "\<lambda>r s. ep_safe E f n s \<and> (\<forall>api. r = Inr api \<longrightarrow> listed E api (log s))"], goal_cases)
  case (1 i)
  show ?case
    using hoare_GetKeystoneAPI [where I = "guarded registers_endpoint (both_held E f)" and J = "ep_named n" and E = E]
    by (auto elim!: hoare_weaken)
next
  case (2 i _ r)
  show ?case
  proof (cases r)
    case (Inl e)
    show ?thesis
      unfolding Inl sum.case ep_false_def
      by (rule hoare_inv [where J = "ep_safe E f n"])
        ((intro inv_intros ep_reconcileDelete_safe; auto), auto)
  next
    case (Inr api)
    have del: "hoare (\<lambda>s. ep_safe E f n s \<and> listed E api (log s)) m (\<lambda>_. ep_safe E f n)"
      if "inv (ep_safe E f n) m" for m :: "(KeystoneEndpoint st, outcome) state"
      by (rule hoare_inv [OF that]) auto
    show ?thesis
      unfolding Inr sum.case ep_false_def
      by (rule hoare_weaken [where P = "\<lambda>s. ep_safe E f n s \<and> listed E api (log s)" and Q = "\<lambda>_. ep_safe E f n"],
          intro hoare_if del ep_reconcileDeleteFinalizersOnly_safe ep_reconcileDelete_safe
            ep_with_api_safe [OF assms]; (intro inv_intros)?; auto)
  qed
qed

text \<open>
  C19: in a run of the controller, every endpoint that is created or changed in the catalog is so
  after the log shows both the KeystoneAPI and the KeystoneService carrying its finalizer.
\<close>

theorem ep_registers_behind_finalizers:
  assumes "finalizer_laws E" "rGetEndpoint E [KGet KindEndpoint ns name] = Inr i"
    and "run_state (ep_Reconcile E ns name) (start x) = (r, t)"
    and "log t = pre @ c # post" "registers_endpoint c"
  shows "held E (api_finalizer E KindEndpoint (ep_meta i)) pre \<and> svc_held E (api_finalizer E KindEndpoint (ep_meta i)) pre"
proof -
  let ?n = "om_name (ep_meta i)" and ?f = "api_finalizer E KindEndpoint (ep_meta i)"
  have f: "?f = GetFinalizer E KindEndpoint @ ''-'' @ ?n" by (simp add: api_finalizer_def)
  let ?rest = "\<lambda>err. case err of Some e \<Rightarrow> ret (fail e)
     | None \<Rightarrow> do { out \<leftarrow> ep_body E; deferred E ep_upd_conds KPatchEndpoint (ready_step E) out }"
  have "inv (ep_safe E ?f ?n) (?rest err)" for err
    by (intro inv_intros ep_body_safe [OF assms(1) f]; simp)
  then have "inv (ep_safe E ?f ?n) (do { err \<leftarrow> perform (NewHelper KindEndpoint) (rErr E); ?rest err })"
    by (intro inv_bind inv_perform) simp_all
  moreover have "run_state (do { err \<leftarrow> perform (NewHelper KindEndpoint) (rErr E); ?rest err })
      \<lparr>inst = i, log = [KGet KindEndpoint ns name]\<rparr> = (r, t)"
    using assms(2,3) by (simp add: ep_Reconcile_def start_def)
  ultimately have "ep_safe E ?f ?n t"
    by (rule hoareD) (simp_all add: ep_named_def guarded_snoc [of _ _ "[]", simplified])
  then have "guarded registers_endpoint (both_held E ?f) (log t)" by simp
  then show ?thesis using assms(4,5) unfolding guarded_def by blast
qed

lemmas ep_code = ep_Reconcile_def ep_body_def ep_with_api_def ep_reconcileNormal_def ep_with_service_def
  reconcileEndpoints_def register_endpoint_def ep_reconcileDelete_def release_service_def ep_true_def ep_false_def
  ep_drop_finalizer_def drop_svc_finalizer_def add_svc_finalizer_def svc_IsReady_def GetKeystoneServiceWithName_def
  ep_reconcileDeleteFinalizersOnly_def

definition ex_ep_env :: env where
  "ex_ep_env = base_env\<lparr>rListAPIs := \<lambda>h. Inr [ex_api],
     rGetService := \<lambda>h. Inr (svc_upd_conds (\<lambda>_. [true_cond ReadyCondition ReadyMessage]) ex_svc2),
     rGetEndpoint := \<lambda>h. Inr (ep_upd_conds (\<lambda>_. []) (ep_set_finalizers [''openstack.org/keystoneendpoint''] ex_ep1))\<rparr>"

lemmas ex_ep_defs = ex_ep1_def ex_ep_def ep_map_status_def ep_ids_def ep_init_status_def

lemma ep_registers_behind_finalizers_witness:
  "\<exists>pre c post. log (snd (run_state (ep_Reconcile ex_ep_env ''openstack'' ''placement'') (start ex_ep))) = pre @ c # post
    \<and> registers_endpoint c \<and> held ex_ep_env ''openstack.org/keystoneendpoint-placement'' pre
    \<and> svc_held ex_ep_env ''openstack.org/keystoneendpoint-placement'' pre"
proof -
  obtain r t where run: "run_state (ep_Reconcile ex_ep_env ''openstack'' ''placement'') (start ex_ep) = (r, t)"
    by fastforce
  then have t: "t = snd (run_state (ep_Reconcile ex_ep_env ''openstack'' ''placement'') (start ex_ep))" by simp
  have "list_ex registers_endpoint (log t)"
    unfolding t by (simp add: ex_ep_env_def ep_code svc_code ex_svc_defs ex_ep_defs sorted_keys_def has_key_def Let_def)
  then obtain pre c post where eq: "log t = pre @ c # post" "registers_endpoint c"
    by (metis list_ex_iff split_list)
  have i: "rGetEndpoint ex_ep_env h = Inr (ep_upd_conds (\<lambda>_. []) (ep_set_finalizers [''openstack.org/keystoneendpoint''] ex_ep1))" for h
    by (simp add: ex_ep_env_def)
  have "finalizer_laws ex_ep_env" by (simp add: ex_ep_env_def)
  from ep_registers_behind_finalizers [OF this i run eq] have
    "held ex_ep_env ''openstack.org/keystoneendpoint-placement'' pre \<and> svc_held ex_ep_env ''openstack.org/keystoneendpoint-placement'' pre"
    by (simp add: api_finalizer_def ex_ep_env_def ex_ep_defs ep_set_finalizers_def new_meta_def)
  then show ?thesis using eq run by auto
qed

section \<open>Deletion\<close>

lemma delete_endpoints_spec:
  assumes L: "catalog_laws E os cat"
  shows "run_state (delete_endpoints E os tys) s = (None, t) \<Longrightarrow> inst t = inst s
    \<and> (\<forall>ty \<in> set tys. \<exists>a. GetAvailability E ty = Inr a \<and> cat (log t) (ep_sid (inst s)) a = [])
    \<and> (\<forall>a. (\<forall>ty \<in> set tys. GetAvailability E ty \<noteq> Inr a) \<longrightarrow>
         cat (log t) (ep_sid (inst s)) a = cat (log s) (ep_sid (inst s)) a)"
proof (induction tys arbitrary: s)
  case (Cons ty tys)
  from Cons.prems obtain a where av: "GetAvailability E ty = Inr a" by (auto split: sum.splits)
  let ?c = "OSDeleteEndpoint os \<lparr>oe_Name = ep_ServiceName (ep_spec (inst s)),
      oe_ServiceID = ep_sid (inst s), oe_Availability = a, oe_URL = ''''\<rparr>"
  define v where "v = s\<lparr>log := log s @ [?c]\<rparr>"
  have del: "rErr E (log s @ [?c]) = None" and rest: "run_state (delete_endpoints E os tys) v = (None, t)"
    using Cons.prems av by (auto simp: v_def split: option.splits)
  note cat = catalog_lawsD(6) [OF L del]
  note IH = Cons.IH [OF rest]
  have "cat (log t) (ep_sid (inst s)) a = []"
  proof (cases "\<exists>ty' \<in> set tys. GetAvailability E ty' = Inr a")
    case True
    then show ?thesis using IH by (auto simp: v_def)
  next
    case False
    then have "cat (log t) (ep_sid (inst v)) a = cat (log v) (ep_sid (inst v)) a" using IH by blast
    then show ?thesis using cat by (simp add: v_def)
  qed
  moreover have "cat (log t) (ep_sid (inst s)) b = cat (log s) (ep_sid (inst s)) b"
    if b: "\<forall>ty \<in> set (ty # tys). GetAvailability E ty \<noteq> Inr b" for b
  proof -
    have "cat (log t) (ep_sid (inst v)) b = cat (log v) (ep_sid (inst v)) b" using IH b by simp
    moreover have "b \<noteq> a" using b av by auto
    ultimately show ?thesis using cat by (simp add: v_def)
  qed
  ultimately show ?case using IH av by (auto simp: v_def)
qed simp

lemma quiet_tail:
  assumes "catalog_laws E os cat"
  shows "\<forall>c \<in> set l. \<not> catalog_write os c \<Longrightarrow> cat (h @ l) = cat h"
proof (induction l rule: rev_induct)
  case (snoc c l)
  have "cat ((h @ l) @ [c]) = cat (h @ l)"
    using snoc.prems by (intro catalog_lawsD(3) [OF assms]) simp
  then show ?case using snoc by simp
qed simp

text \<open>Releasing the service and the API leaves the object and the catalog alone.\<close>

definition releases :: "('i st, 'a) state \<Rightarrow> bool" where
  "releases m \<longleftrightarrow> (\<forall>s a t os. run_state m s = (a, t) \<longrightarrow> inst t = inst s
     \<and> (\<exists>l. log t = log s @ l \<and> (\<forall>c \<in> set l. \<not> catalog_write os c)))"

lemma releases_service: "releases (release_service E)"
proof -
  have "inst t = inst s \<and> (\<exists>l. log t = log s @ l \<and> (\<forall>c \<in> set l. \<not> catalog_write os c))"
    if "run_state (release_service E) s = (a, t)" for s a t os
  proof (cases "rGetService E (log s @ [KGet KindService (om_namespace (ep_meta (inst s))) (ep_ServiceName (ep_spec (inst s)))])")
    case (Inl e)
    then show ?thesis using that by (auto simp: release_service_def GetKeystoneServiceWithName_def)
  next
    case (Inr svc)
    then show ?thesis using that
      by (auto simp: release_service_def GetKeystoneServiceWithName_def drop_svc_finalizer_def Let_def
          split: prod.splits if_splits)
  qed
  then show ?thesis unfolding releases_def by blast
qed

lemma releases_drop_api: "releases (drop_api_finalizer E f api)"
  unfolding releases_def drop_api_finalizer_def by (auto simp: Let_def split: prod.splits)

lemma ep_reconcileDelete_run:
  assumes "run_state (ep_reconcileDelete E (Some os) api) s = (ok, t)"
  shows "\<exists>u l. run_state (delete_endpoints E os (sorted_keys (ep_Endpoints (ep_spec (inst s))))) s = (None, u)
    \<and> log t = log u @ l \<and> (\<forall>c \<in> set l. \<not> catalog_write os c) \<and> ep_ids (inst t) = []
    \<and> ep_fins (inst t) = fst (RemoveFinalizer E (ep_fins (inst u)) (GetFinalizer E KindEndpoint))"
proof -
  obtain r u where del: "run_state (delete_endpoints E os (sorted_keys (ep_Endpoints (ep_spec (inst s))))) s = (r, u)"
    by fastforce
  with assms have r: "r = None" by (auto simp: ep_reconcileDelete_def split: option.splits)
  define u' where "u' = u\<lparr>inst := ep_map_status (\<lambda>st. st\<lparr>eps_EndpointIDs := Some []\<rparr>) (inst u)\<rparr>"
  obtain e v where rel: "run_state (release_service E) u' = (e, v)" by fastforce
  with assms del r have e: "e = None"
    by (auto simp: ep_reconcileDelete_def u'_def split: option.splits)
  let ?f = "api_finalizer E KindEndpoint (ep_meta (inst s))"
  let ?api = "case api of None \<Rightarrow> ret None | Some api \<Rightarrow> drop_api_finalizer E ?f api"
  obtain e' w where drop: "run_state ?api v = (e', w)" by fastforce
  have t: "e' = None \<and> t = w\<lparr>inst := ep_set_finalizers (fst (RemoveFinalizer E (ep_fins (inst w)) (GetFinalizer E KindEndpoint))) (inst w)\<rparr>"
    using assms del r rel e drop
    by (auto simp: ep_reconcileDelete_def ep_drop_finalizer_def u'_def split: option.splits)
  have "releases ?api" by (cases api) (simp_all add: releases_drop_api, simp add: releases_def)
  then obtain l' where l': "inst w = inst v" "log w = log v @ l'" "\<forall>c \<in> set l'. \<not> catalog_write os c"
    using drop unfolding releases_def by blast
  obtain l where l: "inst v = inst u'" "log v = log u' @ l" "\<forall>c \<in> set l. \<not> catalog_write os c"
    using releases_service rel unfolding releases_def by blast
  show ?thesis
    using del r l l' t
    by (intro exI [of _ u] exI [of _ "l @ l'"]) (auto simp: u'_def ep_map_status_def ep_ids_def fins_defs)
qed


definition ex_released :: "KeystoneEndpoint st" where
  "ex_released = snd (run_state (ep_reconcileDelete catalog_env (Some 0) None) (start ex_ep1))"

lemma ex_released_run: "run_state (ep_reconcileDelete catalog_env (Some 0) None) (start ex_ep1) = (ok, ex_released)"
proof -
  have "fst (run_state (ep_reconcileDelete catalog_env (Some 0) None) (start ex_ep1)) = ok"
    by (simp add: ep_code ex_ep1_simps(1,2,4,5) catalog_env_def not_found_def IsNotFound_def)
  then show ?thesis unfolding ex_released_def by (metis prod.collapse)
qed


text \<open>
  C26: a deletion looks at the spec only. An endpoint the status still records but the spec does
  not name any more stays in the catalog, while the record of it and the finalizer are dropped.
\<close>

theorem ep_delete_leaks_stale:
  assumes "catalog_laws E os cat" "finalizer_laws E" "run_state (ep_reconcileDelete E (Some os) api) s = (ok, t)"
    and "GetAvailability E ty = Inr a" "map_of (ep_Endpoints (ep_spec (inst s))) ty = None"
  shows "cat (log t) (ep_sid (inst s)) a = cat (log s) (ep_sid (inst s)) a
    \<and> ep_ids (inst t) = [] \<and> GetFinalizer E KindEndpoint \<notin> set (ep_fins (inst t))"
proof -
  obtain u l where run: "run_state (delete_endpoints E os (sorted_keys (ep_Endpoints (ep_spec (inst s))))) s = (None, u)"
      "log t = log u @ l" "\<forall>c \<in> set l. \<not> catalog_write os c" "ep_ids (inst t) = []"
      "ep_fins (inst t) = fst (RemoveFinalizer E (ep_fins (inst u)) (GetFinalizer E KindEndpoint))"
    using ep_reconcileDelete_run [OF assms(3)] by blast
  have "\<forall>ty' \<in> dom (map_of (ep_Endpoints (ep_spec (inst s)))). GetAvailability E ty' \<noteq> Inr a"
    using catalog_lawsD(7) [OF assms(1,4)] assms(5) by (metis domIff)
  then have "cat (log u) (ep_sid (inst s)) a = cat (log s) (ep_sid (inst s)) a"
    using delete_endpoints_spec [OF assms(1) run(1)] by simp
  then show ?thesis
    using quiet_tail [OF assms(1) run(3)] run finalizer_lawsD(4) [OF assms(2)] by simp
qed

lemma catalog_env_finalizers: "finalizer_laws catalog_env"
  by (simp add: catalog_env_def)

lemma ep_delete_leaks_stale_witness:
  "catalog_of (log ex_released) ''svc-id'' ''admin'' = catalog_of [] ''svc-id'' ''admin''
    \<and> map_of (ep_ids ex_ep1) ''admin'' = Some ''id-admin'' \<and> ep_ids (inst ex_released) = []"
  using ep_delete_leaks_stale [OF catalog_env_laws catalog_env_finalizers ex_released_run, of "''admin''" "''admin''"]
  by (simp add: ex_ep1_simps catalog_env_def) (simp add: ex_ep_defs)

section \<open>Conditions\<close>

text \<open>
  Every run that gets past reading the object and building the helper ends by patching it, and
  what is persisted is Ready exactly when all its other conditions are true.
\<close>

lemma ep_reconcile_persists_ready:
  assumes "condition_laws E" "rGetEndpoint E (log s @ [KGet KindEndpoint ns name]) = Inr i"
    and "rErr E (log s @ [KGet KindEndpoint ns name, NewHelper KindEndpoint]) = None"
    and "run_state (ep_Reconcile E ns name) s = (r, t)"
  shows "last (log t) = KPatchEndpoint (inst t)
    \<and> (condIsTrue E ReadyCondition (ep_conds (inst t)) \<longleftrightarrow> AllSubConditionIsTrue E (ep_conds (inst t)))"
proof -
  let ?s = "s\<lparr>inst := i, log := log s @ [KGet KindEndpoint ns name, NewHelper KindEndpoint]\<rparr>"
  obtain out u where body: "run_state (ep_body E) ?s = (out, u)" by fastforce
  have "run_state (deferred E ep_upd_conds KPatchEndpoint (ready_step E) out) u = (r, t)"
    using assms(2-4) body by (simp add: ep_Reconcile_def)
  from ep_rec.deferred_persists [OF this assms(1)] show ?thesis by simp
qed

lemma ep_reconcile_persists_ready_witness:
  "\<exists>i. last (log (snd (run_state (ep_Reconcile ex_ep_env ''openstack'' ''placement'') (start ex_ep)))) = KPatchEndpoint i
    \<and> (condIsTrue ex_ep_env ReadyCondition (ep_conds i) \<longleftrightarrow> AllSubConditionIsTrue ex_ep_env (ep_conds i))"
proof -
  obtain r t where run: "run_state (ep_Reconcile ex_ep_env ''openstack'' ''placement'') (start ex_ep) = (r, t)"
    by fastforce
  have "condition_laws ex_ep_env" by (simp add: ex_ep_env_def)
  from ep_reconcile_persists_ready [OF this _ _ run] run show ?thesis by (auto simp: ex_ep_env_def)
qed

end
