(* ===== verification/ApiProps.thy ===== *)
theory ApiProps
  imports ApiCtl Webhook FernetProps
begin

text \<open>
  What the KeystoneAPI controller guarantees: it releases nothing while services or endpoints still
  use the API, releases every dependency before its own finalizer goes, protects what it uses before
  it deploys, reports ready only what this run has checked, and mounts only what exists.
\<close>

section \<open>Rules for steps\<close>

lemma wp_andThen [wp_simps]:
  "wp (andThen m f) Q s = wp m (\<lambda>r t. case r of Go a \<Rightarrow> wp (f a) Q t | Stop out \<Rightarrow> Q (Stop out) t
     | Panics \<Rightarrow> Q Panics t | Diverges \<Rightarrow> Q Diverges t) s"
  unfolding andThen_def wp_bind
  by (rule arg_cong [where f = "\<lambda>P. wp m P s"]) (auto simp: fun_eq_iff wp_simps split: step.splits)

lemma hoare_andThen:
  assumes "hoare P m (\<lambda>r s. case r of Go a \<Rightarrow> R a s | Stop out \<Rightarrow> Q (Stop out) s | Panics \<Rightarrow> Q Panics s
      | Diverges \<Rightarrow> Q Diverges s)"
    and "\<And>a. hoare (R a) (f a) Q"
  shows "hoare P (andThen m f) Q"
proof (rule hoareI)
  fix s assume "P s"
  with assms(1) show "wp (andThen m f) Q s"
    unfolding wp_andThen
    by (rule wp_mono [OF hoare_wp]) (auto split: step.splits intro: hoare_wp [OF assms(2)])
qed

lemma inv_andThen [inv_intros]: "inv J m \<Longrightarrow> (\<And>a. inv J (f a)) \<Longrightarrow> inv J (andThen m f)"
  unfolding andThen_def
  by (intro inv_bind) (auto split: step.split intro: inv_ret)

lemma wp_api_false [wp_simps]:
  "wp (api_false E t r sev m) Q s = Q () (s\<lparr>inst := api_upd_conds (condSet E (FalseCondition t r sev m)) (inst s)\<rparr>)"
  by (simp add: api_false_def wp_simps)

lemma wp_api_true [wp_simps]:
  "wp (api_true E t m) Q s = Q () (s\<lparr>inst := api_upd_conds (condMarkTrue E t m) (inst s)\<rparr>)"
  by (simp add: api_true_def wp_simps)

lemma wp_api_drop_finalizer [wp_simps]:
  "wp (api_drop_finalizer E) Q s =
    Q () (s\<lparr>inst := api_set_finalizers (fst (RemoveFinalizer E (api_fins (inst s)) (GetFinalizer E KindAPI))) (inst s)\<rparr>)"
  by (simp add: api_drop_finalizer_def wp_simps)
lemmas release_defs = release_topology_def release_memcached_def release_database_def release_transport_def

section \<open>Deletion\<close>

text \<open>A call of this run whose answer satisfies \<open>P\<close>.\<close>

definition answered :: "(history \<Rightarrow> bool) \<Rightarrow> call \<Rightarrow> history \<Rightarrow> bool" where
  "answered P c h \<longleftrightarrow> (\<exists>h0 post. h = h0 @ [c] @ post \<and> P (h0 @ [c]))"

lemma answered_snoc [simp]: "answered P c (h @ [d]) \<longleftrightarrow> answered P c h \<or> (c = d \<and> P (h @ [d]))"
proof
  assume "answered P c (h @ [d])"
  then obtain h0 post where eq: "h @ [d] = h0 @ [c] @ post" and P: "P (h0 @ [c])"
    by (auto simp: answered_def)
  show "answered P c h \<or> (c = d \<and> P (h @ [d]))"
    using eq P by (cases post rule: rev_cases) (auto simp: answered_def)
next
  assume R: "answered P c h \<or> (c = d \<and> P (h @ [d]))"
  show "answered P c (h @ [d])"
  proof (cases "answered P c h")
    case True
    then obtain h0 post where "h @ [d] = h0 @ [c] @ post @ [d]" "P (h0 @ [c])" by (auto simp: answered_def)
    then show ?thesis unfolding answered_def by blast
  next
    case False
    with R have "h @ [d] = h @ [c] @ []" "P (h @ [c])" by simp_all
    then show ?thesis unfolding answered_def by blast
  qed
qed

lemma answered_snoc2 [simp]:
  "answered P c (h @ [a, b]) \<longleftrightarrow> answered P c (h @ [a]) \<or> (c = b \<and> P (h @ [a, b]))"
  "answered P c (h @ [a, b, d]) \<longleftrightarrow> answered P c (h @ [a, b]) \<or> (c = d \<and> P (h @ [a, b, d]))"
  using answered_snoc [of P c "h @ [a]" b] answered_snoc [of P c "h @ [a, b]" d] by simp_all

lemma answered_append: "answered P c h \<Longrightarrow> answered P c (h @ l)"
  by (induction l rule: rev_induct) (simp_all flip: append_assoc)

abbreviation succeeded :: "env \<Rightarrow> cluster_call \<Rightarrow> history \<Rightarrow> bool" where
  "succeeded E c \<equiv> answered (\<lambda>h. rErr E h = None) (Cluster c)"

definition memcached_released :: "env \<Rightarrow> KeystoneAPI \<Rightarrow> history \<Rightarrow> bool" where
  "memcached_released E i h \<longleftrightarrow> answered (\<lambda>g. case rMemcached (cl E) g of
       Inl err \<Rightarrow> IsNotFound err
     | Inr mc \<Rightarrow> GetFinalizer E KindAPI \<in> set (om_finalizers (mc_meta mc)) \<longrightarrow>
         succeeded E (KUpdateMemcached (mc_set_finalizers
           (fst (RemoveFinalizer E (om_finalizers (mc_meta mc)) (GetFinalizer E KindAPI))) mc)) h)
     (Cluster (GetMemcachedByName (api_MemcachedInstance (api_spec i)) (om_namespace (api_meta i)))) h"

definition database_released :: "env \<Rightarrow> KeystoneAPI \<Rightarrow> history \<Rightarrow> bool" where
  "database_released E i h \<longleftrightarrow> answered (\<lambda>g. case rDatabase (cl E) g of
       Inl err \<Rightarrow> IsNotFound err | Inr db \<Rightarrow> succeeded E (DBDeleteFinalizer db) h)
     (Cluster (GetDatabaseByNameAndAccount DatabaseCRName (api_DatabaseAccount (api_spec i)) (om_namespace (api_meta i)))) h"

definition transport_released :: "env \<Rightarrow> KeystoneAPI \<Rightarrow> history \<Rightarrow> bool" where
  "transport_released E i h \<longleftrightarrow>
     (let remove = (\<lambda>n. RemoveSecretConsumerFinalizer (om_namespace (api_meta i)) n TransportConsumerFinalizer)
      in succeeded E (remove (apis_TransportURLSecret (api_status i))) h
         \<and> answered (\<lambda>g. case rTransportURL (cl E) g of
              Inl err \<Rightarrow> IsNotFound err | Inr n \<Rightarrow> n = '''' \<or> succeeded E (remove n) h)
            (Cluster (GetTransportURL (transport_name i) (om_namespace (api_meta i)))) h)"

lemma answered_mono: "answered P c h \<Longrightarrow> (\<And>g. P g \<Longrightarrow> Q g) \<Longrightarrow> answered Q c h"
  unfolding answered_def by blast

lemma released_append:
  "memcached_released E i h \<Longrightarrow> memcached_released E i (h @ l)"
  "database_released E i h \<Longrightarrow> database_released E i (h @ l)"
  unfolding memcached_released_def database_released_def
  by (erule answered_append [OF answered_mono]; auto split: sum.splits intro: answered_append)+

text \<open>Each step of the deletion either ends the run with an error or releases its dependency.\<close>

definition release_step :: "(KeystoneAPI \<Rightarrow> history \<Rightarrow> bool) \<Rightarrow> KeystoneAPI st \<Rightarrow> unit step \<Rightarrow> KeystoneAPI st \<Rightarrow> bool" where
  "release_step R s r t \<longleftrightarrow> inst t = inst s \<and> prefix (log s) (log t) \<and>
     (case r of Go _ \<Rightarrow> R (inst s) (log t) | Stop out \<Rightarrow> snd out \<noteq> None | _ \<Rightarrow> False)"

lemma release_topology_step: "wp (release_topology E) (release_step (\<lambda>_ _. True) s) s"
  by (auto simp: release_step_def release_topology_def wp_simps split: prod.splits option.splits)

lemma release_memcached_step:
  assumes "finalizer_laws E"
  shows "wp (release_memcached E) (release_step (memcached_released E) s) s"
  by (simp add: release_step_def release_memcached_def memcached_released_def wp_simps split_beta Let_def
      finalizer_lawsD(5) [OF assms] split: option.splits sum.splits)

lemma release_database_step: "wp (release_database E) (release_step (database_released E) s) s"
  by (simp add: release_step_def release_database_def database_released_def wp_simps split: option.splits sum.splits)

lemma release_transport_step: "wp (release_transport E) (release_step (transport_released E) s) s"
  by (simp add: release_step_def release_transport_def transport_released_def Let_def wp_simps
      split: option.splits sum.splits)
lemma release_seq:
  assumes "wp m (release_step R s) s"
    and "\<And>t. inst t = inst s \<Longrightarrow> prefix (log s) (log t) \<Longrightarrow> R (inst s) (log t) \<Longrightarrow> wp (f ()) Q t"
    and "\<And>out t. snd out \<noteq> None \<Longrightarrow> inst t = inst s \<Longrightarrow> Q (Stop out) t"
  shows "wp (andThen m f) Q s"
  unfolding wp_andThen
  by (rule wp_mono [OF assms(1)]) (auto simp: release_step_def split: step.splits intro: assms(2,3))

lemma released_prefix:
  "memcached_released E i h \<Longrightarrow> prefix h h' \<Longrightarrow> memcached_released E i h'"
  "database_released E i h \<Longrightarrow> prefix h h' \<Longrightarrow> database_released E i h'"
  by (auto simp: prefix_def intro: released_append)

text \<open>What the deletion leaves: an object that kept its finalizers, or everything released before ours went.\<close>

definition delete_post :: "env \<Rightarrow> KeystoneAPI \<Rightarrow> unit step \<Rightarrow> KeystoneAPI st \<Rightarrow> bool" where
  "delete_post E i r t \<longleftrightarrow>
     (case r of
        Stop out \<Rightarrow> snd out \<noteq> None \<and> inst t = i
      | Go _ \<Rightarrow> inst t = i \<or> GetFinalizer E KindAPI \<notin> set (api_fins (inst t))
          \<and> memcached_released E i (log t) \<and> database_released E i (log t) \<and> transport_released E i (log t)
      | _ \<Rightarrow> False)"

lemma api_reconcileDelete_post:
  assumes "finalizer_laws E" "\<not> api_ExternalKeystoneAPI (api_spec (inst s))"
  shows "wp (api_reconcileDelete E) (delete_post E (inst s)) s"
proof (cases "list_ex (\<lambda>f. f \<noteq> GetFinalizer E KindAPI) (api_fins (inst s))")
  case True
  then show ?thesis using assms(2) by (simp add: api_reconcileDelete_def delete_post_def wp_simps)
next
  case False
  have stop: "snd out \<noteq> None \<Longrightarrow> inst t = inst s \<Longrightarrow> delete_post E (inst s) (Stop out) t" for out t
    by (simp add: delete_post_def)
  let ?drop = "\<lambda>_::unit. do { api_drop_finalizer E; ret (Go ()) }"
  let ?transport = "\<lambda>_::unit. andThen (release_transport E) ?drop"
  let ?database = "\<lambda>_::unit. andThen (release_database E) ?transport"
  let ?memcached = "\<lambda>_::unit. andThen (release_memcached E) ?database"
  have drop: "wp (?drop u) (delete_post E (inst s)) t"
    if "inst t = inst s" "memcached_released E (inst s) (log t)" "database_released E (inst s) (log t)"
      "transport_released E (inst s) (log t)" for t u
    using that by (simp add: wp_simps delete_post_def finalizer_lawsD(4) [OF assms(1)])
  have transport: "wp (?transport u) (delete_post E (inst s)) t"
    if "inst t = inst s" "memcached_released E (inst s) (log t)" "database_released E (inst s) (log t)" for t u
    using that by (intro release_seq [OF release_transport_step] drop stop) (auto intro: released_prefix)
  have database: "wp (?database u) (delete_post E (inst s)) t"
    if "inst t = inst s" "memcached_released E (inst s) (log t)" for t u
    using that by (intro release_seq [OF release_database_step] transport stop) (auto intro: released_prefix)
  have memcached: "wp (?memcached u) (delete_post E (inst s)) t" if "inst t = inst s" for t u
    using that by (intro release_seq [OF release_memcached_step [OF assms(1)]] database stop) auto
  have "wp (andThen (release_topology E) ?memcached) (delete_post E (inst s)) s"
    by (intro release_seq [OF release_topology_step] memcached stop) auto
  with False assms(2) show ?thesis by (simp add: api_reconcileDelete_def wp_simps)
qed
lemma transport_released_append: "transport_released E i h \<Longrightarrow> transport_released E i (h @ l)"
  unfolding transport_released_def Let_def
  by (auto elim!: answered_append [OF answered_mono] split: sum.splits intro: answered_append)

text \<open>The deferred patch changes conditions and appends one call.\<close>

lemma wp_api_deferred:
  assumes "\<And>out. r = Go out \<Longrightarrow> (\<And>res i. i = api_upd_conds (\<lambda>cs. condRestoreTimes E (ready_step E cs) saved) (inst s) \<Longrightarrow>
      Q (Go res) (s\<lparr>inst := i, log := log s @ [KPatchAPI i]\<rparr>))"
    and "\<And>out. r = Stop out \<Longrightarrow> Q (Stop out) s" "r = Panics \<Longrightarrow> Q Panics s" "r = Diverges \<Longrightarrow> Q Diverges s"
  shows "wp (api_deferred E saved r) Q s"
  using assms by (simp add: api_deferred_def deferred_def wp_simps split: step.split)

lemma upd_conds_api_frames [simp]:
  "api_spec (api_upd_conds f i) = api_spec i" "api_meta (api_upd_conds f i) = api_meta i"
  "apis_TransportURLSecret (api_status (api_upd_conds f i)) = apis_TransportURLSecret (api_status i)"
  "apis_Hash (api_status (api_upd_conds f i)) = apis_Hash (api_status i)"
  "apis_APIEndpoints (api_status (api_upd_conds f i)) = apis_APIEndpoints (api_status i)"
  "api_spec (api_map_status g i) = api_spec i" "api_meta (api_map_status g i) = api_meta i"
  "api_status (api_map_status g i) = g (api_status i)"
  "api_spec (api_set_finalizers fs i) = api_spec i" "api_status (api_set_finalizers fs i) = api_status i"
  "api_fins (api_upd_conds f i) = api_fins i" "api_fins (api_map_status g i) = api_fins i"
  "apis_TransportURLSecret (default_status st) = apis_TransportURLSecret st"
  by (simp_all add: conds_defs api_map_status_def api_fins_def api_set_finalizers_def default_status_def)

lemma released_cong:
  assumes "api_spec i = api_spec j" "api_meta i = api_meta j"
    and "apis_TransportURLSecret (api_status i) = apis_TransportURLSecret (api_status j)"
  shows "memcached_released E i = memcached_released E j" "database_released E i = database_released E j"
    "transport_released E i = transport_released E j"
  using assms
  by (simp_all add: memcached_released_def database_released_def transport_released_def transport_name_def fun_eq_iff)

section \<open>Which calls a handler makes\<close>

text \<open>\<open>only C m\<close>: every call \<open>m\<close> makes is in \<open>C\<close>, whatever it starts from.\<close>

definition extends :: "(call \<Rightarrow> bool) \<Rightarrow> history \<Rightarrow> history \<Rightarrow> bool" where
  "extends C h l \<longleftrightarrow> (\<exists>e. l = h @ e \<and> list_all C e)"

definition only :: "(call \<Rightarrow> bool) \<Rightarrow> ('i st, 'a) state \<Rightarrow> bool" where
  "only C m \<longleftrightarrow> (\<forall>h. keeps (extends C h) m)"

lemma extends_refl [simp]: "extends C h h"
  by (simp add: extends_def)

lemma extends_snoc: "extends C h l \<Longrightarrow> C c \<Longrightarrow> extends C h (l @ [c])"
  by (auto simp: extends_def)

lemma onlyI: "(\<And>h. keeps (extends C h) m) \<Longrightarrow> only C m"
  by (simp add: only_def)

lemma only_keeps [inv_intros]: "only C m \<Longrightarrow> keeps (extends C h) m"
  by (simp add: only_def)

lemma onlyD: "only C m \<Longrightarrow> run_state m s = (a, t) \<Longrightarrow> extends C (log s) (log t)"
  unfolding only_def by (auto dest!: spec [of _ "log s"] hoareD)

lemma extends_trans: "extends D h k \<Longrightarrow> extends C k l \<Longrightarrow> (\<And>c. C c \<Longrightarrow> D c) \<Longrightarrow> extends D h l"
  by (auto simp: extends_def list_all_iff)

lemma only_mono:
  assumes "only C m" "\<And>c. C c \<Longrightarrow> D c"
  shows "only D m"
proof (intro onlyI hoareI wp_runI)
  fix h s a t assume h: "extends D h (log s)" and run: "run_state m s = (a, t)"
  show "extends D h (log t)" by (rule extends_trans [OF h onlyD [OF assms(1) run]]) (rule assms(2))
qed

text \<open>The structural rules, with one obligation for each call.\<close>

named_theorems only_intros \<open>structural rules for \<open>only\<close>\<close>

lemma only_perform [only_intros]: "C c \<Longrightarrow> only C (perform c r)"
  by (rule onlyI, rule inv_perform) (simp add: extends_snoc)

lemma only_upd_inst [only_intros]: "only C (upd_inst f)"
  by (rule onlyI, rule inv_upd_inst) simp

lemma only_ret [only_intros]: "only C (ret a)"
  by (rule onlyI, rule inv_ret)

lemma only_get_inst [only_intros]: "only C get_inst"
  by (rule onlyI, rule inv_get_inst)

lemma only_get [only_intros]: "only C State_Monad.get"
  by (simp add: only_def hoare_def wp_def)

lemma only_bind [only_intros]: "only C m \<Longrightarrow> (\<And>a. only C (f a)) \<Longrightarrow> only C (State_Monad.bind m f)"
  unfolding only_def by (blast intro: inv_bind)

lemma only_andThen [only_intros]: "only C m \<Longrightarrow> (\<And>a. only C (f a)) \<Longrightarrow> only C (andThen m f)"
  unfolding only_def by (blast intro: inv_andThen)

lemma only_cases [only_intros]:
  "only C m \<Longrightarrow> only C n \<Longrightarrow> only C (if b then m else n)"
  "only C m \<Longrightarrow> (\<And>a. only C (f a)) \<Longrightarrow> only C (case x of None \<Rightarrow> m | Some a \<Rightarrow> f a)"
  "(\<And>a. only C (g a)) \<Longrightarrow> (\<And>b. only C (k b)) \<Longrightarrow> only C (case y of Inl a \<Rightarrow> g a | Inr b \<Rightarrow> k b)"
  "(\<And>a b. only C (p a b)) \<Longrightarrow> only C (case z of (a, b) \<Rightarrow> p a b)"
  "(\<And>a. only C (q a)) \<Longrightarrow> only C (let a = v in q a)"
  "only C m \<Longrightarrow> (\<And>a as. only C (u a as)) \<Longrightarrow> only C (case xs of [] \<Rightarrow> m | a # as \<Rightarrow> u a as)"
  by (simp_all split: option.split sum.split prod.split list.split)

lemma only_fernet_outcome [only_intros]:
  "(\<And>e. only C (f e)) \<Longrightarrow> only C m \<Longrightarrow> only C n \<Longrightarrow>
    only C (case x of Done e \<Rightarrow> f e | Panic \<Rightarrow> m | Diverge \<Rightarrow> n)"
  by (simp split: fernet_outcome.split)

lemma only_api_conditions [only_intros]:
  "only C (api_false E t r sev m)" "only C (api_true E t m)" "only C (api_drop_finalizer E)"
  "only C (failed E t n res e)" "only C (waiting E t r sev m res)"
  unfolding api_false_def api_true_def api_drop_finalizer_def failed_def waiting_def by (intro only_intros)+

section \<open>Calls of the KeystoneAPI controller\<close>

text \<open>The loop that adds keys only draws randomness.\<close>

definition drawn :: "'i st \<Rightarrow> 'i st \<Rightarrow> bool" where
  "drawn s t \<longleftrightarrow> inst t = inst s \<and> extends (\<lambda>c. c = RandRead 32) (log s) (log t)"

lemma drawn_refl [simp]: "drawn s s"
  by (simp add: drawn_def)

lemma drawn_trans: "drawn s t \<Longrightarrow> drawn t u \<Longrightarrow> drawn s u"
  by (auto simp: drawn_def intro: extends_trans)

lemma GenerateFernetKey_drawn: "run_state (GenerateFernetKey E) s = (r, t) \<Longrightarrow> drawn s t"
  by (auto simp: GenerateFernetKey_def drawn_def extends_def split: sum.splits)

lemma add_missing_drawn:
  assumes "add_missing E k d ch s = Some (r, t)"
  shows "drawn s t"
proof -
  have "drawn s (snd (r, t))"
  proof (rule add_missing.raw_induct [where P = "\<lambda>E k d ch s y. drawn s (snd y)", OF _ assms])
    fix am E k d ch and s :: "'a st" and y
    assume IH: "\<And>E k d ch (s :: 'a st) y. am E k d ch s = Some y \<Longrightarrow> drawn s (snd y)"
      and step: "(if has_key d k then Some (Inr (d, ch), s)
        else case run_state (GenerateFernetKey E) s of
               (Inl err, t) \<Rightarrow> Some (Inl err, t)
             | (Inr fernetKey, t) \<Rightarrow> am E k (shift_up d 1 fernetKey) True t) = Some y"
    show "drawn s (snd y)"
      using step by (auto dest: IH GenerateFernetKey_drawn intro: drawn_trans split: if_splits prod.splits sum.splits)
  qed
  then show ?thesis by simp
qed
lemma only_add_missing [only_intros]:
  assumes "C (RandRead 32)" "\<And>r. only C (f r)" "only C m"
  shows "only C (do { s \<leftarrow> State_Monad.get;
      case add_missing E k d ch s of None \<Rightarrow> m | Some (r, t) \<Rightarrow> do { State_Monad.set t; f r } })"
proof (intro onlyI hoareI)
  fix h and s :: "'a st" assume h: "extends C h (log s)"
  show "wp (do { s \<leftarrow> State_Monad.get;
      case add_missing E k d ch s of None \<Rightarrow> m | Some (r, t) \<Rightarrow> do { State_Monad.set t; f r } })
      (\<lambda>_ s. extends C h (log s)) s"
  proof (cases "add_missing E k d ch s")
    case None
    then show ?thesis
      using hoare_wp [OF only_keeps [OF assms(3)], OF h] by (simp add: wp_def)
  next
    case (Some rt)
    obtain r t where rt: "rt = (r, t)" by force
    have "extends (\<lambda>c. c = RandRead 32) (log s) (log t)"
      using add_missing_drawn Some rt unfolding drawn_def by blast
    then have "extends C h (log t)" by (rule extends_trans [OF h]) (simp add: assms(1))
    then have "wp (f r) (\<lambda>_ s. extends C h (log s)) t"
      by (rule hoare_wp [OF only_keeps [OF assms(2)]])
    then show ?thesis using Some rt by (simp add: wp_def)
  qed
qed

lemma only_generate_keys:
  assumes "C (RandRead 32)"
  shows "only C (GenerateFernetKey E)" "only C (generate_keys E n i m)"
proof -
  show g: "only C (GenerateFernetKey E)" for E
    unfolding GenerateFernetKey_def by (intro only_intros assms)
  show "only C (generate_keys E n i m)"
    by (induction n arbitrary: i m) (simp_all, (intro only_intros g; simp)+)
qed

lemma only_ensureFernetKeys:
  assumes "C (RandRead 32)" "C TimeNow" "\<And>ns. C (KGetSecret ns ServiceName)" "\<And>s. C (KUpdateSecret s)" "\<And>t. C (EnsureSecrets t)"
  shows "only C (ensureFernetKeys E)"
  unfolding ensureFernetKeys_def create_fernet_secret_def rotate_fernet_secret_def resize_and_update_def stage_new_key_def
  by (intro only_intros only_generate_keys assms)

section \<open>Nothing is deployed before what it uses is protected\<close>

text \<open>The calls that run Keystone: jobs, services, the deployment and the cron job.\<close>

fun deploys :: "call \<Rightarrow> bool" where
  "deploys (Cluster (DoJob _ _ _ _ _)) = True"
| "deploys (Cluster (CreateOrPatchService _)) = True"
| "deploys (Cluster (CreateOrPatchDeployment _)) = True"
| "deploys (Cluster (CreateOrPatchCronJob _)) = True"
| "deploys _ = False"

lemma only_prepare:
  "only (\<lambda>c. \<not> deploys c) (verifySecret E vars)" "only (\<lambda>c. \<not> deploys c) (ensureDB E)"
  "only (\<lambda>c. \<not> deploys c) (ensure_transport E ls)" "only (\<lambda>c. \<not> deploys c) (ensure_memcached E)"
  "only (\<lambda>c. \<not> deploys c) (generateServiceConfigMaps E vars mc db n)" "only (\<lambda>c. \<not> deploys c) (ensure_keys E vars)"
  "only (\<lambda>c. \<not> deploys c) (ensureFederationRealmConfig E vars)" "only (\<lambda>c. \<not> deploys c) (service_config E r)"
  unfolding verifySecret_def ensureDB_def ensure_transport_def transportURLCreateOrUpdate_def ensure_memcached_def
    generateServiceConfigMaps_def override_data_def ensure_secrets_def ensure_keys_def ensureFederationRealmConfig_def
    service_config_def Let_def
  by ((intro only_intros only_ensureFernetKeys; simp)+)
definition memcached_protected :: "env \<Rightarrow> KeystoneAPI \<Rightarrow> history \<Rightarrow> bool" where
  "memcached_protected E i h \<longleftrightarrow> answered (\<lambda>g. case rMemcached (cl E) g of
       Inl err \<Rightarrow> False
     | Inr mc \<Rightarrow> GetFinalizer E KindAPI \<in> set (om_finalizers (mc_meta mc)) \<or>
         succeeded E (KUpdateMemcached (mc_set_finalizers
           (fst (AddFinalizer E (om_finalizers (mc_meta mc)) (GetFinalizer E KindAPI))) mc)) h)
     (Cluster (GetMemcachedByName (api_MemcachedInstance (api_spec i)) (om_namespace (api_meta i)))) h"

definition transport_protected :: "env \<Rightarrow> KeystoneAPI \<Rightarrow> history \<Rightarrow> bool" where
  "transport_protected E i h \<longleftrightarrow> (\<exists>n. n \<noteq> '''' \<and>
     answered (\<lambda>g. rTransportURL (cl E) g = Inr n) (Cluster (CreateOrUpdateTransportURL (transport_name i)
       (om_namespace (api_meta i)) (serviceLabels_of E i) (transport_spec_of (api_spec i)))) h \<and>
     succeeded E (ManageSecretConsumerFinalizer (om_namespace (api_meta i)) n TransportConsumerFinalizer) h)"

definition protected :: "env \<Rightarrow> KeystoneAPI \<Rightarrow> history \<Rightarrow> bool" where
  "protected E i h \<longleftrightarrow> memcached_protected E i h \<and> transport_protected E i h"

lemma protected_append:
  "memcached_protected E i h \<Longrightarrow> memcached_protected E i (h @ l)"
  "transport_protected E i h \<Longrightarrow> transport_protected E i (h @ l)"
  unfolding memcached_protected_def transport_protected_def
  by (erule answered_append [OF answered_mono]; auto split: sum.splits intro: answered_append)
    (blast intro: answered_append)

lemma protected_more: "protected E i h \<Longrightarrow> protected E i (h @ l)"
  by (simp add: protected_def protected_append)

text \<open>The object a run works on keeps the spec and the identity it was read with.\<close>

definition same_object :: "KeystoneAPI \<Rightarrow> KeystoneAPI \<Rightarrow> bool" where
  "same_object i j \<longleftrightarrow> api_spec j = api_spec i \<and> om_name (api_meta j) = om_name (api_meta i)
     \<and> om_namespace (api_meta j) = om_namespace (api_meta i)"

lemma same_object_simps [simp]:
  "same_object i i" "same_object i (api_upd_conds f j) = same_object i j"
  "same_object i (api_map_status g j) = same_object i j"
  "same_object i (api_set_finalizers fs j) = same_object i j"
  by (simp_all add: same_object_def api_set_finalizers_def)

lemma protected_same:
  "same_object i j \<Longrightarrow> memcached_protected E j = memcached_protected E i"
  "same_object i j \<Longrightarrow> transport_protected E j = transport_protected E i"
  "same_object i j \<Longrightarrow> serviceLabels_of E j = serviceLabels_of E i"
  by (simp_all add: same_object_def memcached_protected_def transport_protected_def transport_name_def
      serviceLabels_of_def fun_eq_iff)
text \<open>Predicates on the object alone.\<close>

abbreviation keeps_inst :: "('i \<Rightarrow> bool) \<Rightarrow> ('i st, 'a) state \<Rightarrow> bool" where
  "keeps_inst P m \<equiv> inv (\<lambda>s. P (inst s)) m"

lemma inv_get [inv_intros]: "inv J State_Monad.get"
  by (simp add: hoare_def wp_def)

lemma inv_add_missing:
  assumes "\<And>r. keeps_inst P (f r)" "keeps_inst P m"
  shows "keeps_inst P (do { s \<leftarrow> State_Monad.get;
      case add_missing E k d ch s of None \<Rightarrow> m | Some (r, t) \<Rightarrow> do { State_Monad.set t; f r } })"
proof (rule hoareI)
  fix s :: "'a st" assume s: "P (inst s)"
  show "wp (do { s \<leftarrow> State_Monad.get;
      case add_missing E k d ch s of None \<Rightarrow> m | Some (r, t) \<Rightarrow> do { State_Monad.set t; f r } })
      (\<lambda>_ s. P (inst s)) s"
  proof (cases "add_missing E k d ch s")
    case None
    then show ?thesis using hoare_wp [OF assms(2), OF s] by (simp add: wp_def)
  next
    case (Some rt)
    obtain r t where rt: "rt = (r, t)" by force
    have "inst t = inst s" using add_missing_drawn Some rt unfolding drawn_def by blast
    with s have "wp (f r) (\<lambda>_ s. P (inst s)) t" by (intro hoare_wp [OF assms(1)]) simp
    then show ?thesis using Some rt by (simp add: wp_def)
  qed
qed

lemma inv_fernet_outcome [inv_intros]:
  "(\<And>e. inv J (f e)) \<Longrightarrow> inv J m \<Longrightarrow> inv J n \<Longrightarrow> inv J (case x of Done e \<Rightarrow> f e | Panic \<Rightarrow> m | Diverge \<Rightarrow> n)"
  by (simp split: fernet_outcome.split)

lemma inst_generate_keys: "keeps_inst P (GenerateFernetKey E)" "keeps_inst P (generate_keys E n i m)"
proof -
  show g: "keeps_inst P (GenerateFernetKey E)" for E
    unfolding GenerateFernetKey_def by (intro inv_intros; simp)
  show "keeps_inst P (generate_keys E n i m)"
    by (induction n arbitrary: i m) (simp_all, (intro inv_intros g; simp)+)
qed

lemma inst_ensureFernetKeys: "keeps_inst P (ensureFernetKeys E)"
  unfolding ensureFernetKeys_def create_fernet_secret_def rotate_fernet_secret_def resize_and_update_def stage_new_key_def
  by (intro inv_add_missing inv_intros inst_generate_keys; simp)

lemmas api_cond_defs = api_false_def api_true_def failed_def waiting_def

lemmas prepare_defs = verifySecret_def ensureDB_def ensure_transport_def transportURLCreateOrUpdate_def ensure_memcached_def
    generateServiceConfigMaps_def override_data_def ensure_secrets_def ensure_keys_def ensureFederationRealmConfig_def
    service_config_def

text \<open>What a run cannot change of the object: all but status and finalizers, and the finalizers too where only the status changes.\<close>

definition status_blind :: "(KeystoneAPI \<Rightarrow> bool) \<Rightarrow> bool" where
  "status_blind P \<longleftrightarrow> (\<forall>f j. P (api_upd_conds f j) = P j) \<and> (\<forall>g j. P (api_map_status g j) = P j)"

lemma status_blindD:
  "status_blind P \<Longrightarrow> P (api_upd_conds f j) = P j" "status_blind P \<Longrightarrow> P (api_map_status g j) = P j"
  by (simp_all add: status_blind_def)

lemma blind_prepare:
  assumes "status_blind P"
  shows "keeps_inst P (verifySecret E vars)" "keeps_inst P (ensureDB E)"
    "keeps_inst P (ensure_transport E ls)" "keeps_inst P (ensure_memcached E)"
    "keeps_inst P (generateServiceConfigMaps E vars mc db n)" "keeps_inst P (ensure_keys E vars)"
    "keeps_inst P (ensureFederationRealmConfig E vars)" "keeps_inst P (service_config E r)"
  unfolding prepare_defs api_cond_defs Let_def
  by (intro inv_intros inst_ensureFernetKeys; simp add: status_blindD [OF assms])+

lemma blind_same: "status_blind (same_object i)"
  by (simp add: status_blind_def)

lemmas same_prepare = blind_prepare [OF blind_same]

text \<open>The run so far has deployed nothing unprotected.\<close>

abbreviation calm :: "env \<Rightarrow> KeystoneAPI \<Rightarrow> KeystoneAPI st \<Rightarrow> bool" where
  "calm E i s \<equiv> guarded deploys (protected E i) (log s) \<and> same_object i (inst s)"

lemma guarded_extends: "guarded D G h \<Longrightarrow> extends (\<lambda>c. \<not> D c) h l \<Longrightarrow> guarded D G l"
  unfolding extends_def
proof (safe, goal_cases)
  case (1 e)
  from 1(2) show ?case
    by (induction e rule: rev_induct) (simp_all add: 1(1) flip: append_assoc)
qed

lemma guarded_none: "list_all (\<lambda>c. \<not> D c) l \<Longrightarrow> guarded D G l"
  by (rule guarded_extends [of D G "[]"]) (simp_all add: extends_def)

text \<open>A fact about the history that later calls do not undo.\<close>

definition stable :: "(history \<Rightarrow> bool) \<Rightarrow> bool" where
  "stable X \<longleftrightarrow> (\<forall>h l. X h \<longrightarrow> X (h @ l))"

lemma stable_facts [simp]:
  "stable (\<lambda>_. True)" "stable (protected E i)" "stable (memcached_protected E i)" "stable (transport_protected E i)"
  by (simp_all add: stable_def protected_more protected_append)

lemma calm_inv:
  assumes "only (\<lambda>c. \<not> deploys c) m" "keeps_inst (same_object i) m" "stable X"
  shows "inv (\<lambda>s. calm E i s \<and> X (log s)) m"
proof (intro hoareI wp_runI)
  fix s a t assume s: "calm E i s \<and> X (log s)" and run: "run_state m s = (a, t)"
  have "extends (\<lambda>c. \<not> deploys c) (log s) (log t)" by (rule onlyD [OF assms(1) run])
  moreover have "same_object i (inst t)" using hoareD [OF assms(2) run] s by simp
  ultimately show "calm E i t \<and> X (log t)"
    using s assms(3) by (auto simp: extends_def stable_def intro: guarded_extends [unfolded extends_def])
qed

text \<open>Once protected, every later call is.\<close>

lemma protected_inv:
  assumes "only (\<lambda>_. True) m"
  shows "inv (\<lambda>s. guarded deploys (protected E i) (log s) \<and> protected E i (log s)) m"
proof (intro hoareI wp_runI)
  fix s a t assume s: "guarded deploys (protected E i) (log s) \<and> protected E i (log s)" and run: "run_state m s = (a, t)"
  obtain e where t: "log t = log s @ e" using onlyD [OF assms run] by (auto simp: extends_def)
  have "guarded deploys (protected E i) (log s @ e) \<and> protected E i (log s @ e)"
    using s by (induction e rule: rev_induct) (simp_all add: protected_more flip: append_assoc)
  with t show "guarded deploys (protected E i) (log t) \<and> protected E i (log t)" by simp
qed

text \<open>The two protections, and the run up to the hash of the inputs.\<close>

lemma ensure_transport_protects:
  assumes "same_object i (inst s)"
  shows "wp (ensure_transport E (serviceLabels_of E i)) (\<lambda>r t. \<forall>a. r = Go a \<longrightarrow> transport_protected E i (log t)) s"
  using assms
  by (simp add: ensure_transport_def transportURLCreateOrUpdate_def failed_def waiting_def wp_simps
      split: sum.splits option.splits)
    (auto simp: transport_protected_def same_object_def transport_name_def)

lemma ensure_memcached_protects:
  assumes "finalizer_laws E" "same_object i (inst s)"
  shows "wp (ensure_memcached E) (\<lambda>r t. \<forall>a. r = Go a \<longrightarrow> memcached_protected E i (log t)) s"
  using assms(2)
  by (simp add: ensure_memcached_def failed_def waiting_def wp_simps split_beta Let_def
      finalizer_lawsD(2) [OF assms(1)] split: sum.splits option.splits)
    (auto simp: memcached_protected_def same_object_def split: sum.splits)
abbreviation upto :: "env \<Rightarrow> KeystoneAPI \<Rightarrow> (history \<Rightarrow> bool) \<Rightarrow> 'a step \<Rightarrow> KeystoneAPI st \<Rightarrow> bool" where
  "upto E i X r s \<equiv> calm E i s \<and> (\<forall>a. r = Go a \<longrightarrow> X (log s))"

lemma upto_andThen:
  assumes "hoare P m (upto E i X)" "\<And>a. hoare (\<lambda>s. calm E i s \<and> X (log s)) (f a) (upto E i Y)"
  shows "hoare P (andThen m f) (upto E i Y)"
  by (rule hoare_andThen [OF _ assms(2)], rule hoare_weaken [OF assms(1)]) (auto split: step.split)

lemma upto_keep:
  assumes "only (\<lambda>c. \<not> deploys c) m" "keeps_inst (same_object i) m" "stable X"
  shows "hoare (\<lambda>s. calm E i s \<and> X (log s)) m (upto E i X)"
  by (rule hoare_weaken [OF calm_inv [OF assms]]) auto

lemma upto_add:
  assumes "only (\<lambda>c. \<not> deploys c) m" "keeps_inst (same_object i) m" "stable X"
    and "\<And>s. same_object i (inst s) \<Longrightarrow> wp m (\<lambda>r t. \<forall>a. r = Go a \<longrightarrow> Y (log t)) s"
  shows "hoare (\<lambda>s. calm E i s \<and> X (log s)) m (upto E i (\<lambda>h. X h \<and> Y h))"
proof (rule hoareI)
  fix s assume s: "calm E i s \<and> X (log s)"
  then have "wp m (upto E i X) s" by (intro hoare_wp [OF upto_keep [OF assms(1-3)]])
  with s assms(4) [of s] show "wp m (upto E i (\<lambda>h. X h \<and> Y h)) s" by (auto simp: wp_def split: prod.splits)
qed

lemma prepare_inputs_calm:
  assumes "finalizer_laws E"
  shows "hoare (calm E i) (prepare_inputs E) (upto E i (protected E i))"
proof -
  have seq: "hoare (\<lambda>s. calm E i s \<and> protected E i (log s)) (do { r \<leftarrow> m; service_config E r }) (upto E i (protected E i))"
    if "only (\<lambda>c. \<not> deploys c) m" "keeps_inst (same_object i) m" for m :: "(KeystoneAPI st, error + 'a) state"
    by (intro upto_keep only_intros inv_intros that only_prepare same_prepare stable_facts)
  have mc: "hoare (\<lambda>s. calm E i s \<and> transport_protected E i (log s)) (ensure_memcached E) (upto E i (protected E i))"
    by (rule hoare_weaken, rule upto_add [where X = "transport_protected E i" and Y = "memcached_protected E i"],
        rule only_prepare, rule same_prepare, simp, erule ensure_memcached_protects [OF assms])
      (auto simp: protected_def)
  have tr: "hoare (\<lambda>s. calm E i s \<and> True) (ensure_transport E (serviceLabels_of E i)) (upto E i (transport_protected E i))"
    by (rule hoare_weaken, rule upto_add [where X = "\<lambda>_. True" and Y = "transport_protected E i"],
        rule only_prepare, rule same_prepare, simp, erule ensure_transport_protects) auto
  have db: "hoare (\<lambda>s. calm E i s \<and> True) (ensureDB E) (upto E i (\<lambda>_. True))"
    by (intro upto_keep only_prepare same_prepare stable_facts)
  have keys: "hoare (\<lambda>s. calm E i s \<and> protected E i (log s)) (ensure_keys E vars) (upto E i (protected E i))" for vars
    by (intro upto_keep only_prepare same_prepare stable_facts)
  have built: "hoare (\<lambda>s. calm E i s \<and> protected E i (log s)) (ret (Go x)) (upto E i (protected E i))" for x :: inputs
    by (rule hoare_ret) simp
  have tail: "hoare (\<lambda>s. calm E i s \<and> True) (andThen (ensureDB E) (\<lambda>db.
       andThen (ensure_transport E (serviceLabels_of E i)) (\<lambda>currentTransportSecret.
       andThen (ensure_memcached E) (\<lambda>mc.
       andThen (do { r \<leftarrow> generateServiceConfigMaps E vs mc db currentTransportSecret; service_config E r })
         (\<lambda>(customConfigKeys, va).
       andThen (ensure_keys E va) (\<lambda>vb.
       andThen (do { r \<leftarrow> ensureFederationRealmConfig E vb; service_config E r })
         (\<lambda>(federationFilenames, vc).
       ret (Go \<lparr>in_serviceLabels = serviceLabels_of E i, in_transportSecret = currentTransportSecret, in_memcached = mc,
         in_customConfigKeys = customConfigKeys, in_federationFilenames = federationFilenames, in_vars = vc\<rparr>))))))))
     (upto E i (protected E i))" for vs
    unfolding split_beta
    by (rule upto_andThen [OF db], rule upto_andThen [OF tr], rule upto_andThen [OF mc],
        rule upto_andThen [OF seq [OF only_prepare(5) same_prepare(5)]], rule upto_andThen [OF keys],
        rule upto_andThen [OF seq [OF only_prepare(7) same_prepare(7)]], rule built)
  have top: "hoare (\<lambda>s. calm E i s \<and> True) (verifySecret E []) (upto E i (\<lambda>_. True))"
    by (intro upto_keep only_prepare same_prepare stable_facts)
  have ready: "hoare (\<lambda>s. calm E i s \<and> True) (api_true E t m) (\<lambda>_ s. calm E i s \<and> True)" for t m
    unfolding api_true_def by (rule inv_upd_inst) simp
  have main: "hoare (\<lambda>s. calm E i s \<and> inst s = j) (andThen (verifySecret E []) (\<lambda>vars0. do {
       api_true E InputReadyCondition (LibMsg ''InputReadyMessage'' []);
       andThen (ensureDB E) (\<lambda>db.
       andThen (ensure_transport E (serviceLabels_of E j)) (\<lambda>currentTransportSecret.
       andThen (ensure_memcached E) (\<lambda>mc.
       andThen (do { r \<leftarrow> generateServiceConfigMaps E vars0 mc db currentTransportSecret; service_config E r })
         (\<lambda>(customConfigKeys, vars1).
       andThen (ensure_keys E vars1) (\<lambda>vars2.
       andThen (do { r \<leftarrow> ensureFederationRealmConfig E vars2; service_config E r })
         (\<lambda>(federationFilenames, vars3).
       ret (Go \<lparr>in_serviceLabels = serviceLabels_of E j, in_transportSecret = currentTransportSecret, in_memcached = mc,
         in_customConfigKeys = customConfigKeys, in_federationFilenames = federationFilenames, in_vars = vars3\<rparr>)))))))
     })) (upto E i (protected E i))" if "same_object i j" for j
    unfolding protected_same(3) [OF that]
    by (rule upto_andThen [where X = "\<lambda>_. True"], rule hoare_weaken [OF top],
        use that in simp, assumption,
        rule hoare_bind [OF ready], rule tail)
  show ?thesis
    unfolding prepare_inputs_def Let_def by (rule hoare_get_inst_bind [where K = "same_object i"], erule main) simp
qed
text \<open>The later stages, and the runs that deploy nothing.\<close>

lemma only_networks: "only C (networks E ns nas l)" if "\<And>n ns. C (Cluster (GetNADWithName n ns))"
  by (induction nas arbitrary: l) (auto intro!: only_intros that)

lemma only_create_services: "only (\<lambda>_. True) (create_services E i ls eps m)"
  by (induction eps arbitrary: m) (auto simp: create_service_def Let_def intro!: only_intros)

lemma only_run_job: "only (\<lambda>_. True) (run_job E j n t m)"
  unfolding run_job_def case_prod_unfold by (intro only_intros; simp)

lemma only_deploy:
  "only (\<lambda>_. True) (deploy E d)"
  by (cases d) (auto simp: deploy_def split: sum.split intro!: only_intros)

lemma only_run_service: "only (\<lambda>_. True) (run_service E inp h)"
  unfolding run_service_def network_annotations_def reconcileInit_def bootstrap_def reconcile_rbac_def expose_services_def
    update_and_upgrade_def reconcileUpdate_def reconcileUpgrade_def ensure_topology_def verify_networks_def
    check_deployment_def ensure_cron_job_def
  by (intro only_intros only_networks only_create_services only_run_job only_deploy; simp)

lemma only_hash_inputs: "only (\<lambda>c. \<not> deploys c) (hash_inputs E vars)"
  unfolding hash_inputs_def checkTLSInput_def verifyTLSInput_def validate_certs_def createHashOfInputHashes_def Let_def
  by (intro only_intros; simp)

lemma only_cloud: "only (\<lambda>c. \<not> deploys c) (reconcileCloudConfig E)"
  unfolding reconcileCloudConfig_def client_secret_def Let_def by (intro only_intros; simp)

lemma only_finish: "only (\<lambda>c. \<not> deploys c) (finish_rotation E n)"
  unfolding finish_rotation_def Let_def by (intro only_intros; simp)

lemma only_delete: "only (\<lambda>c. \<not> deploys c) (api_reconcileDelete E)"
  unfolding api_reconcileDelete_def release_defs Let_def by (intro only_intros; simp)

lemma only_external: "only (\<lambda>c. \<not> deploys c) (reconcileExternalKeystoneAPI E)"
  unfolding reconcileExternalKeystoneAPI_def checkTLSInput_def verifyTLSInput_def Let_def
  by (intro only_intros only_cloud only_prepare; simp)

lemma only_api_deferred: "only (\<lambda>c. \<not> deploys c) (api_deferred E saved r)"
  by (cases r) (auto simp: api_deferred_def deferred_def intro!: only_intros)

lemma guarded_only:
  assumes "only (\<lambda>c. \<not> deploys c) m"
  shows "keeps (guarded deploys G) m"
  by (intro hoareI wp_runI) (rule guarded_extends [OF _ onlyD [OF assms]])

lemma reconcileNormal_guarded:
  assumes "finalizer_laws E"
  shows "hoare (calm E i) (api_reconcileNormal E) (\<lambda>_ s. guarded deploys (protected E i) (log s))"
proof -
  let ?later = "\<lambda>inp. andThen (hash_inputs E (in_vars inp)) (\<lambda>inputHash.
     andThen (run_service E inp inputHash) (\<lambda>_.
     andThen (do { e \<leftarrow> reconcileCloudConfig E; ret (check_err e) }) (\<lambda>_.
     finish_rotation E (in_transportSecret inp))))"
  have "only (\<lambda>_. True) (?later inp)" for inp
    by (intro only_intros only_run_service only_mono [OF only_hash_inputs] only_mono [OF only_cloud]
        only_mono [OF only_finish] TrueI)
  then have "hoare (\<lambda>s. calm E i s \<and> protected E i (log s)) (?later inp) (\<lambda>_ s. guarded deploys (protected E i) (log s))" for inp
    by (intro hoare_weaken [OF protected_inv [of "?later inp" E i]]) auto
  note later = this
  have "hoare (calm E i) (prepare_inputs E) (\<lambda>r s. case r of Go a \<Rightarrow> calm E i s \<and> protected E i (log s)
      | Stop out \<Rightarrow> guarded deploys (protected E i) (log s) | Panics \<Rightarrow> guarded deploys (protected E i) (log s)
      | Diverges \<Rightarrow> guarded deploys (protected E i) (log s))"
    by (rule hoare_weaken [OF prepare_inputs_calm [OF assms]]) (auto split: step.split)
  then show ?thesis
    unfolding api_reconcileNormal_def by (rule hoare_andThen) (rule later)
qed

text \<open>
  C3: in every run of the KeystoneAPI controller, before the first job, service, deployment or cron job
  is created, memcached carries our finalizer and the secret the transport URL names carries our consumer
  finalizer, so neither can be deleted under a running Keystone.
\<close>
theorem api_deploys_protected:
  assumes "finalizer_laws E" "rGetAPI E [KGet KindAPI ns name] = Inr i"
    and "run_state (api_Reconcile E ns name) (start x) = (r, t)"
    and "log t = pre @ c # post" "deploys c"
  shows "protected E i pre"
proof -
  let ?G = "\<lambda>_ s. guarded deploys (protected E i) (log s)"
  have dispatch: "hoare (calm E i) (api_dispatch E) ?G"
    unfolding api_dispatch_def
    by (rule hoare_get_inst_bind [where K = "\<lambda>_. True"], intro hoare_if)
      (auto intro: hoare_weaken [OF guarded_only] only_delete only_external hoare_weaken [OF reconcileNormal_guarded [OF assms(1)]])
  have body: "hoare (calm E i) (api_body E) ?G"
    by (rule hoareI) (auto simp: api_body_def wp_simps Let_def intro!: hoare_wp [OF dispatch] split: prod.split)
  have deferred: "hoare (calm E i) (do { out \<leftarrow> api_body E; api_deferred E saved (returned out) }) ?G" for saved
    by (rule hoare_bind [OF body guarded_only [OF only_api_deferred]])
  have "wp (api_Reconcile E ns name) ?G (start x)"
    using assms(2) hoare_wp [OF deferred]
    by (simp add: api_Reconcile_def wp_simps guarded_none split: option.split)
  then have "guarded deploys (protected E i) (log t)" using assms(3) by (simp add: wp_def)
  then show ?thesis using assms(4,5) by (rule guardedD)
qed
section \<open>Ready means checked in this run\<close>

text \<open>
  What \<open>Conditions.Init\<close> and \<open>ReconcileRbac\<close> do to conditions: the first sets every condition of
  the list (the code comment says so of Ready), the second sets its own three.
\<close>

definition init_law :: "env \<Rightarrow> bool" where
  "init_law E \<longleftrightarrow> (\<forall>cs init c. distinct (map c_type init) \<longrightarrow> c \<in> set init \<longrightarrow>
     cond_at (condInit E cs init) (c_type c) = Some c)"

definition rbac_law :: "env \<Rightarrow> bool" where
  "rbac_law E \<longleftrightarrow> (\<forall>h c. c \<in> set (rRbacConditions (cl E) h) \<longrightarrow> c_type c \<in> {OtherCondition ''ServiceAccountReadyCondition'',
     OtherCondition ''RoleReadyCondition'', OtherCondition ''RoleBindingReadyCondition''})"

definition not_ready :: "KeystoneAPI \<Rightarrow> bool" where
  "not_ready i \<longleftrightarrow> (\<exists>c. cond_at (api_conds i) DeploymentReadyCondition = Some c \<and> c_status c \<noteq> CTrue)"

lemma api_conds_map_status [simp]: "apis_Conditions (g (api_status i)) = apis_Conditions (api_status i) \<Longrightarrow>
    api_conds (api_map_status g i) = api_conds i"
  by (simp add: api_conds_def api_map_status_def)

lemma api_conds_default [simp]: "apis_Conditions (default_status st) = apis_Conditions st"
  by (simp add: default_status_def)

lemma api_conds_set_finalizers [simp]: "api_conds (api_set_finalizers fs i) = api_conds i"
  by (simp add: api_conds_def api_set_finalizers_def)

lemma not_ready_status [simp]:
  "apis_Conditions (g (api_status i)) = apis_Conditions (api_status i) \<Longrightarrow> not_ready (api_map_status g i) = not_ready i"
  "not_ready (api_set_finalizers fs i) = not_ready i"
  by (simp_all add: not_ready_def)

lemma cond_at_condSet:
  "condition_laws E \<Longrightarrow> cond_at (condSet E (Some c) cs) u = (if u = c_type c then Some c else cond_at cs u)"
  by (simp add: condition_lawsD(5,6))

lemma not_ready_false:
  assumes "condition_laws E" "not_ready i"
  shows "not_ready (api_upd_conds (condSet E (FalseCondition t r sev m)) i)"
  using assms(2) by (auto simp: not_ready_def FalseCondition_def cond_at_condSet [OF assms(1)])

lemma not_ready_true:
  "condition_laws E \<Longrightarrow> t \<noteq> DeploymentReadyCondition \<Longrightarrow> not_ready i \<Longrightarrow> not_ready (api_upd_conds (condMarkTrue E t m) i)"
  using condition_lawsD(2) [of E DeploymentReadyCondition t m "api_conds i"] by (simp add: not_ready_def)

lemma not_ready_rbac:
  assumes "condition_laws E" "rbac_law E" "not_ready i"
  shows "not_ready (foldl (\<lambda>j c. RbacConditionsSet E c j) i (rRbacConditions (cl E) h))"
proof -
  have "\<forall>c\<in>set cs. c_type c \<noteq> DeploymentReadyCondition \<Longrightarrow> not_ready j \<Longrightarrow>
      not_ready (foldl (\<lambda>j c. RbacConditionsSet E c j) j cs)" for cs j
    by (induction cs arbitrary: j)
      (auto simp: RbacConditionsSet_def not_ready_def condition_lawsD(6) [OF assms(1)])
  moreover have "\<forall>c\<in>set (rRbacConditions (cl E) h). c_type c \<noteq> DeploymentReadyCondition"
    using assms(2) by (auto simp: rbac_law_def dest!: spec [of _ h])
  ultimately show ?thesis using assms(3) by blast
qed

text \<open>No stage but the check of the deployment makes the object ready.\<close>

lemma inst_api_conditions:
  assumes "condition_laws E"
  shows "keeps_inst not_ready (api_false E t r sev m)" "t \<noteq> DeploymentReadyCondition \<Longrightarrow> keeps_inst not_ready (api_true E t m)"
    "keeps_inst not_ready (failed E t n res e)" "keeps_inst not_ready (waiting E t r sev m res)"
  unfolding failed_def waiting_def api_false_def api_true_def
  by ((intro inv_intros; simp add: not_ready_false not_ready_true assms)+)

lemma not_ready_prepare:
  assumes "condition_laws E"
  shows "keeps_inst not_ready (verifySecret E vars)" "keeps_inst not_ready (ensureDB E)"
    "keeps_inst not_ready (ensure_transport E ls)" "keeps_inst not_ready (ensure_memcached E)"
    "keeps_inst not_ready (generateServiceConfigMaps E vars mc db n)" "keeps_inst not_ready (ensure_keys E vars)"
    "keeps_inst not_ready (ensureFederationRealmConfig E vars)" "keeps_inst not_ready (service_config E r)"
  unfolding prepare_defs Let_def
  by (intro inst_api_conditions [OF assms] inv_intros inst_ensureFernetKeys; simp)+
lemma inv_step_cases [inv_intros]:
  "(\<And>a. inv J (f a)) \<Longrightarrow> (\<And>out. inv J (g out)) \<Longrightarrow> inv J m \<Longrightarrow> inv J n \<Longrightarrow>
    inv J (case x of Go a \<Rightarrow> f a | Stop out \<Rightarrow> g out | Panics \<Rightarrow> m | Diverges \<Rightarrow> n)"
  by (simp split: step.split)

lemma not_ready_networks: "condition_laws E \<Longrightarrow> keeps_inst not_ready (networks E ns nas l)"
  by (induction nas arbitrary: l) (auto intro!: inv_intros inst_api_conditions)

lemma not_ready_create_services: "condition_laws E \<Longrightarrow> keeps_inst not_ready (create_services E i ls eps m)"
  by (induction eps arbitrary: m) (auto simp: create_service_def Let_def intro!: inv_intros inst_api_conditions)

lemma not_ready_run_job:
  "condition_laws E \<Longrightarrow> t \<noteq> DeploymentReadyCondition \<Longrightarrow> keeps_inst not_ready (run_job E j n t m)"
  unfolding run_job_def case_prod_unfold by (intro inst_api_conditions inv_intros; simp)

lemma not_ready_deploy: "condition_laws E \<Longrightarrow> keeps_inst not_ready (deploy E d)"
  by (cases d) (auto simp: deploy_def split: sum.split intro!: inv_intros inst_api_conditions)

lemma not_ready_stages:
  assumes "condition_laws E" "rbac_law E"
  shows "keeps_inst not_ready (network_annotations E)" "keeps_inst not_ready (reconcileInit E ls an mc)"
    "keeps_inst not_ready update_and_upgrade" "keeps_inst not_ready (ensure_topology E ls)"
    "keeps_inst not_ready (verify_networks E ls)" "keeps_inst not_ready (ensure_cron_job E cj)"
    "keeps_inst not_ready (hash_inputs E vars)" "keeps_inst not_ready (reconcileCloudConfig E)"
    "keeps_inst not_ready (finish_rotation E n)" "keeps_inst not_ready (api_reconcileDelete E)"
    "keeps_inst not_ready (reconcileExternalKeystoneAPI E)" "keeps_inst not_ready (prepare_inputs E)"
  unfolding network_annotations_def reconcileInit_def bootstrap_def reconcile_rbac_def expose_services_def
    update_and_upgrade_def reconcileUpdate_def reconcileUpgrade_def ensure_topology_def verify_networks_def
    ensure_cron_job_def hash_inputs_def checkTLSInput_def verifyTLSInput_def validate_certs_def createHashOfInputHashes_def
    reconcileCloudConfig_def client_secret_def finish_rotation_def api_reconcileDelete_def release_defs
    reconcileExternalKeystoneAPI_def prepare_inputs_def api_drop_finalizer_def Let_def
  by (intro not_ready_networks not_ready_create_services not_ready_run_job inst_api_conditions not_ready_prepare
      inv_intros assms; simp add: not_ready_rbac assms publish_external_def)+
text \<open>
  What this run checked: it applied the deployment built for a hash of the inputs, and the deployment
  in the cluster was then reported ready for that very hash.
\<close>

definition applied :: "env \<Rightarrow> string \<Rightarrow> history \<Rightarrow> bool" where
  "applied E hash h \<longleftrightarrow> (\<exists>d i ls an tp ff mc ck. Deployment E i hash ls an tp ff mc ck = Some (Inr d)
     \<and> answered (\<lambda>g. rOutcome (cl E) g = ok) (Cluster (CreateOrPatchDeployment d)) h)"

definition checked :: "env \<Rightarrow> history \<Rightarrow> bool" where
  "checked E h \<longleftrightarrow> (\<exists>n ns hash. applied E hash h
     \<and> answered (\<lambda>g. rReadyForInput (cl E) g = Inr True) (Cluster (IsReadyForInput n ns hash)) h)"

lemma stable_answered [simp]: "stable (answered P c)"
  by (simp add: stable_def answered_append)

lemma stable_checked [simp]: "stable (applied E hash)" "stable (checked E)"
  unfolding stable_def applied_def checked_def by (blast intro: answered_append)+

abbreviation honest :: "env \<Rightarrow> KeystoneAPI st \<Rightarrow> bool" where
  "honest E s \<equiv> not_ready (inst s) \<or> checked E (log s)"

lemma stableD: "stable X \<Longrightarrow> only (\<lambda>_. True) m \<Longrightarrow> run_state m s = (a, t) \<Longrightarrow> X (log s) \<Longrightarrow> X (log t)"
  by (auto simp: stable_def extends_def dest!: onlyD)

lemma honest_inv: "keeps_inst not_ready m \<Longrightarrow> only (\<lambda>_. True) m \<Longrightarrow> inv (honest E) m"
  by (intro hoareI wp_runI) (blast intro: stableD [OF stable_checked(2)] dest: hoareD)

text \<open>A stage that leaves the object not ready, and keeps what is known of the history.\<close>

lemma quiet_stage:
  "keeps_inst not_ready m \<Longrightarrow> only (\<lambda>_. True) m \<Longrightarrow> stable X \<Longrightarrow>
    inv (\<lambda>s. not_ready (inst s) \<and> X (log s)) m"
  by (intro hoareI wp_runI) (blast intro: stableD dest: hoareD)

lemma appliedI:
  "Deployment E i hash ls an tp ff mc ck = Some (Inr d) \<Longrightarrow>
    rOutcome (cl E) (h @ [Cluster (CreateOrPatchDeployment d)]) = ok \<Longrightarrow>
    applied E hash (h @ Cluster (CreateOrPatchDeployment d) # l)"
  unfolding applied_def answered_def by fastforce

lemma deploy_applied:
  assumes "condition_laws E"
  shows "hoare (\<lambda>s. not_ready (inst s)) (deploy E (Deployment E i hash ls an tp ff mc ck))
    (\<lambda>r s. not_ready (inst s) \<and> (\<forall>dy. r = Go dy \<longrightarrow> applied E hash (log s)))"
proof (intro hoareI)
  fix s :: "KeystoneAPI st" assume s: "not_ready (inst s)"
  have "wp (deploy E (Deployment E i hash ls an tp ff mc ck)) (\<lambda>r t. \<forall>dy. r = Go dy \<longrightarrow> applied E hash (log t)) s"
    by (cases "Deployment E i hash ls an tp ff mc ck")
      (auto simp: deploy_def failed_def waiting_def wp_simps prod_eq_iff split: sum.split prod.split option.split
        intro!: appliedI)
  with hoare_wp [OF not_ready_deploy [OF assms], OF s] show
    "wp (deploy E (Deployment E i hash ls an tp ff mc ck))
      (\<lambda>r s. not_ready (inst s) \<and> (\<forall>dy. r = Go dy \<longrightarrow> applied E hash (log s))) s"
    by (simp add: wp_conj)
qed

lemma check_deployment_honest:
  assumes "condition_laws E"
  shows "hoare (\<lambda>s. not_ready (inst s) \<and> applied E hash (log s)) (check_deployment E hash dy) (\<lambda>_. honest E)"
proof (intro hoareI)
  fix s :: "KeystoneAPI st" assume s: "not_ready (inst s) \<and> applied E hash (log s)"
  have app: "applied E hash (log s @ l)" for l
    using s stable_checked(1) by (simp add: stable_def)
  have ready: "checked E (log s @ c # l)"
    if "rReadyForInput (cl E) (log s @ [c]) = Inr True" "c = Cluster (IsReadyForInput n ns hash)" for c n ns l
    using app [of "c # l"] that unfolding checked_def answered_def by fastforce
  show "wp (check_deployment E hash dy) (\<lambda>_. honest E) s"
    using s ready
    by (auto simp: check_deployment_def check_err_def wp_simps not_ready_false assms split: sum.split option.split)
qed
lemma quiet_andThen:
  assumes "keeps_inst not_ready m" "only (\<lambda>_. True) m" "stable X"
    and "\<And>a. hoare (\<lambda>s. not_ready (inst s) \<and> X (log s)) (f a) (\<lambda>_. honest E)"
  shows "hoare (\<lambda>s. not_ready (inst s) \<and> X (log s)) (andThen m f) (\<lambda>_. honest E)"
  by (rule hoare_andThen [OF _ assms(4)], rule hoare_weaken [OF quiet_stage [OF assms(1-3)]]) (auto split: step.split)

lemma honest_andThen:
  assumes "hoare P m (\<lambda>_. honest E)" "\<And>a. inv (honest E) (f a)"
  shows "hoare P (andThen m f) (\<lambda>_. honest E)"
  by (rule hoare_andThen [OF _ assms(2)], rule hoare_weaken [OF assms(1)]) (auto split: step.split)

lemma only_stages:
  "only (\<lambda>_. True) (network_annotations E)" "only (\<lambda>_. True) (reconcileInit E ls an mc)"
  "only (\<lambda>_. True) update_and_upgrade" "only (\<lambda>_. True) (ensure_topology E ls)"
  "only (\<lambda>_. True) (verify_networks E ls)" "only (\<lambda>_. True) (ensure_cron_job E cj)"
  unfolding network_annotations_def reconcileInit_def bootstrap_def reconcile_rbac_def expose_services_def
    update_and_upgrade_def reconcileUpdate_def reconcileUpgrade_def ensure_topology_def verify_networks_def
    ensure_cron_job_def
  by (intro only_intros only_networks only_create_services only_run_job; simp)+

lemma run_service_honest:
  assumes "condition_laws E" "rbac_law E"
  shows "hoare (\<lambda>s. not_ready (inst s)) (run_service E inp hash) (\<lambda>_. honest E)"
proof -
  let ?Q = "\<lambda>_ s. honest E s"
  have quiet: "hoare (\<lambda>s. not_ready (inst s)) (andThen m f) ?Q"
    if "keeps_inst not_ready m" "only (\<lambda>_. True) m" "\<And>a. hoare (\<lambda>s. not_ready (inst s)) (f a) ?Q"
    for m :: "(KeystoneAPI st, 'a step) state" and f :: "'a \<Rightarrow> (KeystoneAPI st, unit step) state"
    by (rule quiet_andThen [OF that(1,2) stable_facts(1), simplified], rule that(3))
  have cron: "inv (honest E) (do { j \<leftarrow> get_inst; ensure_cron_job E (g j) })" for g
    by (intro honest_inv inv_intros only_intros not_ready_stages assms only_stages)
  have tail: "hoare (\<lambda>s. not_ready (inst s) \<and> inst s = i)
      (andThen (deploy E (Deployment E i hash (in_serviceLabels inp) an topology ff mc ck)) (\<lambda>dy.
       andThen (verify_networks E (in_serviceLabels inp)) (\<lambda>_.
       andThen (check_deployment E hash dy) (\<lambda>_. do { j \<leftarrow> get_inst; ensure_cron_job E (g j) })))) ?Q"
    for i an topology ff mc ck g
  proof (rule hoare_andThen [where R = "\<lambda>_ s. not_ready (inst s) \<and> applied E hash (log s)"])
    show "hoare (\<lambda>s. not_ready (inst s) \<and> inst s = i)
        (deploy E (Deployment E i hash (in_serviceLabels inp) an topology ff mc ck))
        (\<lambda>r s. case r of Go dy \<Rightarrow> not_ready (inst s) \<and> applied E hash (log s) | Stop out \<Rightarrow> honest E s
          | Panics \<Rightarrow> honest E s | Diverges \<Rightarrow> honest E s)"
      by (rule hoare_weaken [OF deploy_applied [OF assms(1)]]) (auto split: step.split)
    show "hoare (\<lambda>s. not_ready (inst s) \<and> applied E hash (log s)) (andThen (verify_networks E (in_serviceLabels inp)) (\<lambda>_.
       andThen (check_deployment E hash dy) (\<lambda>_. do { j \<leftarrow> get_inst; ensure_cron_job E (g j) }))) ?Q" for dy
      by (rule quiet_andThen [OF not_ready_stages(5) [OF assms] only_stages(5) stable_checked(1)],
          rule honest_andThen [OF check_deployment_honest [OF assms(1)] cron])
  qed
  show ?thesis
    unfolding run_service_def
    by (rule quiet [OF not_ready_stages(1) [OF assms] only_stages(1)],
        rule quiet [OF not_ready_stages(2) [OF assms] only_stages(2)],
        rule quiet [OF not_ready_stages(3) [OF assms] only_stages(3)],
        rule quiet [OF not_ready_stages(4) [OF assms] only_stages(4)],
        rule hoare_get_inst_bind [where K = "\<lambda>_. True"], rule tail, simp)
qed
lemma reconcileNormal_honest:
  assumes "condition_laws E" "rbac_law E"
  shows "hoare (\<lambda>s. not_ready (inst s)) (api_reconcileNormal E) (\<lambda>_. honest E)"
proof -
  have quiet: "hoare (\<lambda>s. not_ready (inst s)) (andThen m f) (\<lambda>_. honest E)"
    if "keeps_inst not_ready m" "\<And>a. hoare (\<lambda>s. not_ready (inst s)) (f a) (\<lambda>_. honest E)"
    for m :: "(KeystoneAPI st, 'a step) state" and f :: "'a \<Rightarrow> (KeystoneAPI st, unit step) state"
    by (rule hoare_andThen [OF _ that(2)], rule hoare_weaken [OF that(1)]) (auto split: step.split)
  have cloud: "inv (honest E) (do { e \<leftarrow> reconcileCloudConfig E; ret (check_err e) })"
    by (intro honest_inv inv_intros only_intros not_ready_stages assms only_mono [OF only_cloud]; simp)
  have finish: "inv (honest E) (finish_rotation E n)" for n
    by (intro honest_inv not_ready_stages assms only_mono [OF only_finish]; simp)
  show ?thesis
    unfolding api_reconcileNormal_def
    by (rule quiet [OF not_ready_stages(12) [OF assms]], rule quiet [OF not_ready_stages(7) [OF assms]],
        rule honest_andThen [OF run_service_honest [OF assms]], rule inv_andThen [OF cloud finish])
qed

lemma init_not_ready:
  assumes "init_law E" "\<not> api_ExternalKeystoneAPI (api_spec i)"
  shows "not_ready (api_upd_conds (\<lambda>cs. condInit E cs (api_init_conditions (api_spec i))) i)"
proof -
  let ?c = "UnknownCondition DeploymentReadyCondition InitReason (LibMsg ''DeploymentReadyInitMessage'' [])"
  have "?c \<in> set (api_init_conditions (api_spec i))" "distinct (map c_type (api_init_conditions (api_spec i)))"
    using assms(2) by (simp_all add: api_init_conditions_def api_init_types_def UnknownCondition_def)
  then have "cond_at (condInit E cs (api_init_conditions (api_spec i))) (c_type ?c) = Some ?c" for cs
    using assms(1) by (simp add: init_law_def)
  then show ?thesis by (simp add: not_ready_def UnknownCondition_def)
qed

lemma api_body_honest:
  assumes "condition_laws E" "rbac_law E" "init_law E" "\<not> api_ExternalKeystoneAPI (api_spec (inst s))"
  shows "wp (api_body E) (\<lambda>_. honest E) s"
proof -
  have dispatch: "hoare (\<lambda>s. not_ready (inst s)) (api_dispatch E) (\<lambda>_. honest E)"
    unfolding api_dispatch_def
    by (rule hoare_get_inst_bind [where K = "\<lambda>_. True"], intro hoare_if)
      (auto intro: hoare_weaken [OF not_ready_stages(10) [OF assms(1,2)]] hoare_weaken [OF not_ready_stages(11) [OF assms(1,2)]]
        hoare_weaken [OF reconcileNormal_honest [OF assms(1,2)]])
  show ?thesis
    using init_not_ready [OF assms(3,4)]
    by (auto simp: api_body_def wp_simps Let_def intro!: hoare_wp [OF dispatch] split: prod.split)
qed


end
