(* ===== verification/ApiRun.thy ===== *)
theory ApiRun
  imports ApiProps
begin

text \<open>
  A run of the KeystoneAPI controller on the example environment, from the read of the object to
  the patch of its status, stage by stage: with every dependency in place it deploys and ends ready.
\<close>

definition full_secret :: secret where
  "full_secret = (let s = ex_secret ServiceName ([(''AdminPassword'', ''p''), (''transport_url'', ''rabbit'')]
       @ keys_from 0 [''a'', ''b'', ''c'', ''d'', ''e''])
     in s\<lparr>sec_meta := (sec_meta s)\<lparr>om_annotations := [(''keystone.openstack.org/rotatedat'', epoch_text)]\<rparr>\<rparr>)"

definition full_api :: KeystoneAPI where
  "full_api = ex_api\<lparr>api_meta := (api_meta ex_api)\<lparr>om_finalizers := [''openstack.org/keystoneapi'']\<rparr>\<rparr>"

definition full_env :: env where
  "full_env = base_env\<lparr>rGetSecret := (\<lambda>h. Inr full_secret), rGetAPI := (\<lambda>h. Inr full_api),
     cl := base_cluster\<lparr>rRbacConditions := (\<lambda>h. map (\<lambda>n. true_cond (OtherCondition n) ReadyMessage)
       [''ServiceAccountReadyCondition'', ''RoleReadyCondition'', ''RoleBindingReadyCondition''])\<rparr>\<rparr>"

text \<open>The state between two stages: conditions outside \<open>T\<close> are true, and \<open>D\<close> says that something was deployed.\<close>

definition running :: "ctype set \<Rightarrow> bool \<Rightarrow> KeystoneAPI \<Rightarrow> history \<Rightarrow> bool" where
  "running T D i h \<longleftrightarrow> api_spec i = api_spec full_api \<and> api_meta i = api_meta full_api
     \<and> apis_Hash (api_status i) \<noteq> None \<and> (\<exists>u. GetEndpoint i ''public'' = Inr u)
     \<and> (\<forall>c \<in> set (api_conds i). c_status c = CTrue \<or> c_type c \<in> T \<or> c_type c = ReadyCondition)
     \<and> (D \<longrightarrow> list_ex deploys h)"

abbreviation at_stage :: "ctype set \<Rightarrow> bool \<Rightarrow> KeystoneAPI st \<Rightarrow> bool" where
  "at_stage T D s \<equiv> running T D (inst s) (log s)"

abbreviation onward :: "ctype set \<Rightarrow> bool \<Rightarrow> 'a step \<Rightarrow> KeystoneAPI st \<Rightarrow> bool" where
  "onward T D r s \<equiv> (\<exists>a. r = Go a) \<and> at_stage T D s"

lemma onward_andThen:
  assumes "hoare (at_stage T D) m (onward T1 D1)" "\<And>a. hoare (at_stage T1 D1) (f a) (onward T2 D2)"
  shows "hoare (at_stage T D) (andThen m f) (onward T2 D2)"
  by (rule hoare_andThen [OF _ assms(2)], rule hoare_weaken [OF assms(1)]) auto

lemma running_spec: "running T D i h \<Longrightarrow> api_spec i = api_spec full_api" "running T D i h \<Longrightarrow> api_meta i = api_meta full_api"
  by (simp_all add: running_def)

lemma set_cond_subset: "set (set_cond c cs) \<subseteq> insert c {d \<in> set cs. c_type d \<noteq> c_type c}"
  by (auto simp: set_cond_def list_ex_iff)

lemma running_call: "running T D i h \<Longrightarrow> running T D i (h @ l)"
  by (simp add: running_def)

lemma running_deploy: "running T D i h \<Longrightarrow> list_ex deploys l \<Longrightarrow> running T True i (h @ l)"
  by (simp add: running_def)

lemma GetEndpoint_status: "apis_APIEndpoints (f (api_status i)) = apis_APIEndpoints (api_status i) \<Longrightarrow>
    GetEndpoint (api_map_status f i) t = GetEndpoint i t"
  "GetEndpoint (api_upd_conds g i) t = GetEndpoint i t"
  "apis_APIEndpoints (f (api_status i)) = Some m \<Longrightarrow> map_of m t = Some u \<Longrightarrow> GetEndpoint (api_map_status f i) t = Inr u"
  by (simp_all add: GetEndpoint_def api_map_status_def api_upd_conds_def)

lemma api_upd_conds_sel [simp]:
  "api_spec (api_upd_conds g i) = api_spec i" "api_meta (api_upd_conds g i) = api_meta i"
  "api_conds (api_upd_conds g i) = g (api_conds i)" "apis_Hash (api_status (api_upd_conds g i)) = apis_Hash (api_status i)"
  by (simp_all add: api_upd_conds_def api_conds_def conds_of_def)

lemma running_true:
  assumes "running T D i h"
  shows "running (T - {t}) D (api_upd_conds (set_cond (true_cond t m)) i) h"
proof -
  have "c_status c = CTrue \<or> c_type c \<in> T - {t} \<or> c_type c = ReadyCondition"
    if "c \<in> set (set_cond (true_cond t m) (api_conds i))" for c
  proof (cases "c = true_cond t m")
    case False
    then have "c \<in> set (api_conds i)" "c_type c \<noteq> t"
      using set_cond_subset [of "true_cond t m" "api_conds i"] that by (auto simp: true_cond_def)
    with assms show ?thesis by (simp add: running_def)
  qed (simp add: true_cond_def)
  then show ?thesis using assms by (simp add: running_def GetEndpoint_status)
qed

lemma running_status: "running T D i h \<Longrightarrow> apis_Hash (f (api_status i)) \<noteq> None \<Longrightarrow>
    apis_Conditions (f (api_status i)) = apis_Conditions (api_status i) \<Longrightarrow>
    (\<exists>u. GetEndpoint (api_map_status f i) ''public'' = Inr u) \<Longrightarrow> running T D (api_map_status f i) h"
  by (simp add: running_def api_conds_def api_map_status_def)

lemmas running_intros = running_true running_call running_status

lemma full_env_sel [simp]:
  "rErr full_env = (\<lambda>h. None)" "rGetSecret full_env = (\<lambda>h. Inr full_secret)" "rNow full_env = (\<lambda>h. 0)"
  "condMarkTrue full_env = (\<lambda>t m. set_cond (true_cond t m))" "condSet full_env = condSet base_env"
  "AddFinalizer full_env = AddFinalizer base_env" "GetFinalizer full_env = GetFinalizer base_env"
  "rGetAPI full_env = (\<lambda>h. Inr full_api)" "CABundleKey full_env = ''tls-ca-bundle.pem''"
  "cl full_env = base_cluster\<lparr>rRbacConditions := (\<lambda>h. map (\<lambda>n. true_cond (OtherCondition n) ReadyMessage)
       [''ServiceAccountReadyCondition'', ''RoleReadyCondition'', ''RoleBindingReadyCondition''])\<rparr>"
  by (simp_all add: full_env_def)

lemmas stage_defs = verifySecret_def ensureDB_def ensure_transport_def ensure_memcached_def generateServiceConfigMaps_def
  service_config_def ensure_keys_def ensureFederationRealmConfig_def override_data_def ensure_secrets_def
  transportURLCreateOrUpdate_def ensured_vars_def

lemma running_Hash: "running T D i h \<Longrightarrow> \<exists>m. apis_Hash (api_status i) = Some m"
  "running T D i h \<Longrightarrow> \<exists>u. GetEndpoint i ''public'' = Inr u"
  by (simp_all add: running_def)


lemma jobs_defined:
  assumes "api_spec i = api_spec full_api"
  shows "\<exists>j. DbSyncJob full_env i ls an = Some j" "\<exists>j. BootstrapJob full_env i ls an eps mc = Some j"
    "\<exists>j. CronJob full_env i ls an mc = Some j" "\<exists>d. Deployment full_env i h ls an tp ff mc ck = Some (Inr d)"
  using assms by (simp_all add: DbSyncJob_def BootstrapJob_def CronJob_def Deployment_def api_pod_def place_pod_def getVolumes_def full_api_def
      ex_api_def Let_def split_beta)
lemma running_keys:
  assumes "running T D (inst s) (log s)"
  shows "run_state (ensureFernetKeys full_env) s = (Done None, s\<lparr>log := log s @ fernet_start (inst s)\<rparr>)"
proof -
  have "repo ([(''AdminPassword'', ''p''), (''transport_url'', ''rabbit'')] @ keys_from 0 [''a'', ''b'', ''c'', ''d'', ''e''])
      [''a'', ''b'', ''c'', ''d'', ''e'']"
    by (simp add: repo_Cons_other repo_keys_from HasPrefix_def)
  moreover have "sec_data full_secret = Some ([(''AdminPassword'', ''p''), (''transport_url'', ''rabbit'')]
      @ keys_from 0 [''a'', ''b'', ''c'', ''d'', ''e''])" by (simp add: full_secret_def ex_secret_def Let_def)
  moreover have "numberKeys (inst s) = 5" "rotationDays (inst s) = 1"
    using assms by (simp_all add: numberKeys_def rotationDays_def running_def full_api_def ex_api_def)
  moreover have "rotated_at full_env full_secret = Some 0"
    using parse_epoch by (simp add: rotated_at_def fernetAnnotation_def full_env_def full_secret_def ex_secret_def Let_def
      str_at_def new_meta_def ServiceName_def)
  ultimately show ?thesis
    by (subst run_not_due [where t = 0])
      (auto simp: second_def rotation_due_def fernet_now_def AddDays_def resize_unchanged)
qed
lemma wp_keys: "running T D (inst s) (log s) \<Longrightarrow>
    wp (ensureFernetKeys full_env) Q s = Q (Done None) (s\<lparr>log := log s @ fernet_start (inst s)\<rparr>)"
  by (simp add: wp_def running_keys)
text \<open>One lemma for each stage: it goes on, and the conditions it is responsible for are true.\<close>

lemma verifySecret_runs: "hoare (at_stage T D) (verifySecret full_env vars) (onward (T) (D))"
  by (rule hoareI) (auto simp: stage_defs wp_simps Let_def ex_memcached_def mc_set_finalizers_def running_spec running_Hash GetEndpoint_status full_api_def ex_api_def intro!: running_intros)
lemma ensureDB_runs: "hoare (at_stage T D) (ensureDB full_env) (onward (T - {MariaDBAccountReadyCondition} - {DBReadyCondition}) (D))"
  by (rule hoareI) (auto simp: stage_defs wp_simps Let_def ex_memcached_def mc_set_finalizers_def running_spec running_Hash GetEndpoint_status  intro!: running_intros)
lemma ensure_transport_runs: "hoare (at_stage T D) (ensure_transport full_env ls) (onward (T - {RabbitMqTransportURLReadyCondition}) (D))"
  by (rule hoareI) (auto simp: stage_defs wp_simps Let_def ex_memcached_def mc_set_finalizers_def running_spec running_Hash GetEndpoint_status  intro!: running_intros)
lemma ensure_memcached_runs: "hoare (at_stage T D) (ensure_memcached full_env) (onward (T - {MemcachedReadyCondition}) (D))"
  by (rule hoareI) (auto simp: stage_defs wp_simps Let_def ex_memcached_def mc_set_finalizers_def running_spec running_Hash GetEndpoint_status  intro!: running_intros)
lemma configuration_runs: "hoare (at_stage T D) (do { r \<leftarrow> generateServiceConfigMaps full_env vars mc db tr; service_config full_env r }) (onward (T) (D))"
  by (rule hoareI) (auto simp: stage_defs wp_simps Let_def ex_memcached_def mc_set_finalizers_def running_spec running_Hash GetEndpoint_status full_api_def ex_api_def intro!: running_intros)
lemma federation_runs: "hoare (at_stage T D) (do { r \<leftarrow> ensureFederationRealmConfig full_env vars; service_config full_env r }) (onward (T) (D))"
  by (rule hoareI) (auto simp: stage_defs wp_simps Let_def ex_memcached_def mc_set_finalizers_def running_spec running_Hash GetEndpoint_status full_api_def ex_api_def intro!: running_intros)
lemma hash_inputs_runs: "hoare (at_stage T D) (hash_inputs full_env vars) (onward (T - {TLSInputReadyCondition} - {ServiceConfigReadyCondition}) (D))"
  by (rule hoareI) (auto simp: stage_defs wp_simps Let_def ex_memcached_def mc_set_finalizers_def running_spec running_Hash GetEndpoint_status hash_inputs_def checkTLSInput_def verifyTLSInput_def validate_certs_def createHashOfInputHashes_def full_api_def ex_api_def intro!: running_intros)
lemma annotations_run: "hoare (at_stage T D) (network_annotations full_env) (onward (T) (D))"
  by (rule hoareI) (auto simp: stage_defs wp_simps Let_def ex_memcached_def mc_set_finalizers_def running_spec running_Hash GetEndpoint_status network_annotations_def full_api_def ex_api_def intro!: running_intros)
lemma rbac_runs: "hoare (at_stage T D) (reconcile_rbac full_env) (onward (T - {OtherCondition ''ServiceAccountReadyCondition''} - {OtherCondition ''RoleReadyCondition''} - {OtherCondition ''RoleBindingReadyCondition''}) (D))"
  by (rule hoareI) (auto simp: stage_defs wp_simps Let_def ex_memcached_def mc_set_finalizers_def running_spec running_Hash GetEndpoint_status reconcile_rbac_def RbacConditionsSet_def proceed_def intro!: running_intros)
lemma run_job_runs: "hoare (at_stage T D) (run_job full_env (Some j) n t m) (onward (T - {t}) (True))"
  by (rule hoareI) (auto simp: stage_defs wp_simps Let_def ex_memcached_def mc_set_finalizers_def running_spec running_Hash GetEndpoint_status run_job_def intro!: running_status running_true running_deploy)
lemma update_runs: "hoare (at_stage T D) (update_and_upgrade) (onward (T) (D))"
  by (rule hoareI) (auto simp: stage_defs wp_simps Let_def ex_memcached_def mc_set_finalizers_def running_spec running_Hash GetEndpoint_status update_and_upgrade_def reconcileUpdate_def reconcileUpgrade_def proceed_def intro!: running_intros)
lemma topology_runs: "hoare (at_stage T D) (ensure_topology full_env ls) (onward (T) (D))"
  by (rule hoareI) (auto simp: stage_defs wp_simps Let_def ex_memcached_def mc_set_finalizers_def running_spec running_Hash GetEndpoint_status ensure_topology_def full_api_def ex_api_def intro!: running_intros)
lemma networks_run: "hoare (at_stage T D) (verify_networks full_env ls) (onward (T - {NetworkAttachmentsReadyCondition}) (D))"
  by (rule hoareI) (auto simp: stage_defs wp_simps Let_def ex_memcached_def mc_set_finalizers_def running_spec running_Hash GetEndpoint_status verify_networks_def intro!: running_intros)
lemma check_deployment_runs: "hoare (at_stage T D) (check_deployment full_env h dy) (onward (T - {DeploymentReadyCondition}) (D))"
  by (rule hoareI) (auto simp: stage_defs wp_simps Let_def ex_memcached_def mc_set_finalizers_def running_spec running_Hash GetEndpoint_status check_deployment_def check_err_def full_api_def ex_api_def intro!: running_intros)
lemma cron_job_runs: "hoare (at_stage T D) (ensure_cron_job full_env (Some cj)) (onward (T - {CronJobReadyCondition}) (D))"
  by (rule hoareI) (auto simp: stage_defs wp_simps Let_def ex_memcached_def mc_set_finalizers_def running_spec running_Hash GetEndpoint_status ensure_cron_job_def intro!: running_intros)
lemma deploy_runs: "hoare (at_stage T D) (deploy full_env (Some (Inr d))) (onward (T) (D))"
  by (rule hoareI) (auto simp: stage_defs wp_simps Let_def ex_memcached_def mc_set_finalizers_def running_spec running_Hash GetEndpoint_status deploy_def intro!: running_intros)
lemma cloud_config_runs: "hoare (at_stage T D) (do { e \<leftarrow> reconcileCloudConfig full_env; ret (check_err e) }) (onward (T) (D))"
  by (rule hoareI, frule running_Hash(2)) (auto simp: stage_defs wp_simps Let_def ex_memcached_def mc_set_finalizers_def running_spec running_Hash(1) GetEndpoint_status reconcileCloudConfig_def client_secret_def check_err_def intro!: running_intros)
lemma expose_services_runs: "hoare (at_stage T D) (expose_services full_env ls) (onward (T - {CreateServiceReadyCondition}) (True))"
  by (rule hoareI) (auto simp: stage_defs wp_simps Let_def ex_memcached_def mc_set_finalizers_def running_spec running_Hash GetEndpoint_status expose_services_def keystoneEndpoints_def create_service_def svc_override_def annotate_service_def intro!: running_status running_true running_deploy)
lemma ensure_keys_runs: "hoare (at_stage T D) (ensure_keys full_env vars) (onward (T) (D))"
  by (rule hoareI) (auto simp: stage_defs wp_simps Let_def ex_memcached_def mc_set_finalizers_def running_spec running_Hash GetEndpoint_status wp_keys fernet_start_def wp_def [of State_Monad.get] split: call.split intro!: running_intros)
lemma finish_rotation_runs: "hoare (at_stage T D) (finish_rotation full_env tr) (onward (T) (D))"
  by (rule hoareI) (auto simp: stage_defs wp_simps Let_def ex_memcached_def mc_set_finalizers_def running_spec running_Hash GetEndpoint_status finish_rotation_def check_err_def intro!: running_intros)

text \<open>The stages composed.\<close>

lemma onward_last:
  "hoare (at_stage T D) m (onward T1 D1) \<Longrightarrow> T1 \<subseteq> T2 \<Longrightarrow> D2 \<longrightarrow> D1 \<Longrightarrow> hoare (at_stage T D) m (onward T2 D2)"
  by (erule hoare_weaken) (auto simp: running_def)

lemma onward_read:
  assumes "\<And>i. api_spec i = api_spec full_api \<Longrightarrow> hoare (at_stage T D) (f i) Q"
  shows "hoare (at_stage T D) (State_Monad.bind get_inst f) Q"
  using assms by (auto simp: hoare_def wp_simps running_spec)

lemma onward_true:
  "hoare (at_stage (T - {t}) D) f Q \<Longrightarrow> hoare (at_stage T D) (do { api_true full_env t m; f }) Q"
  by (rule hoareI) (simp add: wp_simps hoare_wp running_true)

lemma onward_ret: "T \<subseteq> T' \<Longrightarrow> hoare (at_stage T D) (ret (Go a)) (onward T' D)"
  by (rule hoare_ret) (auto simp: running_def)

lemma prepare_runs: "hoare (at_stage T D) (prepare_inputs full_env) (onward (T - {InputReadyCondition}
    - {MariaDBAccountReadyCondition} - {DBReadyCondition} - {RabbitMqTransportURLReadyCondition} - {MemcachedReadyCondition}) D)"
  unfolding prepare_inputs_def Let_def case_prod_beta
  by (rule onward_read onward_andThen [OF verifySecret_runs] onward_true onward_andThen [OF ensureDB_runs] onward_andThen [OF ensure_transport_runs]
    onward_andThen [OF ensure_memcached_runs] onward_andThen [OF configuration_runs] onward_andThen [OF federation_runs] onward_andThen [OF ensure_keys_runs] onward_ret order_refl)+

lemma service_runs: "hoare (at_stage T D) (run_service full_env inp h) (onward (T
    - {OtherCondition ''ServiceAccountReadyCondition'', OtherCondition ''RoleReadyCondition'',
       OtherCondition ''RoleBindingReadyCondition'', DBSyncReadyCondition, CreateServiceReadyCondition,
       BootstrapReadyCondition, NetworkAttachmentsReadyCondition, DeploymentReadyCondition, CronJobReadyCondition}) True)"
proof -
  have job: "hoare (at_stage T' D') (run_job full_env d n t m) (onward (T' - {t}) True)" if "\<exists>j. d = Some j" for d n t m T' D'
    using that run_job_runs by blast
  have dep: "hoare (at_stage T' True) (deploy full_env d) (onward T' True)" if "\<exists>j. d = Some (Inr j)" for d T'
    using that deploy_runs by blast
  have cron: "hoare (at_stage T' True) (ensure_cron_job full_env d) (onward (T' - {CronJobReadyCondition}) True)"
    if "\<exists>j. d = Some j" for d T' using that cron_job_runs by blast
  show ?thesis
    unfolding run_service_def reconcileInit_def bootstrap_def
    by (rule onward_andThen [OF annotations_run] onward_andThen [OF onward_andThen [OF rbac_runs onward_read]]
        onward_andThen [OF job onward_andThen [OF expose_services_runs onward_read [OF job]]]
        onward_andThen [OF update_runs] onward_andThen [OF topology_runs] onward_andThen [OF dep]
        onward_andThen [OF networks_run] onward_andThen [OF check_deployment_runs] onward_last [OF cron] onward_read
      | erule jobs_defined)+ auto
qed

text \<open>The conditions of a KeystoneAPI without a topology.\<close>

definition full_types :: "ctype set" where "full_types = fst ` set (api_init_types (api_spec full_api))"

lemma normal_runs: "hoare (at_stage full_types D) (api_reconcileNormal full_env) (onward {} True)"
  unfolding api_reconcileNormal_def
  by (rule onward_andThen [OF prepare_runs] onward_andThen [OF hash_inputs_runs] onward_andThen [OF service_runs]
    onward_andThen [OF cloud_config_runs] onward_last [OF finish_rotation_runs])+
   (auto simp: full_types_def full_api_def ex_api_def api_init_types_def)

lemma full_cond_laws: "condition_laws full_env"
  by (simp add: full_env_def)

lemma init_conds: "c \<in> set (foldl (\<lambda>acc c. set_cond c acc) cs init) \<Longrightarrow> c \<in> set cs \<or> c \<in> set init"
proof (induction init arbitrary: cs)
  case (Cons d init)
  then show ?case using Cons.IH [of "set_cond d cs"] set_cond_subset [of d cs] by auto
qed simp

lemma full_conds: "api_conds full_api = [true_cond ReadyCondition ReadyMessage]"
  by (simp add: full_api_def ex_api_def api_conds_def conds_of_def)

lemma init_running:
  "running full_types False (api_map_status default_status (api_map_status (\<lambda>st. st\<lparr>apis_ObservedGeneration := n\<rparr>)
     (api_upd_conds (\<lambda>cs. condInit full_env cs (api_init_conditions (api_spec full_api))) full_api))) h"
  unfolding running_def
proof (intro conjI ballI)
  fix c
  let ?i = "api_map_status default_status (api_map_status (\<lambda>st. st\<lparr>apis_ObservedGeneration := n\<rparr>)
     (api_upd_conds (\<lambda>cs. condInit full_env cs (api_init_conditions (api_spec full_api))) full_api))"
  assume "c \<in> set (api_conds ?i)"
  then have "c \<in> set (api_conds full_api) \<or> c \<in> set (api_init_conditions (api_spec full_api))"
    by (simp add: init_conds full_env_def)
  then show "c_status c = CTrue \<or> c_type c \<in> full_types \<or> c_type c = ReadyCondition"
    using full_conds by (force simp: full_types_def api_init_conditions_def UnknownCondition_def true_cond_def)
qed (simp_all add: GetEndpoint_def full_api_def ex_api_def default_status_def api_map_status_def api_upd_conds_def)

lemma running_ready:
  assumes "running {} D i h"
  shows "IsReady full_env (api_upd_conds (\<lambda>cs. condRestoreTimes full_env (ready_step full_env cs) saved) i)"
proof -
  have "all_sub (api_conds i)"
    using assms unfolding all_sub_iff running_def by (auto simp: cond_at_def find_Some_iff)
  then have "AllSubConditionIsTrue full_env (api_conds i)" by (simp add: full_env_def)
  then show ?thesis
    using api_rec.ready_iff_restored [OF full_cond_laws, of saved i] by (simp add: IsReady_def)
qed

lemma full_run_stages:
  assumes "\<And>s saved. at_stage full_types False s \<Longrightarrow>
      wp (do { out \<leftarrow> api_reconcileNormal full_env; api_deferred full_env saved (returned out) }) Q s"
  shows "wp (api_Reconcile full_env ns name) Q (start x)"
proof -
  have [simp]: "deleting (api_meta full_api) = False" "api_ExternalKeystoneAPI (api_spec full_api) = False"
    "apis_Conditions (api_status full_api) \<noteq> None" "''openstack.org/keystoneapi'' \<in> set (api_fins full_api)"
    by (simp_all add: full_api_def ex_api_def deleting_def new_meta_def api_fins_def)
  have [simp]: "api_set_finalizers (api_fins full_api) (api_map_status f (api_upd_conds g full_api)) =
      api_map_status f (api_upd_conds g full_api)" for f g
    by (simp add: api_set_finalizers_def api_fins_def api_map_status_def api_upd_conds_def)
  show ?thesis
    using assms init_running
    by (auto simp: api_Reconcile_def api_body_def api_dispatch_def wp_simps Let_def)
qed

lemma full_run:
  "wp (api_Reconcile full_env ns name) (\<lambda>r t. (\<exists>out. r = Go out) \<and> list_ex deploys (log t)
     \<and> (\<exists>j. last (log t) = KPatchAPI j \<and> IsReady full_env j)) (start x)"
proof (rule full_run_stages)
  fix s :: "KeystoneAPI st" and saved assume "at_stage full_types False s"
  from hoare_wp [OF normal_runs this]
  show "wp (do { out \<leftarrow> api_reconcileNormal full_env; api_deferred full_env saved (returned out) }) (\<lambda>r t.
      (\<exists>out. r = Go out) \<and> list_ex deploys (log t) \<and> (\<exists>j. last (log t) = KPatchAPI j \<and> IsReady full_env j)) s"
    by (auto simp: wp_simps returned_def running_def intro!: wp_api_deferred running_ready elim!: wp_mono)
qed

section \<open>The properties on concrete runs\<close>

lemma full_run_deploys:
  obtains out t pre c post j where "run_state (api_Reconcile full_env ''openstack'' ''keystone'') (start full_api) = (Go out, t)"
    "log t = pre @ c # post" "deploys c" "last (log t) = KPatchAPI j" "IsReady full_env j"
proof -
  obtain r t where rt: "run_state (api_Reconcile full_env ''openstack'' ''keystone'') (start full_api) = (r, t)" by fastforce
  from wp_run [OF rt full_run] obtain out c j where "r = Go out" "c \<in> set (log t)" "deploys c"
      "last (log t) = KPatchAPI j" "IsReady full_env j"
    by (auto simp: list_ex_iff)
  moreover from \<open>c \<in> set (log t)\<close> obtain pre post where "log t = pre @ c # post" by (meson split_list)
  ultimately show ?thesis using rt that by blast
qed

lemma full_env_laws: "finalizer_laws full_env" "rbac_law full_env" "init_law full_env"
proof -
  show "finalizer_laws full_env" by (simp add: full_env_def)
  show "rbac_law full_env" by (auto simp: rbac_law_def true_cond_def)
  have "cond_at (foldl (\<lambda>acc c. set_cond c acc) cs init) (c_type c) = Some c"
    if "distinct (map c_type init)" "c \<in> set init" for cs init c
    using that
  proof (induction init rule: rev_induct)
    case (snoc d init)
    then show ?case by (auto simp: image_iff)
  qed simp
  then show "init_law full_env" by (simp add: init_law_def full_env_def)
qed

lemma api_deploys_protected_witness:
  "\<exists>t pre c post. snd (run_state (api_Reconcile full_env ''openstack'' ''keystone'') (start full_api)) = t
    \<and> log t = pre @ c # post \<and> deploys c \<and> protected full_env full_api pre"
proof -
  obtain out t pre c post where t: "run_state (api_Reconcile full_env ''openstack'' ''keystone'') (start full_api) = (Go out, t)"
    "log t = pre @ c # post" "deploys c" by (rule full_run_deploys) blast
  have "protected full_env full_api pre"
    by (rule api_deploys_protected [OF full_env_laws(1) _ t]) simp
  with t show ?thesis by auto
qed


text \<open>A deleted KeystoneAPI, alone or still in use by a service.\<close>

definition del_api :: "string list \<Rightarrow> KeystoneAPI" where
  "del_api fs = ex_api\<lparr>api_meta := (api_meta ex_api)\<lparr>om_finalizers := ''openstack.org/keystoneapi'' # fs,
     om_deletionTimestamp := Some 0\<rparr>\<rparr>"

definition del_env :: "string list \<Rightarrow> env" where
  "del_env fs = base_env\<lparr>rGetAPI := (\<lambda>h. Inr (del_api fs))\<rparr>"

lemma del_simps [simp]:
  "rGetAPI (del_env fs) = (\<lambda>h. Inr (del_api fs))" "rErr (del_env fs) = (\<lambda>h. None)"
  "deleting (api_meta (del_api fs))" "\<not> api_ExternalKeystoneAPI (api_spec (del_api fs))"
  "api_fins (del_api fs) = ''openstack.org/keystoneapi'' # fs"
  "GetFinalizer (del_env fs) KindAPI = ''openstack.org/keystoneapi''"
  "apis_Conditions (api_status (del_api fs)) = Some [true_cond ReadyCondition ReadyMessage]" "cl (del_env fs) = base_cluster" "RemoveFinalizer (del_env fs) = RemoveFinalizer base_env"
  "AddFinalizer (del_env fs) = AddFinalizer base_env"
  by (simp_all add: del_env_def del_api_def ex_api_def deleting_def api_fins_def)


lemma del_run:
  "wp (api_Reconcile (del_env []) ''openstack'' ''keystone'')
     (\<lambda>r t. api_fins (inst t) = [] \<and> KPatchAPI (inst t) \<in> set (log t)) (start ex_api)"
proof -
  have del: "wp (api_reconcileDelete (del_env [])) (\<lambda>r t. r = Go () \<and> api_fins (inst t) = []) s"
    if "api_fins (inst s) = [''openstack.org/keystoneapi'']" "\<not> api_ExternalKeystoneAPI (api_spec (inst s))" for s
    using that
    by (simp add: api_reconcileDelete_def release_defs wp_simps Let_def ex_memcached_def new_meta_def)
  show ?thesis
    by (simp add: api_Reconcile_def api_body_def api_dispatch_def wp_simps Let_def, rule wp_mono [OF del])
      (auto simp: returned_def intro!: wp_api_deferred simp flip: api_fins_def)
qed

end
