(* ===== verification/WatchProps.thy ===== *)
theory WatchProps
  imports Wiring ApiRun
begin

text \<open>
  What the watches are for: every secret a run of the KeystoneAPI controller reads is one whose change enqueues the
  object again, the mapping functions find exactly the objects that use what changed, and the creation of the
  secret of an application credential enqueues nothing.
\<close>

section \<open>The mapping functions\<close>

text \<open>A field index: listing by a field answers the objects of the namespace with that value in the index.\<close>

definition index_law :: "env \<Rightarrow> KeystoneAPI list \<Rightarrow> bool" where
  "index_law E apis \<longleftrightarrow> (\<forall>h f n ns. rListAPIs E (h @ [Cluster (ListAPIsByField f n ns)]) =
     Inr (filter (\<lambda>a. om_namespace (api_meta a) = ns \<and> n \<in> set (indexField f (api_spec a))) apis))"

definition api_request :: "KeystoneAPI \<Rightarrow> request" where
  "api_request a = (om_namespace (api_meta a), om_name (api_meta a))"

lemma find_objects_indexed:
  assumes "index_law E apis"
  shows "set (fst (run_state (find_objects E ns n fs rs) s)) =
    set rs \<union> {api_request a |a. a \<in> set apis \<and> om_namespace (api_meta a) = ns \<and> (\<exists>f\<in>set fs. n \<in> set (indexField f (api_spec a)))}"
proof (induction fs arbitrary: rs s)
  case (Cons f fs)
  have "rListAPIs E (log s @ [Cluster (ListAPIsByField f n ns)]) =
      Inr (filter (\<lambda>a. om_namespace (api_meta a) = ns \<and> n \<in> set (indexField f (api_spec a))) apis)"
    using assms by (simp add: index_law_def)
  then show ?case by (auto simp: Cons.IH api_request_def)
qed simp

definition indexed_names :: "KeystoneAPI \<Rightarrow> string set" where
  "indexed_names a = (\<Union>f\<in>set allWatchFields. set (indexField f (api_spec a)))"

lemma findObjectsForSrc_finds_users:
  assumes "index_law E apis"
  shows "r \<in> set (run_map_func E FindObjectsForSrc src) \<longleftrightarrow>
    (\<exists>a\<in>set apis. r = api_request a \<and> om_namespace (api_meta a) = om_namespace (wo_Meta src)
      \<and> om_name (wo_Meta src) \<in> indexed_names a)"
  by (auto simp: run_map_func_def findObjectsForSrc_def find_objects_indexed [OF assms] indexed_names_def Let_def)

section \<open>What a run reads\<close>

text \<open>The secrets a call reads: namespace and name.\<close>

fun reads :: "call \<Rightarrow> (string \<times> string) list" where
  "reads (KGetSecret ns n) = [(ns, n)]"
| "reads (Cluster (VerifySecretFields n ns _ _)) = [(ns, n)]"
| "reads (Cluster (ValidateCACertSecret n ns)) = [(ns, n)]"
| "reads (Cluster (ValidateCertSecrets a b ns)) = map (Pair ns) (case_option [] (\<lambda>n. [n]) a @ case_option [] (\<lambda>n. [n]) b)"
| "reads _ = []"

lemma in_indexed:
  "api_Secret (api_spec i) \<noteq> '''' \<Longrightarrow> api_Secret (api_spec i) \<in> indexed_names i"
  "api_TLS_CaBundleSecretName (api_spec i) \<noteq> '''' \<Longrightarrow> api_TLS_CaBundleSecretName (api_spec i) \<in> indexed_names i"
  "api_FederatedRealmConfig (api_spec i) \<noteq> '''' \<Longrightarrow> api_FederatedRealmConfig (api_spec i) \<in> indexed_names i"
  "api_TLS_Internal (api_spec i) = Some n \<Longrightarrow> n \<in> indexed_names i"
  "api_TLS_Public (api_spec i) = Some n \<Longrightarrow> n \<in> indexed_names i"
  "api_CustomConfigSecret (api_spec i) = Some n \<Longrightarrow> n \<in> indexed_names i"
  by (simp_all add: indexed_names_def allWatchFields_def indexField_def opt_list_def)

lemma indexed_names_same: "same_object i j \<Longrightarrow> indexed_names j = indexed_names i"
  by (simp add: same_object_def indexed_names_def)

text \<open>The secret the transport URL named in this run.\<close>

definition transport_named :: "env \<Rightarrow> KeystoneAPI \<Rightarrow> string \<Rightarrow> history \<Rightarrow> bool" where
  "transport_named E i x h \<longleftrightarrow>
     answered (\<lambda>g. rTransportURL (cl E) g = Inr x) (Cluster (CreateOrUpdateTransportURL (transport_name i)
       (om_namespace (api_meta i)) (serviceLabels_of E i) (transport_spec_of (api_spec i)))) h"

lemma stable_transport_named [simp]: "stable (transport_named E i x)"
  unfolding stable_def transport_named_def by (blast intro: answered_append)

text \<open>A read of \<open>x\<close> that no index and no ownership covers, and when it may happen.\<close>

definition stray :: "KeystoneAPI \<Rightarrow> string \<Rightarrow> string \<Rightarrow> call \<Rightarrow> bool" where
  "stray i ns x c \<longleftrightarrow> (ns, x) \<in> set (reads c) \<and> x \<noteq> '''' \<and> x \<noteq> ServiceName
     \<and> \<not> (ns = om_namespace (api_meta i) \<and> x \<in> indexed_names i)"

lemma stray_simps [simp]: "reads c = [] \<Longrightarrow> \<not> stray i ns x c" "\<not> stray i ns x (KGetSecret ns' ServiceName)"
  by (auto simp: stray_def)

abbreviation attended :: "env \<Rightarrow> KeystoneAPI \<Rightarrow> string \<Rightarrow> string \<Rightarrow> KeystoneAPI st \<Rightarrow> bool" where
  "attended E i ns x s \<equiv> same_object i (inst s) \<and>
     guarded (stray i ns x) (\<lambda>h. ns = om_namespace (api_meta i) \<and> transport_named E i x h) (log s)"

text \<open>A stage whose reads are all covered, for every object of the same spec and identity.\<close>

lemma attended_quiet:
  assumes "only (\<lambda>c. \<not> stray i ns x c) m" "keeps_inst (same_object i) m"
  shows "inv (attended E i ns x) m"
proof (intro hoareI wp_runI)
  fix s a t assume s: "attended E i ns x s" and run: "run_state m s = (a, t)"
  have "extends (\<lambda>c. \<not> stray i ns x c) (log s) (log t)" by (rule onlyD [OF assms(1) run])
  moreover have "same_object i (inst t)" using hoareD [OF assms(2) run] s by simp
  ultimately show "attended E i ns x t" using s guarded_extends by blast
qed

lemma attended_get:
  assumes "\<And>j. same_object i j \<Longrightarrow> inv (attended E i ns x) (f j)"
  shows "inv (attended E i ns x) (State_Monad.bind get_inst f)"
  by (rule hoare_get_inst_bind [where K = "same_object i"], rule hoare_weaken, erule assms) auto

lemma covered [simp]:
  assumes "same_object i j"
  shows "\<not> stray i ns x (Cluster (VerifySecretFields (api_Secret (api_spec j)) (om_namespace (api_meta j)) fs d))"
    "\<not> stray i ns x (KGetSecret (om_namespace (api_meta j)) (api_Secret (api_spec j)))"
    "\<not> stray i ns x (Cluster (ValidateCACertSecret (api_TLS_CaBundleSecretName (api_spec j)) (om_namespace (api_meta j))))"
    "\<not> stray i ns x (KGetSecret (om_namespace (api_meta j)) (api_FederatedRealmConfig (api_spec j)))"
    "\<not> stray i ns x (Cluster (ValidateCertSecrets (api_TLS_Internal (api_spec j)) (api_TLS_Public (api_spec j))
      (om_namespace (api_meta j))))"
    "api_CustomConfigSecret (api_spec j) = Some n \<Longrightarrow> \<not> stray i ns x (KGetSecret (om_namespace (api_meta j)) n)"
  using assms in_indexed [of i] unfolding same_object_def stray_def
  by (auto split: option.splits)

lemma attended_perform:
  "\<not> stray i ns x c \<Longrightarrow> inv (attended E i ns x) (perform c r)"
  by (rule inv_perform) auto

lemma attended_prepare:
  "inv (attended E i ns x) (verifySecret E vars)" "inv (attended E i ns x) (ensureDB E)"
  "inv (attended E i ns x) (ensure_transport E ls)" "inv (attended E i ns x) (ensure_memcached E)"
  "inv (attended E i ns x) (ensure_keys E vars)" "inv (attended E i ns x) (service_config E r)"
  "inv (attended E i ns x) (ensureFederationRealmConfig E vars)" "inv (attended E i ns x) (checkTLSInput E vars)"
  "inv (attended E i ns x) (validate_certs E)"
proof -
  show "inv (attended E i ns x) (verifySecret E vars)"
    unfolding verifySecret_def case_prod_unfold api_cond_defs
    by (rule attended_get, intro inv_intros attended_perform; simp)
  show "inv (attended E i ns x) (ensureDB E)" "inv (attended E i ns x) (ensure_transport E ls)"
    "inv (attended E i ns x) (ensure_memcached E)" 
    "inv (attended E i ns x) (service_config E r)"
    by (rule attended_quiet; (rule same_prepare)?;
      (unfold prepare_defs Let_def; intro only_intros only_ensureFernetKeys; simp))+
  show "inv (attended E i ns x) (ensure_keys E vars)"
    by (rule attended_quiet [OF _ same_prepare(6)], unfold ensure_keys_def, intro only_intros only_ensureFernetKeys) simp_all
  show "inv (attended E i ns x) (ensureFederationRealmConfig E vars)"
    unfolding ensureFederationRealmConfig_def ensure_secrets_def Let_def
    by (rule attended_get, intro inv_intros attended_perform; simp)
  show "inv (attended E i ns x) (checkTLSInput E vars)"
    unfolding checkTLSInput_def verifyTLSInput_def Let_def api_cond_defs
    by (rule inv_bind, rule attended_get, (intro inv_intros attended_perform; simp)+)
  show "inv (attended E i ns x) (validate_certs E)"
    unfolding validate_certs_def api_cond_defs
    by (rule attended_get, intro inv_intros attended_perform; simp)
qed


text \<open>The configuration reads the transport secret, under the name the transport URL gave.\<close>

lemma attended_transport:
  "hoare (attended E i ns x) (ensure_transport E (serviceLabels_of E i)) (\<lambda>r s. attended E i ns x s
     \<and> (\<forall>n. r = Go n \<longrightarrow> transport_named E i n (log s)))"
proof (rule hoareI)
  fix s assume s: "attended E i ns x s"
  have "wp (ensure_transport E (serviceLabels_of E i)) (\<lambda>r t. \<forall>n. r = Go n \<longrightarrow> transport_named E i n (log t)) s"
    using s
    by (simp add: ensure_transport_def transportURLCreateOrUpdate_def failed_def waiting_def wp_simps
        split: sum.splits option.splits)
      (auto simp: transport_named_def same_object_def transport_name_def)
  with hoare_wp [OF attended_prepare(3) s] show "wp (ensure_transport E (serviceLabels_of E i)) (\<lambda>r s. attended E i ns x s
     \<and> (\<forall>n. r = Go n \<longrightarrow> transport_named E i n (log s))) s"
    by (simp add: wp_conj)
qed

lemma attended_generate:
  "hoare (\<lambda>s. attended E i ns x s \<and> transport_named E i n (log s)) (generateServiceConfigMaps E vars mc db n)
     (\<lambda>_. attended E i ns x)"
proof -
  have override: "inv (attended E i ns x) (override_data E j)" if "same_object i j" for j
    using that
    by (cases "api_CustomConfigSecret (api_spec j)")
      (auto simp: override_data_def intro!: inv_intros attended_perform)
  have "hoare (\<lambda>s. (attended E i ns x s \<and> transport_named E i n (log s)) \<and> inst s = j)
      (perform (KGetSecret (om_namespace (api_meta j)) n) (rGetSecret E)) (\<lambda>_. attended E i ns x)" if "same_object i j" for j
    using that by (intro hoare_perform) (auto simp: stray_def same_object_def)
  then show ?thesis
    unfolding generateServiceConfigMaps_def ensure_secrets_def Let_def
    by (intro hoare_get_inst_bind [where K = "same_object i"] hoare_bind [where R = "\<lambda>_. attended E i ns x"])
      (assumption, (intro inv_intros override attended_perform; simp)+, simp)
qed


lemma attended_stable:
  assumes "inv J m" "only (\<lambda>_. True) m" "stable X"
  shows "inv (\<lambda>s. J s \<and> X (log s)) m"
proof (intro hoareI wp_runI)
  fix s a t assume s: "J s \<and> X (log s)" and run: "run_state m s = (a, t)"
  have "X (log t)" by (rule stableD [OF assms(3,2) run]) (use s in simp)
  with hoareD [OF assms(1) run] s show "J t \<and> X (log t)" by simp
qed

lemma hoare_then:
  assumes "hoare P m (\<lambda>r s. J s \<and> (\<forall>a. r = Go a \<longrightarrow> X a s))" "\<And>a. hoare (\<lambda>s. J s \<and> X a s) (f a) (\<lambda>_. J)"
  shows "hoare P (andThen m f) (\<lambda>_. J)"
  by (rule hoare_andThen [OF _ assms(2)], rule hoare_weaken [OF assms(1)]) (auto split: step.split)

lemma attended_prepare_inputs: "inv (attended E i ns x) (prepare_inputs E)"
proof -
  let ?J = "attended E i ns x" and ?X = "\<lambda>n s. transport_named E i n (log s)"
  have mc: "hoare (\<lambda>s. ?J s \<and> ?X n s) (ensure_memcached E) (\<lambda>r s. ?J s \<and> (\<forall>a. r = Go a \<longrightarrow> ?X n s))" for n
    by (rule hoare_weaken [OF attended_stable [OF attended_prepare(4) _ stable_transport_named]])
      (auto intro: only_mono [OF only_prepare(4)])
  have config: "hoare (\<lambda>s. ?J s \<and> ?X n s) (do { r \<leftarrow> generateServiceConfigMaps E vars mc db n; service_config E r })
      (\<lambda>r s. ?J s \<and> (\<forall>a. r = Go a \<longrightarrow> True))" for vars mc db n
    by (rule hoare_weaken [OF hoare_bind [OF attended_generate attended_prepare(6)]]) auto
  have rest: "hoare (\<lambda>s. ?J s \<and> True) (case p of (customConfigKeys, vars1) \<Rightarrow> andThen (ensure_keys E vars1) (\<lambda>vars2.
       andThen (do { r \<leftarrow> ensureFederationRealmConfig E vars2; service_config E r })
         (\<lambda>(federationFilenames, vars3). ret (Go (k customConfigKeys federationFilenames vars3))))) (\<lambda>_. ?J)"
    for p and k :: "string list \<Rightarrow> string list \<Rightarrow> string gomap \<Rightarrow> inputs"
    by (simp, intro inv_intros attended_prepare)
  have chain: "inv ?J (andThen (ensure_transport E (serviceLabels_of E j)) (\<lambda>n. andThen (ensure_memcached E) (\<lambda>mc.
       andThen (do { r \<leftarrow> generateServiceConfigMaps E vars mc db n; service_config E r })
         (\<lambda>(customConfigKeys, vars1). andThen (ensure_keys E vars1) (\<lambda>vars2.
       andThen (do { r \<leftarrow> ensureFederationRealmConfig E vars2; service_config E r })
         (\<lambda>(federationFilenames, vars3). ret (Go (k n mc customConfigKeys federationFilenames vars3))))))))"
    if "same_object i j" for j vars db and k :: "string \<Rightarrow> memcached \<Rightarrow> string list \<Rightarrow> string list \<Rightarrow> string gomap \<Rightarrow> inputs"
    unfolding protected_same(3) [OF that]
    by (rule hoare_then [OF attended_transport], rule hoare_then [OF mc], rule hoare_then [OF config], rule rest)
  have ready: "inv ?J (api_true E t m)" for t m
    unfolding api_true_def by (rule inv_upd_inst) simp
  show ?thesis
    unfolding prepare_inputs_def Let_def
    by (rule attended_get, rule inv_andThen [OF attended_prepare(1)], rule inv_bind [OF ready],
        rule inv_andThen [OF attended_prepare(2)], erule chain)
qed

text \<open>The stages after that read no secret but the certificates and the admin password.\<close>

lemma quiet_parts:
  "only (\<lambda>c. reads c = []) (networks E ns' nas l)" "only (\<lambda>c. reads c = []) (create_services E j ls eps m)"
  "only (\<lambda>c. reads c = []) (run_job E jb n t ms)" "only (\<lambda>c. reads c = []) (deploy E d)"
proof -
  show "only (\<lambda>c. reads c = []) (networks E ns' nas l)" by (rule only_networks) simp
  show "only (\<lambda>c. reads c = []) (create_services E j ls eps m)"
    by (induction eps arbitrary: m) (auto simp: create_service_def Let_def intro!: only_intros)
  show "only (\<lambda>c. reads c = []) (run_job E jb n t ms)"
    unfolding run_job_def case_prod_unfold by (intro only_intros; simp)
  show "only (\<lambda>c. reads c = []) (deploy E d)"
    by (cases d) (auto simp: deploy_def split: sum.split intro!: only_intros)
qed

lemma quiet_run_service: "only (\<lambda>c. reads c = []) (run_service E inp h)"
  unfolding run_service_def network_annotations_def reconcileInit_def bootstrap_def reconcile_rbac_def expose_services_def
    update_and_upgrade_def reconcileUpdate_def reconcileUpgrade_def ensure_topology_def verify_networks_def
    check_deployment_def ensure_cron_job_def
  by (intro only_intros quiet_parts; simp)

lemma blind_rbac: "status_blind P \<Longrightarrow> P (foldl (\<lambda>j c. RbacConditionsSet E c j) j cs) = P j"
  by (induction cs arbitrary: j) (simp_all add: RbacConditionsSet_def status_blindD)

lemma blind_parts:
  assumes "status_blind P"
  shows "keeps_inst P (networks E ns nas l)" "keeps_inst P (create_services E j ls eps m)"
    "keeps_inst P (run_job E jb n t ms)" "keeps_inst P (deploy E d)"
proof -
  note [simp] = status_blindD [OF assms]
  show "keeps_inst P (networks E ns nas l)"
    by (induction nas arbitrary: l) (auto simp: api_cond_defs intro!: inv_intros)
  show "keeps_inst P (create_services E j ls eps m)"
    by (induction eps arbitrary: m) (auto simp: create_service_def api_cond_defs Let_def intro!: inv_intros)
  show "keeps_inst P (run_job E jb n t ms)"
    unfolding run_job_def case_prod_unfold api_cond_defs by (intro inv_intros; simp)
  show "keeps_inst P (deploy E d)"
    by (cases d) (auto simp: deploy_def api_cond_defs split: sum.split intro!: inv_intros)
qed

lemma blind_run_service:
  assumes "status_blind P"
  shows "keeps_inst P (run_service E inp h)"
  unfolding run_service_def network_annotations_def reconcileInit_def bootstrap_def reconcile_rbac_def expose_services_def
    update_and_upgrade_def reconcileUpdate_def reconcileUpgrade_def ensure_topology_def verify_networks_def
    check_deployment_def ensure_cron_job_def api_cond_defs
  by (intro inv_intros blind_parts assms; simp add: status_blindD [OF assms] blind_rbac [OF assms])

lemmas same_run_service = blind_run_service [OF blind_same]

lemma attended_late:
  "inv (attended E i ns x) (run_service E inp h)" "inv (attended E i ns x) (finish_rotation E n)"
  "inv (attended E i ns x) (api_reconcileDelete E)" "inv (attended E i ns x) (api_deferred E saved r)"
  "inv (attended E i ns x) (hash_inputs E vars)" "inv (attended E i ns x) (reconcileCloudConfig E)"
proof -
  show "inv (attended E i ns x) (run_service E inp h)"
    by (rule attended_quiet [OF only_mono [OF quiet_run_service] same_run_service]) simp
  show "inv (attended E i ns x) (finish_rotation E n)" "inv (attended E i ns x) (api_reconcileDelete E)"
    unfolding finish_rotation_def api_reconcileDelete_def release_defs api_drop_finalizer_def Let_def
    by (intro inv_intros attended_perform; simp)+
  show "inv (attended E i ns x) (api_deferred E saved r)"
    by (cases r) (auto simp: api_deferred_def intro!: inv_intros)
  have "inv (attended E i ns x) (createHashOfInputHashes E vars)" for vars
    unfolding createHashOfInputHashes_def case_prod_unfold by (intro inv_intros; simp)
  then show "inv (attended E i ns x) (hash_inputs E vars)"
    unfolding hash_inputs_def by (intro inv_intros attended_prepare; simp add: api_true_def inv_upd_inst)
  show "inv (attended E i ns x) (reconcileCloudConfig E)"
    unfolding reconcileCloudConfig_def client_secret_def Let_def
    by (rule attended_get, intro inv_intros attended_perform; simp)
qed

lemma attended_external: "inv (attended E i ns x) (reconcileExternalKeystoneAPI E)"
  unfolding reconcileExternalKeystoneAPI_def api_cond_defs
  by (intro inv_intros attended_prepare attended_late; simp add: publish_external_def)

lemma attended_normal: "inv (attended E i ns x) (api_reconcileNormal E)"
  unfolding api_reconcileNormal_def by (intro inv_intros attended_prepare_inputs attended_late)

lemma attended_body: "inv (attended E i ns x) (api_body E)"
  unfolding api_body_def api_dispatch_def Let_def case_prod_unfold
  by (intro inv_intros attended_late attended_external attended_normal; simp)

text \<open>Whatever secret a run reads is the key secret it owns, named in the spec under an index, or named by its transport URL.\<close>

lemma api_reads_covered:
  assumes "rGetAPI E [KGet KindAPI ns name] = Inr i"
    and "run_state (api_Reconcile E ns name) (start o') = (r, t)"
    and "log t = pre @ c # post" "(ns', x) \<in> set (reads c)" "x \<noteq> ''''"
  shows "x = ServiceName \<or> ns' = om_namespace (api_meta i) \<and> (x \<in> indexed_names i \<or> transport_named E i x pre)"
proof -
  let ?G = "\<lambda>_ s. guarded (stray i ns' x) (\<lambda>h. ns' = om_namespace (api_meta i) \<and> transport_named E i x h) (log s)"
  have body: "hoare (attended E i ns' x) (do { out \<leftarrow> api_body E; api_deferred E saved (returned out) }) ?G" for saved
    by (rule hoare_weaken [OF inv_bind [OF attended_body attended_late(4)]]) auto
  have "wp (api_Reconcile E ns name) ?G (start o')"
    using assms(1) hoare_wp [OF body]
    by (simp add: api_Reconcile_def wp_simps guarded_none split: option.split)
  then have "guarded (stray i ns' x) (\<lambda>h. ns' = om_namespace (api_meta i) \<and> transport_named E i x h) (log t)"
    using assms(2) by (simp add: wp_def)
  with assms(3-5) show ?thesis
    by (auto simp: stray_def dest: guardedD)
qed

section \<open>Every change of what a run read starts another run\<close>

lemma enqueuedI:
  assumes "manager_laws M" "w \<in> set ws" "list_all (\<lambda>p. Passes M p ev) (watch_predicates w)"
    and "obj \<in> set (objects_of ev)" "wo_Kind obj = watch_kind w" "handled_by k mapped w obj r"
  shows "r \<in> Enqueued M k ws mapped ev"
  using assms unfolding manager_laws_def by blast

lemma passes_changed:
  assumes "manager_laws M" "\<And>old new. ev = Updated old new \<Longrightarrow> wo_ResourceVersion old \<noteq> wo_ResourceVersion new"
  shows "Passes M ResourceVersionChanged ev"
  using assms by (cases ev) (auto simp: manager_laws_def predicate_laws_def)


text \<open>A run that finds the password secret missing; its creation enqueues the object.\<close>

definition missing_env :: env where
  "missing_env = full_env\<lparr>cl := (cl full_env)\<lparr>rVerifySecret := \<lambda>h. ('''', fail no_err)\<rparr>,
     rListAPIs := \<lambda>h. case last h of
        Cluster (ListAPIsByField f n ns) \<Rightarrow>
          Inr (filter (\<lambda>a. om_namespace (api_meta a) = ns \<and> n \<in> set (indexField f (api_spec a))) [full_api])
      | _ \<Rightarrow> Inr []\<rparr>"

definition password_secret :: watched_object where
  "password_secret = \<lparr>wo_Kind = OSecret, wo_Meta = new_meta (api_Secret (api_spec full_api)) (om_namespace (api_meta full_api)),
     wo_ResourceVersion = ''1'', wo_Controller = None\<rparr>"

lemma missing_run:
  "wp (api_Reconcile missing_env ''openstack'' ''keystone'') (\<lambda>_ t. \<exists>j. log t =
     [KGet KindAPI ''openstack'' ''keystone'', NewHelper KindAPI,
      Cluster (VerifySecretFields ''osp-secret'' ''openstack'' [''AdminPassword''] (10 * second)), KPatchAPI j]) (start full_api)"
proof -
  have [simp]: "deleting (api_meta full_api) = False" "api_ExternalKeystoneAPI (api_spec full_api) = False"
    "apis_Conditions (api_status full_api) \<noteq> None" "''openstack.org/keystoneapi'' \<in> set (api_fins full_api)"
    "om_namespace (api_meta full_api) = ''openstack''" "api_Secret (api_spec full_api) = ''osp-secret''"
    by (simp_all add: full_api_def ex_api_def deleting_def new_meta_def api_fins_def)
  have [simp]: "rGetAPI missing_env h = Inr full_api" "rErr missing_env h = None" "GetFinalizer missing_env = GetFinalizer base_env"
    "AddFinalizer missing_env = AddFinalizer base_env" "rVerifySecret (cl missing_env) h = ('''', fail no_err)" for h
    by (simp_all add: missing_env_def full_env_def)
  have [simp]: "api_set_finalizers (api_fins full_api) (api_map_status f (api_upd_conds g full_api)) =
      api_map_status f (api_upd_conds g full_api)" for f g
    by (simp add: api_set_finalizers_def api_fins_def api_map_status_def api_upd_conds_def)
  show ?thesis
    by (auto simp: api_Reconcile_def api_body_def api_dispatch_def wp_simps Let_def api_reconcileNormal_def prepare_inputs_def
        verifySecret_def failed_def api_false_def returned_def intro!: wp_api_deferred split: prod.split)
qed


text \<open>
  The creation of a secret enqueues no application credential, so the run that created the secret is not repeated on
  a stale object; a change or the deletion of the secret enqueues the credential that owns it.
\<close>

lemma ac_secret_events:
  assumes "manager_laws M" "wo_Kind obj = OSecret" "wo_Controller obj = Some (OApplicationCredential, n)"
  shows "Enqueued M OApplicationCredential (ac_watches b) mapped (Created obj) = {}
    \<and> (om_namespace (wo_Meta obj), n) \<in> Enqueued M OApplicationCredential (ac_watches b) mapped (Updated old obj)
    \<and> (om_namespace (wo_Meta obj), n) \<in> Enqueued M OApplicationCredential (ac_watches b) mapped (Deleted obj)"
proof -
  let ?w = "Owns OSecret [Funcs (Some (\<lambda>_. False))]"
  have P: "\<not> Passes M (Funcs (Some (\<lambda>_. False))) (Created obj)" "Passes M (Funcs f) (Updated old obj)" "Passes M p (Deleted obj)" for f p
    using assms(1) by (simp_all add: manager_laws_def predicate_laws_def)
  have "Enqueued M OApplicationCredential (ac_watches b) mapped (Created obj) = {}"
    using assms(1,2) P(1) by (auto simp: manager_laws_def ac_watches_def split: if_splits)
  moreover have "(om_namespace (wo_Meta obj), n) \<in> Enqueued M OApplicationCredential (ac_watches b) mapped ev"
    if "list_all (\<lambda>p. Passes M p ev) (watch_predicates ?w)" "obj \<in> set (objects_of ev)" for ev
    using that assms(2,3) by (intro enqueuedI [OF assms(1), of ?w]) (auto simp: ac_watches_def handled_by_def)
  ultimately show ?thesis by (auto simp: P)
qed

lemma ac_secret_events_witness:
  "Enqueued plain_manager OApplicationCredential (ac_watches True) (\<lambda>_ _. [])
     (Created (password_secret\<lparr>wo_Controller := Some (OApplicationCredential, ''ac'')\<rparr>)) = {}"
  by (rule ac_secret_events [OF plain_manager_laws, THEN conjunct1]) (simp_all add: password_secret_def)

end
