(* ===== verification/ProtocolProps.thy ===== *)
theory ProtocolProps
  imports FinalizerProtocol ServiceProps EndpointProps WatchProps
begin

text \<open>
  The KeystoneService controller follows the finalizer protocol: \<open>events\<close> reads the events of \<open>FinalizerProtocol\<close> off
  the log of a run of a controller, and every run on a KeystoneService is accepted as one of a holder.
\<close>

section \<open>The events of a run\<close>

text \<open>The finalizers of a KeystoneAPI that belong to others.\<close>

definition holders :: "env \<Rightarrow> KeystoneAPI \<Rightarrow> string set" where
  "holders E api = set (api_fins api) - {GetFinalizer E KindAPI}"

definition records :: "KeystoneService \<Rightarrow> bool" where
  "records i \<longleftrightarrow> svcs_ServiceID (svc_status i) \<noteq> ''''"

text \<open>The lookup counts when the code goes on with its answer.\<close>

definition lookup_event :: "env \<Rightarrow> registered_service option \<times> error option \<Rightarrow> ev option" where
  "lookup_event E r = (if (case snd r of Some e \<Rightarrow> \<not> Contains (err_msg e) (ServiceNotFound E) | None \<Rightarrow> False)
     then None else Some (Looked (fst r \<noteq> None)))"

text \<open>A run begins when its object was read; the objects of an endpoint record no service.\<close>

definition read_event :: "env \<Rightarrow> kind \<Rightarrow> history \<Rightarrow> ev option" where
  "read_event E k h =
     (case k of
        KindService \<Rightarrow> (case rGetService E h of Inr i \<Rightarrow> Some (Got (records i)) | Inl _ \<Rightarrow> None)
      | KindEndpoint \<Rightarrow> (case rGetEndpoint E h of Inr i \<Rightarrow> Some (Got False) | Inl _ \<Rightarrow> None)
      | _ \<Rightarrow> None)"

lemma read_event_simps [simp]:
  "rGetService E h = Inr i \<Longrightarrow> read_event E KindService h = Some (Got (records i))"
  "rGetEndpoint E h = Inr j \<Longrightarrow> read_event E KindEndpoint h = Some (Got False)"
  by (simp_all add: read_event_def)

text \<open>The event of the last call of a history, in a run of the controller of one kind of objects.\<close>

fun event_of :: "env \<Rightarrow> kind \<Rightarrow> history \<Rightarrow> call \<Rightarrow> ev option" where
  "event_of E k h (KGet j _ _) = (if j = k then read_event E k h else None)"
| "event_of E k h (KList KindAPI _ _) =
     (case rListAPIs E h of Inr [api] \<Rightarrow> Some (Listed (holders E api) (deleting (api_meta api))) | _ \<Rightarrow> None)"
| "event_of E k h (KUpdateAPI api) = Some (Wrote (holders E api) (rErr E h = None))"
| "event_of E k h (OSGetService _ _ _) = lookup_event E (rGetOSService E h)"
| "event_of E k h (OSCreateService _ _) = Some (Registered (snd (rCreateService E h) = None))"
| "event_of E k h (OSDeleteService _ _) = Some (Unregistered (rErr E h = None))"
| "event_of E k h (KPatchService i) = Some (Saved (records i) (rErr E h = None))"
| "event_of E k h _ = None"

primrec events_from :: "env \<Rightarrow> kind \<Rightarrow> history \<Rightarrow> history \<Rightarrow> ev list" where
  "events_from E k h [] = []"
| "events_from E k h (c # cs) = (case event_of E k (h @ [c]) c of None \<Rightarrow> [] | Some e \<Rightarrow> [e]) @ events_from E k (h @ [c]) cs"

definition events :: "env \<Rightarrow> kind \<Rightarrow> history \<Rightarrow> ev list" where
  "events E k l = events_from E k [] l"

lemma events_from_snoc: "events_from E k h (l @ [c]) = events_from E k h l
    @ (case event_of E k (h @ l @ [c]) c of None \<Rightarrow> [] | Some e \<Rightarrow> [e])"
  by (induction l arbitrary: h) simp_all

lemma events_Nil [simp]: "events E k [] = []"
  by (simp add: events_def)

lemma events_snoc: "events E k (l @ [c]) = events E k l @ (case event_of E k (l @ [c]) c of None \<Rightarrow> [] | Some e \<Rightarrow> [e])"
  by (simp add: events_def events_from_snoc)

section \<open>Runs that are accepted\<close>

text \<open>The run so far is accepted and leaves the holder in a state that fits the object in memory.\<close>

definition tracks :: "env \<Rightarrow> kind \<Rightarrow> string \<Rightarrow> (actor \<Rightarrow> 'i \<Rightarrow> bool) \<Rightarrow> 'i st \<Rightarrow> bool" where
  "tracks E k f Q s \<longleftrightarrow> (\<exists>l. accepts f idle (events E k (log s)) = Some l \<and> Q l (inst s))"

lemma tracks_mono: "tracks E k f Q s \<Longrightarrow> (\<And>l i. Q l i \<Longrightarrow> Q' l i) \<Longrightarrow> tracks E k f Q' s"
  unfolding tracks_def by blast

lemma tracks_quiet [simp]: "event_of E k (log s @ [c]) c = None \<Longrightarrow> tracks E k f Q (s\<lparr>log := log s @ [c]\<rparr>) = tracks E k f Q s"
  by (simp add: tracks_def events_snoc)

lemma tracks_event:
  assumes "tracks E k f Q s" "event_of E k (log s @ [c]) c = Some e" "\<And>l. Q l (inst s) \<Longrightarrow> \<exists>l'. accept f l e = Some l' \<and> Q' l' (inst s)"
  shows "tracks E k f Q' (s\<lparr>log := log s @ [c]\<rparr>)"
  using assms by (auto simp: tracks_def events_snoc accepts_snoc)

lemma tracks_inst:
  assumes "tracks E k f Q s" "\<And>l. Q l (inst s) \<Longrightarrow> Q' l (g (inst s))"
  shows "tracks E k f Q' (s\<lparr>inst := g (inst s)\<rparr>)"
  using assms by (auto simp: tracks_def)

text \<open>Reading the KeystoneAPI, and writing one's own finalizer, for any condition on the rest of the holder's state.\<close>

abbreviation copy_of :: "env \<Rightarrow> KeystoneAPI \<Rightarrow> (string set \<times> bool) option" where
  "copy_of E api \<equiv> Some (holders E api, deleting (api_meta api))"

lemma tracks_GetKeystoneAPI:
  assumes "\<And>l i F d. Q l i \<Longrightarrow> Q (l\<lparr>copied := Some (F, d)\<rparr>) i"
  shows "hoare (tracks E k f Q) (GetKeystoneAPI E ns sel)
    (\<lambda>r. tracks E k f (\<lambda>l i. Q l i \<and> (\<forall>api. r = Inr api \<longrightarrow> copied l = copy_of E api)))"
proof (rule hoareI)
  fix s :: "'a st" assume s: "tracks E k f Q s"
  let ?c = "KList KindAPI ns sel" and ?h = "log s @ [KList KindAPI ns sel]"
  have ev: "tracks E k f (\<lambda>l i. Q l i \<and> copied l = copy_of E api) (s\<lparr>log := ?h\<rparr>)" if "rListAPIs E ?h = Inr [api]" for api
    by (rule tracks_event [OF s]) (use that assms in auto)
  have quiet: "tracks E k f Q (s\<lparr>log := ?h\<rparr>)" if "event_of E k ?h ?c = None"
    using that s by simp
  show "wp (GetKeystoneAPI E ns sel) (\<lambda>r. tracks E k f (\<lambda>l i. Q l i \<and> (\<forall>api. r = Inr api \<longrightarrow> copied l = copy_of E api))) s"
    using ev quiet by (auto simp: GetKeystoneAPI_def wp_simps split: sum.splits list.splits)
qed

lemma tracks_write:
  assumes "tracks E k f Q s" "\<And>l. Q l (inst s) \<Longrightarrow> may_write f l (holders E api)"
    and "\<And>l i F d. Q l i \<Longrightarrow> copied l = Some (F, d) \<Longrightarrow> Q' (l\<lparr>copied := Some (holders E api, d)\<rparr>) i" "\<And>l i. Q l i \<Longrightarrow> Q'' l i"
  shows "tracks E k f (\<lambda>l i. if rErr E (log s @ [KUpdateAPI api]) = None then Q' l i else Q'' l i)
    (s\<lparr>log := log s @ [KUpdateAPI api]\<rparr>)"
proof (rule tracks_event [OF assms(1)])
  show "event_of E k (log s @ [KUpdateAPI api]) (KUpdateAPI api) = Some (Wrote (holders E api) (rErr E (log s @ [KUpdateAPI api]) = None))"
    by simp
  fix l assume l: "Q l (inst s)"
  then have "\<exists>F d. copied l = Some (F, d)" using assms(2) by (force simp: may_write_def split: option.splits)
  with l show "\<exists>l'. accept f l (Wrote (holders E api) (rErr E (log s @ [KUpdateAPI api]) = None)) = Some l' \<and>
      (if rErr E (log s @ [KUpdateAPI api]) = None then Q' l' (inst s) else Q'' l' (inst s))"
    using assms(2-4) by auto
qed

lemma holders_add:
  assumes "finalizer_laws E" "f \<noteq> GetFinalizer E KindAPI"
  shows "holders E (api_set_finalizers (fst (AddFinalizer E (api_fins api) f)) api) = insert f (holders E api)"
    and "holders E (api_set_finalizers (fst (RemoveFinalizer E (api_fins api) f)) api) = holders E api - {f}"
  using assms(2) api_fin.fins_add [OF assms(1), of api f] api_fin.fins_remove [OF assms(1), of api f]
  by (auto simp: holders_def)

lemma tracks_add:
  assumes "finalizer_laws E" "f \<noteq> GetFinalizer E KindAPI"
    and "\<And>l i F d. Q l i \<Longrightarrow> Q (l\<lparr>copied := Some (F, d)\<rparr>) i"
  shows "hoare (tracks E k f (\<lambda>l i. Q l i \<and> copied l = copy_of E api)) (add_api_finalizer E f api)
    (\<lambda>r. tracks E k f (\<lambda>l i. Q l i \<and> (r = None \<longrightarrow> holds f l)))"
proof (rule hoareI)
  fix s :: "'a st" assume s: "tracks E k f (\<lambda>l i. Q l i \<and> copied l = copy_of E api) s"
  let ?a = "api_set_finalizers (fst (AddFinalizer E (api_fins api) f)) api"
  show "wp (add_api_finalizer E f api) (\<lambda>r. tracks E k f (\<lambda>l i. Q l i \<and> (r = None \<longrightarrow> holds f l))) s"
  proof (cases "f \<in> set (api_fins api)")
    case True
    with assms(2) have "f \<in> holders E api" by (simp add: holders_def)
    with True s show ?thesis
      by (auto simp: wp_def run_add_api_finalizer [OF assms(1)] holds_def elim: tracks_mono)
  next
    case False
    have "tracks E k f (\<lambda>l i. if rErr E (log s @ [KUpdateAPI ?a]) = None then Q l i \<and> holds f l else Q l i) (s\<lparr>log := log s @ [KUpdateAPI ?a]\<rparr>)"
      by (rule tracks_write [OF s]) (use assms(3) in \<open>auto simp: may_write_def holds_def holders_add [OF assms(1,2)]\<close>)
    with False show ?thesis
      by (simp add: wp_def run_add_api_finalizer [OF assms(1)] Let_def, elim tracks_mono) (auto split: if_splits)
  qed
qed

lemma tracks_drop:
  assumes "finalizer_laws E" "f \<noteq> GetFinalizer E KindAPI"
    and "\<And>l i F d. Q l i \<Longrightarrow> Q (l\<lparr>copied := Some (F, d)\<rparr>) i"
  shows "hoare (tracks E k f (\<lambda>l i. Q l i \<and> copied l = copy_of E api \<and> (\<not> recorded l \<or> deleting (api_meta api))))
    (drop_api_finalizer E f api) (\<lambda>_. tracks E k f Q)"
proof (rule hoareI)
  fix s :: "'a st" assume s: "tracks E k f (\<lambda>l i. Q l i \<and> copied l = copy_of E api \<and> (\<not> recorded l \<or> deleting (api_meta api))) s"
  let ?a = "api_set_finalizers (fst (RemoveFinalizer E (api_fins api) f)) api"
  show "wp (drop_api_finalizer E f api) (\<lambda>_. tracks E k f Q) s"
  proof (cases "f \<in> set (api_fins api)")
    case True
    have "tracks E k f (\<lambda>l i. if rErr E (log s @ [KUpdateAPI ?a]) = None then Q l i else Q l i) (s\<lparr>log := log s @ [KUpdateAPI ?a]\<rparr>)"
      by (rule tracks_write [OF s]) (use assms(3) in \<open>auto simp: may_write_def holders_add [OF assms(1,2)]\<close>)
    with True show ?thesis by (simp add: wp_def run_drop_api_finalizer [OF assms(1)] Let_def)
  next
    case False
    with s show ?thesis by (auto simp: wp_def run_drop_api_finalizer [OF assms(1)] elim: tracks_mono)
  qed
qed

section \<open>The KeystoneService controller is a holder\<close>

text \<open>Of the identity service: an ID is not empty, and a creation that failed answers none.\<close>

definition service_id_law :: "env \<Rightarrow> bool" where
  "service_id_law E \<longleftrightarrow> (\<forall>h i e. rCreateService E h = (i, e) \<longrightarrow> (i = '''' \<longleftrightarrow> e \<noteq> None)) \<and>
     (\<forall>h s e. rGetOSService E h = (Some s, e) \<longrightarrow> rs_ID s \<noteq> '''')"

definition svc_fits :: "string \<Rightarrow> actor \<Rightarrow> KeystoneService \<Rightarrow> bool" where
  "svc_fits n l i \<longleftrightarrow> recorded l = records i \<and> named n i"

lemma svc_fits_simps [simp]:
  "svc_fits n (l\<lparr>copied := c\<rparr>) i = svc_fits n l i" "svc_fits n l (svc_upd_conds g i) = svc_fits n l i"
  "svc_fits n l (svc_set_finalizers fs i) = svc_fits n l i"
  by (simp_all add: svc_fits_def records_def svc_set_finalizers_def named_def)

lemma holds_simps [simp]: "holds f (l\<lparr>recorded := b\<rparr>) = holds f l" "holds f (l\<lparr>absent := b\<rparr>) = holds f l"
  by (simp_all add: holds_def)

abbreviation svc_tracks :: "env \<Rightarrow> string \<Rightarrow> string \<Rightarrow> KeystoneService st \<Rightarrow> bool" where
  "svc_tracks E f n \<equiv> tracks E KindService f (svc_fits n)"

lemma tracks_upd_conds [simp]:
  "(\<And>l i. Q l (svc_upd_conds g i) = Q l i) \<Longrightarrow> tracks E KindService f Q (s\<lparr>inst := svc_upd_conds g (inst s)\<rparr>) = tracks E KindService f Q s"
  by (simp add: tracks_def)

text \<open>Looking the service up, and creating it when there is none.\<close>

lemma tracks_reconcileService:
  assumes "service_id_law E"
  shows "hoare (tracks E KindService f (\<lambda>l i. svc_fits n l i \<and> holds f l)) (reconcileService E os) (\<lambda>_. tracks E KindService f (svc_fits n))"
proof (rule hoareI)
  fix s :: "KeystoneService st" assume s: "tracks E KindService f (\<lambda>l i. svc_fits n l i \<and> holds f l) s"
  let ?spec = "svc_spec (inst s)"
  let ?c = "OSGetService os (svc_ServiceType ?spec) (svc_ServiceName ?spec)" and ?h = "log s @ [OSGetService os (svc_ServiceType ?spec) (svc_ServiceName ?spec)]"
  obtain found err where r: "rGetOSService E ?h = (found, err)" by fastforce
  show "wp (reconcileService E os) (\<lambda>_. tracks E KindService f (svc_fits n)) s"
  proof (cases "case err of Some e \<Rightarrow> \<not> Contains (err_msg e) (ServiceNotFound E) | None \<Rightarrow> False")
    case True
    then have "tracks E KindService f (svc_fits n) (s\<lparr>log := ?h\<rparr>)"
      using s by (auto simp: r lookup_event_def elim: tracks_mono)
    with True show ?thesis by (simp add: reconcileService_def wp_simps r)
  next
    case False
    have t: "tracks E KindService f (\<lambda>l i. recorded l = (found \<noteq> None \<or> records i) \<and> named n i \<and> holds f l \<and> absent l = (found = None))
        (s\<lparr>log := ?h\<rparr>)"
      by (rule tracks_event [OF s]) (use False in \<open>auto simp: r lookup_event_def svc_fits_def\<close>)
    show ?thesis
    proof (cases found)
      case None
      let ?c2 = "OSCreateService os (wanted_service ?spec)"
      obtain newID e2 where r2: "rCreateService E (?h @ [?c2]) = (newID, e2)" by fastforce
      then have r3: "rCreateService E (log s @ [?c, ?c2]) = (newID, e2)" by simp
      have "tracks E KindService f (\<lambda>l i. recorded l = (e2 = None) \<and> named n i) (s\<lparr>log := ?h\<rparr>\<lparr>log := log (s\<lparr>log := ?h\<rparr>) @ [?c2]\<rparr>)"
        by (rule tracks_event [OF t]) (use None r2 in auto)
      then have "tracks E KindService f (svc_fits n) (s\<lparr>log := ?h @ [?c2], inst := svc_set_ServiceID newID (inst s)\<rparr>)"
        using assms r2 by (auto simp: tracks_def svc_fits_def records_def service_id_law_def svc_set_ServiceID_def named_def)
      with False None show ?thesis
        by (simp add: reconcileService_def register_service_def wp_simps r r3)
    next
      case (Some svc)
      then have "rs_ID svc \<noteq> ''''" using assms r unfolding service_id_law_def by blast
      with t Some have u: "tracks E KindService f (svc_fits n) (s\<lparr>log := ?h, inst := svc_set_ServiceID (rs_ID svc) (inst s)\<rparr>)"
        by (auto simp: tracks_def svc_fits_def records_def svc_set_ServiceID_def named_def)
      have "tracks E KindService f (svc_fits n) (s\<lparr>inst := svc_set_ServiceID (rs_ID svc) (inst s), log := ?h @ [OSUpdateService os w x]\<rparr>)" for w x
        using tracks_quiet [THEN iffD2, OF _ u, of "OSUpdateService os w x"] by (simp add: tracks_def)
      with False Some u show ?thesis
        by (simp add: reconcileService_def register_service_def wp_simps r)
    qed
  qed
qed

text \<open>The rest of a run makes no step of the protocol, or is a part above.\<close>

lemma tracks_reconcileUser: "inv (svc_tracks E f n) (reconcileUser E os)"
  unfolding reconcileUser_def by (intro inv_intros; simp)

lemma tracks_client:
  "inv (tracks E KindService f Q) (GetAdminServiceClient E api)"
  by (intro inv_GetAdminServiceClient; simp)

lemma tracks_normal:
  assumes "finalizer_laws E" "service_id_law E" "f \<noteq> GetFinalizer E KindAPI" "f = GetFinalizer E KindService @ ''-'' @ n"
  shows "hoare (tracks E KindService f (\<lambda>l i. svc_fits n l i \<and> copied l = copy_of E api)) (svc_reconcileNormal E os api)
    (\<lambda>_. svc_tracks E f n)"
  unfolding svc_reconcileNormal_def svc_true_def svc_false_def
proof (rule hoare_get_inst_bind [where K = "\<lambda>i. api_finalizer E KindService (svc_meta i) = f"],
    rule hoare_bind [where R = "\<lambda>r. tracks E KindService f (\<lambda>l i. svc_fits n l i \<and> (r = None \<longrightarrow> holds f l))"], goal_cases)
  case (1 i)
  then show ?case using tracks_add [OF assms(1,3), of "svc_fits n" KindService api] by (auto elim: hoare_weaken)
next
  case (2 i err)
  show ?case
  proof (cases err)
    case None
    show ?thesis
      unfolding None option.case
    proof (rule hoare_bind [where R = "\<lambda>_. svc_tracks E f n"])
      show "hoare (tracks E KindService f (\<lambda>l i. svc_fits n l i \<and> (None = None \<longrightarrow> holds f l))) (reconcileService E os) (\<lambda>_. svc_tracks E f n)"
        using tracks_reconcileService [OF assms(2), where f = f and n = n] by simp
    qed (intro inv_intros tracks_reconcileUser; simp)
  next
    case (Some e)
    show ?thesis unfolding Some option.case by (rule hoare_ret) (auto elim: tracks_mono)
  qed
qed (auto simp: tracks_def svc_fits_def named_def api_finalizer_def assms(4))

text \<open>Deletion, with or without an admin client and a KeystoneAPI.\<close>

abbreviation svc_at :: "env \<Rightarrow> string \<Rightarrow> KeystoneAPI option \<Rightarrow> actor \<Rightarrow> KeystoneService \<Rightarrow> bool" where
  "svc_at E n ao l i \<equiv> svc_fits n l i \<and> (\<forall>api. ao = Some api \<longrightarrow> copied l = copy_of E api)"

lemma tracks_deregister:
  assumes "tracks E KindService f (svc_at E n ao) s" "rErr E (log s @ [OSDeleteService os d]) = None"
  shows "tracks E KindService f (\<lambda>l i. svc_at E n ao l i \<and> \<not> recorded l)
      (s\<lparr>log := log s @ [OSDeleteService os d], inst := svc_set_ServiceID '''' (inst s)\<rparr>)"
  using assms
  by (auto simp: tracks_def events_snoc accepts_snoc svc_fits_def records_def svc_set_ServiceID_def named_def)

lemma tracks_delete:
  assumes "finalizer_laws E" "f \<noteq> GetFinalizer E KindAPI" "f = GetFinalizer E KindService @ ''-'' @ n"
  shows "hoare (tracks E KindService f (\<lambda>l i. svc_at E n ao l i \<and> (os = None \<longrightarrow> \<not> records i))) (svc_reconcileDelete E os ao)
    (\<lambda>_. svc_tracks E f n)"
  unfolding svc_reconcileDelete_def
proof (rule hoare_get_inst_bind [where K = "\<lambda>i. api_finalizer E KindService (svc_meta i) = f"],
    rule hoare_bind [where R = "\<lambda>r. tracks E KindService f (\<lambda>l i. svc_at E n ao l i \<and> (r = None \<longrightarrow> \<not> recorded l))"], goal_cases)
  case (1 i)
  show ?case
  proof (rule hoareI)
    fix s :: "KeystoneService st"
    assume s: "tracks E KindService f (\<lambda>l i. svc_at E n ao l i \<and> (os = None \<longrightarrow> \<not> records i)) s \<and> inst s = i"
    let ?u = "OSDeleteUser (the os) (svc_ServiceUser (svc_spec i)) ''default''"
    let ?d = "OSDeleteService (the os) (svcs_ServiceID (svc_status i))"
    have t: "tracks E KindService f (svc_at E n ao) (s\<lparr>log := log s @ [?u]\<rparr>)" using s by (auto elim: tracks_mono)
    have d: "tracks E KindService f (\<lambda>l i. svc_at E n ao l i \<and> \<not> recorded l) (s\<lparr>log := log s @ [?u, ?d], inst := svc_set_ServiceID '''' i\<rparr>)"
      if "rErr E (log s @ [?u, ?d]) = None"
      using tracks_deregister [OF t, of "the os" "svcs_ServiceID (svc_status i)"] s that by simp
    have e: "tracks E KindService f (svc_at E n ao) (s\<lparr>log := log s @ [?u, ?d]\<rparr>)" if "rErr E (log s @ [?u, ?d]) = Some e" for e
      using tracks_event [OF t, of ?d "Unregistered False" "svc_at E n ao"] that by simp
    have n: "tracks E KindService f (\<lambda>l i. svc_at E n ao l i \<and> \<not> recorded l) s" if "svcs_ServiceID (svc_status i) = '''' \<or> os = None"
      using s that by (auto simp: tracks_def svc_fits_def records_def)
    show "wp (if svcs_ServiceID (svc_status i) \<noteq> '''' \<and> os \<noteq> None then do {
          err \<leftarrow> perform ?u (rErr E);
          case err of
            Some e \<Rightarrow> ret (Some e)
          | None \<Rightarrow> do {
              err \<leftarrow> perform ?d (rErr E);
              case err of
                Some e \<Rightarrow> ret (Some e)
              | None \<Rightarrow> do { upd_inst (svc_set_ServiceID ''''); ret None }
            }
        } else ret None) (\<lambda>r. tracks E KindService f (\<lambda>l i. svc_at E n ao l i \<and> (r = None \<longrightarrow> \<not> recorded l))) s"
      using s t d e n by (auto simp: wp_simps split: option.splits)
  qed
next
  case (2 i cleanup)
  have fin: "inv (svc_tracks E f n) (svc_drop_finalizer E)"
    unfolding svc_drop_finalizer_def by (intro inv_intros) (simp add: tracks_def)
  show ?case
  proof (cases cleanup)
    case (Some e)
    show ?thesis unfolding Some option.case by (rule hoare_ret) (auto elim: tracks_mono)
  next
    case None
    have "hoare (tracks E KindService f (\<lambda>l i. svc_at E n ao l i \<and> \<not> recorded l)) (case ao of None \<Rightarrow> ret None
        | Some api \<Rightarrow> drop_api_finalizer E (api_finalizer E KindService (svc_meta i)) api) (\<lambda>_. svc_tracks E f n)"
    proof (cases ao)
      case (Some api)
      then show ?thesis
        using 2 tracks_drop [OF assms(1,2), of "svc_fits n" KindService api] by (auto elim!: hoare_weaken elim: tracks_mono)
    qed (auto intro!: hoare_ret elim: tracks_mono)
    then show ?thesis
      unfolding None option.case
      by (rule hoare_bind [where R = "\<lambda>_. svc_tracks E f n", OF hoare_weaken]) (simp_all add: fin inv_option inv_bind inv_ret)
  qed
qed (auto simp: tracks_def svc_fits_def named_def api_finalizer_def assms(3))

lemma tracks_release:
  assumes "finalizer_laws E" "f \<noteq> GetFinalizer E KindAPI" "f = GetFinalizer E KindService @ ''-'' @ n" "deleting (api_meta api)"
  shows "hoare (tracks E KindService f (svc_at E n (Some api))) (svc_reconcileDeleteFinalizersOnly E api) (\<lambda>_. svc_tracks E f n)"
  unfolding svc_reconcileDeleteFinalizersOnly_def
proof (rule hoare_get_inst_bind [where K = "\<lambda>i. api_finalizer E KindService (svc_meta i) = f"],
    rule hoare_bind [where R = "\<lambda>_. svc_tracks E f n"], goal_cases)
  case (1 i)
  then show ?case
    using tracks_drop [OF assms(1,2), of "svc_fits n" KindService api] assms(4) by (auto elim!: hoare_weaken elim: tracks_mono)
next
  case (2 i err)
  show ?case unfolding svc_drop_finalizer_def by (intro inv_intros) (simp add: tracks_def)+
qed (auto simp: tracks_def svc_fits_def named_def api_finalizer_def assms(3))

lemma tracks_with_api:
  assumes "finalizer_laws E" "service_id_law E" "f \<noteq> GetFinalizer E KindAPI" "f = GetFinalizer E KindService @ ''-'' @ n"
  shows "hoare (tracks E KindService f (svc_at E n (Some api))) (svc_with_api E api) (\<lambda>_. svc_tracks E f n)"
  unfolding svc_with_api_def svc_true_def svc_false_def
proof (rule hoare_bind [where R = "\<lambda>_. tracks E KindService f (svc_at E n (Some api))"], (intro inv_intros; simp),
    rule hoare_bind [OF tracks_client], goal_cases)
  case (1 _ client)
  show ?case
  proof (cases client)
    case (Inl r)
    have "inv (tracks E KindService f (svc_at E n (Some api))) (case client of Inl (c, Some e) \<Rightarrow> do {
         upd_inst (svc_upd_conds (condSet E (FalseCondition AdminServiceClientReadyCondition ErrorReason SeverityWarning
           (AdminServiceClientReadyErrorMessage (err_msg e)))));
         ret (fail e)
       }
     | Inl (c, None) \<Rightarrow> do {
         upd_inst (svc_upd_conds (condSet E (FalseCondition AdminServiceClientReadyCondition RequestedReason SeverityInfo
           AdminServiceClientReadyWaitingMessage)));
         ret (c, None)
       } | Inr os \<Rightarrow> ret ok)"
      by (intro inv_intros; simp)
    then show ?thesis
      unfolding Inl sum.case by (rule hoare_weaken) (auto elim: tracks_mono)
  next
    case (Inr os)
    show ?thesis
      unfolding Inr sum.case
    proof (rule hoare_bind [where R = "\<lambda>_. tracks E KindService f (svc_at E n (Some api))"], (intro inv_intros; simp),
        rule hoare_bind [OF inv_get_inst], rule hoare_if)
      show "hoare (tracks E KindService f (svc_at E n (Some api))) (svc_reconcileDelete E (Some os) (Some api)) (\<lambda>_. svc_tracks E f n)"
        using tracks_delete [OF assms(1,3,4), where ao = "Some api" and os = "Some os"] by simp
      show "hoare (tracks E KindService f (svc_at E n (Some api))) (svc_reconcileNormal E os api) (\<lambda>_. svc_tracks E f n)"
        using tracks_normal [OF assms] by simp
    qed
  qed
qed

lemma tracks_body:
  assumes "finalizer_laws E" "service_id_law E" "f \<noteq> GetFinalizer E KindAPI" "f = GetFinalizer E KindService @ ''-'' @ n"
  shows "inv (svc_tracks E f n) (svc_body E)"
  unfolding svc_body_def Let_def case_prod_unfold
proof (rule hoare_get_inst_bind [where K = "\<lambda>_. True"], rule hoare_if, goal_cases)
  case (1 i)
  show ?case by (rule hoare_inv [where J = "svc_tracks E f n"]) ((intro inv_intros; simp), auto)
next
  case (2 i)
  show ?case
  proof (rule hoare_if, goal_cases)
    case 1
    show ?case by (rule hoare_inv [where J = "svc_tracks E f n"]) ((intro inv_intros; simp add: tracks_def), auto)
  next
    case 2
    let ?P = "\<lambda>ao. tracks E KindService f (\<lambda>l j. svc_at E n ao l j \<and> svc_status j = svc_status i)"
    have get: "hoare (\<lambda>s. svc_tracks E f n s \<and> inst s = i) (GetKeystoneAPI E (om_namespace (svc_meta i)) [])
        (\<lambda>r. ?P (case r of Inl _ \<Rightarrow> None | Inr api \<Rightarrow> Some api))"
      by (rule hoare_weaken [OF tracks_GetKeystoneAPI [where f = f and Q = "\<lambda>l j. svc_fits n l j \<and> svc_status j = svc_status i"]])
        (auto elim!: tracks_mono simp: tracks_def split: sum.splits)
    have del: "hoare (?P ao) (svc_reconcileDelete E None ao) (\<lambda>_. svc_tracks E f n)"
      if "svcs_ServiceID (svc_status i) = ''''" for ao
      by (rule hoare_weaken [OF tracks_delete [OF assms(1,3,4)]]) (use that in \<open>auto elim!: tracks_mono simp: records_def\<close>)
    have weak: "hoare (?P ao) m Q" if "hoare (tracks E KindService f (svc_at E n ao)) m Q"
      for ao and m :: "(KeystoneService st, outcome) state" and Q
      by (rule hoare_weaken [OF that]) (auto elim: tracks_mono)
    have keep: "hoare (?P ao) m (\<lambda>_. svc_tracks E f n)" if "inv (svc_tracks E f n) m"
      for ao and m :: "(KeystoneService st, outcome) state"
      by (rule hoare_inv [OF that]) (auto elim: tracks_mono)
    show ?case
    proof (rule hoare_bind [OF get], goal_cases)
      case (1 r)
      show ?case
      proof (cases r)
        case (Inl e)
        show ?thesis
          unfolding Inl sum.case svc_false_def by (intro hoare_if del keep inv_bind inv_upd_inst inv_ret; simp)
      next
        case (Inr api)
        show ?thesis
          unfolding Inr sum.case svc_false_def
          by (intro hoare_if del keep [OF inv_bind] inv_upd_inst inv_ret weak [OF tracks_with_api [OF assms]]
              weak [OF tracks_release [OF assms(1,3,4)]]; simp)
      qed
    qed
  qed
qed simp

lemma tracks_deferred: "inv (svc_tracks E f n) (deferred E svc_upd_conds KPatchService post out)"
proof (rule hoareI)
  fix s :: "KeystoneService st" assume s: "svc_tracks E f n s"
  let ?i = "svc_upd_conds post (inst s)"
  have "svc_tracks E f n (s\<lparr>inst := ?i\<rparr>)" using s by simp
  then have "svc_tracks E f n (s\<lparr>inst := ?i, log := log (s\<lparr>inst := ?i\<rparr>) @ [KPatchService ?i]\<rparr>)"
    by (rule tracks_event) (auto simp: svc_fits_def)
  then show "wp (deferred E svc_upd_conds KPatchService post out) (\<lambda>_. svc_tracks E f n) s"
    by (simp add: deferred_def wp_simps)
qed

lemma tracks_Reconcile:
  assumes "finalizer_laws E" "service_id_law E" "f \<noteq> GetFinalizer E KindAPI"
    and "rGetService E [KGet KindService ns name] = Inr i" "f = api_finalizer E KindService (svc_meta i)"
    and run: "run_state (svc_Reconcile E ns name) (start x) = (r, t)"
  shows "svc_tracks E f (om_name (svc_meta i)) t"
proof -
  let ?n = "om_name (svc_meta i)"
  let ?rest = "do { err \<leftarrow> perform (NewHelper KindService) (rErr E);
     case err of Some e \<Rightarrow> ret (fail e)
     | None \<Rightarrow> do { out \<leftarrow> svc_body E; deferred E svc_upd_conds KPatchService (ready_step E) out } }"
  have f: "f = GetFinalizer E KindService @ ''-'' @ ?n" using assms(5) by (simp add: api_finalizer_def)
  have "inv (svc_tracks E f ?n) ?rest"
    by (intro inv_bind inv_perform inv_option inv_ret tracks_body [OF assms(1-3) f] tracks_deferred) simp_all
  moreover have "run_state ?rest \<lparr>inst = i, log = [KGet KindService ns name]\<rparr> = (r, t)"
    using run assms(4) by (simp add: svc_Reconcile_def start_def)
  moreover have "svc_tracks E f ?n \<lparr>inst = i, log = [KGet KindService ns name]\<rparr>"
    using assms(4) by (simp add: tracks_def events_def svc_fits_def named_def idle_def)
  ultimately show ?thesis by (rule hoareD)
qed

text \<open>
  C6: every run of the KeystoneService controller is one of the finalizer protocol: what it does to the KeystoneAPI, the
  catalog and its own status, read off its log, is accepted as the steps of a holder with the finalizer of this service,
  whatever the cluster and the identity service answer, and at the end the holder records a registration exactly when
  the object in memory does.
\<close>

theorem svc_run_follows_protocol:
  assumes "finalizer_laws E" "service_id_law E"
    and "rGetService E [KGet KindService ns name] = Inr i" "f = api_finalizer E KindService (svc_meta i)"
    and "f \<noteq> GetFinalizer E KindAPI" "run_state (svc_Reconcile E ns name) (start x) = (r, t)"
  shows "\<exists>l. accepts f idle (events E KindService (log t)) = Some l \<and> (recorded l \<longleftrightarrow> svcs_ServiceID (svc_status (inst t)) \<noteq> '''')"
  using tracks_Reconcile [OF assms(1,2,5,3,4,6)] by (auto simp: tracks_def svc_fits_def records_def)

definition ex_events :: "ev list" where
  "ex_events = (let f = ''openstack.org/keystoneservice-placement'' in
     [Got False, Listed {} False, Wrote {f} True, Looked False, Registered True, Saved True True])"

lemma ex_svc_laws: "finalizer_laws ex_svc_env" "service_id_law ex_svc_env"
    "api_finalizer ex_svc_env KindService (svc_meta ex_svc1) = ''openstack.org/keystoneservice-placement''"
    "GetFinalizer ex_svc_env KindAPI = ''openstack.org/keystoneapi''"
  by (simp_all add: ex_svc_env_def service_id_law_def api_finalizer_def ex_svc_defs)

lemma ex_svc_events:
  "events ex_svc_env KindService (log (snd (run_state (svc_Reconcile ex_svc_env ''openstack'' ''placement'') (start ex_svc)))) = ex_events"
  by (simp add: ex_svc_env_def svc_code ex_svc_defs Let_def numeral_eq_Suc events_def holders_def records_def lookup_event_def ex_events_def api_finalizer_def)

lemma svc_run_follows_protocol_witness:
  "\<exists>l. accepts ''openstack.org/keystoneservice-placement'' idle ex_events = Some l \<and> recorded l"
proof -
  obtain r t where run: "run_state (svc_Reconcile ex_svc_env ''openstack'' ''placement'') (start ex_svc) = (r, t)"
    by fastforce
  have "svcs_ServiceID (svc_status (inst t)) \<noteq> ''''"
    using run by (auto simp: ex_svc_env_def svc_code ex_svc_defs Let_def numeral_eq_Suc)
  moreover have "events ex_svc_env KindService (log t) = ex_events" using ex_svc_events run by simp
  ultimately show ?thesis
    using svc_run_follows_protocol [OF ex_svc_laws(1,2) _ ex_svc_laws(3) [symmetric] _ run]
    by (simp add: ex_svc_laws(4)) (simp add: ex_svc_env_def)
qed

section \<open>The interface of a holder\<close>

text \<open>Every run that read its object begins with that event.\<close>

lemma svc_body_appends:
  assumes "\<And>s c. J s \<Longrightarrow> J (s\<lparr>log := log s @ [c]\<rparr>)" "\<And>s g. J s \<Longrightarrow> J (s\<lparr>inst := g (inst s)\<rparr>)"
  shows "inv J (do { out \<leftarrow> svc_body E; deferred E svc_upd_conds KPatchService post out })"
  unfolding svc_body_def svc_with_api_def svc_reconcileNormal_def svc_reconcileDelete_def
    svc_reconcileDeleteFinalizersOnly_def reconcileService_def register_service_def reconcileUser_def
    svc_true_def svc_false_def svc_drop_finalizer_def add_api_finalizer_def Let_def case_prod_unfold
  by (intro inv_intros inv_GetAdminServiceClient assms)

lemma svc_run_begins:
  assumes "rGetService E [KGet KindService ns name] = Inr i" "run_state (svc_Reconcile E ns name) (start x) = (r, t)"
  shows "\<exists>es. events E KindService (log t) = Got (records i) # es"
proof -
  let ?J = "\<lambda>s. \<exists>es. events E KindService (log s) = Got (records i) # es"
  let ?rest = "do { err \<leftarrow> perform (NewHelper KindService) (rErr E);
     case err of Some e \<Rightarrow> ret (fail e)
     | None \<Rightarrow> do { out \<leftarrow> svc_body E; deferred E svc_upd_conds KPatchService (ready_step E) out } }"
  have "inv ?J ?rest"
    by (intro inv_bind [OF inv_perform] inv_option inv_ret svc_body_appends) (auto simp: events_snoc)
  moreover have "run_state ?rest \<lparr>inst = i, log = [KGet KindService ns name]\<rparr> = (r, t)"
    using assms by (simp add: svc_Reconcile_def start_def)
  moreover have "?J \<lparr>inst = i, log = [KGet KindService ns name]\<rparr>"
    using assms(1) by (simp add: events_def)
  ultimately show ?thesis by (rule hoareD)
qed

definition service_runs :: "string \<Rightarrow> ev list \<Rightarrow> bool" where
  "service_runs f es \<longleftrightarrow> (\<exists>E ns name i x r t. finalizer_laws E \<and> service_id_law E \<and>
     rGetService E [KGet KindService ns name] = Inr i \<and> f = api_finalizer E KindService (svc_meta i) \<and>
     f \<noteq> GetFinalizer E KindAPI \<and> run_state (svc_Reconcile E ns name) (start x) = (r, t) \<and>
     es = events E KindService (log t))"

interpretation service: holder service_runs
proof
  fix f es assume "service_runs f es"
  then obtain E ns name i x r t where run: "finalizer_laws E" "service_id_law E"
    "rGetService E [KGet KindService ns name] = Inr i" "f = api_finalizer E KindService (svc_meta i)"
    "f \<noteq> GetFinalizer E KindAPI" "run_state (svc_Reconcile E ns name) (start x) = (r, t)"
    "es = events E KindService (log t)" unfolding service_runs_def by blast
  show "\<exists>r es'. es = Got r # es'" using svc_run_begins [OF run(3,6)] run(7) by blast
  show "accepts f idle es \<noteq> None" using tracks_Reconcile [OF run(1,2,5,3,4,6)] run(7) by (auto simp: tracks_def)
qed

end
