(* ===== verification/EndpointProtocol.thy ===== *)
theory EndpointProtocol
  imports ProtocolProps
begin

text \<open>
  The KeystoneEndpoint controller follows the finalizer protocol too: it holds the KeystoneAPI with its own finalizer
  and registers no service.
\<close>

definition ep_fits :: "string \<Rightarrow> KeystoneAPI option \<Rightarrow> env \<Rightarrow> actor \<Rightarrow> KeystoneEndpoint \<Rightarrow> bool" where
  "ep_fits n ao E l i \<longleftrightarrow> \<not> recorded l \<and> ep_named n i \<and> (\<forall>api. ao = Some api \<longrightarrow> copied l = copy_of E api)"

abbreviation ep_tracks :: "env \<Rightarrow> string \<Rightarrow> string \<Rightarrow> KeystoneAPI option \<Rightarrow> KeystoneEndpoint st \<Rightarrow> bool" where
  "ep_tracks E f n ao \<equiv> tracks E KindEndpoint f (ep_fits n ao E)"

text \<open>Changes of the object in memory keep its name, which is all that is tracked of it.\<close>

lemma ep_tracks_inst [simp]:
  "ep_named n (g (inst s)) = ep_named n (inst s) \<Longrightarrow> ep_tracks E f n ao (s\<lparr>inst := g (inst s)\<rparr>) = ep_tracks E f n ao s"
  by (simp add: tracks_def ep_fits_def)

lemma ep_weaken: "ep_tracks E f n ao s \<Longrightarrow> ep_tracks E f n None s"
  by (auto simp: tracks_def ep_fits_def)

lemma ep_tracks_fin:
  assumes "finalizer_laws E" "f \<noteq> GetFinalizer E KindAPI"
  shows "hoare (ep_tracks E f n (Some api)) (add_api_finalizer E f api) (\<lambda>_. ep_tracks E f n None)"
    and "hoare (ep_tracks E f n (Some api)) (drop_api_finalizer E f api) (\<lambda>_. ep_tracks E f n None)"
  using tracks_add [OF assms, of "ep_fits n None E" KindEndpoint api] tracks_drop [OF assms, of "ep_fits n None E" KindEndpoint api]
  by (auto simp: ep_fits_def elim!: hoare_weaken tracks_mono)

lemma ep_tracks_quiet:
  "inv (ep_tracks E f n ao) (reconcileEndpoints E os)" "inv (ep_tracks E f n ao) (delete_endpoints E os tys)"
  "inv (ep_tracks E f n ao) (release_service E)" "inv (ep_tracks E f n ao) (add_svc_finalizer E g svc)"
  "inv (ep_tracks E f n ao) (GetAdminServiceClient E api)" "inv (ep_tracks E f n ao) (ep_drop_finalizer E)"
proof -
  have "inv (ep_tracks E f n ao) (ensure_endpoints E os tys)" for tys
  proof (induction tys)
    case (Cons ty tys)
    show ?case unfolding ensure_endpoints.simps register_endpoint_def by (intro inv_intros Cons.IH; simp)
  qed (simp add: inv_intros)
  then show "inv (ep_tracks E f n ao) (reconcileEndpoints E os)"
    unfolding reconcileEndpoints_def by (intro inv_intros; simp)
  show "inv (ep_tracks E f n ao) (delete_endpoints E os tys)" "inv (ep_tracks E f n ao) (release_service E)"
    "inv (ep_tracks E f n ao) (add_svc_finalizer E g svc)" "inv (ep_tracks E f n ao) (GetAdminServiceClient E api)"
    "inv (ep_tracks E f n ao) (ep_drop_finalizer E)"
    unfolding add_svc_finalizer_def ep_drop_finalizer_def Let_def by (intro inv_intros inv_GetAdminServiceClient; simp)+
qed

lemma ep_tracks_delete:
  assumes "finalizer_laws E" "f \<noteq> GetFinalizer E KindAPI" "f = GetFinalizer E KindEndpoint @ ''-'' @ n"
  shows "hoare (ep_tracks E f n ao) (ep_reconcileDelete E os ao) (\<lambda>_. ep_tracks E f n None)"
    and "hoare (ep_tracks E f n (Some api)) (ep_reconcileDeleteFinalizersOnly E api) (\<lambda>_. ep_tracks E f n None)"
proof -
  have start: "hoare (ep_tracks E f n ao) (State_Monad.bind get_inst m) Q"
    if "\<And>i. api_finalizer E KindEndpoint (ep_meta i) = f \<Longrightarrow> hoare (ep_tracks E f n ao) (m i) Q" for m Q ao
    by (rule hoare_get_inst_bind [where K = "ep_named n"])
      (auto intro: hoare_weaken [OF that] simp: api_finalizer_def assms(3) ep_named_def tracks_def ep_fits_def)
  have fin: "inv (ep_tracks E f n None) (case err of Some e \<Rightarrow> ret (fail e) | None \<Rightarrow> do { ep_drop_finalizer E; ret ok })" for err
    by (intro inv_intros ep_tracks_quiet)
  show "hoare (ep_tracks E f n ao) (ep_reconcileDelete E os ao) (\<lambda>_. ep_tracks E f n None)"
    unfolding ep_reconcileDelete_def
  proof (rule start, rule hoare_bind [where R = "\<lambda>_. ep_tracks E f n ao"], goal_cases)
    case (2 i err)
    have drop: "hoare (ep_tracks E f n ao) (case ao of None \<Rightarrow> ret None
        | Some api \<Rightarrow> drop_api_finalizer E (api_finalizer E KindEndpoint (ep_meta i)) api) (\<lambda>_. ep_tracks E f n None)"
      using ep_tracks_fin(2) [OF assms(1,2)] 2 by (cases ao) (auto intro: inv_ret)
    have rel: "hoare (ep_tracks E f n ao) (case err of Some e \<Rightarrow> ret (fail e) | None \<Rightarrow> do {
         err \<leftarrow> (case ao of None \<Rightarrow> ret None | Some api \<Rightarrow> drop_api_finalizer E (api_finalizer E KindEndpoint (ep_meta i)) api);
         case err of Some e \<Rightarrow> ret (fail e) | None \<Rightarrow> do { ep_drop_finalizer E; ret ok } }) (\<lambda>_. ep_tracks E f n None)" for err
      by (rule hoare_option) (rule hoare_bind [OF drop fin], rule hoare_ret, erule ep_weaken)
    show ?case
      by (rule hoare_option, rule hoare_bind [where R = "\<lambda>_. ep_tracks E f n ao"], (intro inv_intros; simp),
        rule hoare_bind [OF ep_tracks_quiet(3) rel], rule hoare_ret, erule ep_weaken)
  qed (intro inv_intros ep_tracks_quiet)
  show "hoare (ep_tracks E f n (Some api)) (ep_reconcileDeleteFinalizersOnly E api) (\<lambda>_. ep_tracks E f n None)"
    unfolding ep_reconcileDeleteFinalizersOnly_def
  proof (rule start, rule hoare_bind [OF ep_tracks_quiet(3)], goal_cases)
    case (1 i err)
    then show ?case
      using ep_tracks_fin(2) [OF assms(1,2)]
      by (intro hoare_option hoare_bind [OF _ fin] hoare_ret) (auto dest: ep_weaken)
  qed
qed

lemma ep_tracks_with_service:
  assumes "finalizer_laws E" "f \<noteq> GetFinalizer E KindAPI" "f = GetFinalizer E KindEndpoint @ ''-'' @ n"
  shows "hoare (ep_tracks E f n (Some api)) (ep_with_service E os api svc) (\<lambda>_. ep_tracks E f n None)"
  unfolding ep_with_service_def ep_true_def ep_false_def
proof (rule hoare_bind [where R = "\<lambda>_. ep_tracks E f n (Some api)"], (intro inv_intros; simp),
    rule hoare_get_inst_bind [where K = "ep_named n"], rule hoare_bind [where R = "\<lambda>_. ep_tracks E f n None"], goal_cases)
  case (1 _ i)
  then show ?case
    using ep_tracks_fin(1) [OF assms(1,2), of n api] by (auto elim!: hoare_weaken simp: api_finalizer_def assms(3) ep_named_def)
next
  case (2 _ i err)
  show ?case by (intro inv_intros ep_tracks_quiet; simp)
qed (auto simp: tracks_def ep_fits_def)

lemma ep_tracks_normal:
  assumes "finalizer_laws E" "f \<noteq> GetFinalizer E KindAPI" "f = GetFinalizer E KindEndpoint @ ''-'' @ n"
  shows "hoare (ep_tracks E f n (Some api)) (ep_reconcileNormal E os api) (\<lambda>_. ep_tracks E f n None)"
  unfolding ep_reconcileNormal_def GetKeystoneServiceWithName_def Let_def
  by (rule hoare_bind [OF inv_get_inst], rule hoare_bind [where R = "\<lambda>_. ep_tracks E f n (Some api)"], (intro inv_intros; simp),
      rule hoare_sum, rule hoare_ret, erule ep_weaken,
      rule hoare_bind [where R = "\<lambda>_. ep_tracks E f n (Some api)"], (intro inv_intros; simp),
      rule hoare_if, rule hoare_ret, erule ep_weaken, rule ep_tracks_with_service [OF assms])

lemma ep_tracks_with_api:
  assumes "finalizer_laws E" "f \<noteq> GetFinalizer E KindAPI" "f = GetFinalizer E KindEndpoint @ ''-'' @ n"
  shows "hoare (ep_tracks E f n (Some api)) (ep_with_api E api) (\<lambda>_. ep_tracks E f n None)"
  unfolding ep_with_api_def ep_true_def ep_false_def
proof (rule hoare_bind [where R = "\<lambda>_. ep_tracks E f n (Some api)"], (intro inv_intros; simp),
    rule hoare_bind [OF ep_tracks_quiet(5)], goal_cases)
  case (1 _ client)
  show ?case
  proof (rule hoare_sum, goal_cases)
    case (1 r)
    show ?case by (rule hoare_inv [where J = "ep_tracks E f n None"]) ((intro inv_intros; simp), auto dest: ep_weaken)
  next
    case (2 os')
    show ?case
      by (rule hoare_bind [where R = "\<lambda>_. ep_tracks E f n (Some api)"], (intro inv_intros; simp),
        rule hoare_bind [OF inv_get_inst], rule hoare_if, rule ep_tracks_delete(1) [OF assms], rule ep_tracks_normal [OF assms])
  qed
qed

lemma ep_tracks_body:
  assumes "finalizer_laws E" "f \<noteq> GetFinalizer E KindAPI" "f = GetFinalizer E KindEndpoint @ ''-'' @ n"
  shows "inv (ep_tracks E f n None) (ep_body E)"
  unfolding ep_body_def Let_def case_prod_unfold
proof (rule inv_bind [OF inv_get_inst], rule inv_if, (intro inv_intros; simp), rule inv_bind, (intro inv_intros; simp),
    rule inv_if, (intro inv_intros; simp), goal_cases)
  case (1 i)
  have get: "hoare (ep_tracks E f n None) (GetKeystoneAPI E (om_namespace (ep_meta i)) [])
      (\<lambda>r. ep_tracks E f n (case r of Inl _ \<Rightarrow> None | Inr api \<Rightarrow> Some api))"
    by (rule hoare_weaken [OF tracks_GetKeystoneAPI [where f = f and Q = "ep_fits n None E"]])
      (auto elim!: tracks_mono simp: ep_fits_def split: sum.splits)
  have weak: "hoare (ep_tracks E f n ao) m (\<lambda>_. ep_tracks E f n None)" if "inv (ep_tracks E f n None) m"
    for m :: "(KeystoneEndpoint st, outcome) state" and ao
    by (rule hoare_inv [OF that]) (auto dest: ep_weaken)
  show ?case
  proof (rule hoare_bind [OF get], goal_cases)
    case (1 r)
    show ?case
    proof (cases r)
      case (Inl e)
      show ?thesis
        unfolding Inl sum.case ep_false_def
        by (intro hoare_if ep_tracks_delete(1) [OF assms] inv_bind inv_upd_inst inv_ret; simp)
    next
      case (Inr api)
      show ?thesis
        unfolding Inr sum.case ep_false_def
        by (intro hoare_if ep_tracks_delete [OF assms] ep_tracks_with_api [OF assms] weak [OF inv_bind] inv_upd_inst inv_ret; simp)
    qed
  qed
qed

lemma ep_tracks_Reconcile:
  assumes "finalizer_laws E" "f \<noteq> GetFinalizer E KindAPI"
    and "rGetEndpoint E [KGet KindEndpoint ns name] = Inr i" "f = api_finalizer E KindEndpoint (ep_meta i)"
    and run: "run_state (ep_Reconcile E ns name) (start x) = (r, t)"
  shows "ep_tracks E f (om_name (ep_meta i)) None t"
proof -
  let ?n = "om_name (ep_meta i)"
  let ?rest = "do { err \<leftarrow> perform (NewHelper KindEndpoint) (rErr E);
     case err of Some e \<Rightarrow> ret (fail e)
     | None \<Rightarrow> do { out \<leftarrow> ep_body E; deferred E ep_upd_conds KPatchEndpoint (ready_step E) out } }"
  have f: "f = GetFinalizer E KindEndpoint @ ''-'' @ ?n" using assms(4) by (simp add: api_finalizer_def)
  have "inv (ep_tracks E f ?n None) ?rest"
    by (intro inv_bind inv_perform inv_option inv_ret ep_tracks_body [OF assms(1,2) f] inv_deferred) simp_all
  moreover have "run_state ?rest \<lparr>inst = i, log = [KGet KindEndpoint ns name]\<rparr> = (r, t)"
    using run assms(3) by (simp add: ep_Reconcile_def start_def)
  moreover have "ep_tracks E f ?n None \<lparr>inst = i, log = [KGet KindEndpoint ns name]\<rparr>"
    using assms(3) by (simp add: tracks_def events_def ep_fits_def ep_named_def idle_def)
  ultimately show ?thesis by (rule hoareD)
qed

lemma ep_run_follows_protocol:
  assumes "finalizer_laws E" "f \<noteq> GetFinalizer E KindAPI"
    and "rGetEndpoint E [KGet KindEndpoint ns name] = Inr i" "f = api_finalizer E KindEndpoint (ep_meta i)"
    and "run_state (ep_Reconcile E ns name) (start x) = (r, t)"
  shows "\<exists>l. accepts f idle (events E KindEndpoint (log t)) = Some l"
  using ep_tracks_Reconcile [OF assms] by (auto simp: tracks_def)

lemma ep_body_appends:
  assumes "\<And>s c. J s \<Longrightarrow> J (s\<lparr>log := log s @ [c]\<rparr>)" "\<And>s g. J s \<Longrightarrow> J (s\<lparr>inst := g (inst s)\<rparr>)"
  shows "inv J (do { out \<leftarrow> ep_body E; deferred E ep_upd_conds KPatchEndpoint post out })"
proof -
  have "inv J (ensure_endpoints E os tys)" for os tys
  proof (induction tys)
    case (Cons ty tys)
    show ?case unfolding ensure_endpoints.simps register_endpoint_def Let_def by (intro inv_intros Cons.IH assms)
  qed (simp add: inv_intros)
  then show ?thesis
    unfolding ep_body_def ep_with_api_def ep_reconcileNormal_def ep_with_service_def ep_reconcileDelete_def
      ep_reconcileDeleteFinalizersOnly_def reconcileEndpoints_def ep_true_def ep_false_def ep_drop_finalizer_def
      add_api_finalizer_def add_svc_finalizer_def GetKeystoneServiceWithName_def Let_def case_prod_unfold
    by (intro inv_intros inv_GetAdminServiceClient assms)
qed

lemma ep_run_begins:
  assumes "rGetEndpoint E [KGet KindEndpoint ns name] = Inr i" "run_state (ep_Reconcile E ns name) (start x) = (r, t)"
  shows "\<exists>es. events E KindEndpoint (log t) = Got False # es"
proof -
  let ?J = "\<lambda>s. \<exists>es. events E KindEndpoint (log s) = Got False # es"
  let ?rest = "do { err \<leftarrow> perform (NewHelper KindEndpoint) (rErr E);
     case err of Some e \<Rightarrow> ret (fail e)
     | None \<Rightarrow> do { out \<leftarrow> ep_body E; deferred E ep_upd_conds KPatchEndpoint (ready_step E) out } }"
  have "inv ?J ?rest"
    by (intro inv_bind [OF inv_perform] inv_option inv_ret ep_body_appends) (auto simp: events_snoc)
  moreover have "run_state ?rest \<lparr>inst = i, log = [KGet KindEndpoint ns name]\<rparr> = (r, t)"
    using assms by (simp add: ep_Reconcile_def start_def)
  moreover have "?J \<lparr>inst = i, log = [KGet KindEndpoint ns name]\<rparr>"
    using assms(1) by (simp add: events_def)
  ultimately show ?thesis by (rule hoareD)
qed

definition endpoint_runs :: "string \<Rightarrow> ev list \<Rightarrow> bool" where
  "endpoint_runs f es \<longleftrightarrow> (\<exists>E ns name i x r t. finalizer_laws E \<and>
     rGetEndpoint E [KGet KindEndpoint ns name] = Inr i \<and> f = api_finalizer E KindEndpoint (ep_meta i) \<and>
     f \<noteq> GetFinalizer E KindAPI \<and> run_state (ep_Reconcile E ns name) (start x) = (r, t) \<and>
     es = events E KindEndpoint (log t))"

interpretation endpoint: holder endpoint_runs
proof
  fix f es assume "endpoint_runs f es"
  then obtain E ns name i x r t where run: "finalizer_laws E"
    "rGetEndpoint E [KGet KindEndpoint ns name] = Inr i" "f = api_finalizer E KindEndpoint (ep_meta i)"
    "f \<noteq> GetFinalizer E KindAPI" "run_state (ep_Reconcile E ns name) (start x) = (r, t)"
    "es = events E KindEndpoint (log t)" unfolding endpoint_runs_def by blast
  show "\<exists>r es'. es = Got r # es'" using ep_run_begins [OF run(2,5)] run(6) by blast
  show "accepts f idle es \<noteq> None" using ep_run_follows_protocol [OF run(1,4,2,3,5)] run(6) by auto
qed

end
