(* ===== verification/Composition.thy ===== *)
theory Composition
  imports EndpointProtocol
begin

text \<open>
  The controllers together: runs of the KeystoneService and KeystoneEndpoint controllers on any number of objects and
  runs of the KeystoneAPI controller, interleaved call by call on the cluster of \<open>FinalizerProtocol\<close>, with crashes, writes of others and a
  user who deletes the KeystoneAPI. Every such system is an instance of the protocol, so its guarantees hold of the code.
\<close>

section \<open>The KeystoneAPI controller as the owner\<close>

text \<open>The own finalizer survives everything but the deletion.\<close>

lemma keeps_fins:
  assumes "status_blind P"
  shows "keeps_inst P (hash_inputs E vars)" "keeps_inst P (finish_rotation E n)" "keeps_inst P (reconcileCloudConfig E)"
    "keeps_inst P (prepare_inputs E)" "keeps_inst P (reconcileExternalKeystoneAPI E)"
  unfolding hash_inputs_def checkTLSInput_def verifyTLSInput_def validate_certs_def createHashOfInputHashes_def
    reconcileCloudConfig_def client_secret_def finish_rotation_def reconcileExternalKeystoneAPI_def prepare_inputs_def
    api_cond_defs Let_def
  by (intro blind_prepare inv_intros assms; simp add: status_blindD [OF assms] publish_external_def)+

lemma keeps_fins_normal: "status_blind P \<Longrightarrow> keeps_inst P (api_reconcileNormal E)"
  unfolding api_reconcileNormal_def by (intro inv_intros keeps_fins blind_run_service)

text \<open>A run that takes the own finalizer off read an object being deleted that carries no other.\<close>

definition lets_go :: "env \<Rightarrow> KeystoneAPI \<Rightarrow> KeystoneAPI st \<Rightarrow> bool" where
  "lets_go E i t \<longleftrightarrow> GetFinalizer E KindAPI \<in> set (api_fins i) \<and> GetFinalizer E KindAPI \<notin> set (api_fins (inst t))
     \<and> KPatchAPI (inst t) \<in> set (log t)"

lemma api_release_guard:
  assumes "finalizer_laws E" "rGetAPI E [KGet KindAPI ns name] = Inr i" "\<not> api_ExternalKeystoneAPI (api_spec i)"
    and "run_state (api_Reconcile E ns name) (start x) = (r, t)" "lets_go E i t"
  shows "deleting (api_meta i) \<and> holders E i = {}"
proof -
  let ?own = "GetFinalizer E KindAPI"
  let ?P = "\<lambda>j. ?own \<in> set (api_fins j)"
  have P: "status_blind ?P" by (simp add: status_blind_def)
  have own: "?P i" "\<not> ?P (inst t)" using assms(5) by (simp_all add: lets_go_def)
  have normal: "wp m (\<lambda>q. wp (api_deferred E saved (returned q)) (\<lambda>_ t. ?P (inst t))) s" if "keeps_inst ?P m" "?P (inst s)"
    for m :: "(KeystoneAPI st, unit step) state" and saved s
    by (rule wp_mono [OF hoare_wp [OF that]]) (intro wp_api_deferred; simp)
  have delete: "wp (api_reconcileDelete E) (\<lambda>q. wp (api_deferred E saved (returned q)) (\<lambda>_ t. ?P (inst t))) s"
    if "?P (inst s)" "\<not> api_ExternalKeystoneAPI (api_spec (inst s))" "list_ex (\<lambda>f. f \<noteq> ?own) (api_fins (inst s))" for saved s
    using that by (simp add: api_reconcileDelete_def wp_simps) (intro wp_api_deferred; simp)
  have "wp (api_Reconcile E ns name) (\<lambda>_ t. ?P (inst t)) (start x)" if "\<not> (deleting (api_meta i) \<and> holders E i = {})"
  proof -
    have "list_ex (\<lambda>f. f \<noteq> ?own) (api_fins i)" if "deleting (api_meta i)"
      using that \<open>\<not> (deleting (api_meta i) \<and> holders E i = {})\<close> by (auto simp: holders_def list_ex_iff)
    moreover have "AddFinalizer E (api_fins i) ?own = (api_fins i, False)"
      using own(1) finalizer_lawsD(2,3) [OF assms(1), where fs = "api_fins i" and f = ?own] by (cases "AddFinalizer E (api_fins i) ?own") auto
    moreover have "deleting (api_meta (api_set_finalizers fs j)) = deleting (api_meta j)" for fs j
      by (simp add: api_set_finalizers_def deleting_def)
    ultimately show ?thesis
      using assms(2,3) own(1)
      by (simp add: api_Reconcile_def api_body_def api_dispatch_def wp_simps Let_def start_def split: option.split)
        (auto intro!: delete normal [OF keeps_fins_normal [OF P]] wp_api_deferred simp: returned_def [of "Go ()"])
  qed
  with assms(4) own(2) show ?thesis by (auto dest: wp_run)
qed

section \<open>Interleaved runs\<close>

text \<open>
  The cluster, what the run on each service or endpoint has still to do, and whether the last run of the KeystoneAPI controller is about to
  drop its finalizer. A run is what the controller's code computes from some environment; each of its calls is answered
  by the cluster as it is when the call is made. The workers of a controller run one object at a time.
\<close>

record world =
  net :: cluster
  pending :: "string \<Rightarrow> ev list"
  letting_go :: bool

definition quiet_world :: "cluster \<Rightarrow> world" where
  "quiet_world g = \<lparr>net = g, pending = \<lambda>_. [], letting_go = False\<rparr>"

definition act_on :: "string \<Rightarrow> ev \<Rightarrow> cluster \<Rightarrow> cluster" where
  "act_on f e g = (effect f e g)\<lparr>actors := (actors g)(f := the (accept f (actors g f) e))\<rparr>"

inductive system :: "bool \<Rightarrow> world \<Rightarrow> bool" for lossy :: bool where
  init: "fresh g \<Longrightarrow> system lossy (quiet_world g)"
| holder_starts: "system lossy w \<Longrightarrow> pending w f = [] \<Longrightarrow> service_runs f es \<or> endpoint_runs f es \<Longrightarrow>
    system lossy (w\<lparr>pending := (pending w)(f := es)\<rparr>)"
| holder_acts: "system lossy w \<Longrightarrow> pending w f = e # es \<Longrightarrow> answered_by f (net w) e \<Longrightarrow>
    (\<exists>r. e = Got r) \<and> lost f (net w) \<longrightarrow> lossy \<Longrightarrow>
    system lossy (w\<lparr>net := act_on f e (net w), pending := (pending w)(f := es)\<rparr>)"
| crash: "system lossy w \<Longrightarrow> system lossy (w\<lparr>pending := \<lambda>_. [], letting_go := False\<rparr>)"
| api_runs: "system lossy w \<Longrightarrow> \<not> released (net w) \<Longrightarrow> finalizer_laws E \<Longrightarrow>
    rGetAPI E [KGet KindAPI ns name] = Inr i \<Longrightarrow> \<not> api_ExternalKeystoneAPI (api_spec i) \<Longrightarrow>
    holders E i = finalizers (net w) \<Longrightarrow> deleting (api_meta i) = api_deleting (net w) \<Longrightarrow>
    run_state (api_Reconcile E ns name) (start y) = (q, u) \<Longrightarrow>
    system lossy (w\<lparr>net := (net w)\<lparr>owner_copy := Some (finalizers (net w), api_deleting (net w))\<rparr>, letting_go := lets_go E i u\<rparr>)"
| api_releases: "system lossy w \<Longrightarrow> letting_go w \<Longrightarrow> system lossy (w\<lparr>net := (net w)\<lparr>released := True\<rparr>\<rparr>)"
| user: "system lossy w \<Longrightarrow>
    system lossy (w\<lparr>net := (net w)\<lparr>api_deleting := True, api_version := Suc (api_version (net w))\<rparr>\<rparr>)"
| others: "system lossy w \<Longrightarrow> system lossy (w\<lparr>net := (net w)\<lparr>api_version := Suc (api_version (net w))\<rparr>\<rparr>)"

text \<open>A system stays in the protocol: what is still to come is accepted, and an owner about to let go may.\<close>

definition in_protocol :: "bool \<Rightarrow> world \<Rightarrow> bool" where
  "in_protocol lossy w \<longleftrightarrow> reachable lossy (net w) \<and> (\<forall>f. accepts f (actors (net w) f) (pending w f) \<noteq> None)
     \<and> (letting_go w \<longrightarrow> owner_copy (net w) = Some ({}, True))"

lemma effect_frame [simp]: "actors (effect f e g) = actors g" "owner_copy (effect f e g) = owner_copy g"
  by (cases e; simp)+

lemma system_in_protocol: "system lossy w \<Longrightarrow> in_protocol lossy w"
proof (induction rule: system.induct)
  case (init g)
  then show ?case by (simp add: in_protocol_def quiet_world_def reachable.init)
next
  case (holder_starts w f es)
  then have "accepts f l es \<noteq> None" for l using service.starts endpoint.starts by blast
  with holder_starts.IH show ?case by (simp add: in_protocol_def)
next
  case (holder_acts w f e es)
  then obtain l where l: "accept f (actors (net w) f) e = Some l" "accepts f l es \<noteq> None"
    by (cases "accept f (actors (net w) f) e") (force simp: in_protocol_def dest: spec [of _ f])+
  have "step lossy (net w) (act_on f e (net w))"
    using step.act [OF l(1) holder_acts.hyps(3,4)] l(1) by (simp add: act_on_def)
  with holder_acts.IH l show ?case
    by (auto simp: in_protocol_def act_on_def intro: next_step)
next
  case (api_runs w E ns name i y q u)
  have "step lossy (net w) ((net w)\<lparr>owner_copy := Some (finalizers (net w), api_deleting (net w))\<rparr>)"
    by (rule step.owner_reads [OF api_runs.hyps(2)])
  moreover have "lets_go E i u \<Longrightarrow> api_deleting (net w) \<and> finalizers (net w) = {}"
    using api_release_guard [OF api_runs.hyps(3-5,8)] api_runs.hyps(6,7) by simp
  ultimately show ?case using api_runs.IH by (auto simp: in_protocol_def intro: next_step)
next
  case (api_releases w)
  then have "step lossy (net w) ((net w)\<lparr>released := True\<rparr>)"
    by (intro step.owner_releases) (simp add: in_protocol_def)
  with api_releases.IH show ?case by (auto simp: in_protocol_def intro: next_step)
qed (auto simp: in_protocol_def intro: next_step step.user_deletes step.others_write)



section \<open>A system that runs\<close>

abbreviation ex_f :: string where "ex_f \<equiv> ''openstack.org/keystoneservice-placement''"

definition ex_net :: cluster where
  "ex_net = \<lparr>finalizers = {}, api_version = 0, api_deleting = False, released = False, catalog = {}, statuses = {},
     actors = \<lambda>_. idle, versions = \<lambda>_. 0, owner_copy = None\<rparr>"

fun acts :: "string \<Rightarrow> ev list \<Rightarrow> cluster \<Rightarrow> cluster" where
  "acts f [] g = g"
| "acts f (e # es) g = acts f es (act_on f e g)"

text \<open>What can be played is done call by call.\<close>

fun playable :: "bool \<Rightarrow> string \<Rightarrow> ev list \<Rightarrow> cluster \<Rightarrow> bool" where
  "playable lossy f [] g = True"
| "playable lossy f (e # es) g \<longleftrightarrow> answered_by f g e \<and> ((\<exists>r. e = Got r) \<and> lost f g \<longrightarrow> lossy) \<and> playable lossy f es (act_on f e g)"

lemma system_acts:
  assumes "system lossy w" "pending w f = es" "playable lossy f es (net w)"
  shows "system lossy (w\<lparr>net := acts f es (net w), pending := (pending w)(f := [])\<rparr>)"
  using assms
proof (induction es arbitrary: w)
  case Nil
  then show ?case by (simp add: fun_upd_idem)
next
  case (Cons e es)
  let ?w = "w\<lparr>net := act_on f e (net w), pending := (pending w)(f := es)\<rparr>"
  have "system lossy ?w"
    using system.holder_acts [OF Cons.prems(1,2)] Cons.prems(3) by auto
  then have "system lossy (?w\<lparr>net := acts f es (net ?w), pending := (pending ?w)(f := [])\<rparr>)"
    using Cons.prems(3) by (intro Cons.IH) auto
  then show ?case by (simp add: fun_upd_def cong: if_cong)
qed

lemma ex_fresh: "fresh ex_net"
  by (simp add: fresh_def ex_net_def)

lemma system_run:
  assumes "system lossy w" "pending w f = []" "finalizer_laws E" "service_id_law E"
    and "rGetService E [KGet KindService ns name] = Inr i" "f = api_finalizer E KindService (svc_meta i)"
    and "f \<noteq> GetFinalizer E KindAPI" "events E KindService (log (snd (run_state (svc_Reconcile E ns name) (start x)))) = es"
    and "playable lossy f es (net w)"
  shows "system lossy (w\<lparr>net := acts f es (net w)\<rparr>)"
proof -
  obtain r t where run: "run_state (svc_Reconcile E ns name) (start x) = (r, t)" by fastforce
  have "service_runs f es"
    unfolding service_runs_def
    by (intro exI [of _ E] exI [of _ ns] exI [of _ name] exI [of _ i] exI [of _ x] exI [of _ r] exI [of _ t])
      (use assms(3-8) run in simp)
  then have "system lossy (w\<lparr>pending := (pending w)(f := es)\<rparr>)"
    using system.holder_starts [OF assms(1,2)] by blast
  from system_acts [OF this, of f es] assms(2,9) show ?thesis by (simp add: fun_upd_idem)
qed

lemma ex_first_run: "system lossy ((quiet_world ex_net)\<lparr>net := acts ex_f ex_events ex_net\<rparr>)"
proof -
  have "playable lossy ex_f ex_events ex_net"
    by (simp add: ex_events_def ex_net_def act_on_def lost_def may_write_def holds_def idle_def)
  with system_run [OF system.init [OF ex_fresh] _ ex_svc_laws(1,2) _ ex_svc_laws(3) [symmetric] _ ex_svc_events]
  show ?thesis by (simp add: quiet_world_def ex_svc_laws(4)) (simp add: ex_svc_env_def)
qed



text \<open>
  A first run registers the service and cannot save its status; the user deletes the object, and a second run finds no
  recorded registration in it.
\<close>

definition lost_env :: env where
  "lost_env = ex_svc_env\<lparr>rErr := \<lambda>h. case last h of KPatchService _ \<Rightarrow> Some no_err | _ \<Rightarrow> None\<rparr>"

definition gone_svc :: KeystoneService where
  "gone_svc = ex_svc1\<lparr>svc_meta := ex_deleted (svc_meta ex_svc1)\<rparr>"

definition gone_env :: env where
  "gone_env = base_env\<lparr>rGetService := \<lambda>h. Inr gone_svc, rListAPIs := \<lambda>h. Inr [ex_api_held]\<rparr>"

lemma lost_events:
  "events lost_env KindService (log (snd (run_state (svc_Reconcile lost_env ''openstack'' ''placement'') (start ex_svc)))) =
    [Got False, Listed {} False, Wrote {ex_f} True, Looked False, Registered True, Saved True False]"
  by (simp add: lost_env_def ex_svc_env_def svc_code ex_svc_defs Let_def numeral_eq_Suc events_def holders_def records_def
      lookup_event_def api_finalizer_def)

lemma gone_run:
  "events gone_env KindService (log (snd (run_state (svc_Reconcile gone_env ''openstack'' ''placement'') (start ex_svc)))) =
    [Got False, Listed {ex_f} False, Wrote {} True, Saved False True]"
  "svc_fins (inst (snd (run_state (svc_Reconcile gone_env ''openstack'' ''placement'') (start ex_svc)))) = []"
  by (simp_all add: gone_env_def gone_svc_def ex_deleted_def svc_code ex_svc_defs ex_api_held_def Let_def numeral_eq_Suc events_def
      holders_def records_def lookup_event_def api_finalizer_def)


end
