(* ===== verification/RotationProps.thy ===== *)
theory RotationProps
  imports ApiRun
begin

text \<open>
  The end of a rotation of the transport secret: the old secret is given free, by a finalization that is told that
  everything is ready, only when this run saw the pods run with the configuration made from the new one.
\<close>

fun frees_old :: "call \<Rightarrow> bool" where
  "frees_old (Cluster (FinalizeSecretRotation _ _ _ _ ready)) = ready"
| "frees_old _ = False"

abbreviation keeps_old :: "call \<Rightarrow> bool" where "keeps_old c \<equiv> \<not> frees_old c"

lemma only_keeps_old_parts:
  "only keeps_old (networks E ns' nas l)" "only keeps_old (create_services E j ls eps m)"
  "only keeps_old (run_job E jb n t ms)" "only keeps_old (deploy E d)"
proof -
  show "only keeps_old (networks E ns' nas l)" by (rule only_networks) simp
  show "only keeps_old (create_services E j ls eps m)"
    by (induction eps arbitrary: m) (auto simp: create_service_def Let_def intro!: only_intros)
  show "only keeps_old (run_job E jb n t ms)"
    unfolding run_job_def case_prod_unfold by (intro only_intros; simp)
  show "only keeps_old (deploy E d)"
    by (cases d) (auto simp: deploy_def split: sum.split intro!: only_intros)
qed

lemma only_keeps_old:
  "only keeps_old (prepare_inputs E)" "only keeps_old (hash_inputs E vars)" "only keeps_old (run_service E inp h)"
  "only keeps_old (reconcileCloudConfig E)" "only keeps_old (api_reconcileDelete E)"
  "only keeps_old (reconcileExternalKeystoneAPI E)" "only keeps_old (api_deferred E saved r)"
proof -
  show cloud: "only keeps_old (reconcileCloudConfig E)"
    unfolding reconcileCloudConfig_def client_secret_def Let_def by (intro only_intros; simp)
  have prepare: "only keeps_old (verifySecret E vars)" "only keeps_old (ensureDB E)"
    "only keeps_old (ensure_transport E ls)" "only keeps_old (ensure_memcached E)"
    "only keeps_old (generateServiceConfigMaps E vars mc db n)" "only keeps_old (ensure_keys E vars)"
    "only keeps_old (ensureFederationRealmConfig E vars)" "only keeps_old (service_config E q)" for vars ls mc db n q
    unfolding prepare_defs by ((intro only_intros only_ensureFernetKeys; simp)+)
  show "only keeps_old (prepare_inputs E)"
    unfolding prepare_inputs_def Let_def by (intro only_intros prepare; simp)
  show "only keeps_old (hash_inputs E vars)"
    unfolding hash_inputs_def checkTLSInput_def verifyTLSInput_def validate_certs_def createHashOfInputHashes_def Let_def
    by (intro only_intros; simp)
  show "only keeps_old (run_service E inp h)"
    unfolding run_service_def network_annotations_def reconcileInit_def bootstrap_def reconcile_rbac_def expose_services_def
      update_and_upgrade_def reconcileUpdate_def reconcileUpgrade_def ensure_topology_def verify_networks_def
      check_deployment_def ensure_cron_job_def
    by (intro only_intros only_keeps_old_parts; simp)
  show "only keeps_old (api_reconcileDelete E)"
    unfolding api_reconcileDelete_def release_defs Let_def by (intro only_intros; simp)
  show "only keeps_old (reconcileExternalKeystoneAPI E)"
    unfolding reconcileExternalKeystoneAPI_def checkTLSInput_def verifyTLSInput_def Let_def
    by (intro only_intros cloud prepare; simp)
  show "only keeps_old (api_deferred E saved r)"
    by (cases r) (auto simp: api_deferred_def deferred_def intro!: only_intros)
qed

abbreviation waits :: "env \<Rightarrow> KeystoneAPI st \<Rightarrow> bool" where
  "waits E s \<equiv> guarded frees_old (checked E) (log s)"

lemma waits_only: "only keeps_old m \<Longrightarrow> inv (waits E) m"
  by (intro hoareI wp_runI) (rule guarded_extends [OF _ onlyD])

lemma finish_waits:
  assumes "condition_laws E"
  shows "hoare (\<lambda>s. honest E s \<and> waits E s) (finish_rotation E n) (\<lambda>_. waits E)"
proof (rule hoareI)
  fix s :: "KeystoneAPI st" assume s: "honest E s \<and> waits E s"
  have "checked E (log s)" if "AllSubConditionIsTrue E (api_conds (inst s))"
    using s that by (auto simp: not_ready_def condition_lawsD(8) [OF assms])
  moreover have "guarded frees_old G (l @ [a, b]) \<longleftrightarrow> guarded frees_old G (l @ [a]) \<and> (frees_old b \<longrightarrow> G (l @ [a]))" for G l a b
    using guarded_snoc [of frees_old G "l @ [a]" b] by simp
  ultimately show "wp (finish_rotation E n) (\<lambda>_. waits E) s"
    using s by (auto simp: finish_rotation_def Let_def wp_simps split: sum.split)
qed

lemma reconcileNormal_waits:
  assumes "condition_laws E" "rbac_law E"
  shows "hoare (\<lambda>s. not_ready (inst s) \<and> waits E s) (api_reconcileNormal E) (\<lambda>_. waits E)"
proof -
  let ?P = "\<lambda>s. not_ready (inst s) \<and> waits E s" and ?H = "\<lambda>s. honest E s \<and> waits E s"
  have quiet: "hoare ?P (andThen m f) (\<lambda>_. waits E)"
    if "keeps_inst not_ready m" "only keeps_old m" "\<And>a. hoare ?P (f a) (\<lambda>_. waits E)"
    for m :: "(KeystoneAPI st, 'a step) state" and f :: "'a \<Rightarrow> (KeystoneAPI st, unit step) state"
    by (rule hoare_andThen [OF _ that(3)], rule hoare_weaken [OF hoare_conj [OF that(1) waits_only [OF that(2)]]])
      (auto split: step.split)
  have steps: "hoare Q (andThen m f) (\<lambda>_. waits E)"
    if "hoare Q m (\<lambda>_. ?H)" "\<And>a. hoare ?H (f a) (\<lambda>_. waits E)"
    for Q and m :: "(KeystoneAPI st, unit step) state" and f :: "unit \<Rightarrow> (KeystoneAPI st, unit step) state"
    by (rule hoare_andThen [OF _ that(2)], rule hoare_weaken [OF that(1)]) (auto split: step.split)
  have service: "hoare ?P (run_service E inp h) (\<lambda>_. ?H)" for inp h
    by (rule hoare_conj [OF run_service_honest [OF assms] waits_only [OF only_keeps_old(3)]])
  have cloud: "inv ?H (do { e \<leftarrow> reconcileCloudConfig E; ret (check_err e) })"
    by (intro hoare_conj honest_inv waits_only inv_intros only_intros not_ready_stages assms only_mono [OF only_cloud]
        only_keeps_old; simp)
  show ?thesis
    unfolding api_reconcileNormal_def
    by (rule quiet [OF not_ready_stages(12) [OF assms] only_keeps_old(1)],
        rule quiet [OF not_ready_stages(7) [OF assms] only_keeps_old(2)],
        rule steps [OF service], rule steps [OF cloud], rule finish_waits [OF assms(1)])
qed


text \<open>The complete run of \<open>ApiRun\<close> ends with such a finalization.\<close>

lemma all_true: "at_stage {} D s \<Longrightarrow> AllSubConditionIsTrue full_env (api_conds (inst s))"
proof -
  assume "at_stage {} D s"
  then have "all_sub (api_conds (inst s))" unfolding all_sub_iff running_def by (auto simp: cond_at_def find_Some_iff)
  then show ?thesis by (simp add: full_env_def)
qed

lemma finish_frees: "hoare (at_stage {} D) (finish_rotation full_env n) (\<lambda>r s. \<exists>c\<in>set (log s). frees_old c)"
  by (rule hoareI) (auto simp: finish_rotation_def Let_def wp_simps all_true split: sum.split)

lemma normal_frees: "hoare (at_stage full_types D) (api_reconcileNormal full_env) (\<lambda>r s. \<exists>c\<in>set (log s). frees_old c)"
proof -
  let ?Q = "\<lambda>(r :: unit step) s. \<exists>c\<in>set (log s). frees_old c"
  have seq: "hoare (at_stage T D) (andThen m f) ?Q"
    if "hoare (at_stage T D) m (onward T1 D1)" "\<And>a. hoare (at_stage T1 D1) (f a) ?Q" for T D T1 D1
      and m :: "(KeystoneAPI st, 'a step) state" and f :: "'a \<Rightarrow> (KeystoneAPI st, unit step) state"
    by (rule hoare_andThen [OF _ that(2)], rule hoare_weaken [OF that(1)]) auto
  have last: "hoare (at_stage T D) (finish_rotation full_env n) ?Q" if "T \<subseteq> {}" for T D n
    using that finish_frees by simp
  show ?thesis
    unfolding api_reconcileNormal_def
    by (rule seq [OF prepare_runs] seq [OF hash_inputs_runs] seq [OF service_runs] seq [OF cloud_config_runs] last)+
      (auto simp: full_types_def full_api_def ex_api_def api_init_types_def)
qed


end
