(* ===== verification/GoMemory.thy ===== *)
theory GoMemory
  imports Prelude
begin

text \<open>
  Go values with the memory they refer to. A pointer, a map and a slice are a reference: an address and what is stored
  there. \<open>mem\<close> is the common layout of all values; a copy is deep when it has the shape of the original and lives at
  addresses that were not in use. The locale \<open>deep_copy\<close> is the interface of a copying function.
\<close>

section \<open>Layout\<close>

type_synonym addr = nat

datatype prim = PStr string | PInt int | PBool bool

datatype mem = Prim prim | Struct "mem list" | NilRef | Ref addr mem

fun addrs :: "mem \<Rightarrow> addr list" where
  "addrs (Prim p) = []"
| "addrs (Struct ts) = concat (map addrs ts)"
| "addrs NilRef = []"
| "addrs (Ref a t) = a # addrs t"

text \<open>What is left of a value when one forgets where it is stored.\<close>

fun shape :: "mem \<Rightarrow> mem" where
  "shape (Prim p) = Prim p"
| "shape (Struct ts) = Struct (map shape ts)"
| "shape NilRef = NilRef"
| "shape (Ref a t) = Ref 0 (shape t)"

text \<open>The value after something else was stored at an address, wherever the value refers to it.\<close>

fun poke :: "addr \<Rightarrow> mem \<Rightarrow> mem \<Rightarrow> mem" where
  "poke a v (Prim p) = Prim p"
| "poke a v (Struct ts) = Struct (map (poke a v) ts)"
| "poke a v NilRef = NilRef"
| "poke a v (Ref b t) = Ref b (if b = a then v else poke a v t)"

lemma poke_elsewhere: "a \<notin> set (addrs t) \<Longrightarrow> poke a v t = t"
  by (induction t) (auto intro: map_idI)

section \<open>References\<close>

type_synonym 'a ref = "(addr \<times> 'a) option"
type_synonym 'v mapref = "(string \<times> 'v) list ref"

definition ref_mem :: "('a \<Rightarrow> mem) \<Rightarrow> 'a ref \<Rightarrow> mem" where
  "ref_mem L r = (case r of None \<Rightarrow> NilRef | Some (a, x) \<Rightarrow> Ref a (L x))"

definition elems_mem :: "('a \<Rightarrow> mem) \<Rightarrow> 'a list \<Rightarrow> mem" where
  "elems_mem L xs = Struct (map L xs)"

definition entries_mem :: "('v \<Rightarrow> mem) \<Rightarrow> (string \<times> 'v) list \<Rightarrow> mem" where
  "entries_mem L m = Struct (map (\<lambda>(k, v). Struct [Prim (PStr k), L v]) m)"

text \<open>A value whose type the repository does not define is its own layout.\<close>

definition any_mem :: "mem \<Rightarrow> mem" where
  "any_mem t = t"

abbreviation str_mem :: "string \<Rightarrow> mem" where "str_mem s \<equiv> Prim (PStr s)"
abbreviation int_mem :: "int \<Rightarrow> mem" where "int_mem i \<equiv> Prim (PInt i)"
abbreviation bool_mem :: "bool \<Rightarrow> mem" where "bool_mem b \<equiv> Prim (PBool b)"

section \<open>Allocation and copying\<close>

text \<open>The state is the lowest address that was never in use.\<close>

definition alloc :: "(addr, addr) state" where
  "alloc = State (\<lambda>n. (n, Suc n))"

lemma wp_alloc [wp_simps]: "wp alloc Q n = Q n (Suc n)"
  by (simp add: wp_def alloc_def)

text \<open>\<open>if in != nil\<close>, \<open>new\<close> or \<open>make\<close>, and the copy of what is stored there.\<close>

definition copy_ref :: "('a \<Rightarrow> (addr, 'a) state) \<Rightarrow> 'a ref \<Rightarrow> (addr, 'a ref) state" where
  "copy_ref into r =
     (case r of
        None \<Rightarrow> ret None
      | Some (a, x) \<Rightarrow> do { b \<leftarrow> alloc; y \<leftarrow> into x; ret (Some (b, y)) })"

primrec copy_elems :: "('a \<Rightarrow> (addr, 'a) state) \<Rightarrow> 'a list \<Rightarrow> (addr, 'a list) state" where
  "copy_elems into [] = ret []"
| "copy_elems into (x # xs) = do { y \<leftarrow> into x; ys \<leftarrow> copy_elems into xs; ret (y # ys) }"

primrec copy_entries :: "('v \<Rightarrow> (addr, 'v) state) \<Rightarrow> (string \<times> 'v) list \<Rightarrow> (addr, (string \<times> 'v) list) state" where
  "copy_entries into [] = ret []"
| "copy_entries into (e # m) = do {
     v \<leftarrow> into (snd e);
     m' \<leftarrow> copy_entries into m;
     ret ((fst e, v) # m')
   }"

text \<open>An assignment copies a value without references.\<close>

abbreviation assign :: "'a \<Rightarrow> (addr, 'a) state" where "assign \<equiv> ret"

section \<open>What a copy guarantees\<close>

text \<open>\<open>grown t t' n m\<close>: \<open>t'\<close> is a copy of \<open>t\<close> that was allocated while the bound went from \<open>n\<close> to \<open>m\<close>.\<close>

definition grown :: "mem \<Rightarrow> mem \<Rightarrow> addr \<Rightarrow> addr \<Rightarrow> bool" where
  "grown t t' n m \<longleftrightarrow> n \<le> m \<and> shape t' = shape t \<and> distinct (addrs t') \<and> set (addrs t') \<subseteq> {n..<m}"

lemma grown_flat: "addrs t = [] \<Longrightarrow> grown t t n n"
  by (simp add: grown_def)

lemma grown_Ref: "grown t t' (Suc n) m \<Longrightarrow> grown (Ref a t) (Ref n t') n m"
  by (auto simp: grown_def)

lemma grown_Nil: "grown (Struct []) (Struct []) n n"
  by (simp add: grown_def)

lemma grown_Cons: "grown t t' n k \<Longrightarrow> grown (Struct ts) (Struct ts') k m \<Longrightarrow> grown (Struct (t # ts)) (Struct (t' # ts')) n m"
  unfolding grown_def by fastforce

lemmas grown_flat_Cons = grown_Cons [OF grown_flat]

text \<open>Nothing that is stored through one of the two is seen through the other.\<close>

lemma grown_independent:
  assumes "grown t t' n m" "set (addrs t) \<subseteq> {..<n}"
  shows "a \<in> set (addrs t') \<Longrightarrow> poke a v t = t" and "a \<in> set (addrs t) \<Longrightarrow> poke a v t' = t'"
  using assms unfolding grown_def by (intro poke_elsewhere; fastforce)+

locale deep_copy =
  fixes into :: "'a \<Rightarrow> (addr, 'a) state"
    and layout :: "'a \<Rightarrow> mem"
  assumes deep: "wp (into x) (\<lambda>y m. grown (layout x) (layout y) n m) n"
begin

lemma then_deep:
  "(\<And>y k. grown (layout x) (layout y) n k \<Longrightarrow> wp (f y) Q k) \<Longrightarrow> wp (State_Monad.bind (into x) f) Q n"
  unfolding wp_bind by (rule wp_mono [OF deep])

lemma deep_ref: "wp (copy_ref into r) (\<lambda>s m. grown (ref_mem layout r) (ref_mem layout s) n m) n"
  by (cases r)
    (auto simp: copy_ref_def ref_mem_def wp_simps grown_flat intro!: wp_mono [OF deep] grown_Ref split: prod.split)

lemma deep_elems: "wp (copy_elems into xs) (\<lambda>ys m. grown (elems_mem layout xs) (elems_mem layout ys) n m) n"
proof (induction xs arbitrary: n)
  case (Cons x xs)
  show ?case
    unfolding copy_elems.simps
    by (rule then_deep) (auto simp: wp_simps elems_mem_def intro!: wp_mono [OF Cons.IH] intro: grown_Cons)
qed (simp add: wp_simps elems_mem_def grown_Nil)

lemma deep_entries: "wp (copy_entries into xs) (\<lambda>ys m. grown (entries_mem layout xs) (entries_mem layout ys) n m) n"
proof (induction xs arbitrary: n)
  case (Cons x xs)
  have "grown (Struct [str_mem k, t]) (Struct [str_mem k, t']) n m" if "grown t t' n m" for k t t' n m
    by (intro grown_flat_Cons grown_Cons [OF that grown_Nil]) simp
  note entry = grown_Cons [OF this]
  show ?case
    unfolding copy_entries.simps
    by (rule then_deep) (auto simp: wp_simps entries_mem_def case_prod_beta intro!: wp_mono [OF Cons.IH] elim: entry)
qed (simp add: wp_simps entries_mem_def grown_Nil)

end

text \<open>Copies of the parts give copies of references, slices and maps.\<close>

lemma deep_copy_ref: "deep_copy into L \<Longrightarrow> deep_copy (copy_ref into) (ref_mem L)"
  by (simp add: deep_copy.deep_ref deep_copy.intro)

lemma deep_copy_elems: "deep_copy into L \<Longrightarrow> deep_copy (copy_elems into) (elems_mem L)"
  by (simp add: deep_copy.deep_elems deep_copy.intro)

lemma deep_copy_entries: "deep_copy into L \<Longrightarrow> deep_copy (copy_entries into) (entries_mem L)"
  by (simp add: deep_copy.deep_entries deep_copy.intro)

lemma deep_copy_assign: "(\<And>x. addrs (L x) = []) \<Longrightarrow> deep_copy assign L"
  by (simp add: deep_copy_def wp_simps grown_flat)

lemmas deep_copy_intros = deep_copy_ref deep_copy_elems deep_copy_entries deep_copy_assign

text \<open>A copying function for any value, as a library might have it.\<close>

fun recopy :: "mem \<Rightarrow> addr \<Rightarrow> mem \<times> addr" and recopies :: "mem list \<Rightarrow> addr \<Rightarrow> mem list \<times> addr" where
  "recopy (Prim p) n = (Prim p, n)"
| "recopy (Struct ts) n = (let (us, m) = recopies ts n in (Struct us, m))"
| "recopy NilRef n = (NilRef, n)"
| "recopy (Ref a t) n = (let (u, m) = recopy t (Suc n) in (Ref n u, m))"
| "recopies [] n = ([], n)"
| "recopies (t # ts) n = (let (u, k) = recopy t n; (us, m) = recopies ts k in (u # us, m))"

lemma recopy_grown:
  "grown t (fst (recopy t n)) n (snd (recopy t n))"
  "grown (Struct ts) (Struct (fst (recopies ts n))) n (snd (recopies ts n))"
proof (induction t n and ts n rule: recopy_recopies.induct)
  case (6 t ts n)
  obtain u k where u: "recopy t n = (u, k)" by fastforce
  obtain us m where us: "recopies ts k = (us, m)" by fastforce
  show ?case using 6(1) 6(2) [OF u [symmetric] refl] u us by (auto intro: grown_Cons)
qed (auto simp: grown_flat grown_Nil grown_Ref Let_def case_prod_beta)

definition copy_any :: "mem \<Rightarrow> (addr, mem) state" where
  "copy_any t = State (recopy t)"

interpretation any: deep_copy copy_any any_mem
  by unfold_locales (simp add: wp_def case_prod_beta copy_any_def any_mem_def recopy_grown)

end
