(* ===== verification/DeepCopy.thy ===== *)
theory DeepCopy
  imports GoMemory
begin

text \<open>
  \<open>api/v1beta1/zz_generated.deepcopy.go\<close>: the copies that caches, helpers and lists make of the objects. The structs are
  those of \<open>api/v1beta1/*_types.go\<close> with all their fields, pointers and maps as references; \<open>X_mem\<close> is the layout of a
  struct \<open>X\<close>, \<open>X_DeepCopyInto\<close> starts from the assignment \<open>*out = *in\<close> and replaces the fields it copies. The copies
  of types of other modules are parameters; such a type that is copied by assignment is a list of plain fields, as the
  generator found no reference in it. Go visits the entries of a map in no fixed order; the list of a map stands for any of
  them, and only the addresses of nested values depend on it.
\<close>

section \<open>Types of other modules\<close>

definition flat_mem :: "prim list \<Rightarrow> mem" where
  "flat_mem ps = Struct (map Prim ps)"

record foreign =
  ObjectMeta_copy :: "mem \<Rightarrow> (addr, mem) state"
  ListMeta_copy :: "mem \<Rightarrow> (addr, mem) state"
  ResourceRequirements_copy :: "mem \<Rightarrow> (addr, mem) state"
  TLSAPI_copy :: "mem \<Rightarrow> (addr, mem) state"
  Condition_copy :: "mem \<Rightarrow> (addr, mem) state"
  VolMounts_copy :: "mem \<Rightarrow> (addr, mem) state"
  RoutedOverrideSpec_copy :: "mem \<Rightarrow> (addr, mem) state"
  Time_DeepCopy :: "int \<Rightarrow> (addr, addr \<times> int) state"

text \<open>\<open>*out = ( *in).DeepCopy()\<close> of a pointer to a \<open>metav1.Time\<close>, an instant.\<close>

definition copy_time :: "foreign \<Rightarrow> int ref \<Rightarrow> (addr, int ref) state" where
  "copy_time F r =
     (case r of
        None \<Rightarrow> ret None
      | Some (a, t) \<Rightarrow> do { (b, u) \<leftarrow> Time_DeepCopy F t; ret (Some (b, u)) })"

section \<open>Types without references\<close>

record sACRule =
  ACRule_Service :: string
  ACRule_Path :: string
  ACRule_Method :: string

definition ACRule_mem :: "sACRule \<Rightarrow> mem" where
  "ACRule_mem x = Struct [
     str_mem (ACRule_Service x), str_mem (ACRule_Path x), str_mem (ACRule_Method x)]"

definition ACRule_DeepCopyInto :: "sACRule \<Rightarrow> (addr, sACRule) state" where
  "ACRule_DeepCopyInto inp = assign inp"

definition ACRule_DeepCopy :: "sACRule ref \<Rightarrow> (addr, sACRule ref) state" where
  "ACRule_DeepCopy inp = copy_ref ACRule_DeepCopyInto inp"

record sApplicationCredentialData =
  ApplicationCredentialData_ID :: string
  ApplicationCredentialData_Secret :: string

definition ApplicationCredentialData_mem :: "sApplicationCredentialData \<Rightarrow> mem" where
  "ApplicationCredentialData_mem x = Struct [
     str_mem (ApplicationCredentialData_ID x), str_mem (ApplicationCredentialData_Secret x)]"

definition ApplicationCredentialData_DeepCopyInto :: "sApplicationCredentialData \<Rightarrow> (addr, sApplicationCredentialData) state" where
  "ApplicationCredentialData_DeepCopyInto inp = assign inp"

definition ApplicationCredentialData_DeepCopy :: "sApplicationCredentialData ref \<Rightarrow> (addr, sApplicationCredentialData ref) state" where
  "ApplicationCredentialData_DeepCopy inp = copy_ref ApplicationCredentialData_DeepCopyInto inp"

record sEndpoint =
  Endpoint_Interface :: string
  Endpoint_URL :: string
  Endpoint_ID :: string

definition Endpoint_mem :: "sEndpoint \<Rightarrow> mem" where
  "Endpoint_mem x = Struct [
     str_mem (Endpoint_Interface x), str_mem (Endpoint_URL x), str_mem (Endpoint_ID x)]"

definition Endpoint_DeepCopyInto :: "sEndpoint \<Rightarrow> (addr, sEndpoint) state" where
  "Endpoint_DeepCopyInto inp = assign inp"

definition Endpoint_DeepCopy :: "sEndpoint ref \<Rightarrow> (addr, sEndpoint ref) state" where
  "Endpoint_DeepCopy inp = copy_ref Endpoint_DeepCopyInto inp"

record sKeystoneAPIDefaults =
  KeystoneAPIDefaults_ContainerImageURL :: string
  KeystoneAPIDefaults_APITimeout :: int

definition KeystoneAPIDefaults_mem :: "sKeystoneAPIDefaults \<Rightarrow> mem" where
  "KeystoneAPIDefaults_mem x = Struct [
     str_mem (KeystoneAPIDefaults_ContainerImageURL x), int_mem (KeystoneAPIDefaults_APITimeout x)]"

definition KeystoneAPIDefaults_DeepCopyInto :: "sKeystoneAPIDefaults \<Rightarrow> (addr, sKeystoneAPIDefaults) state" where
  "KeystoneAPIDefaults_DeepCopyInto inp = assign inp"

definition KeystoneAPIDefaults_DeepCopy :: "sKeystoneAPIDefaults ref \<Rightarrow> (addr, sKeystoneAPIDefaults ref) state" where
  "KeystoneAPIDefaults_DeepCopy inp = copy_ref KeystoneAPIDefaults_DeepCopyInto inp"

record sKeystoneServiceSpec =
  KeystoneServiceSpec_ServiceType :: string
  KeystoneServiceSpec_ServiceName :: string
  KeystoneServiceSpec_ServiceDescription :: string
  KeystoneServiceSpec_Enabled :: bool
  KeystoneServiceSpec_ServiceUser :: string
  KeystoneServiceSpec_Secret :: string
  KeystoneServiceSpec_PasswordSelector :: string

definition KeystoneServiceSpec_mem :: "sKeystoneServiceSpec \<Rightarrow> mem" where
  "KeystoneServiceSpec_mem x = Struct [
     str_mem (KeystoneServiceSpec_ServiceType x), str_mem (KeystoneServiceSpec_ServiceName x),
     str_mem (KeystoneServiceSpec_ServiceDescription x), bool_mem (KeystoneServiceSpec_Enabled x),
     str_mem (KeystoneServiceSpec_ServiceUser x), str_mem (KeystoneServiceSpec_Secret x),
     str_mem (KeystoneServiceSpec_PasswordSelector x)]"

definition KeystoneServiceSpec_DeepCopyInto :: "sKeystoneServiceSpec \<Rightarrow> (addr, sKeystoneServiceSpec) state" where
  "KeystoneServiceSpec_DeepCopyInto inp = assign inp"

definition KeystoneServiceSpec_DeepCopy :: "sKeystoneServiceSpec ref \<Rightarrow> (addr, sKeystoneServiceSpec ref) state" where
  "KeystoneServiceSpec_DeepCopy inp = copy_ref KeystoneServiceSpec_DeepCopyInto inp"

record sPasswordSelector =
  PasswordSelector_Admin :: string

definition PasswordSelector_mem :: "sPasswordSelector \<Rightarrow> mem" where
  "PasswordSelector_mem x = Struct [
     str_mem (PasswordSelector_Admin x)]"

definition PasswordSelector_DeepCopyInto :: "sPasswordSelector \<Rightarrow> (addr, sPasswordSelector) state" where
  "PasswordSelector_DeepCopyInto inp = assign inp"

definition PasswordSelector_DeepCopy :: "sPasswordSelector ref \<Rightarrow> (addr, sPasswordSelector ref) state" where
  "PasswordSelector_DeepCopy inp = copy_ref PasswordSelector_DeepCopyInto inp"

section \<open>KeystoneAPI\<close>

record sAPIOverrideSpec =
  APIOverrideSpec_Service :: "mem mapref"

definition APIOverrideSpec_mem :: "sAPIOverrideSpec \<Rightarrow> mem" where
  "APIOverrideSpec_mem x = Struct [
     ref_mem (entries_mem any_mem) (APIOverrideSpec_Service x)]"

definition APIOverrideSpec_DeepCopyInto :: "foreign \<Rightarrow> sAPIOverrideSpec \<Rightarrow> (addr, sAPIOverrideSpec) state" where
  "APIOverrideSpec_DeepCopyInto F inp = do {
     service \<leftarrow> copy_ref (copy_entries (RoutedOverrideSpec_copy F)) (APIOverrideSpec_Service inp);
     ret (inp\<lparr>APIOverrideSpec_Service := service\<rparr>)
   }"

definition APIOverrideSpec_DeepCopy :: "foreign \<Rightarrow> sAPIOverrideSpec ref \<Rightarrow> (addr, sAPIOverrideSpec ref) state" where
  "APIOverrideSpec_DeepCopy F inp = copy_ref (APIOverrideSpec_DeepCopyInto F) inp"

record sHttpdCustomization =
  HttpdCustomization_ProcessNumber :: "int ref"
  HttpdCustomization_CustomConfigSecret :: "string ref"

definition HttpdCustomization_mem :: "sHttpdCustomization \<Rightarrow> mem" where
  "HttpdCustomization_mem x = Struct [
     ref_mem int_mem (HttpdCustomization_ProcessNumber x),
     ref_mem str_mem (HttpdCustomization_CustomConfigSecret x)]"

definition HttpdCustomization_DeepCopyInto :: "sHttpdCustomization \<Rightarrow> (addr, sHttpdCustomization) state" where
  "HttpdCustomization_DeepCopyInto inp = do {
     processNumber \<leftarrow> copy_ref assign (HttpdCustomization_ProcessNumber inp);
     customConfigSecret \<leftarrow> copy_ref assign (HttpdCustomization_CustomConfigSecret inp);
     ret (inp\<lparr>HttpdCustomization_ProcessNumber := processNumber,
       HttpdCustomization_CustomConfigSecret := customConfigSecret\<rparr>)
   }"

definition HttpdCustomization_DeepCopy :: "sHttpdCustomization ref \<Rightarrow> (addr, sHttpdCustomization ref) state" where
  "HttpdCustomization_DeepCopy inp = copy_ref HttpdCustomization_DeepCopyInto inp"

record sKeystoneExtraMounts =
  KeystoneExtraMounts_Name :: string
  KeystoneExtraMounts_Region :: string
  KeystoneExtraMounts_VolMounts :: "mem list ref"

definition KeystoneExtraMounts_mem :: "sKeystoneExtraMounts \<Rightarrow> mem" where
  "KeystoneExtraMounts_mem x = Struct [
     str_mem (KeystoneExtraMounts_Name x), str_mem (KeystoneExtraMounts_Region x),
     ref_mem (elems_mem any_mem) (KeystoneExtraMounts_VolMounts x)]"

definition KeystoneExtraMounts_DeepCopyInto :: "foreign \<Rightarrow> sKeystoneExtraMounts \<Rightarrow> (addr, sKeystoneExtraMounts) state" where
  "KeystoneExtraMounts_DeepCopyInto F inp = do {
     volMounts \<leftarrow> copy_ref (copy_elems (VolMounts_copy F)) (KeystoneExtraMounts_VolMounts inp);
     ret (inp\<lparr>KeystoneExtraMounts_VolMounts := volMounts\<rparr>)
   }"

definition KeystoneExtraMounts_DeepCopy :: "foreign \<Rightarrow> sKeystoneExtraMounts ref \<Rightarrow> (addr, sKeystoneExtraMounts ref) state" where
  "KeystoneExtraMounts_DeepCopy F inp = copy_ref (KeystoneExtraMounts_DeepCopyInto F) inp"

record sKeystoneAPISpecCore =
  KeystoneAPISpecCore_DatabaseInstance :: string
  KeystoneAPISpecCore_DatabaseAccount :: string
  KeystoneAPISpecCore_MemcachedInstance :: string
  KeystoneAPISpecCore_Region :: string
  KeystoneAPISpecCore_AdminProject :: string
  KeystoneAPISpecCore_AdminUser :: string
  KeystoneAPISpecCore_Replicas :: "int ref"
  KeystoneAPISpecCore_Secret :: string
  KeystoneAPISpecCore_EnableSecureRBAC :: bool
  KeystoneAPISpecCore_TrustFlushArgs :: string
  KeystoneAPISpecCore_TrustFlushSchedule :: string
  KeystoneAPISpecCore_TrustFlushSuspend :: bool
  KeystoneAPISpecCore_FernetRotationDays :: "int ref"
  KeystoneAPISpecCore_FernetMaxActiveKeys :: "int ref"
  KeystoneAPISpecCore_PasswordSelectors :: sPasswordSelector
  KeystoneAPISpecCore_NodeSelector :: "string mapref ref"
  KeystoneAPISpecCore_PreserveJobs :: bool
  KeystoneAPISpecCore_CustomServiceConfig :: string
  KeystoneAPISpecCore_DefaultConfigOverwrite :: "string mapref"
  KeystoneAPISpecCore_HttpdCustomization :: sHttpdCustomization
  KeystoneAPISpecCore_Resources :: mem
  KeystoneAPISpecCore_NetworkAttachments :: "string list ref"
  KeystoneAPISpecCore_Override :: sAPIOverrideSpec
  KeystoneAPISpecCore_RabbitMqClusterName :: string
  KeystoneAPISpecCore_TLS :: mem
  KeystoneAPISpecCore_APITimeout :: int
  KeystoneAPISpecCore_TopologyRef :: "(prim list) ref"
  KeystoneAPISpecCore_ExtraMounts :: "sKeystoneExtraMounts list ref"
  KeystoneAPISpecCore_FederatedRealmConfig :: string
  KeystoneAPISpecCore_ExternalKeystoneAPI :: bool
  KeystoneAPISpecCore_NotificationsBus :: "(prim list) ref"

definition KeystoneAPISpecCore_mem :: "sKeystoneAPISpecCore \<Rightarrow> mem" where
  "KeystoneAPISpecCore_mem x = Struct [
     str_mem (KeystoneAPISpecCore_DatabaseInstance x), str_mem (KeystoneAPISpecCore_DatabaseAccount x),
     str_mem (KeystoneAPISpecCore_MemcachedInstance x), str_mem (KeystoneAPISpecCore_Region x),
     str_mem (KeystoneAPISpecCore_AdminProject x), str_mem (KeystoneAPISpecCore_AdminUser x),
     ref_mem int_mem (KeystoneAPISpecCore_Replicas x), str_mem (KeystoneAPISpecCore_Secret x),
     bool_mem (KeystoneAPISpecCore_EnableSecureRBAC x), str_mem (KeystoneAPISpecCore_TrustFlushArgs x),
     str_mem (KeystoneAPISpecCore_TrustFlushSchedule x), bool_mem (KeystoneAPISpecCore_TrustFlushSuspend x),
     ref_mem int_mem (KeystoneAPISpecCore_FernetRotationDays x),
     ref_mem int_mem (KeystoneAPISpecCore_FernetMaxActiveKeys x),
     PasswordSelector_mem (KeystoneAPISpecCore_PasswordSelectors x),
     ref_mem (ref_mem (entries_mem str_mem)) (KeystoneAPISpecCore_NodeSelector x),
     bool_mem (KeystoneAPISpecCore_PreserveJobs x), str_mem (KeystoneAPISpecCore_CustomServiceConfig x),
     ref_mem (entries_mem str_mem) (KeystoneAPISpecCore_DefaultConfigOverwrite x),
     HttpdCustomization_mem (KeystoneAPISpecCore_HttpdCustomization x), any_mem (KeystoneAPISpecCore_Resources x),
     ref_mem (elems_mem str_mem) (KeystoneAPISpecCore_NetworkAttachments x),
     APIOverrideSpec_mem (KeystoneAPISpecCore_Override x), str_mem (KeystoneAPISpecCore_RabbitMqClusterName x),
     any_mem (KeystoneAPISpecCore_TLS x), int_mem (KeystoneAPISpecCore_APITimeout x),
     ref_mem flat_mem (KeystoneAPISpecCore_TopologyRef x),
     ref_mem (elems_mem KeystoneExtraMounts_mem) (KeystoneAPISpecCore_ExtraMounts x),
     str_mem (KeystoneAPISpecCore_FederatedRealmConfig x), bool_mem (KeystoneAPISpecCore_ExternalKeystoneAPI x),
     ref_mem flat_mem (KeystoneAPISpecCore_NotificationsBus x)]"

definition KeystoneAPISpecCore_DeepCopyInto :: "foreign \<Rightarrow> sKeystoneAPISpecCore \<Rightarrow> (addr, sKeystoneAPISpecCore) state" where
  "KeystoneAPISpecCore_DeepCopyInto F inp = do {
     replicas \<leftarrow> copy_ref assign (KeystoneAPISpecCore_Replicas inp);
     fernetRotationDays \<leftarrow> copy_ref assign (KeystoneAPISpecCore_FernetRotationDays inp);
     fernetMaxActiveKeys \<leftarrow> copy_ref assign (KeystoneAPISpecCore_FernetMaxActiveKeys inp);
     nodeSelector \<leftarrow> copy_ref (copy_ref (copy_entries assign)) (KeystoneAPISpecCore_NodeSelector inp);
     defaultConfigOverwrite \<leftarrow> copy_ref (copy_entries assign) (KeystoneAPISpecCore_DefaultConfigOverwrite inp);
     httpdCustomization \<leftarrow> HttpdCustomization_DeepCopyInto (KeystoneAPISpecCore_HttpdCustomization inp);
     resources \<leftarrow> ResourceRequirements_copy F (KeystoneAPISpecCore_Resources inp);
     networkAttachments \<leftarrow> copy_ref assign (KeystoneAPISpecCore_NetworkAttachments inp);
     over \<leftarrow> APIOverrideSpec_DeepCopyInto F (KeystoneAPISpecCore_Override inp);
     tls \<leftarrow> TLSAPI_copy F (KeystoneAPISpecCore_TLS inp);
     topologyRef \<leftarrow> copy_ref assign (KeystoneAPISpecCore_TopologyRef inp);
     extraMounts \<leftarrow> copy_ref (copy_elems (KeystoneExtraMounts_DeepCopyInto F)) (KeystoneAPISpecCore_ExtraMounts inp);
     notificationsBus \<leftarrow> copy_ref assign (KeystoneAPISpecCore_NotificationsBus inp);
     ret (inp\<lparr>KeystoneAPISpecCore_Replicas := replicas, KeystoneAPISpecCore_FernetRotationDays := fernetRotationDays,
       KeystoneAPISpecCore_FernetMaxActiveKeys := fernetMaxActiveKeys,
       KeystoneAPISpecCore_NodeSelector := nodeSelector,
       KeystoneAPISpecCore_DefaultConfigOverwrite := defaultConfigOverwrite,
       KeystoneAPISpecCore_HttpdCustomization := httpdCustomization, KeystoneAPISpecCore_Resources := resources,
       KeystoneAPISpecCore_NetworkAttachments := networkAttachments, KeystoneAPISpecCore_Override := over,
       KeystoneAPISpecCore_TLS := tls, KeystoneAPISpecCore_TopologyRef := topologyRef,
       KeystoneAPISpecCore_ExtraMounts := extraMounts, KeystoneAPISpecCore_NotificationsBus := notificationsBus\<rparr>)
   }"

definition KeystoneAPISpecCore_DeepCopy :: "foreign \<Rightarrow> sKeystoneAPISpecCore ref \<Rightarrow> (addr, sKeystoneAPISpecCore ref) state" where
  "KeystoneAPISpecCore_DeepCopy F inp = copy_ref (KeystoneAPISpecCore_DeepCopyInto F) inp"

record sKeystoneAPISpec =
  KeystoneAPISpec_Core :: sKeystoneAPISpecCore
  KeystoneAPISpec_ContainerImage :: string

definition KeystoneAPISpec_mem :: "sKeystoneAPISpec \<Rightarrow> mem" where
  "KeystoneAPISpec_mem x = Struct [
     KeystoneAPISpecCore_mem (KeystoneAPISpec_Core x), str_mem (KeystoneAPISpec_ContainerImage x)]"

definition KeystoneAPISpec_DeepCopyInto :: "foreign \<Rightarrow> sKeystoneAPISpec \<Rightarrow> (addr, sKeystoneAPISpec) state" where
  "KeystoneAPISpec_DeepCopyInto F inp = do {
     core \<leftarrow> KeystoneAPISpecCore_DeepCopyInto F (KeystoneAPISpec_Core inp);
     ret (inp\<lparr>KeystoneAPISpec_Core := core\<rparr>)
   }"

definition KeystoneAPISpec_DeepCopy :: "foreign \<Rightarrow> sKeystoneAPISpec ref \<Rightarrow> (addr, sKeystoneAPISpec ref) state" where
  "KeystoneAPISpec_DeepCopy F inp = copy_ref (KeystoneAPISpec_DeepCopyInto F) inp"

record sKeystoneAPIStatus =
  KeystoneAPIStatus_ReadyCount :: int
  KeystoneAPIStatus_Hash :: "string mapref"
  KeystoneAPIStatus_APIEndpoints :: "string mapref"
  KeystoneAPIStatus_Conditions :: "mem list ref"
  KeystoneAPIStatus_DatabaseHostname :: string
  KeystoneAPIStatus_NetworkAttachments :: "string list ref mapref"
  KeystoneAPIStatus_TransportURLSecret :: string
  KeystoneAPIStatus_ObservedGeneration :: int
  KeystoneAPIStatus_LastAppliedTopology :: "(prim list) ref"
  KeystoneAPIStatus_Region :: string

definition KeystoneAPIStatus_mem :: "sKeystoneAPIStatus \<Rightarrow> mem" where
  "KeystoneAPIStatus_mem x = Struct [
     int_mem (KeystoneAPIStatus_ReadyCount x), ref_mem (entries_mem str_mem) (KeystoneAPIStatus_Hash x),
     ref_mem (entries_mem str_mem) (KeystoneAPIStatus_APIEndpoints x),
     ref_mem (elems_mem any_mem) (KeystoneAPIStatus_Conditions x), str_mem (KeystoneAPIStatus_DatabaseHostname x),
     ref_mem (entries_mem (ref_mem (elems_mem str_mem))) (KeystoneAPIStatus_NetworkAttachments x),
     str_mem (KeystoneAPIStatus_TransportURLSecret x), int_mem (KeystoneAPIStatus_ObservedGeneration x),
     ref_mem flat_mem (KeystoneAPIStatus_LastAppliedTopology x), str_mem (KeystoneAPIStatus_Region x)]"

definition KeystoneAPIStatus_DeepCopyInto :: "foreign \<Rightarrow> sKeystoneAPIStatus \<Rightarrow> (addr, sKeystoneAPIStatus) state" where
  "KeystoneAPIStatus_DeepCopyInto F inp = do {
     hash \<leftarrow> copy_ref (copy_entries assign) (KeystoneAPIStatus_Hash inp);
     apiEndpoints \<leftarrow> copy_ref (copy_entries assign) (KeystoneAPIStatus_APIEndpoints inp);
     conditions \<leftarrow> copy_ref (copy_elems (Condition_copy F)) (KeystoneAPIStatus_Conditions inp);
     networkAttachments \<leftarrow> copy_ref (copy_entries (copy_ref assign)) (KeystoneAPIStatus_NetworkAttachments inp);
     lastAppliedTopology \<leftarrow> copy_ref assign (KeystoneAPIStatus_LastAppliedTopology inp);
     ret (inp\<lparr>KeystoneAPIStatus_Hash := hash, KeystoneAPIStatus_APIEndpoints := apiEndpoints,
       KeystoneAPIStatus_Conditions := conditions, KeystoneAPIStatus_NetworkAttachments := networkAttachments,
       KeystoneAPIStatus_LastAppliedTopology := lastAppliedTopology\<rparr>)
   }"

definition KeystoneAPIStatus_DeepCopy :: "foreign \<Rightarrow> sKeystoneAPIStatus ref \<Rightarrow> (addr, sKeystoneAPIStatus ref) state" where
  "KeystoneAPIStatus_DeepCopy F inp = copy_ref (KeystoneAPIStatus_DeepCopyInto F) inp"

record sKeystoneAPI =
  KeystoneAPI_TypeMeta :: "prim list"
  KeystoneAPI_ObjectMeta :: mem
  KeystoneAPI_Spec :: sKeystoneAPISpec
  KeystoneAPI_Status :: sKeystoneAPIStatus

definition KeystoneAPI_mem :: "sKeystoneAPI \<Rightarrow> mem" where
  "KeystoneAPI_mem x = Struct [
     flat_mem (KeystoneAPI_TypeMeta x), any_mem (KeystoneAPI_ObjectMeta x),
     KeystoneAPISpec_mem (KeystoneAPI_Spec x), KeystoneAPIStatus_mem (KeystoneAPI_Status x)]"

definition KeystoneAPI_DeepCopyInto :: "foreign \<Rightarrow> sKeystoneAPI \<Rightarrow> (addr, sKeystoneAPI) state" where
  "KeystoneAPI_DeepCopyInto F inp = do {
     meta \<leftarrow> ObjectMeta_copy F (KeystoneAPI_ObjectMeta inp);
     spec \<leftarrow> KeystoneAPISpec_DeepCopyInto F (KeystoneAPI_Spec inp);
     status \<leftarrow> KeystoneAPIStatus_DeepCopyInto F (KeystoneAPI_Status inp);
     ret (inp\<lparr>KeystoneAPI_ObjectMeta := meta, KeystoneAPI_Spec := spec, KeystoneAPI_Status := status\<rparr>)
   }"

definition KeystoneAPI_DeepCopy :: "foreign \<Rightarrow> sKeystoneAPI ref \<Rightarrow> (addr, sKeystoneAPI ref) state" where
  "KeystoneAPI_DeepCopy F inp = copy_ref (KeystoneAPI_DeepCopyInto F) inp"

record sKeystoneAPIList =
  KeystoneAPIList_TypeMeta :: "prim list"
  KeystoneAPIList_ListMeta :: mem
  KeystoneAPIList_Items :: "sKeystoneAPI list ref"

definition KeystoneAPIList_mem :: "sKeystoneAPIList \<Rightarrow> mem" where
  "KeystoneAPIList_mem x = Struct [
     flat_mem (KeystoneAPIList_TypeMeta x), any_mem (KeystoneAPIList_ListMeta x),
     ref_mem (elems_mem KeystoneAPI_mem) (KeystoneAPIList_Items x)]"

definition KeystoneAPIList_DeepCopyInto :: "foreign \<Rightarrow> sKeystoneAPIList \<Rightarrow> (addr, sKeystoneAPIList) state" where
  "KeystoneAPIList_DeepCopyInto F inp = do {
     meta \<leftarrow> ListMeta_copy F (KeystoneAPIList_ListMeta inp);
     items \<leftarrow> copy_ref (copy_elems (KeystoneAPI_DeepCopyInto F)) (KeystoneAPIList_Items inp);
     ret (inp\<lparr>KeystoneAPIList_ListMeta := meta, KeystoneAPIList_Items := items\<rparr>)
   }"

definition KeystoneAPIList_DeepCopy :: "foreign \<Rightarrow> sKeystoneAPIList ref \<Rightarrow> (addr, sKeystoneAPIList ref) state" where
  "KeystoneAPIList_DeepCopy F inp = copy_ref (KeystoneAPIList_DeepCopyInto F) inp"

section \<open>KeystoneService\<close>

record sKeystoneServiceStatus =
  KeystoneServiceStatus_ServiceID :: string
  KeystoneServiceStatus_Conditions :: "mem list ref"

definition KeystoneServiceStatus_mem :: "sKeystoneServiceStatus \<Rightarrow> mem" where
  "KeystoneServiceStatus_mem x = Struct [
     str_mem (KeystoneServiceStatus_ServiceID x), ref_mem (elems_mem any_mem) (KeystoneServiceStatus_Conditions x)]"

definition KeystoneServiceStatus_DeepCopyInto :: "foreign \<Rightarrow> sKeystoneServiceStatus \<Rightarrow> (addr, sKeystoneServiceStatus) state" where
  "KeystoneServiceStatus_DeepCopyInto F inp = do {
     conditions \<leftarrow> copy_ref (copy_elems (Condition_copy F)) (KeystoneServiceStatus_Conditions inp);
     ret (inp\<lparr>KeystoneServiceStatus_Conditions := conditions\<rparr>)
   }"

definition KeystoneServiceStatus_DeepCopy :: "foreign \<Rightarrow> sKeystoneServiceStatus ref \<Rightarrow> (addr, sKeystoneServiceStatus ref) state" where
  "KeystoneServiceStatus_DeepCopy F inp = copy_ref (KeystoneServiceStatus_DeepCopyInto F) inp"

record sKeystoneService =
  KeystoneService_TypeMeta :: "prim list"
  KeystoneService_ObjectMeta :: mem
  KeystoneService_Spec :: sKeystoneServiceSpec
  KeystoneService_Status :: sKeystoneServiceStatus

definition KeystoneService_mem :: "sKeystoneService \<Rightarrow> mem" where
  "KeystoneService_mem x = Struct [
     flat_mem (KeystoneService_TypeMeta x), any_mem (KeystoneService_ObjectMeta x),
     KeystoneServiceSpec_mem (KeystoneService_Spec x), KeystoneServiceStatus_mem (KeystoneService_Status x)]"

definition KeystoneService_DeepCopyInto :: "foreign \<Rightarrow> sKeystoneService \<Rightarrow> (addr, sKeystoneService) state" where
  "KeystoneService_DeepCopyInto F inp = do {
     meta \<leftarrow> ObjectMeta_copy F (KeystoneService_ObjectMeta inp);
     status \<leftarrow> KeystoneServiceStatus_DeepCopyInto F (KeystoneService_Status inp);
     ret (inp\<lparr>KeystoneService_ObjectMeta := meta, KeystoneService_Status := status\<rparr>)
   }"

definition KeystoneService_DeepCopy :: "foreign \<Rightarrow> sKeystoneService ref \<Rightarrow> (addr, sKeystoneService ref) state" where
  "KeystoneService_DeepCopy F inp = copy_ref (KeystoneService_DeepCopyInto F) inp"

record sKeystoneServiceList =
  KeystoneServiceList_TypeMeta :: "prim list"
  KeystoneServiceList_ListMeta :: mem
  KeystoneServiceList_Items :: "sKeystoneService list ref"

definition KeystoneServiceList_mem :: "sKeystoneServiceList \<Rightarrow> mem" where
  "KeystoneServiceList_mem x = Struct [
     flat_mem (KeystoneServiceList_TypeMeta x), any_mem (KeystoneServiceList_ListMeta x),
     ref_mem (elems_mem KeystoneService_mem) (KeystoneServiceList_Items x)]"

definition KeystoneServiceList_DeepCopyInto :: "foreign \<Rightarrow> sKeystoneServiceList \<Rightarrow> (addr, sKeystoneServiceList) state" where
  "KeystoneServiceList_DeepCopyInto F inp = do {
     meta \<leftarrow> ListMeta_copy F (KeystoneServiceList_ListMeta inp);
     items \<leftarrow> copy_ref (copy_elems (KeystoneService_DeepCopyInto F)) (KeystoneServiceList_Items inp);
     ret (inp\<lparr>KeystoneServiceList_ListMeta := meta, KeystoneServiceList_Items := items\<rparr>)
   }"

definition KeystoneServiceList_DeepCopy :: "foreign \<Rightarrow> sKeystoneServiceList ref \<Rightarrow> (addr, sKeystoneServiceList ref) state" where
  "KeystoneServiceList_DeepCopy F inp = copy_ref (KeystoneServiceList_DeepCopyInto F) inp"

record sKeystoneServiceHelper =
  KeystoneServiceHelper_service :: "sKeystoneService ref"
  KeystoneServiceHelper_timeout :: int
  KeystoneServiceHelper_labels :: "string mapref"
  KeystoneServiceHelper_id :: string

definition KeystoneServiceHelper_mem :: "sKeystoneServiceHelper \<Rightarrow> mem" where
  "KeystoneServiceHelper_mem x = Struct [
     ref_mem KeystoneService_mem (KeystoneServiceHelper_service x), int_mem (KeystoneServiceHelper_timeout x),
     ref_mem (entries_mem str_mem) (KeystoneServiceHelper_labels x), str_mem (KeystoneServiceHelper_id x)]"

definition KeystoneServiceHelper_DeepCopyInto :: "foreign \<Rightarrow> sKeystoneServiceHelper \<Rightarrow> (addr, sKeystoneServiceHelper) state" where
  "KeystoneServiceHelper_DeepCopyInto F inp = do {
     service \<leftarrow> copy_ref (KeystoneService_DeepCopyInto F) (KeystoneServiceHelper_service inp);
     labels \<leftarrow> copy_ref (copy_entries assign) (KeystoneServiceHelper_labels inp);
     ret (inp\<lparr>KeystoneServiceHelper_service := service, KeystoneServiceHelper_labels := labels\<rparr>)
   }"

definition KeystoneServiceHelper_DeepCopy :: "foreign \<Rightarrow> sKeystoneServiceHelper ref \<Rightarrow> (addr, sKeystoneServiceHelper ref) state" where
  "KeystoneServiceHelper_DeepCopy F inp = copy_ref (KeystoneServiceHelper_DeepCopyInto F) inp"

section \<open>KeystoneEndpoint\<close>

record sKeystoneEndpointSpec =
  KeystoneEndpointSpec_ServiceName :: string
  KeystoneEndpointSpec_Endpoints :: "string mapref"

definition KeystoneEndpointSpec_mem :: "sKeystoneEndpointSpec \<Rightarrow> mem" where
  "KeystoneEndpointSpec_mem x = Struct [
     str_mem (KeystoneEndpointSpec_ServiceName x),
     ref_mem (entries_mem str_mem) (KeystoneEndpointSpec_Endpoints x)]"

definition KeystoneEndpointSpec_DeepCopyInto :: "sKeystoneEndpointSpec \<Rightarrow> (addr, sKeystoneEndpointSpec) state" where
  "KeystoneEndpointSpec_DeepCopyInto inp = do {
     endpoints \<leftarrow> copy_ref (copy_entries assign) (KeystoneEndpointSpec_Endpoints inp);
     ret (inp\<lparr>KeystoneEndpointSpec_Endpoints := endpoints\<rparr>)
   }"

definition KeystoneEndpointSpec_DeepCopy :: "sKeystoneEndpointSpec ref \<Rightarrow> (addr, sKeystoneEndpointSpec ref) state" where
  "KeystoneEndpointSpec_DeepCopy inp = copy_ref KeystoneEndpointSpec_DeepCopyInto inp"

record sKeystoneEndpointStatus =
  KeystoneEndpointStatus_EndpointIDs :: "string mapref"
  KeystoneEndpointStatus_ServiceID :: string
  KeystoneEndpointStatus_Conditions :: "mem list ref"
  KeystoneEndpointStatus_Endpoints :: "sEndpoint list ref"
  KeystoneEndpointStatus_ObservedGeneration :: int

definition KeystoneEndpointStatus_mem :: "sKeystoneEndpointStatus \<Rightarrow> mem" where
  "KeystoneEndpointStatus_mem x = Struct [
     ref_mem (entries_mem str_mem) (KeystoneEndpointStatus_EndpointIDs x),
     str_mem (KeystoneEndpointStatus_ServiceID x),
     ref_mem (elems_mem any_mem) (KeystoneEndpointStatus_Conditions x),
     ref_mem (elems_mem Endpoint_mem) (KeystoneEndpointStatus_Endpoints x),
     int_mem (KeystoneEndpointStatus_ObservedGeneration x)]"

definition KeystoneEndpointStatus_DeepCopyInto :: "foreign \<Rightarrow> sKeystoneEndpointStatus \<Rightarrow> (addr, sKeystoneEndpointStatus) state" where
  "KeystoneEndpointStatus_DeepCopyInto F inp = do {
     endpointIDs \<leftarrow> copy_ref (copy_entries assign) (KeystoneEndpointStatus_EndpointIDs inp);
     conditions \<leftarrow> copy_ref (copy_elems (Condition_copy F)) (KeystoneEndpointStatus_Conditions inp);
     endpoints \<leftarrow> copy_ref assign (KeystoneEndpointStatus_Endpoints inp);
     ret (inp\<lparr>KeystoneEndpointStatus_EndpointIDs := endpointIDs, KeystoneEndpointStatus_Conditions := conditions,
       KeystoneEndpointStatus_Endpoints := endpoints\<rparr>)
   }"

definition KeystoneEndpointStatus_DeepCopy :: "foreign \<Rightarrow> sKeystoneEndpointStatus ref \<Rightarrow> (addr, sKeystoneEndpointStatus ref) state" where
  "KeystoneEndpointStatus_DeepCopy F inp = copy_ref (KeystoneEndpointStatus_DeepCopyInto F) inp"

record sKeystoneEndpoint =
  KeystoneEndpoint_TypeMeta :: "prim list"
  KeystoneEndpoint_ObjectMeta :: mem
  KeystoneEndpoint_Spec :: sKeystoneEndpointSpec
  KeystoneEndpoint_Status :: sKeystoneEndpointStatus

definition KeystoneEndpoint_mem :: "sKeystoneEndpoint \<Rightarrow> mem" where
  "KeystoneEndpoint_mem x = Struct [
     flat_mem (KeystoneEndpoint_TypeMeta x), any_mem (KeystoneEndpoint_ObjectMeta x),
     KeystoneEndpointSpec_mem (KeystoneEndpoint_Spec x), KeystoneEndpointStatus_mem (KeystoneEndpoint_Status x)]"

definition KeystoneEndpoint_DeepCopyInto :: "foreign \<Rightarrow> sKeystoneEndpoint \<Rightarrow> (addr, sKeystoneEndpoint) state" where
  "KeystoneEndpoint_DeepCopyInto F inp = do {
     meta \<leftarrow> ObjectMeta_copy F (KeystoneEndpoint_ObjectMeta inp);
     spec \<leftarrow> KeystoneEndpointSpec_DeepCopyInto (KeystoneEndpoint_Spec inp);
     status \<leftarrow> KeystoneEndpointStatus_DeepCopyInto F (KeystoneEndpoint_Status inp);
     ret (inp\<lparr>KeystoneEndpoint_ObjectMeta := meta, KeystoneEndpoint_Spec := spec, KeystoneEndpoint_Status := status\<rparr>)
   }"

definition KeystoneEndpoint_DeepCopy :: "foreign \<Rightarrow> sKeystoneEndpoint ref \<Rightarrow> (addr, sKeystoneEndpoint ref) state" where
  "KeystoneEndpoint_DeepCopy F inp = copy_ref (KeystoneEndpoint_DeepCopyInto F) inp"

record sKeystoneEndpointList =
  KeystoneEndpointList_TypeMeta :: "prim list"
  KeystoneEndpointList_ListMeta :: mem
  KeystoneEndpointList_Items :: "sKeystoneEndpoint list ref"

definition KeystoneEndpointList_mem :: "sKeystoneEndpointList \<Rightarrow> mem" where
  "KeystoneEndpointList_mem x = Struct [
     flat_mem (KeystoneEndpointList_TypeMeta x), any_mem (KeystoneEndpointList_ListMeta x),
     ref_mem (elems_mem KeystoneEndpoint_mem) (KeystoneEndpointList_Items x)]"

definition KeystoneEndpointList_DeepCopyInto :: "foreign \<Rightarrow> sKeystoneEndpointList \<Rightarrow> (addr, sKeystoneEndpointList) state" where
  "KeystoneEndpointList_DeepCopyInto F inp = do {
     meta \<leftarrow> ListMeta_copy F (KeystoneEndpointList_ListMeta inp);
     items \<leftarrow> copy_ref (copy_elems (KeystoneEndpoint_DeepCopyInto F)) (KeystoneEndpointList_Items inp);
     ret (inp\<lparr>KeystoneEndpointList_ListMeta := meta, KeystoneEndpointList_Items := items\<rparr>)
   }"

definition KeystoneEndpointList_DeepCopy :: "foreign \<Rightarrow> sKeystoneEndpointList ref \<Rightarrow> (addr, sKeystoneEndpointList ref) state" where
  "KeystoneEndpointList_DeepCopy F inp = copy_ref (KeystoneEndpointList_DeepCopyInto F) inp"

record sKeystoneEndpointHelper =
  KeystoneEndpointHelper_endpoint :: "sKeystoneEndpoint ref"
  KeystoneEndpointHelper_timeout :: int
  KeystoneEndpointHelper_labels :: "string mapref"
  KeystoneEndpointHelper_id :: "string mapref"

definition KeystoneEndpointHelper_mem :: "sKeystoneEndpointHelper \<Rightarrow> mem" where
  "KeystoneEndpointHelper_mem x = Struct [
     ref_mem KeystoneEndpoint_mem (KeystoneEndpointHelper_endpoint x), int_mem (KeystoneEndpointHelper_timeout x),
     ref_mem (entries_mem str_mem) (KeystoneEndpointHelper_labels x),
     ref_mem (entries_mem str_mem) (KeystoneEndpointHelper_id x)]"

definition KeystoneEndpointHelper_DeepCopyInto :: "foreign \<Rightarrow> sKeystoneEndpointHelper \<Rightarrow> (addr, sKeystoneEndpointHelper) state" where
  "KeystoneEndpointHelper_DeepCopyInto F inp = do {
     endpoint \<leftarrow> copy_ref (KeystoneEndpoint_DeepCopyInto F) (KeystoneEndpointHelper_endpoint inp);
     labels \<leftarrow> copy_ref (copy_entries assign) (KeystoneEndpointHelper_labels inp);
     id0 \<leftarrow> copy_ref (copy_entries assign) (KeystoneEndpointHelper_id inp);
     ret (inp\<lparr>KeystoneEndpointHelper_endpoint := endpoint, KeystoneEndpointHelper_labels := labels,
       KeystoneEndpointHelper_id := id0\<rparr>)
   }"

definition KeystoneEndpointHelper_DeepCopy :: "foreign \<Rightarrow> sKeystoneEndpointHelper ref \<Rightarrow> (addr, sKeystoneEndpointHelper ref) state" where
  "KeystoneEndpointHelper_DeepCopy F inp = copy_ref (KeystoneEndpointHelper_DeepCopyInto F) inp"

section \<open>KeystoneApplicationCredential\<close>

record sKeystoneApplicationCredentialSpec =
  KeystoneApplicationCredentialSpec_Secret :: string
  KeystoneApplicationCredentialSpec_PasswordSelector :: string
  KeystoneApplicationCredentialSpec_UserName :: string
  KeystoneApplicationCredentialSpec_ExpirationDays :: int
  KeystoneApplicationCredentialSpec_GracePeriodDays :: int
  KeystoneApplicationCredentialSpec_Roles :: "string list ref"
  KeystoneApplicationCredentialSpec_Unrestricted :: bool
  KeystoneApplicationCredentialSpec_AccessRules :: "sACRule list ref"

definition KeystoneApplicationCredentialSpec_mem :: "sKeystoneApplicationCredentialSpec \<Rightarrow> mem" where
  "KeystoneApplicationCredentialSpec_mem x = Struct [
     str_mem (KeystoneApplicationCredentialSpec_Secret x),
     str_mem (KeystoneApplicationCredentialSpec_PasswordSelector x),
     str_mem (KeystoneApplicationCredentialSpec_UserName x),
     int_mem (KeystoneApplicationCredentialSpec_ExpirationDays x),
     int_mem (KeystoneApplicationCredentialSpec_GracePeriodDays x),
     ref_mem (elems_mem str_mem) (KeystoneApplicationCredentialSpec_Roles x),
     bool_mem (KeystoneApplicationCredentialSpec_Unrestricted x),
     ref_mem (elems_mem ACRule_mem) (KeystoneApplicationCredentialSpec_AccessRules x)]"

definition KeystoneApplicationCredentialSpec_DeepCopyInto :: "sKeystoneApplicationCredentialSpec \<Rightarrow> (addr, sKeystoneApplicationCredentialSpec) state" where
  "KeystoneApplicationCredentialSpec_DeepCopyInto inp = do {
     roles \<leftarrow> copy_ref assign (KeystoneApplicationCredentialSpec_Roles inp);
     accessRules \<leftarrow> copy_ref assign (KeystoneApplicationCredentialSpec_AccessRules inp);
     ret (inp\<lparr>KeystoneApplicationCredentialSpec_Roles := roles,
       KeystoneApplicationCredentialSpec_AccessRules := accessRules\<rparr>)
   }"

definition KeystoneApplicationCredentialSpec_DeepCopy :: "sKeystoneApplicationCredentialSpec ref \<Rightarrow> (addr, sKeystoneApplicationCredentialSpec ref) state" where
  "KeystoneApplicationCredentialSpec_DeepCopy inp = copy_ref KeystoneApplicationCredentialSpec_DeepCopyInto inp"

record sKeystoneApplicationCredentialStatus =
  KeystoneApplicationCredentialStatus_ACID :: string
  KeystoneApplicationCredentialStatus_SecretName :: string
  KeystoneApplicationCredentialStatus_PreviousSecretName :: string
  KeystoneApplicationCredentialStatus_Conditions :: "mem list ref"
  KeystoneApplicationCredentialStatus_CreatedAt :: "int ref"
  KeystoneApplicationCredentialStatus_ExpiresAt :: "int ref"
  KeystoneApplicationCredentialStatus_RotationEligibleAt :: "int ref"
  KeystoneApplicationCredentialStatus_LastRotated :: "int ref"
  KeystoneApplicationCredentialStatus_ObservedGeneration :: int
  KeystoneApplicationCredentialStatus_SecurityHash :: string

definition KeystoneApplicationCredentialStatus_mem :: "sKeystoneApplicationCredentialStatus \<Rightarrow> mem" where
  "KeystoneApplicationCredentialStatus_mem x = Struct [
     str_mem (KeystoneApplicationCredentialStatus_ACID x),
     str_mem (KeystoneApplicationCredentialStatus_SecretName x),
     str_mem (KeystoneApplicationCredentialStatus_PreviousSecretName x),
     ref_mem (elems_mem any_mem) (KeystoneApplicationCredentialStatus_Conditions x),
     ref_mem int_mem (KeystoneApplicationCredentialStatus_CreatedAt x),
     ref_mem int_mem (KeystoneApplicationCredentialStatus_ExpiresAt x),
     ref_mem int_mem (KeystoneApplicationCredentialStatus_RotationEligibleAt x),
     ref_mem int_mem (KeystoneApplicationCredentialStatus_LastRotated x),
     int_mem (KeystoneApplicationCredentialStatus_ObservedGeneration x),
     str_mem (KeystoneApplicationCredentialStatus_SecurityHash x)]"

definition KeystoneApplicationCredentialStatus_DeepCopyInto :: "foreign \<Rightarrow> sKeystoneApplicationCredentialStatus \<Rightarrow> (addr, sKeystoneApplicationCredentialStatus) state" where
  "KeystoneApplicationCredentialStatus_DeepCopyInto F inp = do {
     conditions \<leftarrow> copy_ref (copy_elems (Condition_copy F)) (KeystoneApplicationCredentialStatus_Conditions inp);
     createdAt \<leftarrow> copy_time F (KeystoneApplicationCredentialStatus_CreatedAt inp);
     expiresAt \<leftarrow> copy_time F (KeystoneApplicationCredentialStatus_ExpiresAt inp);
     rotationEligibleAt \<leftarrow> copy_time F (KeystoneApplicationCredentialStatus_RotationEligibleAt inp);
     lastRotated \<leftarrow> copy_time F (KeystoneApplicationCredentialStatus_LastRotated inp);
     ret (inp\<lparr>KeystoneApplicationCredentialStatus_Conditions := conditions,
       KeystoneApplicationCredentialStatus_CreatedAt := createdAt,
       KeystoneApplicationCredentialStatus_ExpiresAt := expiresAt,
       KeystoneApplicationCredentialStatus_RotationEligibleAt := rotationEligibleAt,
       KeystoneApplicationCredentialStatus_LastRotated := lastRotated\<rparr>)
   }"

definition KeystoneApplicationCredentialStatus_DeepCopy :: "foreign \<Rightarrow> sKeystoneApplicationCredentialStatus ref \<Rightarrow> (addr, sKeystoneApplicationCredentialStatus ref) state" where
  "KeystoneApplicationCredentialStatus_DeepCopy F inp = copy_ref (KeystoneApplicationCredentialStatus_DeepCopyInto F) inp"

record sKeystoneApplicationCredential =
  KeystoneApplicationCredential_TypeMeta :: "prim list"
  KeystoneApplicationCredential_ObjectMeta :: mem
  KeystoneApplicationCredential_Spec :: sKeystoneApplicationCredentialSpec
  KeystoneApplicationCredential_Status :: sKeystoneApplicationCredentialStatus

definition KeystoneApplicationCredential_mem :: "sKeystoneApplicationCredential \<Rightarrow> mem" where
  "KeystoneApplicationCredential_mem x = Struct [
     flat_mem (KeystoneApplicationCredential_TypeMeta x), any_mem (KeystoneApplicationCredential_ObjectMeta x),
     KeystoneApplicationCredentialSpec_mem (KeystoneApplicationCredential_Spec x),
     KeystoneApplicationCredentialStatus_mem (KeystoneApplicationCredential_Status x)]"

definition KeystoneApplicationCredential_DeepCopyInto :: "foreign \<Rightarrow> sKeystoneApplicationCredential \<Rightarrow> (addr, sKeystoneApplicationCredential) state" where
  "KeystoneApplicationCredential_DeepCopyInto F inp = do {
     meta \<leftarrow> ObjectMeta_copy F (KeystoneApplicationCredential_ObjectMeta inp);
     spec \<leftarrow> KeystoneApplicationCredentialSpec_DeepCopyInto (KeystoneApplicationCredential_Spec inp);
     status \<leftarrow> KeystoneApplicationCredentialStatus_DeepCopyInto F (KeystoneApplicationCredential_Status inp);
     ret (inp\<lparr>KeystoneApplicationCredential_ObjectMeta := meta, KeystoneApplicationCredential_Spec := spec,
       KeystoneApplicationCredential_Status := status\<rparr>)
   }"

definition KeystoneApplicationCredential_DeepCopy :: "foreign \<Rightarrow> sKeystoneApplicationCredential ref \<Rightarrow> (addr, sKeystoneApplicationCredential ref) state" where
  "KeystoneApplicationCredential_DeepCopy F inp = copy_ref (KeystoneApplicationCredential_DeepCopyInto F) inp"

record sKeystoneApplicationCredentialList =
  KeystoneApplicationCredentialList_TypeMeta :: "prim list"
  KeystoneApplicationCredentialList_ListMeta :: mem
  KeystoneApplicationCredentialList_Items :: "sKeystoneApplicationCredential list ref"

definition KeystoneApplicationCredentialList_mem :: "sKeystoneApplicationCredentialList \<Rightarrow> mem" where
  "KeystoneApplicationCredentialList_mem x = Struct [
     flat_mem (KeystoneApplicationCredentialList_TypeMeta x),
     any_mem (KeystoneApplicationCredentialList_ListMeta x),
     ref_mem (elems_mem KeystoneApplicationCredential_mem) (KeystoneApplicationCredentialList_Items x)]"

definition KeystoneApplicationCredentialList_DeepCopyInto :: "foreign \<Rightarrow> sKeystoneApplicationCredentialList \<Rightarrow> (addr, sKeystoneApplicationCredentialList) state" where
  "KeystoneApplicationCredentialList_DeepCopyInto F inp = do {
     meta \<leftarrow> ListMeta_copy F (KeystoneApplicationCredentialList_ListMeta inp);
     items \<leftarrow> copy_ref (copy_elems (KeystoneApplicationCredential_DeepCopyInto F)) (KeystoneApplicationCredentialList_Items inp);
     ret (inp\<lparr>KeystoneApplicationCredentialList_ListMeta := meta, KeystoneApplicationCredentialList_Items := items\<rparr>)
   }"

definition KeystoneApplicationCredentialList_DeepCopy :: "foreign \<Rightarrow> sKeystoneApplicationCredentialList ref \<Rightarrow> (addr, sKeystoneApplicationCredentialList ref) state" where
  "KeystoneApplicationCredentialList_DeepCopy F inp = copy_ref (KeystoneApplicationCredentialList_DeepCopyInto F) inp"

section \<open>Objects of the API machinery\<close>

text \<open>A \<open>runtime.Object\<close> is a pointer to one of the kinds.\<close>

datatype object =
    Object_KeystoneAPI addr sKeystoneAPI
  | Object_KeystoneAPIList addr sKeystoneAPIList
  | Object_KeystoneService addr sKeystoneService
  | Object_KeystoneServiceList addr sKeystoneServiceList
  | Object_KeystoneEndpoint addr sKeystoneEndpoint
  | Object_KeystoneEndpointList addr sKeystoneEndpointList
  | Object_KeystoneApplicationCredential addr sKeystoneApplicationCredential
  | Object_KeystoneApplicationCredentialList addr sKeystoneApplicationCredentialList

definition KeystoneAPI_DeepCopyObject :: "foreign \<Rightarrow> sKeystoneAPI ref \<Rightarrow> (addr, object option) state" where
  "KeystoneAPI_DeepCopyObject F inp = do {
     c \<leftarrow> KeystoneAPI_DeepCopy F inp;
     ret (case c of None \<Rightarrow> None | Some (a, x) \<Rightarrow> Some (Object_KeystoneAPI a x))
   }"

definition KeystoneAPIList_DeepCopyObject :: "foreign \<Rightarrow> sKeystoneAPIList ref \<Rightarrow> (addr, object option) state" where
  "KeystoneAPIList_DeepCopyObject F inp = do {
     c \<leftarrow> KeystoneAPIList_DeepCopy F inp;
     ret (case c of None \<Rightarrow> None | Some (a, x) \<Rightarrow> Some (Object_KeystoneAPIList a x))
   }"

definition KeystoneService_DeepCopyObject :: "foreign \<Rightarrow> sKeystoneService ref \<Rightarrow> (addr, object option) state" where
  "KeystoneService_DeepCopyObject F inp = do {
     c \<leftarrow> KeystoneService_DeepCopy F inp;
     ret (case c of None \<Rightarrow> None | Some (a, x) \<Rightarrow> Some (Object_KeystoneService a x))
   }"

definition KeystoneServiceList_DeepCopyObject :: "foreign \<Rightarrow> sKeystoneServiceList ref \<Rightarrow> (addr, object option) state" where
  "KeystoneServiceList_DeepCopyObject F inp = do {
     c \<leftarrow> KeystoneServiceList_DeepCopy F inp;
     ret (case c of None \<Rightarrow> None | Some (a, x) \<Rightarrow> Some (Object_KeystoneServiceList a x))
   }"

definition KeystoneEndpoint_DeepCopyObject :: "foreign \<Rightarrow> sKeystoneEndpoint ref \<Rightarrow> (addr, object option) state" where
  "KeystoneEndpoint_DeepCopyObject F inp = do {
     c \<leftarrow> KeystoneEndpoint_DeepCopy F inp;
     ret (case c of None \<Rightarrow> None | Some (a, x) \<Rightarrow> Some (Object_KeystoneEndpoint a x))
   }"

definition KeystoneEndpointList_DeepCopyObject :: "foreign \<Rightarrow> sKeystoneEndpointList ref \<Rightarrow> (addr, object option) state" where
  "KeystoneEndpointList_DeepCopyObject F inp = do {
     c \<leftarrow> KeystoneEndpointList_DeepCopy F inp;
     ret (case c of None \<Rightarrow> None | Some (a, x) \<Rightarrow> Some (Object_KeystoneEndpointList a x))
   }"

definition KeystoneApplicationCredential_DeepCopyObject :: "foreign \<Rightarrow> sKeystoneApplicationCredential ref \<Rightarrow> (addr, object option) state" where
  "KeystoneApplicationCredential_DeepCopyObject F inp = do {
     c \<leftarrow> KeystoneApplicationCredential_DeepCopy F inp;
     ret (case c of None \<Rightarrow> None | Some (a, x) \<Rightarrow> Some (Object_KeystoneApplicationCredential a x))
   }"

definition KeystoneApplicationCredentialList_DeepCopyObject :: "foreign \<Rightarrow> sKeystoneApplicationCredentialList ref \<Rightarrow> (addr, object option) state" where
  "KeystoneApplicationCredentialList_DeepCopyObject F inp = do {
     c \<leftarrow> KeystoneApplicationCredentialList_DeepCopy F inp;
     ret (case c of None \<Rightarrow> None | Some (a, x) \<Rightarrow> Some (Object_KeystoneApplicationCredentialList a x))
   }"

text \<open>The method of the interface.\<close>

fun DeepCopyObject :: "foreign \<Rightarrow> object \<Rightarrow> (addr, object option) state" where
  "DeepCopyObject F (Object_KeystoneAPI a x) = KeystoneAPI_DeepCopyObject F (Some (a, x))"
| "DeepCopyObject F (Object_KeystoneAPIList a x) = KeystoneAPIList_DeepCopyObject F (Some (a, x))"
| "DeepCopyObject F (Object_KeystoneService a x) = KeystoneService_DeepCopyObject F (Some (a, x))"
| "DeepCopyObject F (Object_KeystoneServiceList a x) = KeystoneServiceList_DeepCopyObject F (Some (a, x))"
| "DeepCopyObject F (Object_KeystoneEndpoint a x) = KeystoneEndpoint_DeepCopyObject F (Some (a, x))"
| "DeepCopyObject F (Object_KeystoneEndpointList a x) = KeystoneEndpointList_DeepCopyObject F (Some (a, x))"
| "DeepCopyObject F (Object_KeystoneApplicationCredential a x) = KeystoneApplicationCredential_DeepCopyObject F (Some (a, x))"
| "DeepCopyObject F (Object_KeystoneApplicationCredentialList a x) = KeystoneApplicationCredentialList_DeepCopyObject F (Some (a, x))"

fun object_mem :: "object \<Rightarrow> mem" where
  "object_mem (Object_KeystoneAPI a x) = Struct [str_mem ''KeystoneAPI'', ref_mem KeystoneAPI_mem (Some (a, x))]"
| "object_mem (Object_KeystoneAPIList a x) = Struct [str_mem ''KeystoneAPIList'', ref_mem KeystoneAPIList_mem (Some (a, x))]"
| "object_mem (Object_KeystoneService a x) = Struct [str_mem ''KeystoneService'', ref_mem KeystoneService_mem (Some (a, x))]"
| "object_mem (Object_KeystoneServiceList a x) = Struct [str_mem ''KeystoneServiceList'', ref_mem KeystoneServiceList_mem (Some (a, x))]"
| "object_mem (Object_KeystoneEndpoint a x) = Struct [str_mem ''KeystoneEndpoint'', ref_mem KeystoneEndpoint_mem (Some (a, x))]"
| "object_mem (Object_KeystoneEndpointList a x) = Struct [str_mem ''KeystoneEndpointList'', ref_mem KeystoneEndpointList_mem (Some (a, x))]"
| "object_mem (Object_KeystoneApplicationCredential a x) = Struct [str_mem ''KeystoneApplicationCredential'', ref_mem KeystoneApplicationCredential_mem (Some (a, x))]"
| "object_mem (Object_KeystoneApplicationCredentialList a x) = Struct [str_mem ''KeystoneApplicationCredentialList'', ref_mem KeystoneApplicationCredentialList_mem (Some (a, x))]"

section \<open>Registration\<close>

text \<open>\<open>groupversion_info.go\<close> and the \<open>init\<close> functions of the types: what is added to the scheme builder of the group.\<close>

record group_version =
  gv_Group :: string
  gv_Version :: string

definition GroupVersion :: group_version where
  "GroupVersion = \<lparr>gv_Group = ''keystone.openstack.org'', gv_Version = ''v1beta1''\<rparr>"

definition api_init :: "string list" where
  "api_init = [''KeystoneAPI'', ''KeystoneAPIList'']"

definition ac_init :: "string list" where
  "ac_init = [''KeystoneApplicationCredential'', ''KeystoneApplicationCredentialList'']"

definition ke_init :: "string list" where
  "ke_init = [''KeystoneEndpoint'', ''KeystoneEndpointList'']"

definition ks_init :: "string list" where
  "ks_init = [''KeystoneService'', ''KeystoneServiceList'']"

definition registered_types :: "(group_version \<times> string) list" where
  "registered_types = map (Pair GroupVersion) (api_init @ ac_init @ ke_init @ ks_init)"

fun object_type :: "object \<Rightarrow> string" where
  "object_type (Object_KeystoneAPI a x) = ''KeystoneAPI''"
| "object_type (Object_KeystoneAPIList a x) = ''KeystoneAPIList''"
| "object_type (Object_KeystoneService a x) = ''KeystoneService''"
| "object_type (Object_KeystoneServiceList a x) = ''KeystoneServiceList''"
| "object_type (Object_KeystoneEndpoint a x) = ''KeystoneEndpoint''"
| "object_type (Object_KeystoneEndpointList a x) = ''KeystoneEndpointList''"
| "object_type (Object_KeystoneApplicationCredential a x) = ''KeystoneApplicationCredential''"
| "object_type (Object_KeystoneApplicationCredentialList a x) = ''KeystoneApplicationCredentialList''"

end
