(* ===== verification/DeepCopyProps.thy ===== *)
theory DeepCopyProps
  imports DeepCopy
begin

text \<open>
  Every generated copy is deep. The laws of the copies of other modules are what their own generated code promises: a copy
  of the same shape in memory that was not in use. Each struct is proved from its parts; with the layouts in the order
  of the fields, a copy grows field by field.
\<close>

section \<open>Laws and rules\<close>

named_theorems deep_rules \<open>copies that are known to be deep\<close>

definition foreign_laws :: "foreign \<Rightarrow> bool" where
  "foreign_laws F \<longleftrightarrow>
     deep_copy (ObjectMeta_copy F) any_mem \<and> deep_copy (ListMeta_copy F) any_mem \<and>
     deep_copy (ResourceRequirements_copy F) any_mem \<and> deep_copy (TLSAPI_copy F) any_mem \<and>
     deep_copy (Condition_copy F) any_mem \<and> deep_copy (VolMounts_copy F) any_mem \<and>
     deep_copy (RoutedOverrideSpec_copy F) any_mem \<and>
     (\<forall>t n. wp (Time_DeepCopy F t) (\<lambda>(b, u) m. u = t \<and> n \<le> b \<and> b < m) n)"

lemma foreign_lawsD:
  assumes "foreign_laws F"
  shows "deep_copy (ObjectMeta_copy F) any_mem" "deep_copy (ListMeta_copy F) any_mem"
    "deep_copy (ResourceRequirements_copy F) any_mem" "deep_copy (TLSAPI_copy F) any_mem"
    "deep_copy (Condition_copy F) any_mem" "deep_copy (VolMounts_copy F) any_mem"
    "deep_copy (RoutedOverrideSpec_copy F) any_mem"
  by (insert assms, unfold foreign_laws_def, (elim conjE, assumption)+)

lemma deep_time: "foreign_laws F \<Longrightarrow> deep_copy (copy_time F) (ref_mem int_mem)"
proof (rule deep_copy.intro)
  fix r :: "int ref" and n
  assume F: "foreign_laws F"
  have law: "wp (Time_DeepCopy F t) (\<lambda>(b, u) m. u = t \<and> n \<le> b \<and> b < m) n" for t
    using F by (simp add: foreign_laws_def)
  show "wp (copy_time F r) (\<lambda>s m. grown (ref_mem int_mem r) (ref_mem int_mem s) n m) n"
    by (cases r)
      (auto simp: copy_time_def ref_mem_def wp_simps grown_flat grown_def intro!: wp_mono [OF law])
qed

lemmas foreign_rules [deep_rules] =
  foreign_lawsD foreign_lawsD [THEN deep_copy.then_deep] deep_time deep_time [THEN deep_copy.then_deep]

lemma deep_plain [deep_rules]:
  "deep_copy (assign :: string \<Rightarrow> _) str_mem" "deep_copy (assign :: int \<Rightarrow> _) int_mem"
  "deep_copy (assign :: prim list \<Rightarrow> _) flat_mem" "deep_copy (assign :: string list \<Rightarrow> _) (elems_mem str_mem)"
  by (intro deep_copy_assign; simp add: flat_mem_def elems_mem_def comp_def)+

lemma deep_plain_elems [deep_rules]:
  "deep_copy (assign :: sACRule list \<Rightarrow> _) (elems_mem ACRule_mem)"
  "deep_copy (assign :: sEndpoint list \<Rightarrow> _) (elems_mem Endpoint_mem)"
  by (intro deep_copy_assign; simp add: elems_mem_def ACRule_mem_def Endpoint_mem_def)+

lemma flat_flat_mem [simp]: "addrs (flat_mem ps) = []"
  by (simp add: flat_mem_def comp_def)

lemmas deep_ref_rules [deep_rules] =
  deep_copy_ref deep_copy_elems deep_copy_entries deep_copy_ref [THEN deep_copy.then_deep]

lemmas grown_steps = grown_Nil grown_Cons grown_flat_Cons


section \<open>The copies of the structs\<close>

lemma deep_flat:
  "deep_copy ACRule_DeepCopyInto ACRule_mem"
  "deep_copy ApplicationCredentialData_DeepCopyInto ApplicationCredentialData_mem"
  "deep_copy Endpoint_DeepCopyInto Endpoint_mem"
  "deep_copy KeystoneAPIDefaults_DeepCopyInto KeystoneAPIDefaults_mem"
  "deep_copy KeystoneServiceSpec_DeepCopyInto KeystoneServiceSpec_mem"
  "deep_copy PasswordSelector_DeepCopyInto PasswordSelector_mem"
  by (simp_all add: deep_copy_assign ACRule_DeepCopyInto_def [abs_def] ApplicationCredentialData_DeepCopyInto_def [abs_def]
    Endpoint_DeepCopyInto_def [abs_def] KeystoneAPIDefaults_DeepCopyInto_def [abs_def]
    KeystoneServiceSpec_DeepCopyInto_def [abs_def] PasswordSelector_DeepCopyInto_def [abs_def] ACRule_mem_def
    ApplicationCredentialData_mem_def Endpoint_mem_def KeystoneAPIDefaults_mem_def KeystoneServiceSpec_mem_def
    PasswordSelector_mem_def)

lemma flat_addrs [simp]:
  "addrs (ACRule_mem r) = []"
  "addrs (ApplicationCredentialData_mem d) = []"
  "addrs (Endpoint_mem e) = []"
  "addrs (KeystoneAPIDefaults_mem f) = []"
  "addrs (KeystoneServiceSpec_mem s) = []"
  "addrs (PasswordSelector_mem p) = []"
  by (simp_all add: ACRule_mem_def ApplicationCredentialData_mem_def Endpoint_mem_def KeystoneAPIDefaults_mem_def
    KeystoneServiceSpec_mem_def PasswordSelector_mem_def)

lemmas deep_flat_rules [deep_rules] = deep_flat deep_flat [THEN deep_copy.then_deep]

text \<open>Structs of plain fields, references and copies of other modules.\<close>

lemmas parts_into = APIOverrideSpec_DeepCopyInto_def HttpdCustomization_DeepCopyInto_def KeystoneExtraMounts_DeepCopyInto_def
  KeystoneAPIStatus_DeepCopyInto_def KeystoneServiceStatus_DeepCopyInto_def
  KeystoneEndpointSpec_DeepCopyInto_def KeystoneEndpointStatus_DeepCopyInto_def
  KeystoneApplicationCredentialSpec_DeepCopyInto_def KeystoneApplicationCredentialStatus_DeepCopyInto_def
lemmas parts_mem = APIOverrideSpec_mem_def HttpdCustomization_mem_def KeystoneExtraMounts_mem_def KeystoneAPIStatus_mem_def
  KeystoneServiceStatus_mem_def KeystoneEndpointSpec_mem_def KeystoneEndpointStatus_mem_def
  KeystoneApplicationCredentialSpec_mem_def KeystoneApplicationCredentialStatus_mem_def

lemma deep_parts:
  "foreign_laws F \<Longrightarrow> deep_copy (APIOverrideSpec_DeepCopyInto F) APIOverrideSpec_mem"
  "deep_copy HttpdCustomization_DeepCopyInto HttpdCustomization_mem"
  "foreign_laws F \<Longrightarrow> deep_copy (KeystoneExtraMounts_DeepCopyInto F) KeystoneExtraMounts_mem"
  "foreign_laws F \<Longrightarrow> deep_copy (KeystoneAPIStatus_DeepCopyInto F) KeystoneAPIStatus_mem"
  "foreign_laws F \<Longrightarrow> deep_copy (KeystoneServiceStatus_DeepCopyInto F) KeystoneServiceStatus_mem"
  "deep_copy KeystoneEndpointSpec_DeepCopyInto KeystoneEndpointSpec_mem"
  "foreign_laws F \<Longrightarrow> deep_copy (KeystoneEndpointStatus_DeepCopyInto F) KeystoneEndpointStatus_mem"
  "deep_copy KeystoneApplicationCredentialSpec_DeepCopyInto KeystoneApplicationCredentialSpec_mem"
  "foreign_laws F \<Longrightarrow> deep_copy (KeystoneApplicationCredentialStatus_DeepCopyInto F) KeystoneApplicationCredentialStatus_mem"
  by (unfold parts_into;
    rule deep_copy.intro, (assumption | rule deep_rules)+,
    simp add: wp_ret parts_mem, (assumption | simp | rule grown_steps)+)+

lemmas deep_parts_rules [deep_rules] = deep_parts deep_parts [THEN deep_copy.then_deep]

text \<open>Structs of those.\<close>

lemmas kinds_into = KeystoneAPISpecCore_DeepCopyInto_def KeystoneService_DeepCopyInto_def KeystoneEndpoint_DeepCopyInto_def
  KeystoneApplicationCredential_DeepCopyInto_def
lemmas kinds_mem = KeystoneAPISpecCore_mem_def KeystoneService_mem_def KeystoneEndpoint_mem_def
  KeystoneApplicationCredential_mem_def

lemma deep_kinds:
  "foreign_laws F \<Longrightarrow> deep_copy (KeystoneAPISpecCore_DeepCopyInto F) KeystoneAPISpecCore_mem"
  "foreign_laws F \<Longrightarrow> deep_copy (KeystoneService_DeepCopyInto F) KeystoneService_mem"
  "foreign_laws F \<Longrightarrow> deep_copy (KeystoneEndpoint_DeepCopyInto F) KeystoneEndpoint_mem"
  "foreign_laws F \<Longrightarrow> deep_copy (KeystoneApplicationCredential_DeepCopyInto F) KeystoneApplicationCredential_mem"
  by (unfold kinds_into;
    rule deep_copy.intro, (assumption | rule deep_rules)+,
    simp add: wp_ret kinds_mem, (assumption | simp | rule grown_steps)+)+

lemmas deep_kinds_rules [deep_rules] = deep_kinds deep_kinds [THEN deep_copy.then_deep]

text \<open>What refers to objects.\<close>

lemmas holders_into = KeystoneAPISpec_DeepCopyInto_def KeystoneServiceHelper_DeepCopyInto_def KeystoneServiceList_DeepCopyInto_def
  KeystoneEndpointHelper_DeepCopyInto_def KeystoneEndpointList_DeepCopyInto_def
  KeystoneApplicationCredentialList_DeepCopyInto_def
lemmas holders_mem = KeystoneAPISpec_mem_def KeystoneServiceHelper_mem_def KeystoneServiceList_mem_def
  KeystoneEndpointHelper_mem_def KeystoneEndpointList_mem_def KeystoneApplicationCredentialList_mem_def

lemma deep_holders:
  "foreign_laws F \<Longrightarrow> deep_copy (KeystoneAPISpec_DeepCopyInto F) KeystoneAPISpec_mem"
  "foreign_laws F \<Longrightarrow> deep_copy (KeystoneServiceHelper_DeepCopyInto F) KeystoneServiceHelper_mem"
  "foreign_laws F \<Longrightarrow> deep_copy (KeystoneServiceList_DeepCopyInto F) KeystoneServiceList_mem"
  "foreign_laws F \<Longrightarrow> deep_copy (KeystoneEndpointHelper_DeepCopyInto F) KeystoneEndpointHelper_mem"
  "foreign_laws F \<Longrightarrow> deep_copy (KeystoneEndpointList_DeepCopyInto F) KeystoneEndpointList_mem"
  "foreign_laws F \<Longrightarrow> deep_copy (KeystoneApplicationCredentialList_DeepCopyInto F) KeystoneApplicationCredentialList_mem"
  by (unfold holders_into;
    rule deep_copy.intro, (assumption | rule deep_rules)+,
    simp add: wp_ret holders_mem, (assumption | simp | rule grown_steps)+)+

lemmas deep_holders_rules [deep_rules] = deep_holders deep_holders [THEN deep_copy.then_deep]

lemmas api_into = KeystoneAPI_DeepCopyInto_def
lemmas api_mem = KeystoneAPI_mem_def

lemma deep_api:
  "foreign_laws F \<Longrightarrow> deep_copy (KeystoneAPI_DeepCopyInto F) KeystoneAPI_mem"
  by (unfold api_into;
    rule deep_copy.intro, (assumption | rule deep_rules)+,
    simp add: wp_ret api_mem, (assumption | simp | rule grown_steps)+)

lemmas deep_api_rules [deep_rules] = deep_api deep_api [THEN deep_copy.then_deep]

lemmas api_list_into = KeystoneAPIList_DeepCopyInto_def
lemmas api_list_mem = KeystoneAPIList_mem_def

lemma deep_api_list:
  "foreign_laws F \<Longrightarrow> deep_copy (KeystoneAPIList_DeepCopyInto F) KeystoneAPIList_mem"
  by (unfold api_list_into;
    rule deep_copy.intro, (assumption | rule deep_rules)+,
    simp add: wp_ret api_list_mem, (assumption | simp | rule grown_steps)+)

lemmas deep_api_list_rules [deep_rules] = deep_api_list deep_api_list [THEN deep_copy.then_deep]

text \<open>The structs without parts of other modules provide the interface by themselves.\<close>

interpretation rule_copy: deep_copy ACRule_DeepCopyInto ACRule_mem by (rule deep_flat)
interpretation data_copy: deep_copy ApplicationCredentialData_DeepCopyInto ApplicationCredentialData_mem by (rule deep_flat)
interpretation endpoint_copy: deep_copy Endpoint_DeepCopyInto Endpoint_mem by (rule deep_flat)
interpretation defaults_copy: deep_copy KeystoneAPIDefaults_DeepCopyInto KeystoneAPIDefaults_mem by (rule deep_flat)
interpretation selector_copy: deep_copy PasswordSelector_DeepCopyInto PasswordSelector_mem by (rule deep_flat)
interpretation httpd_copy: deep_copy HttpdCustomization_DeepCopyInto HttpdCustomization_mem by (rule deep_parts)
interpretation endpoints_copy: deep_copy KeystoneEndpointSpec_DeepCopyInto KeystoneEndpointSpec_mem by (rule deep_parts)
interpretation credential_copy: deep_copy KeystoneApplicationCredentialSpec_DeepCopyInto KeystoneApplicationCredentialSpec_mem
  by (rule deep_parts)

section \<open>The copies of the objects\<close>

lemma wp_object_copy:
  assumes "deep_copy into L"
    and "\<And>b y m. grown (ref_mem L (Some (a, x))) (ref_mem L (Some (b, y))) n m \<Longrightarrow> Q (Some (K b y)) m"
  shows "wp (do { c \<leftarrow> copy_ref into (Some (a, x)); ret (case c of None \<Rightarrow> None | Some (b, y) \<Rightarrow> Some (K b y)) }) Q n"
proof -
  have "Q (Some (K n y)) m" if "grown (L x) (L y) (Suc n) m" for y m
    using assms(2) [of n y m] grown_Ref [OF that, of a] by (simp add: ref_mem_def)
  then show ?thesis by (auto simp: copy_ref_def wp_simps intro!: wp_mono [OF deep_copy.deep [OF assms(1)]])
qed

lemmas object_defs =
  KeystoneAPI_DeepCopyObject_def KeystoneAPI_DeepCopy_def KeystoneAPIList_DeepCopyObject_def
  KeystoneAPIList_DeepCopy_def KeystoneService_DeepCopyObject_def KeystoneService_DeepCopy_def
  KeystoneServiceList_DeepCopyObject_def KeystoneServiceList_DeepCopy_def KeystoneEndpoint_DeepCopyObject_def
  KeystoneEndpoint_DeepCopy_def KeystoneEndpointList_DeepCopyObject_def KeystoneEndpointList_DeepCopy_def
  KeystoneApplicationCredential_DeepCopyObject_def KeystoneApplicationCredential_DeepCopy_def
  KeystoneApplicationCredentialList_DeepCopyObject_def KeystoneApplicationCredentialList_DeepCopy_def

lemma wp_DeepCopyObject:
  assumes "foreign_laws F"
  shows "wp (DeepCopyObject F x) (\<lambda>c m. \<exists>y. c = Some y \<and> grown (object_mem x) (object_mem y) n m) n"
proof -
  have obj: "grown (Struct [str_mem k, t]) (Struct [str_mem k, t']) n m" if "grown t t' n m" for k t t' m
    by (rule grown_flat_Cons [OF _ grown_Cons [OF that grown_Nil]]) simp
  show ?thesis
    by (cases x; simp only: DeepCopyObject.simps object_defs; rule wp_object_copy,
        (assumption | rule deep_rules assms)+, intro exI conjI, rule refl, simp only: object_mem.simps, rule obj)
qed

lemma nil_DeepCopyObject:
  "KeystoneAPI_DeepCopyObject F None = ret None"
  "KeystoneService_DeepCopyObject F None = ret None"
  "KeystoneEndpoint_DeepCopyObject F None = ret None"
  "KeystoneApplicationCredential_DeepCopyObject F None = ret None"
  by (simp_all add: object_defs copy_ref_def)

lemma object_types_registered: "(GroupVersion, object_type x) \<in> set registered_types"
  by (cases x) (simp_all add: registered_types_def api_init_def ac_init_def ke_init_def ks_init_def)

text \<open>Other modules whose copies are deep.\<close>

definition plain_foreign :: foreign where
  "plain_foreign = \<lparr>ObjectMeta_copy = copy_any, ListMeta_copy = copy_any, ResourceRequirements_copy = copy_any,
     TLSAPI_copy = copy_any, Condition_copy = copy_any, VolMounts_copy = copy_any, RoutedOverrideSpec_copy = copy_any,
     Time_DeepCopy = \<lambda>t. do { b \<leftarrow> alloc; ret (b, t) }\<rparr>"

lemma plain_foreign_laws: "foreign_laws plain_foreign"
  by (simp add: foreign_laws_def plain_foreign_def wp_simps any.deep_copy_axioms)

definition example_endpoint :: object where
  "example_endpoint = Object_KeystoneEndpoint 0
     \<lparr>KeystoneEndpoint_TypeMeta = [PStr ''KeystoneEndpoint''],
      KeystoneEndpoint_ObjectMeta = Struct [Prim (PStr ''placement''), Ref 1 (Struct [Prim (PStr ''finalizer'')])],
      KeystoneEndpoint_Spec =
        \<lparr>KeystoneEndpointSpec_ServiceName = ''placement'',
         KeystoneEndpointSpec_Endpoints = Some (2, [(''internal'', ''http://i''), (''public'', ''http://p'')])\<rparr>,
      KeystoneEndpoint_Status =
        \<lparr>KeystoneEndpointStatus_EndpointIDs = Some (3, [(''public'', ''id'')]), KeystoneEndpointStatus_ServiceID = ''s'',
         KeystoneEndpointStatus_Conditions = Some (4, [Struct [Prim (PStr ''Ready'')]]),
         KeystoneEndpointStatus_Endpoints = None, KeystoneEndpointStatus_ObservedGeneration = 1\<rparr>\<rparr>"

text \<open>
  C12: \<open>DeepCopyObject\<close> of an object of any kind returns an object of the same kind with the same contents, and nothing
  that is stored through a pointer, a map or a slice of one of the two is seen through the other, for all addresses and
  stored values.
\<close>

theorem deep_copy_shares_nothing:
  assumes "foreign_laws F" "set (addrs (object_mem x)) \<subseteq> {..<n}" "run_state (DeepCopyObject F x) n = (c, m)"
  shows "\<exists>y. c = Some y \<and> shape (object_mem y) = shape (object_mem x) \<and>
     (\<forall>a v. a \<in> set (addrs (object_mem y)) \<longrightarrow> poke a v (object_mem x) = object_mem x) \<and>
     (\<forall>a v. a \<in> set (addrs (object_mem x)) \<longrightarrow> poke a v (object_mem y) = object_mem y)"
proof -
  obtain y where y: "c = Some y" "grown (object_mem x) (object_mem y) n m"
    using wp_DeepCopyObject [OF assms(1), of x n] assms(3) by (auto simp: wp_def)
  then show ?thesis using grown_independent [OF y(2) assms(2)] by (auto simp: grown_def)
qed

lemma deep_copy_shares_nothing_witness:
  "addrs (object_mem example_endpoint) = [0, 1, 2, 3, 4] \<and>
   (\<exists>y m. run_state (DeepCopyObject plain_foreign example_endpoint) 5 = (Some y, m) \<and>
     addrs (object_mem y) = [5, 6, 7, 8, 9] \<and> shape (object_mem y) = shape (object_mem example_endpoint) \<and>
     (\<forall>a v. a \<in> set (addrs (object_mem example_endpoint)) \<longrightarrow> poke a v (object_mem y) = object_mem y))"
proof -
  have a: "addrs (object_mem example_endpoint) = [0, 1, 2, 3, 4]" by code_simp
  obtain c m where r: "run_state (DeepCopyObject plain_foreign example_endpoint) 5 = (c, m)" by fastforce
  have "map_option (addrs \<circ> object_mem) (fst (run_state (DeepCopyObject plain_foreign example_endpoint) 5)) =
      Some [5, 6, 7, 8, 9]" by code_simp
  with a r deep_copy_shares_nothing [OF plain_foreign_laws _ r] show ?thesis by auto
qed


end
