(* ===== verification/Spec2Isabelle.thy ===== *)
theory Spec2Isabelle
  imports FernetProps AppCredProps WorkloadProps ObjectHelpers CommandProps Composition RotationProps DeepCopyProps
begin

text \<open>
  Verification of the keystone-operator, a Kubernetes operator that deploys OpenStack Keystone and keeps its
  catalog. Four controllers of \<open>internal/controller\<close> reconcile four custom resources of \<open>api/v1beta1\<close>:

  \<^item> KeystoneAPI: deploys Keystone (database, transport URL, memcached, configuration secrets, Fernet keys, jobs,
    deployment, cron job), or publishes the endpoints of an external one. The other three need a ready KeystoneAPI
    and put finalizers on it, so it outlives what they registered.
  \<^item> KeystoneService and KeystoneEndpoint: register a service with its user, and the endpoints of a service, in
    Keystone; an endpoint puts its finalizer on its KeystoneService too.
  \<^item> KeystoneApplicationCredential: creates, rotates, revokes and cleans up application credentials and their secrets.

  A controller is called with the name of an object; it reads the object, works on the copy in memory, calls
  Kubernetes and Keystone, and patches the copy's status when it returns. Controllers interact only through the
  objects: finalizers, conditions, status fields and secrets.

  \<^bold>\<open>The model.\<close> A handler is a program of the state monad over \<open>st\<close>: \<open>inst\<close> is the object in memory, \<open>log\<close>
  the sequence of external calls so far (a datatype \<open>call\<close>, with the arguments of each call). The outside world is
  the record \<open>env\<close>: every call is answered by a function of the history, so an answer may differ from call to call and
  any interleaving with other actors is some \<open>env\<close>. What the code relies on of the outside is stated as named laws
  (\<open>condition_laws\<close>, \<open>finalizer_laws\<close>, \<open>catalog_laws\<close>, \<open>volume_laws\<close>, \<open>init_law\<close>, \<open>rbac_law\<close>, \<open>range_law\<close>,
  \<open>service_id_law\<close>, \<open>index_law\<close>, \<open>manager_laws\<close>, \<open>runtime_growth\<close>, \<open>options_law\<close>, \<open>foreign_laws\<close>); \<open>Example\<close>
  gives an \<open>env\<close> that satisfies them. Errors are values (\<open>error\<close>, sums, options); a nil dereference, a write to a nil
  map and a loop that does not end are values as well (\<open>Panic\<close>, \<open>Diverge\<close>, \<open>step\<close>, \<open>None\<close>).

  \<^bold>\<open>Theories and sources.\<close>

  \<^item> \<open>Prelude\<close>, \<open>GoStd\<close>, \<open>GoTime\<close>: errors, results, Go maps, weakest preconditions; decimal rendering, base64, string tests;
    the calendar, \<open>AddDate\<close>, RFC 3339 and durations that wrap at 64 bits.
  \<^item> \<open>ApiTypes\<close>: the structs of \<open>api/v1beta1/*_types.go\<close> and the conditions of \<open>conditions.go\<close>. \<open>Cluster\<close>, \<open>External\<close>: the calls,
    their answers, the laws. \<open>ReadyDefer\<close>: the deferred patch all reconcilers share, with the interfaces \<open>reconciler\<close> (an
    object with conditions) and \<open>finalizer_host\<close> (an object with finalizers) as locales, interpreted on every kind of object.
    \<open>LogRules\<close>: rules about the order of calls. \<open>Example\<close>: a concrete environment.
  \<^item> \<open>ApiHelpers\<close>, \<open>ObjectHelpers\<close>: \<open>keystoneapi.go\<close>, \<open>keystoneservice.go\<close>, \<open>keystoneendpoint.go\<close> and
    \<open>keystoneapplicationcredential.go\<close> of \<open>api/v1beta1\<close>. The locale \<open>deletable\<close> extends \<open>finalizer_host\<close> by a lookup.
  \<^item> \<open>Fernet\<close>, \<open>FernetProps\<close>: \<open>ensureFernetKeys\<close> and \<open>fernet.go\<close>. The locale \<open>shifting\<close> is the interface of an indexed
    map, \<open>repo\<close> the abstract key repository (a list of keys).
  \<^item> \<open>ServiceCtl\<close>, \<open>EndpointCtl\<close>, \<open>AppCredCtl\<close> with \<open>ServiceProps\<close>, \<open>EndpointProps\<close>, \<open>AppCredProps\<close>: the controllers of the same names.
  \<^item> \<open>Workloads\<close>: the builders of \<open>internal/keystone\<close>. \<open>ApiCtl\<close>: \<open>keystoneapi_controller.go\<close>. \<open>ApiProps\<close>, \<open>ApiRun\<close>,
    \<open>RotationProps\<close>, \<open>WorkloadProps\<close>: what they guarantee, and a complete run of the controller on the example environment.
  \<^item> \<open>Webhook\<close>: \<open>api/v1beta1/keystoneapi_webhook.go\<close> and \<open>internal/webhook/v1beta1\<close>.
  \<^item> \<open>Wiring\<close>, \<open>WatchProps\<close>: the four \<open>SetupWithManager\<close> (indexes, owned and watched kinds, predicates) and what a manager
    does with an event, whose documented behaviour is \<open>manager_laws\<close>.
  \<^item> \<open>GoSlice\<close>, \<open>Command\<close>, \<open>CommandProps\<close>: slices with their backing arrays; \<open>init\<close> and \<open>main\<close> of \<open>cmd/main.go\<close> as a program
    over the calls it makes, every exit included. The record \<open>boot\<close> is its outside.
  \<^item> \<open>GoMemory\<close>, \<open>DeepCopy\<close>, \<open>DeepCopyProps\<close>: values with the addresses of what they refer to, and the locale \<open>deep_copy\<close>
    of a function that copies them; \<open>zz_generated.deepcopy.go\<close> over the structs with all their fields, and the types that
    \<open>groupversion_info.go\<close> and the \<open>init\<close> functions register. Elsewhere objects are values and a copy is the object, which
    the copies sharing nothing with their originals justifies.
  \<^item> \<open>FinalizerProtocol\<close>: the abstract specification of how the controllers agree on the lifetime of the KeystoneAPI, as a
    transition system with its invariants; the locale \<open>holder\<close> is the interface of a controller that takes part.
    \<open>ProtocolProps\<close>, \<open>EndpointProtocol\<close>: the logs of the service and endpoint controllers are runs of a holder.
    \<open>Composition\<close>: their runs and those of the KeystoneAPI controller interleaved call by call, which refines the protocol.

  \<^bold>\<open>What the lemmas show.\<close> Fernet keys: a due rotation promotes the staged key and drops the oldest secondary one, a
  primary key survives the following rotations, changing the number of keys keeps the primary key, and in the two runs in
  which a rotation and a change of the number meet the code loses the primary key or does not return. Services and
  endpoints: nothing is registered before the finalizers are in place, finalizers go only after the registration is gone, a
  successful run makes the catalog what the spec says and a second run changes nothing. Application credentials: secrets go
  only after revocation, the clean-up spares what is in use, a failed store revokes, a rotation settles, a deletion never
  blocks. KeystoneAPI: dependencies are protected before anything is deployed and released before our finalizer goes; a
  status says ready, and an old transport secret is given free, only when this run saw the pods run with the hash of
  the current inputs. Workloads: every mounted volume
  exists, every mounted key and file is in its secret. Webhook: what it admits the controller accepts. Wiring: a change of
  any secret a run read enqueues the object again. Command: the manager starts only when everything is set up, and each
  TLS server keeps its certificate. Copies: an object of any kind and its deep copy have the same contents and share no
  memory. Together: as long as no saved status is lost, a registered service holds its finalizer on
  the KeystoneAPI until a user deletes that, and once it is released nothing is registered any more; a lost status can
  leave a service behind in Keystone.

  \<^bold>\<open>Recursion and fuel.\<close> There is no fuel. Loops over slices and sorted maps are structural recursion; the two
  loops over the keys of a secret that may not end (\<open>remove_extra\<close>, \<open>add_missing\<close>) are \<open>partial_function (option)\<close>, with theorems that they
  return and one that they diverge; the inner loops (\<open>shift_down\<close>, \<open>shift_up\<close>) are total, by a measure on the keys.

  \<^bold>\<open>Conventions.\<close> A Go function that returns early is split at the early return: \<open>andThen\<close> continues with a value or returns
  the outcome. \<open>None\<close> is a nil pointer or a nil map. Log lines, contexts, the fields no function reads, and the message
  texts of lib-common (\<open>LibMsg\<close>) are abstract. \<open>RbacConditionsSet\<close> has a value receiver: it changes the object because the three
  conditions it sets are already in the list, which \<open>rbac_law\<close> states.

  In \<open>Composition\<close> reads are current: the cache of controller-runtime is not modelled, nor are two workers on one object,
  which the manager excludes, nor an external KeystoneAPI, which is released without waiting for others.

  \<^bold>\<open>Not modelled.\<close> \<open>api/test/helpers\<close>: test code. Constants, markers and imports without behaviour. Log lines and the options of the
  logger. The behaviour of Kubernetes, Keystone, controller-runtime, lib-common and gophercloud is a parameter, never defined.
\<close>

end
